(* ===== verification/Prelude.thy ===== *)
theory Prelude
  imports Main "HOL-Library.Word"
begin

text \<open>
  Shared ground of the development: the theorem collections the component proofs use, the
  pieces of C that the sources rely on (truncating division, bounded string copies, reads of a
  string past its end, conversion to a 32-bit integer), and generic lemmas on lists.
\<close>

named_theorems rule_defs "definitions of the rule engine"
named_theorems board_simps "reads of the board after writes"
named_theorems frame_simps "fields an operation leaves unchanged"
named_theorems slot_simps "facts on tables of slots"

section \<open>C integers\<close>

text \<open>C division truncates towards zero.\<close>

definition c_div :: "int \<Rightarrow> int \<Rightarrow> int" where
  "c_div a b = sgn a * sgn b * (\<bar>a\<bar> div \<bar>b\<bar>)"

definition c_mod :: "int \<Rightarrow> int \<Rightarrow> int" where
  "c_mod a b = a - b * c_div a b"

text \<open>The conversion of a wider integer to \<open>int32_t\<close>.\<close>

definition to_int32 :: "int \<Rightarrow> int" where
  "to_int32 n = sint (word_of_int n :: 32 word)"

lemma c_div_1 [simp]: "c_div a 1 = a"
  by (simp add: c_div_def abs_if sgn_if)

lemma c_div_m1 [simp]: "c_div a (- 1) = - a"
  by (simp add: c_div_def abs_if sgn_if)

lemma c_mod_1 [simp]: "c_mod a 1 = 0"
  by (simp add: c_mod_def)

lemma c_mod_m1 [simp]: "c_mod a (- 1) = 0"
  by (simp add: c_mod_def)

lemma c_div_nonneg: "0 \<le> a \<Longrightarrow> 0 < b \<Longrightarrow> c_div a b = a div b"
  by (cases "a = 0") (simp_all add: c_div_def)

lemma c_mod_nonneg: "0 \<le> a \<Longrightarrow> 0 < b \<Longrightarrow> c_mod a b = a mod b"
  by (simp add: c_mod_def c_div_nonneg minus_mult_div_eq_mod)

lemma abs_c_mod_less:
  assumes "0 < b"
  shows "\<bar>c_mod a b\<bar> < b"
proof (cases "0 \<le> a")
  case True
  with assms show ?thesis by (simp add: c_mod_nonneg)
next
  case False
  then have "c_mod a b = - ((- a) mod b)"
    using assms by (simp add: c_mod_def c_div_def minus_mult_div_eq_mod [symmetric])
  with assms show ?thesis by simp
qed

lemma to_int32_id: "- 2147483648 \<le> n \<Longrightarrow> n < 2147483648 \<Longrightarrow> to_int32 n = n"
  by (simp add: to_int32_def sint_sbintrunc' signed_take_bit_int_eq_self)

lemma to_int32_range: "- 2147483648 \<le> to_int32 n \<and> to_int32 n < 2147483648"
  using sint_ge [of "word_of_int n :: 32 word"] sint_lt [of "word_of_int n :: 32 word"]
  by (simp add: to_int32_def)

section \<open>C strings\<close>

text \<open>
  A C string is the list of its bytes before the terminating NUL. Reading at the end gives the NUL.
\<close>

definition NUL :: char where
  "NUL = char_of (0::nat)"

definition char_at :: "string \<Rightarrow> nat \<Rightarrow> char" where
  "char_at s i = (if i < length s then s ! i else NUL)"

definition code :: "char \<Rightarrow> int" where
  "code c = int (of_char c :: nat)"

text \<open>
  \<open>strncpy(dst, src, n - 1); dst[n - 1] = 0\<close> and \<open>snprintf(dst, n, ..)\<close> keep
  the first \<open>n - 1\<close> bytes.
\<close>

definition c_trunc :: "nat \<Rightarrow> string \<Rightarrow> string" where
  "c_trunc n s = take (n - 1) s"

text \<open>
  \<open>strcpy\<close> into an array of \<open>n\<close> bytes: without a value when the string with its NUL does
  not fit (the C program then writes past the array).
\<close>

definition c_strcpy :: "nat \<Rightarrow> string \<Rightarrow> string option" where
  "c_strcpy n s = (if length s < n then Some s else None)"

lemma code_range: "0 \<le> code c \<and> code c < 256"
  by (simp add: code_def)

lemma code_inj: "code a = code b \<longleftrightarrow> a = b"
  by (simp add: code_def)

lemma length_c_trunc: "0 < n \<Longrightarrow> length (c_trunc n s) < n"
  by (simp add: c_trunc_def)

lemma c_trunc_id: "length s < n \<Longrightarrow> c_trunc n s = s"
  by (simp add: c_trunc_def)

text \<open>The conversion \<open>%d\<close> of \<open>printf\<close>.\<close>

fun dec_digits :: "nat \<Rightarrow> string" where
  "dec_digits n = (if n < 10 then [char_of (48 + n)] else dec_digits (n div 10) @ [char_of (48 + n mod 10)])"

declare dec_digits.simps [simp del]

definition c_dec :: "int \<Rightarrow> string" where
  "c_dec k = (if k < 0 then CHR ''-'' # dec_digits (nat (- k)) else dec_digits (nat k))"

fun dec_value :: "nat \<Rightarrow> string \<Rightarrow> nat" where
  "dec_value acc [] = acc"
| "dec_value acc (c # cs) = dec_value (10 * acc + (of_char c - 48)) cs"

lemma dec_value_append: "dec_value acc (cs @ ds) = dec_value (dec_value acc cs) ds"
  by (induction acc cs rule: dec_value.induct) simp_all

lemma dec_value_digits: "dec_value 0 (dec_digits n) = n"
  by (induction n rule: dec_digits.induct) (subst dec_digits.simps, simp add: dec_value_append)

lemma dec_digits_inj: "dec_digits m = dec_digits n \<longleftrightarrow> m = n"
  using dec_value_digits by metis

lemma dec_digits_chars: "c \<in> set (dec_digits n) \<Longrightarrow> 48 \<le> code c \<and> code c \<le> 57"
  by (induction n rule: dec_digits.induct) (subst (asm) (2) dec_digits.simps, auto simp: code_def split: if_splits)

lemma dec_digits_nonempty [simp]: "dec_digits n \<noteq> []"
  by (subst dec_digits.simps) simp

lemma length_dec_digits: "n < 10 ^ k \<Longrightarrow> 0 < k \<Longrightarrow> length (dec_digits n) \<le> k"
proof (induction n arbitrary: k rule: dec_digits.induct)
  case (1 n)
  show ?case
  proof (cases "n < 10")
    case True
    with 1 show ?thesis by (subst dec_digits.simps) simp
  next
    case False
    then obtain j where k: "k = Suc j" "0 < j" using 1 by (cases k; cases "k = 1") auto
    with 1 have "n div 10 < 10 ^ j" by (simp add: div_less_iff_less_mult)
    with 1(1) [OF False this k(2)] False k show ?thesis by (subst dec_digits.simps) simp
  qed
qed

lemma c_dec_inj: "c_dec a = c_dec b \<longleftrightarrow> a = b"
proof -
  have "CHR ''-'' \<notin> set (dec_digits n)" for n
    using dec_digits_chars [of "CHR ''-''" n] by (auto simp: code_def)
  then have "CHR ''-'' # xs \<noteq> dec_digits n" "dec_digits n \<noteq> CHR ''-'' # xs" for xs n
    by (metis list.set_intros(1))+
  then show ?thesis by (auto simp: c_dec_def dec_digits_inj)
qed

lemma c_dec_no_underscore: "CHR ''_'' \<notin> set (c_dec k)"
  using dec_digits_chars [of "CHR ''_''"] by (auto simp: c_dec_def code_def)

lemma length_c_dec: "\<bar>k\<bar> < 10 ^ n \<Longrightarrow> 0 < n \<Longrightarrow> length (c_dec k) \<le> Suc n"
  using length_dec_digits [of "nat \<bar>k\<bar>" n]
  by (auto simp: c_dec_def abs_if nat_less_iff intro: le_SucI)

section \<open>Lists\<close>

text \<open>The loop that stops at the first index whose element satisfies \<open>p\<close>.\<close>

fun find_index :: "('a \<Rightarrow> bool) \<Rightarrow> 'a list \<Rightarrow> nat option" where
  "find_index p [] = None"
| "find_index p (x # xs) = (if p x then Some 0 else map_option Suc (find_index p xs))"

lemma find_index_None: "find_index p xs = None \<longleftrightarrow> (\<forall>x \<in> set xs. \<not> p x)"
  by (induction xs) auto

lemma find_index_Some:
  "find_index p xs = Some i \<longleftrightarrow> i < length xs \<and> p (xs ! i) \<and> (\<forall>k < i. \<not> p (xs ! k))"
proof (induction xs arbitrary: i)
  case Nil
  then show ?case by simp
next
  case (Cons x xs)
  show ?case
    by (cases i) (auto simp: Cons.IH less_Suc_eq_0_disj)
qed

lemma find_index_SomeD: "find_index p xs = Some i \<Longrightarrow> i < length xs \<and> p (xs ! i)"
  by (simp add: find_index_Some)

lemma list_ex_upto: "list_ex p [a..b] \<longleftrightarrow> (\<exists>k. a \<le> k \<and> k \<le> b \<and> p k)"
  by (auto simp: list_ex_iff)

lemma list_all_upto: "list_all p [a..b] \<longleftrightarrow> (\<forall>k. a \<le> k \<and> k \<le> b \<longrightarrow> p k)"
  by (auto simp: list_all_iff)

end
