(* ===== verification/Piece.thy ===== *)
theory Piece
  imports Prelude
begin

text \<open>
  The data of \<open>common/types.h\<close>, \<open>common/piece.h\<close> and \<open>common/piece.c\<close>: piece types,
  teams, the constant piece objects with their movement offsets, the piece table, and the state of
  one square. A pointer to a piece is \<open>None\<close> for NULL and otherwise the constant object it
  points to (no code writes to those objects). The offsets of a piece are its initialisers; a loop
  over them reads the first \<open>offset_len\<close>.
\<close>

section \<open>Types\<close>

datatype piece_type_t =
    PIECE_PAWN | PIECE_KNIGHT | PIECE_BISHOP | PIECE_ROOK | PIECE_QUEEN | PIECE_KING

datatype team_t = TEAM_WHITE | TEAM_BLACK

record offset_t =
  ox :: int
  oy :: int

record piece_t =
  pname :: string
  ptype :: piece_type_t
  offsets :: "offset_t list"
  offset_len :: nat

record piecestate_t =
  piece :: "piece_t option"
  team :: team_t
  is_dead :: bool
  has_moved :: bool

abbreviation off :: "int \<Rightarrow> int \<Rightarrow> offset_t" where
  "off a b \<equiv> \<lparr>ox = a, oy = b\<rparr>"

text \<open>The expression \<open>1 - team\<close> of the sources, and the usual conditional on a team.\<close>

definition other_team :: "team_t \<Rightarrow> team_t" where
  "other_team t = (case t of TEAM_WHITE \<Rightarrow> TEAM_BLACK | TEAM_BLACK \<Rightarrow> TEAM_WHITE)"

lemma other_team_simps [simp]:
  "other_team TEAM_WHITE = TEAM_BLACK" "other_team TEAM_BLACK = TEAM_WHITE"
  "other_team (other_team t) = t" "other_team t \<noteq> t" "t \<noteq> other_team t"
  by (cases t; simp add: other_team_def)+

lemma team_neq_iff: "(a \<noteq> b) = (a = other_team b)"
  by (cases a; cases b) simp_all

lemma team_cases_pair: "t = u \<or> t = other_team u"
  by (cases t; cases u) simp_all

section \<open>The piece objects\<close>

definition king_offsets :: "offset_t list" where
  "king_offsets =
     [off 1 0, off 1 1, off 0 1, off (-1) 1, off (-1) 0, off (-1) (-1), off 0 (-1), off 1 (-1)]"

definition rook_offsets :: "offset_t list" where
  "rook_offsets = [off 1 0, off 0 1, off (-1) 0, off 0 (-1)]"

definition bishop_offsets :: "offset_t list" where
  "bishop_offsets = [off 1 1, off (-1) 1, off (-1) (-1), off 1 (-1)]"

definition knight_offsets :: "offset_t list" where
  "knight_offsets =
     [off 1 2, off 2 1, off 2 (-1), off 1 (-2), off (-1) (-2), off (-2) (-1), off (-2) 1, off (-1) 2]"

definition white_king :: piece_t where
  "white_king = \<lparr>pname = ''White King'', ptype = PIECE_KING,
     offsets = king_offsets, offset_len = 8\<rparr>"

definition white_queen :: piece_t where
  "white_queen = \<lparr>pname = ''White Queen'', ptype = PIECE_QUEEN,
     offsets = king_offsets, offset_len = 8\<rparr>"

definition white_rook :: piece_t where
  "white_rook = \<lparr>pname = ''White Rook'', ptype = PIECE_ROOK,
     offsets = rook_offsets, offset_len = 4\<rparr>"

definition white_bishop :: piece_t where
  "white_bishop = \<lparr>pname = ''White Bishop'', ptype = PIECE_BISHOP,
     offsets = bishop_offsets, offset_len = 4\<rparr>"

definition white_knight :: piece_t where
  "white_knight = \<lparr>pname = ''White Knight'', ptype = PIECE_KNIGHT,
     offsets = knight_offsets, offset_len = 8\<rparr>"

definition white_pawn :: piece_t where
  "white_pawn = \<lparr>pname = ''White Pawn'', ptype = PIECE_PAWN,
     offsets = [off 0 0], offset_len = 0\<rparr>"

definition black_king :: piece_t where
  "black_king = \<lparr>pname = ''Black King'', ptype = PIECE_KING,
     offsets = king_offsets, offset_len = 8\<rparr>"

definition black_queen :: piece_t where
  "black_queen = \<lparr>pname = ''Black Queen'', ptype = PIECE_QUEEN,
     offsets = king_offsets, offset_len = 8\<rparr>"

definition black_rook :: piece_t where
  "black_rook = \<lparr>pname = ''Black Rook'', ptype = PIECE_ROOK,
     offsets = rook_offsets, offset_len = 4\<rparr>"

definition black_bishop :: piece_t where
  "black_bishop = \<lparr>pname = ''Black Bishop'', ptype = PIECE_BISHOP,
     offsets = bishop_offsets, offset_len = 4\<rparr>"

definition black_knight :: piece_t where
  "black_knight = \<lparr>pname = ''Black Knight'', ptype = PIECE_KNIGHT,
     offsets = knight_offsets, offset_len = 8\<rparr>"

definition black_pawn :: piece_t where
  "black_pawn = \<lparr>pname = ''Black Pawn'', ptype = PIECE_PAWN,
     offsets = [off 0 0], offset_len = 0\<rparr>"

fun piece_table :: "team_t \<Rightarrow> piece_type_t \<Rightarrow> piece_t" where
  "piece_table TEAM_WHITE PIECE_PAWN = white_pawn"
| "piece_table TEAM_WHITE PIECE_KNIGHT = white_knight"
| "piece_table TEAM_WHITE PIECE_BISHOP = white_bishop"
| "piece_table TEAM_WHITE PIECE_ROOK = white_rook"
| "piece_table TEAM_WHITE PIECE_QUEEN = white_queen"
| "piece_table TEAM_WHITE PIECE_KING = white_king"
| "piece_table TEAM_BLACK PIECE_PAWN = black_pawn"
| "piece_table TEAM_BLACK PIECE_KNIGHT = black_knight"
| "piece_table TEAM_BLACK PIECE_BISHOP = black_bishop"
| "piece_table TEAM_BLACK PIECE_ROOK = black_rook"
| "piece_table TEAM_BLACK PIECE_QUEEN = black_queen"
| "piece_table TEAM_BLACK PIECE_KING = black_king"

definition get_default_queen :: "team_t \<Rightarrow> piece_t" where
  "get_default_queen t = piece_table t PIECE_QUEEN"

text \<open>The part of the offset array that the loops \<open>k < offset_len\<close> read.\<close>

definition piece_offsets :: "piece_t \<Rightarrow> offset_t list" where
  "piece_offsets p = take (offset_len p) (offsets p)"

lemmas piece_objects =
  white_king_def white_queen_def white_rook_def white_bishop_def white_knight_def white_pawn_def
  black_king_def black_queen_def black_rook_def black_bishop_def black_knight_def black_pawn_def

lemmas offset_tables = king_offsets_def rook_offsets_def bishop_offsets_def knight_offsets_def

lemma ptype_table [simp]: "ptype (piece_table t ty) = ty"
  by (cases t; cases ty) (simp_all add: piece_objects)

fun type_offsets :: "piece_type_t \<Rightarrow> offset_t list" where
  "type_offsets PIECE_PAWN = []"
| "type_offsets PIECE_KNIGHT = knight_offsets"
| "type_offsets PIECE_BISHOP = bishop_offsets"
| "type_offsets PIECE_ROOK = rook_offsets"
| "type_offsets PIECE_QUEEN = king_offsets"
| "type_offsets PIECE_KING = king_offsets"

lemma piece_offsets_table [simp]: "piece_offsets (piece_table t ty) = type_offsets ty"
  by (cases t; cases ty) (simp_all add: piece_objects piece_offsets_def offset_tables)

lemma piece_table_inj: "piece_table t ty = piece_table t ty' \<longleftrightarrow> ty = ty'"
  by (metis ptype_table)

lemma get_default_queen_type [simp]: "ptype (get_default_queen t) = PIECE_QUEEN"
  by (simp add: get_default_queen_def)

end
