(* ===== verification/Rule.thy ===== *)
theory Rule
  imports Piece
begin

text \<open>
  The rule engine of \<open>common/rule.h\<close> and \<open>common/rule.c\<close>: the game state, attack detection,
  move legality, move application, check, mate, stalemate and the fifty-move rule.

  \<open>board G y x\<close> is the source's \<open>G->board[y][x]\<close>: \<open>x\<close> is the file, \<open>y\<close> the rank. Only the
  64 squares of \<open>in_board\<close> exist in C; the operations below read and write no other square when
  their arguments are in range, which is proved where it is not checked by the code itself.
  A pointer to a square is its coordinates; a read through it after a write sees the written board.
\<close>

section \<open>State\<close>

record game_t =
  board :: "int \<Rightarrow> int \<Rightarrow> piecestate_t"
  side_to_move :: team_t
  halfmove_clock :: int
  white_can_castle_kingside :: bool
  white_can_castle_queenside :: bool
  black_can_castle_kingside :: bool
  black_can_castle_queenside :: bool
  en_passant_x :: int
  en_passant_y :: int
  is_check :: bool
  is_checkmate_flag :: bool
  is_stalemate_flag :: bool
  fullmove_number :: int

definition in_board :: "int \<Rightarrow> int \<Rightarrow> bool" where
  "in_board x y \<longleftrightarrow> x \<ge> 0 \<and> x < 8 \<and> y \<ge> 0 \<and> y < 8"

text \<open>The write \<open>G->board[y][x] = ps\<close>.\<close>

definition set_sq :: "game_t \<Rightarrow> int \<Rightarrow> int \<Rightarrow> piecestate_t \<Rightarrow> game_t" where
  "set_sq G x y ps = G\<lparr>board := (board G)(y := (board G y)(x := ps))\<rparr>"

text \<open>The two writes that empty a square: \<open>is_dead = 1; piece = NULL\<close>.\<close>

definition kill_sq :: "game_t \<Rightarrow> int \<Rightarrow> int \<Rightarrow> game_t" where
  "kill_sq G x y = set_sq G x y ((board G y x)\<lparr>is_dead := True, piece := None\<rparr>)"

definition pawn_dir :: "team_t \<Rightarrow> int" where
  "pawn_dir t = (if t = TEAM_WHITE then 1 else - 1)"

section \<open>Attack detection\<close>

text \<open>
  The \<open>while (in_board(nx, ny))\<close> walk along one offset. The walk leaves the board after at
  most eight tests for every offset of the piece table, so fuel 8 is enough (\<open>ray_walk_enough\<close>);
  \<open>None\<close> stands for a walk that has not ended.
\<close>

fun ray_walk :: "nat \<Rightarrow> game_t \<Rightarrow> int \<Rightarrow> int \<Rightarrow> offset_t \<Rightarrow> int \<Rightarrow> int \<Rightarrow> bool option" where
  "ray_walk 0 G x y d nx ny = None"
| "ray_walk (Suc n) G x y d nx ny =
     (if \<not> in_board nx ny then Some False
      else if nx = x \<and> ny = y then Some True
      else if \<not> is_dead (board G ny nx) then Some False
      else ray_walk n G x y d (nx + ox d) (ny + oy d))"

definition ray_fuel :: nat where
  "ray_fuel = 8"

definition ray_hits :: "game_t \<Rightarrow> int \<Rightarrow> int \<Rightarrow> int \<Rightarrow> int \<Rightarrow> offset_t \<Rightarrow> bool" where
  "ray_hits G x y i j d = (ray_walk ray_fuel G x y d (i + ox d) (j + oy d) = Some True)"

text \<open>The body of the double loop: whether the piece on \<open>(i, j)\<close> attacks \<open>(x, y)\<close>.\<close>

definition piece_attacks :: "game_t \<Rightarrow> int \<Rightarrow> int \<Rightarrow> int \<Rightarrow> int \<Rightarrow> team_t \<Rightarrow> bool" where
  "piece_attacks G i j x y by_team =
     (let ps = board G j i in
      case piece ps of
        None \<Rightarrow> False
      | Some p \<Rightarrow>
          if is_dead ps \<or> team ps \<noteq> by_team then False
          else
            (case ptype p of
               PIECE_PAWN \<Rightarrow> j + pawn_dir by_team = y \<and> (i - 1 = x \<or> i + 1 = x)
             | PIECE_KNIGHT \<Rightarrow> list_ex (\<lambda>d. i + ox d = x \<and> j + oy d = y) (piece_offsets p)
             | PIECE_KING \<Rightarrow> list_ex (\<lambda>d. i + ox d = x \<and> j + oy d = y) (piece_offsets p)
             | PIECE_BISHOP \<Rightarrow> list_ex (ray_hits G x y i j) (piece_offsets p)
             | PIECE_ROOK \<Rightarrow> list_ex (ray_hits G x y i j) (piece_offsets p)
             | PIECE_QUEEN \<Rightarrow> list_ex (ray_hits G x y i j) (piece_offsets p)))"

definition is_square_attacked :: "game_t \<Rightarrow> int \<Rightarrow> int \<Rightarrow> team_t \<Rightarrow> bool" where
  "is_square_attacked G x y by_team =
     list_ex (\<lambda>i. list_ex (\<lambda>j. piece_attacks G i j x y by_team) [0..7]) [0..7]"

text \<open>
  The search for the king: \<open>x\<close> outer, \<open>y\<close> inner, first hit. The result is \<open>None\<close> for
  \<open>king_x == -1\<close>.
\<close>

definition is_king_of :: "game_t \<Rightarrow> team_t \<Rightarrow> int \<Rightarrow> int \<Rightarrow> bool" where
  "is_king_of G t x y =
     (let ps = board G y x in
      case piece ps of
        None \<Rightarrow> False
      | Some p \<Rightarrow> \<not> is_dead ps \<and> team ps = t \<and> ptype p = PIECE_KING)"

definition find_king :: "game_t \<Rightarrow> team_t \<Rightarrow> (int \<times> int) option" where
  "find_king G t =
     find (\<lambda>(x, y). is_king_of G t x y) (concat (map (\<lambda>x. map (\<lambda>y. (x, y)) [0..7]) [0..7]))"

definition is_in_check :: "game_t \<Rightarrow> team_t \<Rightarrow> bool" where
  "is_in_check G t =
     (case find_king G t of
        None \<Rightarrow> False
      | Some (x, y) \<Rightarrow> is_square_attacked G x y (other_team t))"

section \<open>Applying a move\<close>

text \<open>
  \<open>apply_move\<close> in the order of its statements. \<open>src\<close> is the square \<open>(sx, sy)\<close> and \<open>dst\<close> the
  square \<open>(dx, dy)\<close>; each stage reads them from the board it is given.
\<close>

definition apply_clock :: "game_t \<Rightarrow> piece_t \<Rightarrow> int \<Rightarrow> int \<Rightarrow> game_t" where
  "apply_clock G p dx dy =
     (if ptype p = PIECE_PAWN \<or> \<not> is_dead (board G dy dx) then G\<lparr>halfmove_clock := 0\<rparr>
      else G\<lparr>halfmove_clock := halfmove_clock G + 1\<rparr>)"

definition apply_ep_capture :: "game_t \<Rightarrow> piece_t \<Rightarrow> int \<Rightarrow> int \<Rightarrow> int \<Rightarrow> game_t" where
  "apply_ep_capture G p sy dx dy =
     (if ptype p = PIECE_PAWN \<and> dx = en_passant_x G \<and> dy = en_passant_y G
      then kill_sq G dx sy else G)"

definition apply_relocate :: "game_t \<Rightarrow> int \<Rightarrow> int \<Rightarrow> int \<Rightarrow> int \<Rightarrow> game_t" where
  "apply_relocate G sx sy dx dy = kill_sq (set_sq G dx dy (board G sy sx)) sx sy"

definition dst_is :: "game_t \<Rightarrow> int \<Rightarrow> int \<Rightarrow> piece_type_t \<Rightarrow> bool" where
  "dst_is G dx dy ty =
     (case piece (board G dy dx) of None \<Rightarrow> False | Some p \<Rightarrow> ptype p = ty)"

definition apply_castle_rook :: "game_t \<Rightarrow> int \<Rightarrow> int \<Rightarrow> int \<Rightarrow> game_t" where
  "apply_castle_rook G sx dx dy =
     (if dst_is G dx dy PIECE_KING \<and> \<bar>dx - sx\<bar> = 2 then
        (let ks = dx > sx;
             rook_from_x = (if ks then 7 else 0);
             rook_to_x = (if ks then dx - 1 else dx + 1);
             rook = board G dy rook_from_x
         in kill_sq (set_sq G rook_to_x dy rook) rook_from_x dy)
      else G)"

definition apply_king_rights :: "game_t \<Rightarrow> int \<Rightarrow> int \<Rightarrow> game_t" where
  "apply_king_rights G dx dy =
     (if dst_is G dx dy PIECE_KING then
        (if team (board G dy dx) = TEAM_WHITE
         then G\<lparr>white_can_castle_kingside := False, white_can_castle_queenside := False\<rparr>
         else G\<lparr>black_can_castle_kingside := False, black_can_castle_queenside := False\<rparr>)
      else G)"

definition apply_rook_rights :: "game_t \<Rightarrow> int \<Rightarrow> int \<Rightarrow> int \<Rightarrow> int \<Rightarrow> game_t" where
  "apply_rook_rights G sx sy dx dy =
     (if dst_is G dx dy PIECE_ROOK \<and> \<not> has_moved (board G dy dx) then
        (if team (board G dy dx) = TEAM_WHITE then
           (let G1 = (if sx = 0 \<and> sy = 0 then G\<lparr>white_can_castle_queenside := False\<rparr> else G)
            in if sx = 7 \<and> sy = 0 then G1\<lparr>white_can_castle_kingside := False\<rparr> else G1)
         else
           (let G1 = (if sx = 0 \<and> sy = 7 then G\<lparr>black_can_castle_queenside := False\<rparr> else G)
            in if sx = 7 \<and> sy = 7 then G1\<lparr>black_can_castle_kingside := False\<rparr> else G1))
      else G)"

definition apply_ep_target :: "game_t \<Rightarrow> int \<Rightarrow> int \<Rightarrow> int \<Rightarrow> game_t" where
  "apply_ep_target G sy dx dy =
     (if dst_is G dx dy PIECE_PAWN \<and> \<bar>dy - sy\<bar> = 2
      then G\<lparr>en_passant_x := dx, en_passant_y := c_div (sy + dy) 2\<rparr>
      else G\<lparr>en_passant_x := - 1, en_passant_y := - 1\<rparr>)"

definition apply_promotion :: "game_t \<Rightarrow> int \<Rightarrow> int \<Rightarrow> game_t" where
  "apply_promotion G dx dy =
     (if dst_is G dx dy PIECE_PAWN \<and> (dy = 7 \<or> dy = 0)
      then set_sq G dx dy
             ((board G dy dx)\<lparr>piece := Some (get_default_queen (team (board G dy dx)))\<rparr>)
      else G)"

definition apply_finish :: "game_t \<Rightarrow> int \<Rightarrow> int \<Rightarrow> game_t" where
  "apply_finish G dx dy =
     (set_sq G dx dy ((board G dy dx)\<lparr>has_moved := True\<rparr>))
       \<lparr>side_to_move := (if side_to_move G = TEAM_WHITE then TEAM_BLACK else TEAM_WHITE)\<rparr>"

definition apply_move :: "game_t \<Rightarrow> int \<Rightarrow> int \<Rightarrow> int \<Rightarrow> int \<Rightarrow> game_t" where
  "apply_move G sx sy dx dy =
     (case piece (board G sy sx) of
        None \<Rightarrow> G
      | Some p \<Rightarrow>
          (let G1 = apply_clock G p dx dy;
               G2 = apply_ep_capture G1 p sy dx dy;
               G3 = apply_relocate G2 sx sy dx dy;
               G4 = apply_castle_rook G3 sx dx dy;
               G5 = apply_king_rights G4 dx dy;
               G6 = apply_rook_rights G5 sx sy dx dy;
               G7 = apply_ep_target G6 sy dx dy;
               G8 = apply_promotion G7 dx dy
           in apply_finish G8 dx dy))"

section \<open>Legality\<close>

definition pawn_ok :: "game_t \<Rightarrow> int \<Rightarrow> int \<Rightarrow> int \<Rightarrow> int \<Rightarrow> bool" where
  "pawn_ok G sx sy dx dy =
     (let src = board G sy sx; dst = board G dy dx;
          rx = dx - sx; ry = dy - sy; dir = pawn_dir (team src)
      in (rx = 0 \<and> ry = dir \<and> is_dead dst)
       \<or> (rx = 0 \<and> ry = 2 * dir \<and> \<not> has_moved src \<and> is_dead dst
            \<and> is_dead (board G (sy + dir) sx))
       \<or> (\<bar>rx\<bar> = 1 \<and> ry = dir
            \<and> (\<not> is_dead dst \<and> team dst \<noteq> team src
               \<or> is_dead dst \<and> en_passant_x G = dx \<and> en_passant_y G = dy)))"

text \<open>The values of the variable of \<open>for (x = a; x != b; x += step)\<close>, for \<open>step\<close> 1 or -1.\<close>

definition for_range :: "int \<Rightarrow> int \<Rightarrow> int \<Rightarrow> int list" where
  "for_range a b step = map (\<lambda>k. a + int k * step) [0..<nat ((b - a) * step)]"

definition castle_ok :: "game_t \<Rightarrow> int \<Rightarrow> int \<Rightarrow> int \<Rightarrow> bool" where
  "castle_ok G sx sy dx =
     (let t = team (board G sy sx); ks = dx - sx > 0;
          can = (if t = TEAM_WHITE
                 then (if ks then white_can_castle_kingside G else white_can_castle_queenside G)
                 else (if ks then black_can_castle_kingside G else black_can_castle_queenside G));
          step = (if ks then 1 else - 1)
      in if \<not> can then False
         else if list_ex (\<lambda>x. \<not> is_dead (board G sy x)) (for_range (sx + step) dx step) then False
         else \<not> list_ex (\<lambda>x. is_square_attacked G x sy (other_team t))
                  (for_range sx (dx + step) step))"

text \<open>
  The offset loop of knight and king. The early \<open>return false\<close> of a refused castling and the
  \<open>ok = true; break\<close> of an accepted offset both end the loop.
\<close>

fun leaper_ok :: "game_t \<Rightarrow> piece_type_t \<Rightarrow> int \<Rightarrow> int \<Rightarrow> int \<Rightarrow> int \<Rightarrow> offset_t list \<Rightarrow> bool" where
  "leaper_ok G ty sx sy dx dy [] = False"
| "leaper_ok G ty sx sy dx dy (d # ds) =
     (if ox d = dx - sx \<and> oy d = dy - sy then
        (if ty = PIECE_KING \<and> \<bar>dx - sx\<bar> = 2 \<and> dy - sy = 0 then castle_ok G sx sy dx else True)
      else leaper_ok G ty sx sy dx dy ds)"

definition slider_aligned :: "offset_t \<Rightarrow> int \<Rightarrow> int \<Rightarrow> bool" where
  "slider_aligned d rx ry =
     (let dd = (if ox d \<noteq> 0 then c_div rx (ox d) else c_div ry (oy d))
      in if ox d = 0 then rx = 0 \<and> c_div ry (oy d) > 0
         else if oy d = 0 then ry = 0 \<and> c_div rx (ox d) > 0
         else c_mod rx (ox d) = 0 \<and> c_mod ry (oy d) = 0 \<and> dd = c_div ry (oy d) \<and> dd > 0)"

definition slider_blocked :: "game_t \<Rightarrow> int \<Rightarrow> int \<Rightarrow> offset_t \<Rightarrow> int \<Rightarrow> bool" where
  "slider_blocked G sx sy d dd =
     list_ex (\<lambda>s. \<not> is_dead (board G (sy + oy d * s) (sx + ox d * s))) [1..dd - 1]"

fun slider_ok :: "game_t \<Rightarrow> int \<Rightarrow> int \<Rightarrow> int \<Rightarrow> int \<Rightarrow> offset_t list \<Rightarrow> bool" where
  "slider_ok G sx sy dx dy [] = False"
| "slider_ok G sx sy dx dy (d # ds) =
     (let rx = dx - sx; ry = dy - sy;
          dd = (if ox d \<noteq> 0 then c_div rx (ox d) else c_div ry (oy d))
      in if \<not> slider_aligned d rx ry then slider_ok G sx sy dx dy ds
         else if slider_blocked G sx sy d dd then slider_ok G sx sy dx dy ds
         else True)"

text \<open>The switch on the type of the moving piece: the final value of \<open>ok\<close>.\<close>

definition pseudo_legal :: "game_t \<Rightarrow> piece_t \<Rightarrow> int \<Rightarrow> int \<Rightarrow> int \<Rightarrow> int \<Rightarrow> bool" where
  "pseudo_legal G p sx sy dx dy =
     (case ptype p of
        PIECE_PAWN \<Rightarrow> pawn_ok G sx sy dx dy
      | PIECE_KNIGHT \<Rightarrow> leaper_ok G (ptype p) sx sy dx dy (piece_offsets p)
      | PIECE_KING \<Rightarrow> leaper_ok G (ptype p) sx sy dx dy (piece_offsets p)
      | PIECE_BISHOP \<Rightarrow> slider_ok G sx sy dx dy (piece_offsets p)
      | PIECE_ROOK \<Rightarrow> slider_ok G sx sy dx dy (piece_offsets p)
      | PIECE_QUEEN \<Rightarrow> slider_ok G sx sy dx dy (piece_offsets p))"

definition is_move_legal :: "game_t \<Rightarrow> int \<Rightarrow> int \<Rightarrow> int \<Rightarrow> int \<Rightarrow> bool" where
  "is_move_legal G sx sy dx dy =
     (if \<not> in_board sx sy \<or> \<not> in_board dx dy then False
      else
        (let src = board G sy sx; dst = board G dy dx in
         case piece src of
           None \<Rightarrow> False
         | Some p \<Rightarrow>
             if is_dead src \<or> team src \<noteq> side_to_move G then False
             else if \<not> is_dead dst \<and> piece dst \<noteq> None \<and> team dst = side_to_move G then False
             else if \<not> pseudo_legal G p sx sy dx dy then False
             else \<not> is_in_check (apply_move G sx sy dx dy) (team src)))"

section \<open>End of the game\<close>

text \<open>The four nested loops that look for a legal move of the side to move.\<close>

definition has_legal_move :: "game_t \<Rightarrow> bool" where
  "has_legal_move G =
     list_ex (\<lambda>sx. list_ex (\<lambda>sy.
       (let src = board G sy sx in
        if is_dead src \<or> piece src = None \<or> team src \<noteq> side_to_move G then False
        else list_ex (\<lambda>dx. list_ex (\<lambda>dy. is_move_legal G sx sy dx dy) [0..7]) [0..7]))
       [0..7]) [0..7]"

definition is_checkmate :: "game_t \<Rightarrow> bool" where
  "is_checkmate G =
     (if \<not> is_in_check G (side_to_move G) then False else \<not> has_legal_move G)"

definition is_stalemate :: "game_t \<Rightarrow> bool" where
  "is_stalemate G =
     (if is_in_check G (side_to_move G) then False else \<not> has_legal_move G)"

definition is_fifty_move_rule :: "game_t \<Rightarrow> bool" where
  "is_fifty_move_rule G = (halfmove_clock G \<ge> 100)"

end
