(* ===== verification/Rule_Spec.thy ===== *)
theory Rule_Spec
  imports Rule
begin

text \<open>
  What the rule engine promises, stated by geometry instead of by loops over offset tables: which
  squares a piece reaches, what a legal move is, which squares a move changes. The lemmas show that
  the loops of \<open>Rule\<close> compute exactly this.
\<close>

section \<open>Board updates\<close>

lemma board_set_sq [simp, board_simps]:
  "board (set_sq G x y ps) b a = (if b = y \<and> a = x then ps else board G b a)"
  by (simp add: set_sq_def)

lemma board_kill_sq [simp, board_simps]:
  "board (kill_sq G x y) b a =
     (if b = y \<and> a = x then (board G y x)\<lparr>is_dead := True, piece := None\<rparr> else board G b a)"
  by (simp add: kill_sq_def)

lemma set_sq_fields [simp, frame_simps]:
  "side_to_move (set_sq G x y ps) = side_to_move G"
  "halfmove_clock (set_sq G x y ps) = halfmove_clock G"
  "en_passant_x (set_sq G x y ps) = en_passant_x G"
  "en_passant_y (set_sq G x y ps) = en_passant_y G"
  "white_can_castle_kingside (set_sq G x y ps) = white_can_castle_kingside G"
  "white_can_castle_queenside (set_sq G x y ps) = white_can_castle_queenside G"
  "black_can_castle_kingside (set_sq G x y ps) = black_can_castle_kingside G"
  "black_can_castle_queenside (set_sq G x y ps) = black_can_castle_queenside G"
  by (simp_all add: set_sq_def)

lemma kill_sq_fields [simp, frame_simps]:
  "side_to_move (kill_sq G x y) = side_to_move G"
  "halfmove_clock (kill_sq G x y) = halfmove_clock G"
  "en_passant_x (kill_sq G x y) = en_passant_x G"
  "en_passant_y (kill_sq G x y) = en_passant_y G"
  "white_can_castle_kingside (kill_sq G x y) = white_can_castle_kingside G"
  "white_can_castle_queenside (kill_sq G x y) = white_can_castle_queenside G"
  "black_can_castle_kingside (kill_sq G x y) = black_can_castle_kingside G"
  "black_can_castle_queenside (kill_sq G x y) = black_can_castle_queenside G"
  by (simp_all add: kill_sq_def)

section \<open>Geometry\<close>

definition orthogonal :: "int \<Rightarrow> int \<Rightarrow> int \<Rightarrow> int \<Rightarrow> bool" where
  "orthogonal sx sy dx dy \<longleftrightarrow> (dx = sx) \<noteq> (dy = sy)"

definition diagonal :: "int \<Rightarrow> int \<Rightarrow> int \<Rightarrow> int \<Rightarrow> bool" where
  "diagonal sx sy dx dy \<longleftrightarrow> \<bar>dx - sx\<bar> = \<bar>dy - sy\<bar> \<and> dx \<noteq> sx"

definition knight_jump :: "int \<Rightarrow> int \<Rightarrow> int \<Rightarrow> int \<Rightarrow> bool" where
  "knight_jump sx sy dx dy \<longleftrightarrow>
     (\<bar>dx - sx\<bar> = 1 \<and> \<bar>dy - sy\<bar> = 2) \<or> (\<bar>dx - sx\<bar> = 2 \<and> \<bar>dy - sy\<bar> = 1)"

definition king_step :: "int \<Rightarrow> int \<Rightarrow> int \<Rightarrow> int \<Rightarrow> bool" where
  "king_step sx sy dx dy \<longleftrightarrow> max \<bar>dx - sx\<bar> \<bar>dy - sy\<bar> = 1"

definition distance :: "int \<Rightarrow> int \<Rightarrow> int \<Rightarrow> int \<Rightarrow> int" where
  "distance sx sy dx dy = max \<bar>dx - sx\<bar> \<bar>dy - sy\<bar>"

definition clear_path :: "game_t \<Rightarrow> int \<Rightarrow> int \<Rightarrow> int \<Rightarrow> int \<Rightarrow> bool" where
  "clear_path G sx sy dx dy \<longleftrightarrow>
     (\<forall>k. 0 < k \<and> k < distance sx sy dx dy \<longrightarrow>
        is_dead (board G (sy + k * sgn (dy - sy)) (sx + k * sgn (dx - sx))))"

text \<open>The squares a piece other than a pawn reaches.\<close>

fun reaches :: "game_t \<Rightarrow> piece_type_t \<Rightarrow> int \<Rightarrow> int \<Rightarrow> int \<Rightarrow> int \<Rightarrow> bool" where
  "reaches G PIECE_KNIGHT sx sy dx dy = knight_jump sx sy dx dy"
| "reaches G PIECE_KING sx sy dx dy = king_step sx sy dx dy"
| "reaches G PIECE_ROOK sx sy dx dy = (orthogonal sx sy dx dy \<and> clear_path G sx sy dx dy)"
| "reaches G PIECE_BISHOP sx sy dx dy = (diagonal sx sy dx dy \<and> clear_path G sx sy dx dy)"
| "reaches G PIECE_QUEEN sx sy dx dy =
     ((orthogonal sx sy dx dy \<or> diagonal sx sy dx dy) \<and> clear_path G sx sy dx dy)"
| "reaches G PIECE_PAWN sx sy dx dy = False"

definition pawn_attacks :: "team_t \<Rightarrow> int \<Rightarrow> int \<Rightarrow> int \<Rightarrow> int \<Rightarrow> bool" where
  "pawn_attacks t sx sy dx dy \<longleftrightarrow> dy - sy = pawn_dir t \<and> \<bar>dx - sx\<bar> = 1"

section \<open>Walking along one offset\<close>

definition unit_offset :: "offset_t \<Rightarrow> bool" where
  "unit_offset d \<longleftrightarrow> ox d \<in> {- 1, 0, 1} \<and> oy d \<in> {- 1, 0, 1} \<and> (ox d \<noteq> 0 \<or> oy d \<noteq> 0)"

definition slides :: "game_t \<Rightarrow> offset_t \<Rightarrow> int \<Rightarrow> int \<Rightarrow> int \<Rightarrow> int \<Rightarrow> bool" where
  "slides G d sx sy dx dy \<longleftrightarrow>
     (\<exists>n > 0. dx = sx + n * ox d \<and> dy = sy + n * oy d \<and>
        (\<forall>m. 0 < m \<and> m < n \<longrightarrow> is_dead (board G (sy + m * oy d) (sx + m * ox d))))"

lemma unit_offset_cases:
  assumes "unit_offset d"
  obtains "ox d = 1" "oy d = 0" | "ox d = 1" "oy d = 1" | "ox d = 0" "oy d = 1"
    | "ox d = - 1" "oy d = 1" | "ox d = - 1" "oy d = 0" | "ox d = - 1" "oy d = - 1"
    | "ox d = 0" "oy d = - 1" | "ox d = 1" "oy d = - 1"
  using assms by (auto simp: unit_offset_def)

text \<open>More fuel never changes the result of a walk that ended.\<close>

lemma ray_walk_mono: "ray_walk n G x y d a b = Some r \<Longrightarrow> ray_walk (n + m) G x y d a b = Some r"
  by (induction n arbitrary: a b) (auto split: if_splits)

text \<open>Eight steps leave the board, whatever the start.\<close>

lemma ray_walk_ends:
  assumes "unit_offset d" "\<not> in_board (a + int n * ox d) (b + int n * oy d)"
  shows "\<exists>r. ray_walk (Suc n) G x y d a b = Some r"
  using assms(2)
proof (induction n arbitrary: a b)
  case 0
  then show ?case by auto
next
  case (Suc n)
  then have "\<not> in_board ((a + ox d) + int n * ox d) ((b + oy d) + int n * oy d)"
    by (simp add: algebra_simps)
  then have "\<exists>r. ray_walk (Suc n) G x y d (a + ox d) (b + oy d) = Some r"
    by (rule Suc.IH)
  then show ?case
    by (metis ray_walk.simps(2))
qed

lemma leaves_board:
  assumes "unit_offset d" "in_board i j"
  shows "\<not> in_board (i + 8 * ox d) (j + 8 * oy d)"
  using assms by (auto simp: unit_offset_def in_board_def)

lemma ray_walk_enough:
  assumes "unit_offset d" "in_board i j"
  shows "\<exists>r. ray_walk ray_fuel G x y d (i + ox d) (j + oy d) = Some r"
proof -
  have "\<not> in_board ((i + ox d) + int 7 * ox d) ((j + oy d) + int 7 * oy d)"
    using leaves_board [OF assms] by (simp add: algebra_simps)
  from ray_walk_ends [OF assms(1) this] show ?thesis
    by (simp add: ray_fuel_def numeral_eq_Suc)
qed

text \<open>What a walk that finds its target has seen.\<close>

lemma ray_walk_True:
  "ray_walk n G x y d a b = Some True \<longleftrightarrow>
     (\<exists>k < n. x = a + int k * ox d \<and> y = b + int k * oy d \<and> in_board x y \<and>
        (\<forall>m < k. in_board (a + int m * ox d) (b + int m * oy d) \<and>
           \<not> (a + int m * ox d = x \<and> b + int m * oy d = y) \<and>
           is_dead (board G (b + int m * oy d) (a + int m * ox d))))"
  (is "_ \<longleftrightarrow> (\<exists>k < n. ?R k a b)")
proof (induction n arbitrary: a b)
  case 0
  then show ?case by simp
next
  case (Suc n)
  have shift: "?R (Suc k) a b \<longleftrightarrow>
      in_board a b \<and> \<not> (a = x \<and> b = y) \<and> is_dead (board G b a) \<and> ?R k (a + ox d) (b + oy d)" for k
    by (auto simp: All_less_Suc2 algebra_simps)
  have "ray_walk (Suc n) G x y d a b = Some True \<longleftrightarrow>
      ?R 0 a b \<or> in_board a b \<and> \<not> (a = x \<and> b = y) \<and> is_dead (board G b a) \<and>
        (\<exists>k < n. ?R k (a + ox d) (b + oy d))"
    using Suc.IH [of "a + ox d" "b + oy d"] by auto
  also have "\<dots> \<longleftrightarrow> ?R 0 a b \<or> (\<exists>k < n. ?R (Suc k) a b)"
    unfolding shift by blast
  also have "\<dots> \<longleftrightarrow> (\<exists>k < Suc n. ?R k a b)"
    by (rule Ex_less_Suc2 [symmetric])
  finally show ?case .
qed

text \<open>
  On the board, a walk from \<open>(i, j)\<close> finds \<open>(x, y)\<close> exactly when the piece slides there.
\<close>

lemma in_board_between:
  assumes "unit_offset d" "in_board i j" "in_board (i + n * ox d) (j + n * oy d)" "0 \<le> m" "m \<le> n"
  shows "in_board (i + m * ox d) (j + m * oy d)"
  using assms(1)
  by (cases rule: unit_offset_cases) (use assms in \<open>auto simp: in_board_def\<close>)

lemma unit_offset_step_eq:
  "unit_offset d \<Longrightarrow> i + m * ox d = i + n * ox d \<and> j + m * oy d = j + n * oy d \<longleftrightarrow> m = n"
  by (auto simp: unit_offset_def)

lemma unit_offset_in_board_less:
  assumes "unit_offset d" "in_board i j" "in_board (i + n * ox d) (j + n * oy d)" "0 < n"
  shows "n < 8"
  using assms(1)
  by (cases rule: unit_offset_cases) (use assms in \<open>auto simp: in_board_def\<close>)

lemma ray_hits_slides:
  assumes d: "unit_offset d" and ij: "in_board i j" and xy: "in_board x y"
  shows "ray_hits G x y i j d \<longleftrightarrow> slides G d i j x y"
proof
  assume "ray_hits G x y i j d"
  then obtain k where k: "k < 8" "x = i + ox d + int k * ox d" "y = j + oy d + int k * oy d"
    and between: "\<And>m. m < k \<Longrightarrow> is_dead (board G (j + oy d + int m * oy d) (i + ox d + int m * ox d))"
    unfolding ray_hits_def ray_walk_True ray_fuel_def by auto
  have "is_dead (board G (j + m * oy d) (i + m * ox d))" if "0 < m" "m < int k + 1" for m
    using between [of "nat (m - 1)"] that by (simp add: algebra_simps)
  then show "slides G d i j x y"
    unfolding slides_def using k by (intro exI [of _ "int k + 1"]) (auto simp: algebra_simps)
next
  assume "slides G d i j x y"
  then obtain n where n: "0 < n" "x = i + n * ox d" "y = j + n * oy d"
    and between: "\<And>m. 0 < m \<Longrightarrow> m < n \<Longrightarrow> is_dead (board G (j + m * oy d) (i + m * ox d))"
    unfolding slides_def by auto
  have "n < 8" using unit_offset_in_board_less [OF d ij _ n(1)] xy n by simp
  let ?k = "nat (n - 1)"
  have step: "i + ox d + int m * ox d = i + (int m + 1) * ox d"
    "j + oy d + int m * oy d = j + (int m + 1) * oy d" for m
    by (simp_all add: algebra_simps)
  have target: "int ?k + 1 = n" using n(1) by simp
  have before: "in_board (i + (int m + 1) * ox d) (j + (int m + 1) * oy d) \<and>
      \<not> (i + (int m + 1) * ox d = x \<and> j + (int m + 1) * oy d = y) \<and>
      is_dead (board G (j + (int m + 1) * oy d) (i + (int m + 1) * ox d))" if "m < ?k" for m
  proof -
    have m: "int m + 1 < n" using that by linarith
    then have "\<not> (i + (int m + 1) * ox d = x \<and> j + (int m + 1) * oy d = y)"
      using unit_offset_step_eq [OF d, of i "int m + 1" n j] n(2,3) by simp
    moreover have "in_board (i + (int m + 1) * ox d) (j + (int m + 1) * oy d)"
      using in_board_between [OF d ij, of n "int m + 1"] xy n m by simp
    moreover have "is_dead (board G (j + (int m + 1) * oy d) (i + (int m + 1) * ox d))"
      using between [of "int m + 1"] m by simp
    ultimately show ?thesis by blast
  qed
  show "ray_hits G x y i j d"
    unfolding ray_hits_def ray_walk_True ray_fuel_def step
    using \<open>n < 8\<close> n xy before target by (intro exI [of _ ?k]) auto
qed

text \<open>The offset loop of the sliding pieces, with its divisions, decides the same.\<close>

lemma slider_aligned_iff:
  assumes "unit_offset d"
  shows "slider_aligned d rx ry \<longleftrightarrow> (\<exists>n > 0. rx = n * ox d \<and> ry = n * oy d)"
  using assms
proof (cases rule: unit_offset_cases)
qed (auto simp: slider_aligned_def intro: exI [of _ "\<bar>rx\<bar>"] exI [of _ "\<bar>ry\<bar>"])

lemma slider_step:
  assumes "unit_offset d" "0 < n" "rx = n * ox d" "ry = n * oy d"
  shows "(if ox d \<noteq> 0 then c_div rx (ox d) else c_div ry (oy d)) = n"
  using assms(1) by (cases rule: unit_offset_cases) (simp_all add: assms)

lemma slider_blocked_iff:
  "slider_blocked G sx sy d n \<longleftrightarrow>
     (\<exists>m. 0 < m \<and> m < n \<and> \<not> is_dead (board G (sy + m * oy d) (sx + m * ox d)))"
proof -
  have "1 \<le> m \<and> m \<le> n - 1 \<and> P \<longleftrightarrow> 0 < m \<and> m < n \<and> P" for m P
    by auto
  then show ?thesis
    by (simp add: slider_blocked_def list_ex_upto mult.commute)
qed

lemma slider_ok_iff:
  assumes "\<forall>d \<in> set ds. unit_offset d"
  shows "slider_ok G sx sy dx dy ds \<longleftrightarrow> (\<exists>d \<in> set ds. slides G d sx sy dx dy)"
  using assms
proof (induction ds)
  case Nil
  then show ?case by simp
next
  case (Cons d ds)
  then have d: "unit_offset d" by simp
  have "slides G d sx sy dx dy \<longleftrightarrow> slider_aligned d (dx - sx) (dy - sy) \<and>
      \<not> slider_blocked G sx sy d
          (if ox d \<noteq> 0 then c_div (dx - sx) (ox d) else c_div (dy - sy) (oy d))"
  proof (cases "slider_aligned d (dx - sx) (dy - sy)")
    case True
    then obtain n where n: "0 < n" "dx - sx = n * ox d" "dy - sy = n * oy d"
      unfolding slider_aligned_iff [OF d] by blast
    have uniq: "n' = n" if "dx = sx + n' * ox d" "dy = sy + n' * oy d" for n'
      using n that d by (auto simp: unit_offset_def)
    have "dx = sx + n * ox d" "dy = sy + n * oy d"
      using n by (simp_all add: algebra_simps)
    then have "slides G d sx sy dx dy \<longleftrightarrow>
        (\<forall>m. 0 < m \<and> m < n \<longrightarrow> is_dead (board G (sy + m * oy d) (sx + m * ox d)))"
      unfolding slides_def using n(1) uniq by metis
    then show ?thesis
      unfolding slider_step [OF d n] slider_blocked_iff using True by blast
  next
    case False
    then show ?thesis
      unfolding slider_aligned_iff [OF d] slides_def by (auto simp: algebra_simps)
  qed
  with Cons show ?case by (auto simp: Let_def)
qed

text \<open>A loop over the eight files or ranks.\<close>

lemma list_ex_file: "list_ex p [0..7] \<longleftrightarrow> (\<exists>k. 0 \<le> k \<and> k < (8::int) \<and> p k)"
proof -
  have "k \<le> 7 \<longleftrightarrow> k < 8" for k :: int by auto
  then show ?thesis by (simp add: list_ex_upto)
qed

section \<open>The loops compute the geometry\<close>

lemma slides_line:
  assumes "unit_offset d" "0 < n" "dx = sx + n * ox d" "dy = sy + n * oy d"
  shows "distance sx sy dx dy = n \<and> sgn (dx - sx) = ox d \<and> sgn (dy - sy) = oy d"
  using assms(1)
  by (cases rule: unit_offset_cases) (use assms in \<open>auto simp: distance_def\<close>)

lemma slides_iff:
  assumes "unit_offset d"
  shows "slides G d sx sy dx dy \<longleftrightarrow>
     0 < distance sx sy dx dy \<and> dx = sx + distance sx sy dx dy * ox d \<and>
     dy = sy + distance sx sy dx dy * oy d \<and> clear_path G sx sy dx dy"
proof
  assume "slides G d sx sy dx dy"
  then obtain n where n: "0 < n" "dx = sx + n * ox d" "dy = sy + n * oy d"
    and dead: "\<And>m. 0 < m \<Longrightarrow> m < n \<Longrightarrow> is_dead (board G (sy + m * oy d) (sx + m * ox d))"
    unfolding slides_def by auto
  have line: "distance sx sy dx dy = n" "sgn (dx - sx) = ox d" "sgn (dy - sy) = oy d"
    using slides_line [OF assms n] by auto
  have "clear_path G sx sy dx dy"
    unfolding clear_path_def line using dead by blast
  with n line(1) show "0 < distance sx sy dx dy \<and> dx = sx + distance sx sy dx dy * ox d \<and>
     dy = sy + distance sx sy dx dy * oy d \<and> clear_path G sx sy dx dy" by simp
next
  let ?n = "distance sx sy dx dy"
  assume *: "0 < ?n \<and> dx = sx + ?n * ox d \<and> dy = sy + ?n * oy d \<and> clear_path G sx sy dx dy"
  have line: "sgn (dx - sx) = ox d" "sgn (dy - sy) = oy d"
    using slides_line [OF assms, of ?n dx sx dy sy] * by auto
  with * show "slides G d sx sy dx dy"
    unfolding slides_def by (intro exI [of _ ?n]) (auto simp: clear_path_def)
qed

lemma offsets_unit:
  "\<forall>d \<in> set king_offsets. unit_offset d" "\<forall>d \<in> set rook_offsets. unit_offset d"
  "\<forall>d \<in> set bishop_offsets. unit_offset d"
  by (simp_all add: offset_tables unit_offset_def)

lemma rook_lines:
  "0 < distance sx sy dx dy \<and>
     (\<exists>d \<in> set rook_offsets. dx = sx + distance sx sy dx dy * ox d \<and>
        dy = sy + distance sx sy dx dy * oy d) \<longleftrightarrow> orthogonal sx sy dx dy"
  by (auto simp: offset_tables distance_def orthogonal_def max_def abs_if)

lemma bishop_lines:
  "0 < distance sx sy dx dy \<and>
     (\<exists>d \<in> set bishop_offsets. dx = sx + distance sx sy dx dy * ox d \<and>
        dy = sy + distance sx sy dx dy * oy d) \<longleftrightarrow> diagonal sx sy dx dy"
  by (auto simp: offset_tables distance_def diagonal_def max_def abs_if)

lemma set_king_offsets: "set king_offsets = set rook_offsets \<union> set bishop_offsets"
  by (auto simp: offset_tables)

lemma slides_offsets:
  assumes "\<forall>d \<in> set ds. unit_offset d"
  shows "(\<exists>d \<in> set ds. slides G d sx sy dx dy) \<longleftrightarrow>
    (0 < distance sx sy dx dy \<and> (\<exists>d \<in> set ds. dx = sx + distance sx sy dx dy * ox d \<and>
        dy = sy + distance sx sy dx dy * oy d)) \<and> clear_path G sx sy dx dy"
  using assms slides_iff by blast

lemma slides_rook: "(\<exists>d \<in> set rook_offsets. slides G d sx sy dx dy) \<longleftrightarrow>
    reaches G PIECE_ROOK sx sy dx dy"
  using slides_offsets [OF offsets_unit(2)] rook_lines by simp

lemma slides_bishop: "(\<exists>d \<in> set bishop_offsets. slides G d sx sy dx dy) \<longleftrightarrow>
    reaches G PIECE_BISHOP sx sy dx dy"
  using slides_offsets [OF offsets_unit(3)] bishop_lines by simp

lemma slides_queen: "(\<exists>d \<in> set king_offsets. slides G d sx sy dx dy) \<longleftrightarrow>
    reaches G PIECE_QUEEN sx sy dx dy"
  using slides_rook [of G sx sy dx dy] slides_bishop [of G sx sy dx dy]
  by (auto simp: set_king_offsets)

lemma knight_offsets_jump:
  "(\<exists>d \<in> set knight_offsets. sx + ox d = dx \<and> sy + oy d = dy) \<longleftrightarrow> knight_jump sx sy dx dy"
  by (auto simp: offset_tables knight_jump_def abs_if split: if_splits)

lemma king_offsets_step:
  "(\<exists>d \<in> set king_offsets. sx + ox d = dx \<and> sy + oy d = dy) \<longleftrightarrow> king_step sx sy dx dy"
  by (auto simp: offset_tables king_step_def max_def abs_if split: if_splits)

text \<open>
  No offset of the king is two files wide, so the castling branch of the loop is never entered.
\<close>

lemma leaper_ok_iff:
  assumes "\<forall>d \<in> set ds. ty = PIECE_KING \<longrightarrow> \<bar>ox d\<bar> \<noteq> 2"
  shows "leaper_ok G ty sx sy dx dy ds \<longleftrightarrow> (\<exists>d \<in> set ds. sx + ox d = dx \<and> sy + oy d = dy)"
  using assms by (induction ds) auto

lemma leaper_king: "leaper_ok G PIECE_KING sx sy dx dy king_offsets \<longleftrightarrow> king_step sx sy dx dy"
  using leaper_ok_iff [of king_offsets PIECE_KING] king_offsets_step
  by (simp add: offset_tables)

lemma leaper_knight:
  "leaper_ok G PIECE_KNIGHT sx sy dx dy knight_offsets \<longleftrightarrow> knight_jump sx sy dx dy"
  using leaper_ok_iff [of knight_offsets PIECE_KNIGHT] knight_offsets_jump by simp

section \<open>Well-formed squares\<close>

text \<open>
  An occupied square holds the table's piece for its team; an empty square holds NULL. Every board
  the program builds has such squares only.
\<close>

definition sq_wf :: "piecestate_t \<Rightarrow> bool" where
  "sq_wf ps \<longleftrightarrow>
     (if is_dead ps then piece ps = None else \<exists>ty. piece ps = Some (piece_table (team ps) ty))"

definition board_wf :: "game_t \<Rightarrow> bool" where
  "board_wf G \<longleftrightarrow> (\<forall>x y. in_board x y \<longrightarrow> sq_wf (board G y x))"

definition occupied :: "game_t \<Rightarrow> team_t \<Rightarrow> piece_type_t \<Rightarrow> int \<Rightarrow> int \<Rightarrow> bool" where
  "occupied G t ty x y \<longleftrightarrow>
     in_board x y \<and> \<not> is_dead (board G y x) \<and> team (board G y x) = t \<and>
     piece (board G y x) = Some (piece_table t ty)"

lemma occupied_in_board: "occupied G t ty x y \<Longrightarrow> in_board x y"
  by (simp add: occupied_def)

lemma board_wfD: "board_wf G \<Longrightarrow> in_board x y \<Longrightarrow> sq_wf (board G y x)"
  by (simp add: board_wf_def)

lemma sq_wf_alive:
  assumes "sq_wf ps" "\<not> is_dead ps"
  obtains ty where "piece ps = Some (piece_table (team ps) ty)"
  using assms by (auto simp: sq_wf_def)

lemma sq_wf_dead: "sq_wf ps \<Longrightarrow> is_dead ps \<longleftrightarrow> piece ps = None"
  by (auto simp: sq_wf_def split: if_splits)

section \<open>Attacks\<close>

definition attacks :: "game_t \<Rightarrow> team_t \<Rightarrow> piece_type_t \<Rightarrow> int \<Rightarrow> int \<Rightarrow> int \<Rightarrow> int \<Rightarrow> bool" where
  "attacks G t ty i j x y \<longleftrightarrow>
     (if ty = PIECE_PAWN then pawn_attacks t i j x y else reaches G ty i j x y)"

lemma ray_list:
  assumes "\<forall>d \<in> set ds. unit_offset d" "in_board i j" "in_board x y"
  shows "list_ex (ray_hits G x y i j) ds \<longleftrightarrow> (\<exists>d \<in> set ds. slides G d i j x y)"
  using ray_hits_slides assms by (auto simp: list_ex_iff)

lemma piece_attacks_iff:
  assumes "board_wf G" "in_board i j" "in_board x y"
  shows "piece_attacks G i j x y t \<longleftrightarrow> (\<exists>ty. occupied G t ty i j \<and> attacks G t ty i j x y)"
proof (cases "is_dead (board G j i) \<or> team (board G j i) \<noteq> t")
  case True
  then show ?thesis
    by (auto simp: piece_attacks_def occupied_def Let_def split: option.splits)
next
  case False
  with assms obtain ty where ty: "piece (board G j i) = Some (piece_table t ty)"
    by (metis board_wfD sq_wf_alive)
  have "piece_attacks G i j x y t \<longleftrightarrow> attacks G t ty i j x y"
    using False ty ray_list [OF offsets_unit(1) assms(2,3)] ray_list [OF offsets_unit(2) assms(2,3)]
      ray_list [OF offsets_unit(3) assms(2,3)] slides_rook slides_bishop slides_queen
      knight_offsets_jump king_offsets_step
    by (cases ty)
      (auto simp: piece_attacks_def attacks_def pawn_attacks_def list_ex_iff Let_def abs_if)
  with False ty assms(2) show ?thesis
    by (auto simp: occupied_def piece_table_inj)
qed

lemma is_square_attacked_iff:
  assumes "board_wf G" "in_board x y"
  shows "is_square_attacked G x y t \<longleftrightarrow>
     (\<exists>i j ty. occupied G t ty i j \<and> attacks G t ty i j x y)"
proof -
  have "is_square_attacked G x y t \<longleftrightarrow> (\<exists>i j. in_board i j \<and> piece_attacks G i j x y t)"
    by (auto simp: is_square_attacked_def list_ex_file in_board_def)
  then show ?thesis
    using piece_attacks_iff [OF assms(1) _ assms(2)] occupied_in_board by blast
qed

section \<open>Pseudo-legal moves\<close>

definition pawn_moves :: "game_t \<Rightarrow> team_t \<Rightarrow> int \<Rightarrow> int \<Rightarrow> int \<Rightarrow> int \<Rightarrow> bool" where
  "pawn_moves G t sx sy dx dy \<longleftrightarrow>
     (dx = sx \<and> dy = sy + pawn_dir t \<and> is_dead (board G dy dx))
   \<or> (dx = sx \<and> dy = sy + 2 * pawn_dir t \<and> \<not> has_moved (board G sy sx) \<and> is_dead (board G dy dx)
        \<and> is_dead (board G (sy + pawn_dir t) sx))
   \<or> (pawn_attacks t sx sy dx dy \<and> \<not> is_dead (board G dy dx) \<and> team (board G dy dx) \<noteq> t)
   \<or> (pawn_attacks t sx sy dx dy \<and> is_dead (board G dy dx)
        \<and> en_passant_x G = dx \<and> en_passant_y G = dy)"

definition moves :: "game_t \<Rightarrow> team_t \<Rightarrow> piece_type_t \<Rightarrow> int \<Rightarrow> int \<Rightarrow> int \<Rightarrow> int \<Rightarrow> bool" where
  "moves G t ty sx sy dx dy \<longleftrightarrow>
     (if ty = PIECE_PAWN then pawn_moves G t sx sy dx dy else reaches G ty sx sy dx dy)"

lemma pseudo_legal_iff:
  assumes "piece (board G sy sx) = Some (piece_table t ty)" "team (board G sy sx) = t"
  shows "pseudo_legal G (piece_table t ty) sx sy dx dy \<longleftrightarrow> moves G t ty sx sy dx dy"
  using assms slider_ok_iff [OF offsets_unit(1)] slider_ok_iff [OF offsets_unit(2)]
    slider_ok_iff [OF offsets_unit(3)] slides_rook slides_bishop slides_queen
    leaper_king leaper_knight
  by (cases ty)
    (auto simp: pseudo_legal_def moves_def pawn_moves_def pawn_ok_def pawn_attacks_def Let_def)

text \<open>
  A legal move: the mover has a piece on the source that moves that way, the target is not its own,
  and its king is not attacked afterwards.
\<close>

lemma is_move_legal_iff:
  assumes "board_wf G"
  shows "is_move_legal G sx sy dx dy \<longleftrightarrow>
     (\<exists>ty. occupied G (side_to_move G) ty sx sy \<and> in_board dx dy \<and>
        \<not> (\<not> is_dead (board G dy dx) \<and> team (board G dy dx) = side_to_move G) \<and>
        moves G (side_to_move G) ty sx sy dx dy \<and>
        \<not> is_in_check (apply_move G sx sy dx dy) (side_to_move G))"
proof (cases "in_board sx sy \<and> in_board dx dy \<and> \<not> is_dead (board G sy sx)
    \<and> team (board G sy sx) = side_to_move G")
  case False
  then show ?thesis
    by (auto simp: is_move_legal_def occupied_def Let_def split: option.splits)
next
  case True
  with assms obtain ty where ty: "piece (board G sy sx) = Some (piece_table (side_to_move G) ty)"
    by (metis board_wfD sq_wf_alive)
  have dst: "\<not> is_dead (board G dy dx) \<Longrightarrow> piece (board G dy dx) \<noteq> None"
    using assms True by (metis board_wfD sq_wf_dead)
  have "is_move_legal G sx sy dx dy \<longleftrightarrow>
      \<not> (\<not> is_dead (board G dy dx) \<and> team (board G dy dx) = side_to_move G) \<and>
      moves G (side_to_move G) ty sx sy dx dy \<and>
      \<not> is_in_check (apply_move G sx sy dx dy) (side_to_move G)"
    using True ty dst pseudo_legal_iff [OF ty] by (auto simp: is_move_legal_def Let_def)
  with True ty show ?thesis
    by (auto simp: occupied_def piece_table_inj)
qed

end
