(* ===== verification/Rule_Inv.thy ===== *)
theory Rule_Inv
  imports Rule_Spec
begin

text \<open>
  The effect of \<open>apply_move\<close> in closed form, and the invariant of the positions the program
  reaches: well-formed squares, one king per team, an en-passant target with the pawn that passed
  it, unmoved pawns on their home rank, and the side that has just moved not in check. Every legal
  move keeps it.
\<close>

section \<open>Stages of a move\<close>

lemma kill_sq_wf: "board_wf G \<Longrightarrow> board_wf (kill_sq G x y)"
  by (auto simp: board_wf_def sq_wf_def)

lemma set_sq_wf: "board_wf G \<Longrightarrow> sq_wf ps \<Longrightarrow> board_wf (set_sq G x y ps)"
  by (auto simp: board_wf_def)

lemma clock_fields [simp, frame_simps]:
  "board (apply_clock G p dx dy) = board G"
  "side_to_move (apply_clock G p dx dy) = side_to_move G"
  "en_passant_x (apply_clock G p dx dy) = en_passant_x G"
  "en_passant_y (apply_clock G p dx dy) = en_passant_y G"
  by (simp_all add: apply_clock_def)

lemma ep_capture_fields [simp, frame_simps]:
  "side_to_move (apply_ep_capture G p sy dx dy) = side_to_move G"
  "halfmove_clock (apply_ep_capture G p sy dx dy) = halfmove_clock G"
  by (simp_all add: apply_ep_capture_def)

lemma relocate_fields [simp, frame_simps]:
  "side_to_move (apply_relocate G sx sy dx dy) = side_to_move G"
  "halfmove_clock (apply_relocate G sx sy dx dy) = halfmove_clock G"
  by (simp_all add: apply_relocate_def)

lemma castle_rook_fields [simp, frame_simps]:
  "side_to_move (apply_castle_rook G sx dx dy) = side_to_move G"
  "halfmove_clock (apply_castle_rook G sx dx dy) = halfmove_clock G"
  by (simp_all add: apply_castle_rook_def Let_def)

lemma king_rights_fields [simp, frame_simps]:
  "board (apply_king_rights G dx dy) = board G"
  "side_to_move (apply_king_rights G dx dy) = side_to_move G"
  "halfmove_clock (apply_king_rights G dx dy) = halfmove_clock G"
  by (simp_all add: apply_king_rights_def)

lemma rook_rights_fields [simp, frame_simps]:
  "board (apply_rook_rights G sx sy dx dy) = board G"
  "side_to_move (apply_rook_rights G sx sy dx dy) = side_to_move G"
  "halfmove_clock (apply_rook_rights G sx sy dx dy) = halfmove_clock G"
  by (simp_all add: apply_rook_rights_def Let_def)

lemma ep_target_fields [simp, frame_simps]:
  "board (apply_ep_target G sy dx dy) = board G"
  "side_to_move (apply_ep_target G sy dx dy) = side_to_move G"
  "halfmove_clock (apply_ep_target G sy dx dy) = halfmove_clock G"
  by (simp_all add: apply_ep_target_def)

lemma promotion_fields [simp, frame_simps]:
  "side_to_move (apply_promotion G dx dy) = side_to_move G"
  "halfmove_clock (apply_promotion G dx dy) = halfmove_clock G"
  "en_passant_x (apply_promotion G dx dy) = en_passant_x G"
  "en_passant_y (apply_promotion G dx dy) = en_passant_y G"
  by (simp_all add: apply_promotion_def)

lemma finish_fields [simp, frame_simps]:
  "side_to_move (apply_finish G dx dy) = other_team (side_to_move G)"
  "halfmove_clock (apply_finish G dx dy) = halfmove_clock G"
  "en_passant_x (apply_finish G dx dy) = en_passant_x G"
  "en_passant_y (apply_finish G dx dy) = en_passant_y G"
  by (cases "side_to_move G"; simp add: apply_finish_def)+

lemmas move_stages =
  apply_ep_capture_def apply_relocate_def apply_castle_rook_def apply_promotion_def
  apply_finish_def apply_ep_target_def dst_is_def

text \<open>Every stage keeps the squares well-formed.\<close>

lemma sq_wf_set_moved: "sq_wf ps \<Longrightarrow> sq_wf (ps\<lparr>has_moved := b\<rparr>)"
  by (simp add: sq_wf_def)

lemma apply_ep_capture_wf: "board_wf G \<Longrightarrow> board_wf (apply_ep_capture G p sy dx dy)"
  by (simp add: apply_ep_capture_def kill_sq_wf)

lemma apply_relocate_wf: "board_wf G \<Longrightarrow> in_board sx sy \<Longrightarrow> board_wf (apply_relocate G sx sy dx dy)"
  by (simp add: apply_relocate_def kill_sq_wf set_sq_wf board_wfD)

lemma apply_castle_rook_wf: "board_wf G \<Longrightarrow> in_board dx dy \<Longrightarrow> board_wf (apply_castle_rook G sx dx dy)"
  by (auto simp: apply_castle_rook_def Let_def in_board_def intro!: kill_sq_wf set_sq_wf board_wfD)

lemma board_wf_cong: "board G' = board G \<Longrightarrow> board_wf G' = board_wf G"
  by (simp add: board_wf_def)

lemma apply_promotion_wf:
  assumes "board_wf G" "in_board dx dy"
  shows "board_wf (apply_promotion G dx dy)"
proof (cases "dst_is G dx dy PIECE_PAWN")
  case True
  then have "\<not> is_dead (board G dy dx)"
    using sq_wf_dead [OF board_wfD [OF assms]] by (auto simp: dst_is_def)
  then have "sq_wf ((board G dy dx)\<lparr>piece := Some (get_default_queen (team (board G dy dx)))\<rparr>)"
    by (auto simp: sq_wf_def get_default_queen_def)
  with assms show ?thesis by (simp add: apply_promotion_def set_sq_wf)
next
  case False
  with assms show ?thesis by (simp add: apply_promotion_def)
qed

lemma apply_finish_wf:
  assumes "board_wf G" "in_board dx dy"
  shows "board_wf (apply_finish G dx dy)"
proof -
  have "board_wf (set_sq G dx dy ((board G dy dx)\<lparr>has_moved := True\<rparr>))"
    by (intro set_sq_wf sq_wf_set_moved board_wfD assms)
  then show ?thesis by (simp add: apply_finish_def board_wf_def)
qed

lemma apply_move_wf:
  assumes "board_wf G" "in_board sx sy" "in_board dx dy"
  shows "board_wf (apply_move G sx sy dx dy)"
proof (cases "piece (board G sy sx)")
  case None
  with assms show ?thesis by (simp add: apply_move_def)
next
  case (Some p)
  have "board_wf (apply_clock G p dx dy)"
    using assms(1) board_wf_cong [OF clock_fields(1)] by blast
  then have "board_wf (apply_castle_rook (apply_relocate
      (apply_ep_capture (apply_clock G p dx dy) p sy dx dy) sx sy dx dy) sx dx dy)" (is "board_wf ?G4")
    by (intro apply_castle_rook_wf apply_relocate_wf apply_ep_capture_wf assms)
  then have "board_wf (apply_ep_target (apply_rook_rights (apply_king_rights ?G4 dx dy)
      sx sy dx dy) sy dx dy)"
    by (simp add: board_wf_def)
  then show ?thesis
    using assms Some by (simp add: apply_move_def Let_def apply_finish_wf apply_promotion_wf)
qed

section \<open>The moved board\<close>

definition ep_capture :: "game_t \<Rightarrow> piece_t \<Rightarrow> int \<Rightarrow> int \<Rightarrow> bool" where
  "ep_capture G p dx dy \<longleftrightarrow>
     ptype p = PIECE_PAWN \<and> dx = en_passant_x G \<and> dy = en_passant_y G"

definition promoted :: "team_t \<Rightarrow> piece_t \<Rightarrow> int \<Rightarrow> piece_t" where
  "promoted t p dy =
     (if ptype p = PIECE_PAWN \<and> (dy = 7 \<or> dy = 0) then get_default_queen t else p)"

lemma relocated_board:
  "board (apply_relocate (apply_ep_capture (apply_clock G p dx dy) p sy dx dy) sx sy dx dy) b a =
     (let G2 = (if ep_capture G p dx dy then kill_sq G dx sy else G) in
      if b = sy \<and> a = sx then
        (if sy = dy \<and> sx = dx then board G2 sy sx else board G2 b a)\<lparr>is_dead := True, piece := None\<rparr>
      else if b = dy \<and> a = dx then board G2 sy sx else board G2 b a)"
proof -
  have "board (apply_ep_capture (apply_clock G p dx dy) p sy dx dy) =
      board (if ep_capture G p dx dy then kill_sq G dx sy else G)"
    by (simp add: apply_ep_capture_def ep_capture_def apply_clock_def kill_sq_def set_sq_def)
  then show ?thesis
    unfolding apply_relocate_def Let_def by simp
qed

lemma apply_move_board:
  assumes p: "piece (board G sy sx) = Some p"
    and ne: "\<not> (sx = dx \<and> sy = dy)"
    and nc: "\<not> (ptype p = PIECE_KING \<and> \<bar>dx - sx\<bar> = 2)"
    and ep: "\<not> (ep_capture G p dx dy \<and> dx = sx)"
  shows "board (apply_move G sx sy dx dy) b a =
     (if b = dy \<and> a = dx then
        (board G sy sx)\<lparr>piece := Some (promoted (team (board G sy sx)) p dy), has_moved := True\<rparr>
      else if b = sy \<and> a = sx \<or> ep_capture G p dx dy \<and> b = sy \<and> a = dx then
        (board G b a)\<lparr>is_dead := True, piece := None\<rparr>
      else board G b a)"
proof -
  define G3 where "G3 = apply_relocate (apply_ep_capture (apply_clock G p dx dy) p sy dx dy) sx sy dx dy"
  have b3: "board G3 b a = (if b = dy \<and> a = dx then board G sy sx
      else if b = sy \<and> a = sx \<or> ep_capture G p dx dy \<and> b = sy \<and> a = dx
      then (board G b a)\<lparr>is_dead := True, piece := None\<rparr> else board G b a)" for b a
    using ne ep unfolding G3_def relocated_board Let_def
    by (cases "ep_capture G p dx dy"; cases "b = dy \<and> a = dx"; cases "b = sy \<and> a = sx") auto
  have dst: "piece (board G3 dy dx) = Some p" "team (board G3 dy dx) = team (board G sy sx)"
    using p by (simp_all add: b3)
  have G4: "apply_castle_rook G3 sx dx dy = G3"
    using nc dst by (auto simp: apply_castle_rook_def dst_is_def)
  have "board (apply_move G sx sy dx dy) b a =
     (if b = dy \<and> a = dx then
        (board G3 dy dx)\<lparr>piece := Some (promoted (team (board G sy sx)) p dy), has_moved := True\<rparr>
      else board G3 b a)"
    using p dst
    by (auto simp: apply_move_def Let_def G3_def [symmetric] G4 apply_finish_def apply_promotion_def
        dst_is_def promoted_def)
  then show ?thesis by (simp add: b3)
qed

lemma apply_move_side:
  "piece (board G sy sx) \<noteq> None \<Longrightarrow>
     side_to_move (apply_move G sx sy dx dy) = other_team (side_to_move G)"
  by (auto simp: apply_move_def Let_def)

lemma apply_move_halfmove:
  assumes "piece (board G sy sx) = Some p"
  shows "halfmove_clock (apply_move G sx sy dx dy) =
     (if ptype p = PIECE_PAWN \<or> \<not> is_dead (board G dy dx) then 0 else halfmove_clock G + 1)"
  using assms by (simp add: apply_move_def Let_def apply_clock_def)

lemma apply_move_ep:
  assumes p: "piece (board G sy sx) = Some p"
    and ne: "\<not> (sx = dx \<and> sy = dy)"
    and nc: "\<not> (ptype p = PIECE_KING \<and> \<bar>dx - sx\<bar> = 2)"
    and ep: "\<not> (ep_capture G p dx dy \<and> dx = sx)"
  shows "en_passant_x (apply_move G sx sy dx dy) =
      (if ptype p = PIECE_PAWN \<and> \<bar>dy - sy\<bar> = 2 then dx else - 1)"
    and "en_passant_y (apply_move G sx sy dx dy) =
      (if ptype p = PIECE_PAWN \<and> \<bar>dy - sy\<bar> = 2 then c_div (sy + dy) 2 else - 1)"
proof -
  define G3 where "G3 = apply_relocate (apply_ep_capture (apply_clock G p dx dy) p sy dx dy) sx sy dx dy"
  have dst: "piece (board G3 dy dx) = Some p"
    using p ne ep unfolding G3_def relocated_board Let_def
    by (cases "ep_capture G p dx dy") auto
  have G4: "apply_castle_rook G3 sx dx dy = G3"
    using nc dst by (auto simp: apply_castle_rook_def dst_is_def)
  show "en_passant_x (apply_move G sx sy dx dy) =
      (if ptype p = PIECE_PAWN \<and> \<bar>dy - sy\<bar> = 2 then dx else - 1)"
    and "en_passant_y (apply_move G sx sy dx dy) =
      (if ptype p = PIECE_PAWN \<and> \<bar>dy - sy\<bar> = 2 then c_div (sy + dy) 2 else - 1)"
    using p dst
    by (simp_all add: apply_move_def Let_def G3_def [symmetric] G4 apply_ep_target_def dst_is_def)
qed

text \<open>Which pieces stand where after a move.\<close>

definition promoted_type :: "piece_type_t \<Rightarrow> int \<Rightarrow> piece_type_t" where
  "promoted_type ty dy = (if ty = PIECE_PAWN \<and> (dy = 7 \<or> dy = 0) then PIECE_QUEEN else ty)"

lemma promoted_table: "promoted t (piece_table t ty) dy = piece_table t (promoted_type ty dy)"
  by (auto simp: promoted_def promoted_type_def get_default_queen_def)

text \<open>The conditions under which \<open>apply_move\<close> moves one piece and nothing else.\<close>

definition plain_move :: "game_t \<Rightarrow> team_t \<Rightarrow> piece_type_t \<Rightarrow> int \<Rightarrow> int \<Rightarrow> int \<Rightarrow> int \<Rightarrow> bool" where
  "plain_move G t ty sx sy dx dy \<longleftrightarrow>
     occupied G t ty sx sy \<and> in_board dx dy \<and> \<not> (sx = dx \<and> sy = dy)
     \<and> \<not> (ty = PIECE_KING \<and> \<bar>dx - sx\<bar> = 2)
     \<and> \<not> (ep_capture G (piece_table t ty) dx dy \<and> dx = sx)"

lemma plain_move_facts:
  assumes "plain_move G t ty sx sy dx dy"
  shows "piece (board G sy sx) = Some (piece_table t ty)" "team (board G sy sx) = t"
    "\<not> is_dead (board G sy sx)" "\<not> (sx = dx \<and> sy = dy)" "in_board sx sy" "in_board dx dy"
    "\<not> (ptype (piece_table t ty) = PIECE_KING \<and> \<bar>dx - sx\<bar> = 2)"
    "\<not> (ep_capture G (piece_table t ty) dx dy \<and> dx = sx)"
  using assms by (auto simp: plain_move_def occupied_def)

lemma occupied_apply_move:
  assumes "plain_move G t ty sx sy dx dy"
  shows "occupied (apply_move G sx sy dx dy) u ty' a b \<longleftrightarrow>
     (if a = dx \<and> b = dy then u = t \<and> ty' = promoted_type ty dy
      else \<not> (a = sx \<and> b = sy) \<and> \<not> (ep_capture G (piece_table t ty) dx dy \<and> a = dx \<and> b = sy)
           \<and> occupied G u ty' a b)"
proof -
  note m = plain_move_facts [OF assms]
  note brd = apply_move_board [OF m(1,4,7,8), simplified m(2) promoted_table]
  show ?thesis
    unfolding occupied_def brd using m(2,3,6)
    by (cases "a = dx \<and> b = dy") (auto simp: piece_table_inj)
qed

lemma has_moved_apply_move:
  assumes "plain_move G t ty sx sy dx dy"
  shows "has_moved (board (apply_move G sx sy dx dy) b a) =
     (b = dy \<and> a = dx \<or> has_moved (board G b a))"
proof -
  note m = plain_move_facts [OF assms]
  show ?thesis unfolding apply_move_board [OF m(1,4,7,8)] by auto
qed

section \<open>The invariant of positions\<close>

definition one_king :: "game_t \<Rightarrow> team_t \<Rightarrow> bool" where
  "one_king G t \<longleftrightarrow> (\<exists>kx ky. \<forall>x y. occupied G t PIECE_KING x y \<longleftrightarrow> x = kx \<and> y = ky)"

definition home_rank :: "team_t \<Rightarrow> int" where
  "home_rank t = (case t of TEAM_WHITE \<Rightarrow> 1 | TEAM_BLACK \<Rightarrow> 6)"

definition pawns_ok :: "game_t \<Rightarrow> bool" where
  "pawns_ok G \<longleftrightarrow>
     (\<forall>t x y. occupied G t PIECE_PAWN x y \<longrightarrow>
        1 \<le> y \<and> y \<le> 6 \<and> (\<not> has_moved (board G y x) \<longrightarrow> y = home_rank t))"

definition ep_ok :: "game_t \<Rightarrow> bool" where
  "ep_ok G \<longleftrightarrow>
     en_passant_x G = - 1 \<and> en_passant_y G = - 1
   \<or> (en_passant_y G = (if side_to_move G = TEAM_WHITE then 5 else 2)
      \<and> occupied G (other_team (side_to_move G)) PIECE_PAWN (en_passant_x G)
          (en_passant_y G - pawn_dir (side_to_move G)))"

definition pos_ok :: "game_t \<Rightarrow> bool" where
  "pos_ok G \<longleftrightarrow>
     board_wf G \<and> one_king G TEAM_WHITE \<and> one_king G TEAM_BLACK \<and> pawns_ok G \<and> ep_ok G
     \<and> 0 \<le> halfmove_clock G \<and> \<not> is_in_check G (other_team (side_to_move G))"

lemma pos_okD:
  assumes "pos_ok G"
  shows "board_wf G" "one_king G t" "pawns_ok G" "ep_ok G" "0 \<le> halfmove_clock G"
    "\<not> is_in_check G (other_team (side_to_move G))"
  using assms by (cases t; simp add: pos_ok_def)+

text \<open>With one king, the search of \<open>is_in_check\<close> finds it.\<close>

lemma is_king_of_iff:
  assumes "board_wf G" "in_board x y"
  shows "is_king_of G t x y \<longleftrightarrow> occupied G t PIECE_KING x y"
proof (cases "is_dead (board G y x)")
  case True
  then show ?thesis by (auto simp: is_king_of_def occupied_def Let_def split: option.splits)
next
  case False
  then obtain ty where "piece (board G y x) = Some (piece_table (team (board G y x)) ty)"
    using assms by (metis board_wfD sq_wf_alive)
  with False assms show ?thesis
    by (auto simp: is_king_of_def occupied_def Let_def piece_table_inj)
qed

lemma find_unique:
  assumes "\<And>z. z \<in> set xs \<Longrightarrow> p z \<longleftrightarrow> z = k" "k \<in> set xs"
  shows "find p xs = Some k"
  using assms by (induction xs) auto

lemma squares_list:
  "(x, y) \<in> set (concat (map (\<lambda>x. map (\<lambda>y. (x, y)) [0..7]) [0..7])) \<longleftrightarrow> in_board x y"
  by (auto simp: in_board_def image_iff)

lemma find_king_unique:
  assumes "board_wf G" "one_king G t" "occupied G t PIECE_KING kx ky"
  shows "find_king G t = Some (kx, ky)"
  unfolding find_king_def
proof (rule find_unique)
  fix z assume "z \<in> set (concat (map (\<lambda>x. map (\<lambda>y. (x, y)) [0..7]) [0..7]))"
  then have "in_board (fst z) (snd z)" using squares_list [of "fst z" "snd z"] by simp
  moreover have "occupied G t PIECE_KING x y \<longleftrightarrow> x = kx \<and> y = ky" for x y
    using assms(2,3) by (auto simp: one_king_def)
  ultimately show "(case z of (x, y) \<Rightarrow> is_king_of G t x y) \<longleftrightarrow> z = (kx, ky)"
    using is_king_of_iff [OF assms(1)] by (cases z) auto
next
  show "(kx, ky) \<in> set (concat (map (\<lambda>x. map (\<lambda>y. (x, y)) [0..7]) [0..7]))"
    using occupied_in_board [OF assms(3)] squares_list by blast
qed

lemma is_in_check_iff:
  assumes "board_wf G" "one_king G t" "occupied G t PIECE_KING kx ky"
  shows "is_in_check G t \<longleftrightarrow>
     (\<exists>i j ty. occupied G (other_team t) ty i j \<and> attacks G (other_team t) ty i j kx ky)"
  using is_square_attacked_iff [OF assms(1) occupied_in_board [OF assms(3)]]
  by (simp add: is_in_check_def find_king_unique [OF assms])

section \<open>Legal moves keep the invariant\<close>

lemma one_king_cong:
  "(\<And>x y. occupied H t PIECE_KING x y \<longleftrightarrow> occupied G t PIECE_KING x y) \<Longrightarrow> one_king G t \<Longrightarrow> one_king H t"
  by (simp add: one_king_def)

lemma reaches_ne: "reaches G ty sx sy dx dy \<Longrightarrow> \<not> (sx = dx \<and> sy = dy)"
  by (cases ty) (auto simp: knight_jump_def king_step_def orthogonal_def diagonal_def)

lemma legalE:
  assumes "pos_ok G" "is_move_legal G sx sy dx dy"
  obtains ty where
    "occupied G (side_to_move G) ty sx sy" "in_board dx dy"
    "\<not> (\<not> is_dead (board G dy dx) \<and> team (board G dy dx) = side_to_move G)"
    "moves G (side_to_move G) ty sx sy dx dy"
    "\<not> is_in_check (apply_move G sx sy dx dy) (side_to_move G)"
  using assms is_move_legal_iff [OF pos_okD(1)] by blast

text \<open>A king is never captured: the side to move would have found it in check already.\<close>

lemma no_king_capture:
  assumes ok: "pos_ok G" and src: "occupied G (side_to_move G) ty sx sy"
    and mv: "moves G (side_to_move G) ty sx sy dx dy"
  shows "\<not> occupied G (other_team (side_to_move G)) PIECE_KING dx dy"
proof
  let ?t = "side_to_move G"
  assume king: "occupied G (other_team ?t) PIECE_KING dx dy"
  have "\<not> is_dead (board G dy dx)" using king by (simp add: occupied_def)
  with mv have "attacks G ?t ty sx sy dx dy"
    by (auto simp: moves_def pawn_moves_def attacks_def split: if_splits)
  with src have "is_in_check G (other_team ?t)"
    using is_in_check_iff [OF pos_okD(1) [OF ok] pos_okD(2) [OF ok] king] by auto
  with pos_okD(6) [OF ok] show False by simp
qed

lemma occupied_unique:
  "occupied G t ty x y \<Longrightarrow> occupied G u ty' x y \<Longrightarrow> t = u \<and> ty = ty'"
  by (auto simp: occupied_def piece_table_inj)

lemma occupied_alive: "occupied G t ty x y \<Longrightarrow> \<not> is_dead (board G y x) \<and> team (board G y x) = t"
  by (simp add: occupied_def)

lemma pawn_dir_cases: "pawn_dir t = 1 \<or> pawn_dir t = - 1"
  by (simp add: pawn_dir_def)

text \<open>The pawn taken en passant stands beside the capturing pawn.\<close>

lemma ep_target_pawn:
  assumes "ep_ok G" "in_board (en_passant_x G) (en_passant_y G)"
  shows "occupied G (other_team (side_to_move G)) PIECE_PAWN (en_passant_x G)
           (en_passant_y G - pawn_dir (side_to_move G))"
  using assms by (auto simp: ep_ok_def in_board_def)

lemma legal_plain_move:
  assumes ok: "pos_ok G" and src: "occupied G (side_to_move G) ty sx sy" and dst: "in_board dx dy"
    and mv: "moves G (side_to_move G) ty sx sy dx dy"
  shows "plain_move G (side_to_move G) ty sx sy dx dy"
proof -
  let ?t = "side_to_move G"
  have ne: "\<not> (sx = dx \<and> sy = dy)"
    using mv reaches_ne pawn_dir_cases [of ?t]
    by (auto simp: moves_def pawn_moves_def pawn_attacks_def split: if_splits)
  have king: "\<not> (ty = PIECE_KING \<and> \<bar>dx - sx\<bar> = 2)"
    using mv by (auto simp: moves_def king_step_def)
  have "\<not> (ep_capture G (piece_table ?t ty) dx dy \<and> dx = sx)"
  proof
    assume ep: "ep_capture G (piece_table ?t ty) dx dy \<and> dx = sx"
    then have pawn: "occupied G (other_team ?t) PIECE_PAWN sx (dy - pawn_dir ?t)"
      using ep_target_pawn [OF pos_okD(4) [OF ok]] dst by (auto simp: ep_capture_def)
    from ep mv have "dy = sy + pawn_dir ?t \<or>
        dy = sy + 2 * pawn_dir ?t \<and> is_dead (board G (sy + pawn_dir ?t) sx)"
      by (auto simp: ep_capture_def moves_def pawn_moves_def pawn_attacks_def)
    then show False
    proof
      assume "dy = sy + pawn_dir ?t"
      with pawn src show False using occupied_unique by fastforce
    next
      assume "dy = sy + 2 * pawn_dir ?t \<and> is_dead (board G (sy + pawn_dir ?t) sx)"
      with occupied_alive [OF pawn] show False by (simp add: add.commute)
    qed
  qed
  with ne king src dst show ?thesis by (simp add: plain_move_def)
qed

lemma ep_capture_pawn:
  assumes ok: "pos_ok G" and dst: "in_board dx dy"
    and mv: "moves G (side_to_move G) ty sx sy dx dy"
    and pm: "plain_move G (side_to_move G) ty sx sy dx dy"
    and ep: "ep_capture G (piece_table (side_to_move G) ty) dx dy"
  shows "occupied G (other_team (side_to_move G)) PIECE_PAWN dx sy"
proof -
  let ?t = "side_to_move G"
  have "occupied G (other_team ?t) PIECE_PAWN dx (dy - pawn_dir ?t)"
    using ep_target_pawn [OF pos_okD(4) [OF ok]] dst ep by (auto simp: ep_capture_def)
  moreover have "dy = sy + pawn_dir ?t"
    using ep mv plain_move_facts(8) [OF pm]
    by (auto simp: ep_capture_def moves_def pawn_moves_def pawn_attacks_def)
  ultimately show ?thesis by simp
qed

lemma kings_after_move:
  assumes ok: "pos_ok G" and src: "occupied G (side_to_move G) ty sx sy" and dst: "in_board dx dy"
    and own: "\<not> (\<not> is_dead (board G dy dx) \<and> team (board G dy dx) = side_to_move G)"
    and mv: "moves G (side_to_move G) ty sx sy dx dy"
  shows "one_king (apply_move G sx sy dx dy) u"
proof -
  let ?t = "side_to_move G"
  have pm: "plain_move G ?t ty sx sy dx dy" by (rule legal_plain_move [OF ok src dst mv])
  note occ = occupied_apply_move [OF pm]
  have cap: "\<not> (ep_capture G (piece_table ?t ty) dx dy \<and> occupied G v PIECE_KING dx sy)" for v
    using ep_capture_pawn [OF ok dst mv pm] occupied_unique by fastforce
  show ?thesis
  proof (cases "u = ?t \<and> ty = PIECE_KING")
    case True
    then have "occupied (apply_move G sx sy dx dy) u PIECE_KING x y \<longleftrightarrow> x = dx \<and> y = dy" for x y
      using pos_okD(2) [OF ok, of ?t] src
      by (auto simp: occ one_king_def promoted_type_def)
    then show ?thesis by (auto simp: one_king_def)
  next
    case False
    have "occupied (apply_move G sx sy dx dy) u PIECE_KING x y \<longleftrightarrow> occupied G u PIECE_KING x y" for x y
    proof -
      have "\<not> (u = ?t \<and> PIECE_KING = promoted_type ty dy)"
        using False by (auto simp: promoted_type_def)
      moreover have "\<not> occupied G u PIECE_KING dx dy"
        using no_king_capture [OF ok src mv] own occupied_alive [of G u PIECE_KING dx dy]
          team_cases_pair [of u ?t] by auto
      moreover have "\<not> occupied G u PIECE_KING sx sy"
        using False src occupied_unique by fastforce
      ultimately show ?thesis unfolding occ using cap by auto
    qed
    then show ?thesis using pos_okD(2) [OF ok] by (rule one_king_cong)
  qed
qed

lemma pawns_after_move:
  assumes ok: "pos_ok G" and pm: "plain_move G (side_to_move G) ty sx sy dx dy"
  shows "pawns_ok (apply_move G sx sy dx dy)"
  unfolding pawns_ok_def occupied_apply_move [OF pm] has_moved_apply_move [OF pm]
  using pos_okD(3) [OF ok] plain_move_facts(6) [OF pm]
  by (auto simp: pawns_ok_def promoted_type_def in_board_def split: if_splits)

lemma ep_after_move:
  assumes ok: "pos_ok G" and pm: "plain_move G (side_to_move G) ty sx sy dx dy"
    and mv: "moves G (side_to_move G) ty sx sy dx dy"
  shows "ep_ok (apply_move G sx sy dx dy)"
proof -
  let ?t = "side_to_move G"
  note m = plain_move_facts [OF pm]
  have side: "side_to_move (apply_move G sx sy dx dy) = other_team ?t"
    using m(1) by (simp add: apply_move_side)
  note ep = apply_move_ep [OF m(1,4,7,8)]
  show ?thesis
  proof (cases "ty = PIECE_PAWN \<and> \<bar>dy - sy\<bar> = 2")
    case False
    then show ?thesis by (auto simp: ep_ok_def ep)
  next
    case True
    then have two: "dy = sy + 2 * pawn_dir ?t" and "\<not> has_moved (board G sy sx)"
      using mv pawn_dir_cases [of ?t] by (auto simp: moves_def pawn_moves_def pawn_attacks_def)
    then have "sy = home_rank ?t"
      using pos_okD(3) [OF ok] pm True by (auto simp: pawns_ok_def plain_move_def)
    with two True m(6) show ?thesis
      unfolding ep_ok_def side ep occupied_apply_move [OF pm]
      by (cases ?t) (auto simp: home_rank_def pawn_dir_def c_div_def promoted_type_def)
  qed
qed

lemma legal_move_pos_ok:
  assumes ok: "pos_ok G" and legal: "is_move_legal G sx sy dx dy"
  shows "pos_ok (apply_move G sx sy dx dy)"
proof -
  let ?t = "side_to_move G"
  obtain ty where src: "occupied G ?t ty sx sy" and dst: "in_board dx dy"
    and own: "\<not> (\<not> is_dead (board G dy dx) \<and> team (board G dy dx) = ?t)"
    and mv: "moves G ?t ty sx sy dx dy" and safe: "\<not> is_in_check (apply_move G sx sy dx dy) ?t"
    using legalE [OF ok legal] by blast
  have pm: "plain_move G ?t ty sx sy dx dy" by (rule legal_plain_move [OF ok src dst mv])
  note m = plain_move_facts [OF pm]
  have "board_wf (apply_move G sx sy dx dy)"
    using apply_move_wf [OF pos_okD(1) [OF ok] m(5) dst] .
  moreover have "side_to_move (apply_move G sx sy dx dy) = other_team ?t"
    using m(1) by (simp add: apply_move_side)
  moreover have "0 \<le> halfmove_clock (apply_move G sx sy dx dy)"
    using apply_move_halfmove [OF m(1)] pos_okD(5) [OF ok] by simp
  ultimately show ?thesis
    using kings_after_move [OF ok src dst own mv] pawns_after_move [OF ok pm] ep_after_move [OF ok pm mv] safe
    by (simp add: pos_ok_def)
qed

section \<open>End of the game\<close>

lemma legal_source:
  "is_move_legal G sx sy dx dy \<Longrightarrow>
     in_board sx sy \<and> in_board dx dy \<and> \<not> is_dead (board G sy sx) \<and> piece (board G sy sx) \<noteq> None
     \<and> team (board G sy sx) = side_to_move G"
  by (auto simp: is_move_legal_def Let_def split: if_splits option.splits)

text \<open>The four loops find a legal move whenever there is one.\<close>

lemma has_legal_move_iff: "has_legal_move G \<longleftrightarrow> (\<exists>sx sy dx dy. is_move_legal G sx sy dx dy)"
  unfolding has_legal_move_def list_ex_file
  using legal_source [of G] by (auto simp: Let_def in_board_def split: if_splits) blast

lemma is_checkmate_iff:
  "is_checkmate G \<longleftrightarrow> is_in_check G (side_to_move G) \<and> (\<forall>sx sy dx dy. \<not> is_move_legal G sx sy dx dy)"
  by (simp add: is_checkmate_def has_legal_move_iff)

lemma is_stalemate_iff:
  "is_stalemate G \<longleftrightarrow> \<not> is_in_check G (side_to_move G) \<and> (\<forall>sx sy dx dy. \<not> is_move_legal G sx sy dx dy)"
  by (simp add: is_stalemate_def has_legal_move_iff)

end
