(* ===== verification/Fen.thy ===== *)
theory Fen
  imports Rule_Inv
begin

text \<open>
  \<open>common/utils.c\<close>: clearing the board, parsing a FEN string, and the standard start position.

  \<open>fen_parse\<close> mutates the game and returns a truth value. The model returns the pair, or
  \<open>None\<close> where the C program has undefined behaviour: a write past the board (the placement
  field does not check the file) and an \<open>atoi\<close> whose value is no \<open>int\<close>. The copy of the
  string made by \<open>strdup\<close> is taken to succeed.
\<close>

section \<open>Characters\<close>

definition c_isdigit :: "char \<Rightarrow> bool" where
  "c_isdigit c \<longleftrightarrow> 48 \<le> code c \<and> code c \<le> 57"

definition c_isupper :: "char \<Rightarrow> bool" where
  "c_isupper c \<longleftrightarrow> 65 \<le> code c \<and> code c \<le> 90"

definition c_isalpha :: "char \<Rightarrow> bool" where
  "c_isalpha c \<longleftrightarrow> c_isupper c \<or> (97 \<le> code c \<and> code c \<le> 122)"

definition c_tolower :: "char \<Rightarrow> int" where
  "c_tolower c = (if c_isupper c then code c + 32 else code c)"

text \<open>\<open>strtok(s, " ")\<close>: the maximal runs of bytes other than the separator.\<close>

fun tokens_acc :: "string \<Rightarrow> string \<Rightarrow> string list" where
  "tokens_acc acc [] = (if acc = [] then [] else [acc])"
| "tokens_acc acc (c # cs) =
     (if c = CHR '' '' then (if acc = [] then tokens_acc [] cs else acc # tokens_acc [] cs)
      else tokens_acc (acc @ [c]) cs)"

definition c_tokens :: "string \<Rightarrow> string list" where
  "c_tokens s = tokens_acc [] s"

text \<open>\<open>atoi\<close>: white space, an optional sign and the digits that follow.\<close>

fun digits_value :: "int \<Rightarrow> string \<Rightarrow> int" where
  "digits_value acc [] = acc"
| "digits_value acc (c # cs) =
     (if c_isdigit c then digits_value (10 * acc + (code c - 48)) cs else acc)"

definition c_isspace :: "char \<Rightarrow> bool" where
  "c_isspace c \<longleftrightarrow> code c = 32 \<or> 9 \<le> code c \<and> code c \<le> 13"

definition c_atoi :: "string \<Rightarrow> int option" where
  "c_atoi s =
     (let s1 = dropWhile c_isspace s;
          v = (case s1 of
                 [] \<Rightarrow> 0
               | c # cs \<Rightarrow>
                   if c = CHR ''-'' then - digits_value 0 cs
                   else if c = CHR ''+'' then digits_value 0 cs
                   else digits_value 0 s1)
      in if - 2147483648 \<le> v \<and> v < 2147483648 then Some v else None)"

section \<open>Clearing the board\<close>

text \<open>The all-zero bytes that \<open>memset\<close> leaves.\<close>

definition zero_game :: game_t where
  "zero_game =
     \<lparr>board = (\<lambda>y x. \<lparr>piece = None, team = TEAM_WHITE, is_dead = False, has_moved = False\<rparr>),
      side_to_move = TEAM_WHITE, halfmove_clock = 0,
      white_can_castle_kingside = False, white_can_castle_queenside = False,
      black_can_castle_kingside = False, black_can_castle_queenside = False,
      en_passant_x = 0, en_passant_y = 0, is_check = False, is_checkmate_flag = False,
      is_stalemate_flag = False, fullmove_number = 0\<rparr>"

definition empty_sq :: piecestate_t where
  "empty_sq = \<lparr>piece = None, team = TEAM_WHITE, is_dead = True, has_moved = False\<rparr>"

text \<open>The two loops write every square of the board.\<close>

definition clear_board :: "game_t \<Rightarrow> game_t" where
  "clear_board G = G\<lparr>board := (\<lambda>y x. empty_sq)\<rparr>"

section \<open>Parsing\<close>

definition piece_of_letter :: "int \<Rightarrow> piece_type_t option" where
  "piece_of_letter lc =
     (if lc = 107 then Some PIECE_KING
      else if lc = 113 then Some PIECE_QUEEN
      else if lc = 114 then Some PIECE_ROOK
      else if lc = 98 then Some PIECE_BISHOP
      else if lc = 110 then Some PIECE_KNIGHT
      else if lc = 112 then Some PIECE_PAWN
      else None)"

definition new_piece :: "team_t \<Rightarrow> piece_type_t \<Rightarrow> piecestate_t" where
  "new_piece t ty =
     \<lparr>piece = Some (piece_table t ty), team = t, is_dead = False, has_moved = False\<rparr>"

text \<open>Field 0, the loop over the characters of the placement.\<close>

fun fen_place :: "game_t \<Rightarrow> int \<Rightarrow> int \<Rightarrow> string \<Rightarrow> (game_t \<times> bool) option" where
  "fen_place G x y [] = Some (G, True)"
| "fen_place G x y (c # cs) =
     (if \<not> y \<ge> 0 then Some (G, True)
      else if c = CHR ''/'' then fen_place G 0 (y - 1) cs
      else if c_isdigit c then fen_place G (x + (code c - 48)) y cs
      else
        (let t = (if c_isupper c then TEAM_WHITE else TEAM_BLACK) in
         case piece_of_letter (c_tolower c) of
           None \<Rightarrow> Some (G, False)
         | Some ty \<Rightarrow>
             if in_board x y then fen_place (set_sq G x y (new_piece t ty)) (x + 1) y cs
             else None))"

definition fen_side :: "game_t \<Rightarrow> string \<Rightarrow> game_t" where
  "fen_side G tok =
     G\<lparr>side_to_move := (if char_at tok 0 = CHR ''b'' then TEAM_BLACK else TEAM_WHITE)\<rparr>"

definition fen_castling :: "game_t \<Rightarrow> string \<Rightarrow> game_t" where
  "fen_castling G tok =
     G\<lparr>white_can_castle_kingside := List.member tok (CHR ''K''),
       white_can_castle_queenside := List.member tok (CHR ''Q''),
       black_can_castle_kingside := List.member tok (CHR ''k''),
       black_can_castle_queenside := List.member tok (CHR ''q'')\<rparr>"

definition fen_en_passant :: "game_t \<Rightarrow> string \<Rightarrow> game_t \<times> bool" where
  "fen_en_passant G tok =
     (if char_at tok 0 = CHR ''-'' then (G\<lparr>en_passant_x := - 1, en_passant_y := - 1\<rparr>, True)
      else if c_isalpha (char_at tok 0) \<and> c_isdigit (char_at tok 1) then
        (let file = c_tolower (char_at tok 0) - 97; rank = code (char_at tok 1) - 49
         in if in_board file rank then (G\<lparr>en_passant_x := file, en_passant_y := rank\<rparr>, True)
            else (G, False))
      else (G, False))"

definition fen_field :: "nat \<Rightarrow> game_t \<Rightarrow> string \<Rightarrow> (game_t \<times> bool) option" where
  "fen_field fld G tok =
     (if fld = 0 then fen_place G 0 7 tok
      else if fld = 1 then Some (fen_side G tok, True)
      else if fld = 2 then Some (fen_castling G tok, True)
      else if fld = 3 then Some (fen_en_passant G tok)
      else if fld = 4 then map_option (\<lambda>v. (G\<lparr>halfmove_clock := v\<rparr>, True)) (c_atoi tok)
      else Some (G, True))"

text \<open>The loop over the tokens, at most six, and the final \<open>fld >= 5\<close>.\<close>

fun fen_fields :: "nat \<Rightarrow> game_t \<Rightarrow> string list \<Rightarrow> (game_t \<times> bool) option" where
  "fen_fields fld G [] = Some (G, fld \<ge> 5)"
| "fen_fields fld G (tok # toks) =
     (if fld < 6 then
        (case fen_field fld G tok of
           None \<Rightarrow> None
         | Some (G', ok) \<Rightarrow> if ok then fen_fields (Suc fld) G' toks else Some (G', False))
      else Some (G, fld \<ge> 5))"

definition fen_parse :: "game_t \<Rightarrow> string \<Rightarrow> (game_t \<times> bool) option" where
  "fen_parse G fen = fen_fields 0 (clear_board G) (c_tokens fen)"

definition start_fen :: string where
  "start_fen = ''rnbqkbnr/pppppppp/8/8/8/8/PPPPPPPP/RNBQKBNR w KQkq - 0 1''"

text \<open>
  \<open>init_startpos\<close> ignores the result of the parse; \<open>fen_parse_start\<close> below shows that the
  parse of this string is defined.
\<close>

definition init_startpos :: "game_t \<Rightarrow> game_t" where
  "init_startpos G = (case fen_parse G start_fen of None \<Rightarrow> G | Some (G', _) \<Rightarrow> G')"

section \<open>The start position\<close>

definition back_rank :: "int \<Rightarrow> piece_type_t" where
  "back_rank x =
     (if x = 0 \<or> x = 7 then PIECE_ROOK else if x = 1 \<or> x = 6 then PIECE_KNIGHT
      else if x = 2 \<or> x = 5 then PIECE_BISHOP else if x = 3 then PIECE_QUEEN else PIECE_KING)"

definition start_board :: "int \<Rightarrow> int \<Rightarrow> piecestate_t" where
  "start_board y x =
     (if \<not> in_board x y then empty_sq
      else if y = 0 then new_piece TEAM_WHITE (back_rank x)
      else if y = 1 then new_piece TEAM_WHITE PIECE_PAWN
      else if y = 6 then new_piece TEAM_BLACK PIECE_PAWN
      else if y = 7 then new_piece TEAM_BLACK (back_rank x)
      else empty_sq)"

definition startpos :: "game_t \<Rightarrow> game_t" where
  "startpos G =
     G\<lparr>board := start_board, side_to_move := TEAM_WHITE, halfmove_clock := 0,
       white_can_castle_kingside := True, white_can_castle_queenside := True,
       black_can_castle_kingside := True, black_can_castle_queenside := True,
       en_passant_x := - 1, en_passant_y := - 1\<rparr>"

lemmas char_simps = c_isdigit_def c_isspace_def c_isupper_def c_isalpha_def c_tolower_def code_def
  piece_of_letter_def char_at_def

lemma start_tokens:
  "c_tokens start_fen =
     [''rnbqkbnr/pppppppp/8/8/8/8/PPPPPPPP/RNBQKBNR'', ''w'', ''KQkq'', ''-'', ''0'', ''1'']"
  by (simp add: c_tokens_def start_fen_def)

lemma file_cases:
  assumes "0 \<le> k" "k < (8::int)"
  obtains "k = 0" | "k = 1" | "k = 2" | "k = 3" | "k = 4" | "k = 5" | "k = 6" | "k = 7"
  using assms by force

text \<open>One rank of the placement at a time.\<close>

definition rank_row :: "team_t \<Rightarrow> (int \<Rightarrow> piece_type_t) \<Rightarrow> int \<Rightarrow> piecestate_t" where
  "rank_row t f x = (if 0 \<le> x \<and> x < 8 then new_piece t (f x) else empty_sq)"

lemma rank_row_upd:
  "rank_row t f =
     (\<lambda>x. empty_sq)(0 := new_piece t (f 0), 1 := new_piece t (f 1), 2 := new_piece t (f 2),
        3 := new_piece t (f 3), 4 := new_piece t (f 4), 5 := new_piece t (f 5),
        6 := new_piece t (f 6), 7 := new_piece t (f 7))"
proof
  fix x
  show "rank_row t f x =
     ((\<lambda>x. empty_sq)(0 := new_piece t (f 0), 1 := new_piece t (f 1), 2 := new_piece t (f 2),
        3 := new_piece t (f 3), 4 := new_piece t (f 4), 5 := new_piece t (f 5),
        6 := new_piece t (f 6), 7 := new_piece t (f 7))) x"
  proof (cases "0 \<le> x \<and> x < 8")
    case True
    then have "0 \<le> x" "x < 8" by auto
    then show ?thesis by (cases x rule: file_cases) (simp_all add: rank_row_def)
  next
    case False
    then show ?thesis by (auto simp: rank_row_def)
  qed
qed

lemma start_board_upd:
  "start_board = (\<lambda>y x. empty_sq)
     (7 := rank_row TEAM_BLACK back_rank, 6 := rank_row TEAM_BLACK (\<lambda>x. PIECE_PAWN),
      1 := rank_row TEAM_WHITE (\<lambda>x. PIECE_PAWN), 0 := rank_row TEAM_WHITE back_rank)"
  by (auto simp: start_board_def rank_row_def in_board_def fun_eq_iff)

lemma start_placement_eq:
  "fen_place (clear_board G) 0 7 ''rnbqkbnr/pppppppp/8/8/8/8/PPPPPPPP/RNBQKBNR'' =
     Some (G\<lparr>board := start_board\<rparr>, True)"
  by (simp add: char_simps set_sq_def clear_board_def in_board_def start_board_upd rank_row_upd
      back_rank_def)

lemma fen_parse_start: "fen_parse G start_fen = Some (startpos G, True)"
  by (simp add: fen_parse_def start_tokens fen_field_def start_placement_eq fen_side_def
      fen_castling_def fen_en_passant_def c_atoi_def char_simps startpos_def del: fen_place.simps)

lemma init_startpos_eq: "init_startpos G = startpos G"
  by (simp add: init_startpos_def fen_parse_start)

section \<open>The start position satisfies the invariant of the rules\<close>

lemma sq_wf_new [simp]: "sq_wf (new_piece t ty)" "sq_wf empty_sq"
  by (auto simp: sq_wf_def new_piece_def empty_sq_def)

lemma new_piece_fields [simp]:
  "piece (new_piece t ty) = Some (piece_table t ty)" "team (new_piece t ty) = t"
  "is_dead (new_piece t ty) = False" "has_moved (new_piece t ty) = False"
  "piece empty_sq = None" "is_dead empty_sq = True"
  by (simp_all add: new_piece_def empty_sq_def)

lemma startpos_fields [simp]:
  "board (startpos G) = start_board" "side_to_move (startpos G) = TEAM_WHITE"
  "halfmove_clock (startpos G) = 0" "en_passant_x (startpos G) = - 1"
  "en_passant_y (startpos G) = - 1"
  by (simp_all add: startpos_def)

lemma start_occupied:
  "occupied (startpos G) t ty x y \<longleftrightarrow>
     in_board x y \<and> (if t = TEAM_WHITE then y = 0 \<and> ty = back_rank x \<or> y = 1 \<and> ty = PIECE_PAWN
                     else y = 7 \<and> ty = back_rank x \<or> y = 6 \<and> ty = PIECE_PAWN)"
  by (cases t) (auto simp: occupied_def start_board_def piece_table_inj simp del: piece_table.simps)

lemma back_rank_king: "0 \<le> x \<Longrightarrow> x < 8 \<Longrightarrow> back_rank x = PIECE_KING \<longleftrightarrow> x = 4"
  by (auto simp: back_rank_def)

lemma back_rank_pawn: "back_rank x \<noteq> PIECE_PAWN"
  by (simp add: back_rank_def)

lemma start_kings:
  "occupied (startpos G) t PIECE_KING x y \<longleftrightarrow> x = 4 \<and> y = (if t = TEAM_WHITE then 0 else 7)"
  by (auto simp: start_occupied back_rank_king in_board_def eq_commute [of PIECE_KING])

lemma start_pawns: "pawns_ok (startpos G)"
  using back_rank_pawn
  by (auto simp: pawns_ok_def start_occupied home_rank_def in_board_def
      split: if_splits team_t.splits) metis+

lemma start_no_attack:
  assumes "occupied (startpos G) TEAM_WHITE ty i j"
  shows "\<not> attacks (startpos G) TEAM_WHITE ty i j 4 7"
proof
  assume a: "attacks (startpos G) TEAM_WHITE ty i j 4 7"
  from assms have ij: "0 \<le> i" "i < 8" and "j = 0 \<and> ty = back_rank i \<or> j = 1 \<and> ty = PIECE_PAWN"
    by (auto simp: start_occupied in_board_def)
  with a have j: "j = 0" by (auto simp: attacks_def pawn_attacks_def pawn_dir_def)
  have "clear_path (startpos G) i j 4 7"
    using a j by (cases ty) (auto simp: attacks_def knight_jump_def king_step_def pawn_attacks_def
        pawn_dir_def
        split: if_splits)
  then have "is_dead (start_board 1 (i + sgn (4 - i)))"
    using j unfolding clear_path_def distance_def by (auto dest!: spec [of _ 1])
  moreover have "in_board (i + sgn (4 - i)) 1" using ij by (auto simp: in_board_def sgn_if)
  ultimately show False by (simp add: start_board_def)
qed

lemma startpos_ok: "pos_ok (startpos G)"
proof -
  have wf: "board_wf (startpos G)" by (simp add: board_wf_def start_board_def)
  have one: "one_king (startpos G) t" for t unfolding one_king_def start_kings by blast
  have "\<not> is_in_check (startpos G) TEAM_BLACK"
    using is_in_check_iff [OF wf one, of TEAM_BLACK 4 7] start_no_attack
    by (auto simp: start_kings)
  with wf one start_pawns show ?thesis by (simp add: pos_ok_def ep_ok_def)
qed
text \<open>A concrete legal move, by evaluation.\<close>

lemma e4_legal: "is_move_legal (startpos zero_game) 4 1 4 3"
  unfolding init_startpos_eq [symmetric] by code_simp

end
