(* ===== verification/Protocol.thy ===== *)
theory Protocol
  imports Fen
begin

text \<open>
  The messages of \<open>message.proto\<close> (as the generated \<open>message.pb-c.h\<close> declares them), the
  conversions of \<open>common/protocol_utils.c\<close>, and the square names of the protocol with the three
  copies of their parser: \<open>server/handlers/move.c\<close>, \<open>client/handlers/move.c\<close> and
  \<open>client/client_network.c\<close>.

  A string field is never NULL after unpacking (the default is the empty string). A submessage
  whose pointer a handler tests for NULL is an option. The fields that no code sets or reads
  (\<open>version\<close>, and the timestamps except those of a game start and of a move broadcast) are left
  out. A timestamp is its seconds.
\<close>

section \<open>Enumerations\<close>

datatype Team = TEAM__TEAM_UNSPECIFIED | TEAM__TEAM_WHITE | TEAM__TEAM_BLACK

datatype PieceType =
  PIECE_TYPE__PT_NONE | PIECE_TYPE__PT_PAWN | PIECE_TYPE__PT_KNIGHT | PIECE_TYPE__PT_BISHOP
| PIECE_TYPE__PT_ROOK | PIECE_TYPE__PT_QUEEN | PIECE_TYPE__PT_KING

datatype GameEndType =
  GAME_END_UNKNOWN | GAME_END_RESIGN | GAME_END_DISCONNECT | GAME_END_CHECKMATE
| GAME_END_STALEMATE | GAME_END_DRAW | GAME_END_TIMEOUT

section \<open>Client messages\<close>

record MatchGameRequest =
  mgq_player_id :: string
  mgq_desired_game_id :: string

record MoveRequest =
  mvq_from :: string
  mvq_to :: string

datatype ClientMessage =
  CM_PING string
| CM_ECHO string
| CM_MATCH_GAME "MatchGameRequest option"
| CM_CANCEL_MATCH "string option"
| CM_MOVE "MoveRequest option"
| CM_RESIGN "string option"
| CM_CHAT string
| CM_NOT_SET

section \<open>Server messages\<close>

record MatchGameResponse =
  mgr_game_id :: string
  mgr_success :: bool
  mgr_message :: string
  mgr_assigned_team :: Team
  mgr_opponent_name :: string
  mgr_time_limit_per_player :: int
  mgr_game_start_time :: "int option"
  mgr_white_time_remaining :: int
  mgr_black_time_remaining :: int

record CancelMatchResponse =
  cmr_player_id :: string
  cmr_success :: bool
  cmr_message :: string

record MoveResponse =
  mvr_game_id :: string
  mvr_player_id :: string
  mvr_success :: bool
  mvr_message :: string
  mvr_updated_fen :: string

record MoveBroadcast =
  mvb_game_id :: string
  mvb_player_id :: string
  mvb_from :: string
  mvb_to :: string
  mvb_promotion :: PieceType
  mvb_game_ends :: bool
  mvb_winner_team :: Team
  mvb_end_type :: GameEndType
  mvb_is_check :: bool
  mvb_checked_team :: Team
  mvb_white_time_remaining :: int
  mvb_black_time_remaining :: int
  mvb_move_timestamp :: "int option"

record CheckBroadcast =
  ckb_game_id :: string
  ckb_player_id :: string
  ckb_by_team :: Team

record GameEndBroadcast =
  geb_game_id :: string
  geb_player_id :: string
  geb_winner_team :: Team
  geb_end_type :: GameEndType

record ChatBroadcast =
  chb_player_id :: string
  chb_message :: string

record ResignResponse =
  rsr_game_id :: string
  rsr_player_id :: string
  rsr_success :: bool
  rsr_message :: string

record ResignBroadcast =
  rsb_game_id :: string
  rsb_player_id :: string
  rsb_winner_team :: Team

record ErrorResponse =
  err_code :: int
  err_message :: string

datatype ServerMessage =
  SM_PING_RES string
| SM_ECHO_RES string
| SM_MATCH_GAME_RES MatchGameResponse
| SM_CANCEL_MATCH_RES CancelMatchResponse
| SM_MOVE_RES MoveResponse
| SM_MOVE_BROADCAST MoveBroadcast
| SM_CHECK_BROADCAST CheckBroadcast
| SM_GAME_END GameEndBroadcast
| SM_CHAT_BROADCAST ChatBroadcast
| SM_RESIGN_RES ResignResponse
| SM_RESIGN_BROADCAST ResignBroadcast
| SM_ERROR ErrorResponse
| SM_NOT_SET

section \<open>Conversions\<close>

fun team_to_proto :: "team_t \<Rightarrow> Team" where
  "team_to_proto TEAM_WHITE = TEAM__TEAM_WHITE"
| "team_to_proto TEAM_BLACK = TEAM__TEAM_BLACK"

fun proto_to_team :: "Team \<Rightarrow> team_t" where
  "proto_to_team TEAM__TEAM_WHITE = TEAM_WHITE"
| "proto_to_team TEAM__TEAM_BLACK = TEAM_BLACK"
| "proto_to_team TEAM__TEAM_UNSPECIFIED = TEAM_WHITE"

fun piece_type_to_proto :: "piece_type_t \<Rightarrow> PieceType" where
  "piece_type_to_proto PIECE_PAWN = PIECE_TYPE__PT_PAWN"
| "piece_type_to_proto PIECE_KNIGHT = PIECE_TYPE__PT_KNIGHT"
| "piece_type_to_proto PIECE_BISHOP = PIECE_TYPE__PT_BISHOP"
| "piece_type_to_proto PIECE_ROOK = PIECE_TYPE__PT_ROOK"
| "piece_type_to_proto PIECE_QUEEN = PIECE_TYPE__PT_QUEEN"
| "piece_type_to_proto PIECE_KING = PIECE_TYPE__PT_KING"

fun proto_to_piece_type :: "PieceType \<Rightarrow> piece_type_t" where
  "proto_to_piece_type PIECE_TYPE__PT_PAWN = PIECE_PAWN"
| "proto_to_piece_type PIECE_TYPE__PT_KNIGHT = PIECE_KNIGHT"
| "proto_to_piece_type PIECE_TYPE__PT_BISHOP = PIECE_BISHOP"
| "proto_to_piece_type PIECE_TYPE__PT_ROOK = PIECE_ROOK"
| "proto_to_piece_type PIECE_TYPE__PT_QUEEN = PIECE_QUEEN"
| "proto_to_piece_type PIECE_TYPE__PT_KING = PIECE_KING"
| "proto_to_piece_type PIECE_TYPE__PT_NONE = PIECE_PAWN"

section \<open>Square names\<close>

definition parse_chess_coordinate :: "string \<Rightarrow> (int \<times> int) option" where
  "parse_chess_coordinate coord =
     (if length coord \<noteq> 2 then None
      else
        (let file = code (char_at coord 0); rank = code (char_at coord 1) in
         if file < 97 \<or> file > 104 \<or> rank < 49 \<or> rank > 56 then None
         else Some (file - 97, rank - 49)))"

definition c_char :: "int \<Rightarrow> char" where
  "c_char n = char_of (nat (n mod 256))"

text \<open>The three bytes written are the two characters and the NUL.\<close>

definition format_chess_coordinate :: "int \<Rightarrow> int \<Rightarrow> string" where
  "format_chess_coordinate x y = [c_char (97 + x), c_char (49 + y)]"

definition parse_chess_coordinate_client :: "string \<Rightarrow> (int \<times> int) option" where
  "parse_chess_coordinate_client coord =
     (if length coord \<noteq> 2 then None
      else
        (let file = code (char_at coord 0); rank = code (char_at coord 1) in
         if file < 97 \<or> file > 104 \<or> rank < 49 \<or> rank > 56 then None
         else Some (file - 97, rank - 49)))"

definition format_chess_coordinate_client :: "int \<Rightarrow> int \<Rightarrow> string" where
  "format_chess_coordinate_client x y = [c_char (97 + x), c_char (49 + y)]"

definition parse_chess_coordinate_network :: "string \<Rightarrow> (int \<times> int) option" where
  "parse_chess_coordinate_network coord =
     (if length coord \<noteq> 2 then None
      else
        (let file = code (char_at coord 0); rank = code (char_at coord 1) in
         if file < 97 \<or> file > 104 \<or> rank < 49 \<or> rank > 56 then None
         else Some (file - 97, rank - 49)))"

text \<open>
  What a parser of square names promises: it accepts exactly the names of the 64 squares, and
  gives back the square a name stands for.
\<close>

definition square_name :: "int \<Rightarrow> int \<Rightarrow> string" where
  "square_name x y = [''abcdefgh'' ! nat x, ''12345678'' ! nat y]"

locale coord_parser =
  fixes parse :: "string \<Rightarrow> (int \<times> int) option"
  assumes parse_name: "in_board x y \<Longrightarrow> parse (square_name x y) = Some (x, y)"
    and parse_sound: "parse s = Some (x, y) \<Longrightarrow> in_board x y \<and> s = square_name x y"
begin

lemma parse_iff: "parse s = Some (x, y) \<longleftrightarrow> in_board x y \<and> s = square_name x y"
  using parse_name parse_sound by blast

lemma parse_in_board: "parse s = Some (x, y) \<Longrightarrow> in_board x y"
  by (simp add: parse_iff)

lemma parse_inj: "parse s = Some p \<Longrightarrow> parse s' = Some p \<Longrightarrow> s = s'"
  by (cases p) (simp add: parse_iff)

lemma parse_fails: "parse s = None \<longleftrightarrow> (\<forall>x y. in_board x y \<longrightarrow> s \<noteq> square_name x y)"
  using parse_iff by (metis not_None_eq surj_pair)

end

locale coord_codec = coord_parser parse for parse :: "string \<Rightarrow> (int \<times> int) option" +
  fixes format :: "int \<Rightarrow> int \<Rightarrow> string"
  assumes format_name: "in_board x y \<Longrightarrow> format x y = square_name x y"
begin

lemma parse_format: "in_board x y \<Longrightarrow> parse (format x y) = Some (x, y)"
  by (simp add: format_name parse_name)

lemma format_parse: "parse s = Some (x, y) \<Longrightarrow> format x y = s"
  by (simp add: format_name parse_iff)

end

lemma file_letter:
  assumes "0 \<le> x" "x < 8"
  shows "''abcdefgh'' ! nat x = char_of (nat (97 + x))"
  using assms by (cases x rule: file_cases) (simp_all add: char_of_def bit_0)

lemma rank_digit:
  assumes "0 \<le> y" "y < 8"
  shows "''12345678'' ! nat y = char_of (nat (49 + y))"
  using assms by (cases y rule: file_cases) (simp_all add: char_of_def bit_0)

lemma square_name_codes:
  "in_board x y \<Longrightarrow> square_name x y = [char_of (nat (97 + x)), char_of (nat (49 + y))]"
  by (simp add: square_name_def file_letter rank_digit in_board_def)

lemma code_c_char: "code (c_char n) = n mod 256"
  by (simp add: code_def c_char_def)

lemma c_char_code [simp]: "c_char (code c) = c"
  using code_inj code_c_char code_range by (metis mod_pos_pos_trivial)

lemma c_char_eq: "0 \<le> n \<Longrightarrow> n < 256 \<Longrightarrow> c_char n = char_of (nat n)"
  by (simp add: c_char_def)

lemma format_chess_coordinate_name:
  "in_board x y \<Longrightarrow> format_chess_coordinate x y = square_name x y"
  by (simp add: format_chess_coordinate_def square_name_codes c_char_eq in_board_def)

lemma parse_chess_coordinate_name:
  "in_board x y \<Longrightarrow> parse_chess_coordinate (square_name x y) = Some (x, y)"
  by (simp add: format_chess_coordinate_name [symmetric] parse_chess_coordinate_def
      format_chess_coordinate_def char_at_def code_c_char in_board_def)

lemma parse_chess_coordinate_sound:
  assumes "parse_chess_coordinate s = Some (x, y)"
  shows "in_board x y \<and> s = square_name x y"
proof -
  from assms obtain a b where s: "s = [a, b]"
    by (auto simp: parse_chess_coordinate_def numeral_2_eq_2 length_Suc_conv split: if_splits)
  with assms have xy: "x = code a - 97" "y = code b - 49" and "in_board x y"
    by (auto simp: parse_chess_coordinate_def char_at_def Let_def in_board_def split: if_splits)
  then have "format_chess_coordinate x y = s" by (simp add: format_chess_coordinate_def s)
  with \<open>in_board x y\<close> show ?thesis by (simp add: format_chess_coordinate_name)
qed

lemmas coord_copies =
  parse_chess_coordinate_client_def parse_chess_coordinate_network_def
  parse_chess_coordinate_def format_chess_coordinate_client_def format_chess_coordinate_def

lemma parse_client_copy: "parse_chess_coordinate_client = parse_chess_coordinate"
  and parse_network_copy: "parse_chess_coordinate_network = parse_chess_coordinate"
  and format_client_copy: "format_chess_coordinate_client = format_chess_coordinate"
  by (simp_all add: coord_copies fun_eq_iff)

interpretation server_coord: coord_codec parse_chess_coordinate format_chess_coordinate
  by unfold_locales
    (auto simp: parse_chess_coordinate_name format_chess_coordinate_name
      dest: parse_chess_coordinate_sound)

interpretation client_coord: coord_codec parse_chess_coordinate_client format_chess_coordinate_client
  unfolding parse_client_copy format_client_copy by (rule server_coord.coord_codec_axioms)

interpretation network_coord: coord_parser parse_chess_coordinate_network
  unfolding parse_network_copy by (rule server_coord.coord_parser_axioms)

end
