(* ===== verification/Rule_Thms.thy ===== *)
theory Rule_Thms
  imports Protocol
begin

text \<open>The properties of the rule engine, the FEN parser and the protocol conversions.\<close>

section \<open>Attacks and legality\<close>

text \<open>
  C37: the walk of an attack along one direction always ends: from any square of the board and for
  every direction of the piece table, eight steps decide it, and more fuel gives the same answer.
\<close>

theorem attack_walk_ends:
  assumes "ox d \<in> {- 1, 0, 1}" "oy d \<in> {- 1, 0, 1}" "ox d \<noteq> 0 \<or> oy d \<noteq> 0" "in_board i j"
  shows "\<exists>r. ray_walk ray_fuel G x y d (i + ox d) (j + oy d) = Some r
    \<and> ray_walk (ray_fuel + n) G x y d (i + ox d) (j + oy d) = Some r"
proof -
  have "unit_offset d" using assms(1-3) by (auto simp: unit_offset_def)
  from ray_walk_enough [OF this assms(4)] show ?thesis using ray_walk_mono by blast
qed

theorem attack_walk_ends_witness:
  "\<exists>r. ray_walk ray_fuel zero_game 7 7 \<lparr>ox = 1, oy = 1\<rparr> 1 1 = Some r"
  using attack_walk_ends [of "\<lparr>ox = 1, oy = 1\<rparr>" 0 0 zero_game 7 7 5] by (auto simp: in_board_def)

text \<open>
  C28: \<open>is_square_attacked\<close> is true exactly when some living piece of that side attacks the square by
  the rules of chess: a pawn diagonally forward, a knight by its jump, a king by one step, and the
  sliding pieces along a line with nothing in between.
\<close>

theorem attack_detection_correct:
  assumes "board_wf G" "in_board x y"
  shows "is_square_attacked G x y t \<longleftrightarrow>
    (\<exists>i j ty. occupied G t ty i j \<and>
       (case ty of
          PIECE_PAWN \<Rightarrow> y - j = pawn_dir t \<and> \<bar>x - i\<bar> = 1
        | PIECE_KNIGHT \<Rightarrow> knight_jump i j x y
        | PIECE_KING \<Rightarrow> king_step i j x y
        | PIECE_ROOK \<Rightarrow> orthogonal i j x y \<and> clear_path G i j x y
        | PIECE_BISHOP \<Rightarrow> diagonal i j x y \<and> clear_path G i j x y
        | PIECE_QUEEN \<Rightarrow> (orthogonal i j x y \<or> diagonal i j x y) \<and> clear_path G i j x y))"
proof -
  have "attacks G t ty i j x y \<longleftrightarrow>
       (case ty of
          PIECE_PAWN \<Rightarrow> y - j = pawn_dir t \<and> \<bar>x - i\<bar> = 1
        | PIECE_KNIGHT \<Rightarrow> knight_jump i j x y
        | PIECE_KING \<Rightarrow> king_step i j x y
        | PIECE_ROOK \<Rightarrow> orthogonal i j x y \<and> clear_path G i j x y
        | PIECE_BISHOP \<Rightarrow> diagonal i j x y \<and> clear_path G i j x y
        | PIECE_QUEEN \<Rightarrow> (orthogonal i j x y \<or> diagonal i j x y) \<and> clear_path G i j x y)" for ty i j
    by (cases ty) (simp_all add: attacks_def pawn_attacks_def)
  then show ?thesis by (simp add: is_square_attacked_iff [OF assms])
qed

theorem attack_detection_correct_witness:
  "is_square_attacked (startpos zero_game) 4 2 TEAM_WHITE"
proof -
  have "board_wf (startpos zero_game)" using startpos_ok by (rule pos_okD)
  moreover have "occupied (startpos zero_game) TEAM_WHITE PIECE_PAWN 3 1"
    by (simp add: start_occupied in_board_def)
  ultimately show ?thesis
    using attack_detection_correct [of "startpos zero_game" 4 2 TEAM_WHITE]
    by (force simp: in_board_def pawn_dir_def)
qed

text \<open>The rules of chess, castling apart: a king that is attacked, and a move that does not leave it so.\<close>

definition king_attacked :: "game_t \<Rightarrow> team_t \<Rightarrow> bool" where
  "king_attacked G t \<longleftrightarrow>
     (\<exists>kx ky i j ty. occupied G t PIECE_KING kx ky \<and> occupied G (other_team t) ty i j
        \<and> attacks G (other_team t) ty i j kx ky)"

definition chess_move :: "game_t \<Rightarrow> int \<Rightarrow> int \<Rightarrow> int \<Rightarrow> int \<Rightarrow> bool" where
  "chess_move G sx sy dx dy \<longleftrightarrow>
     (\<exists>ty. occupied G (side_to_move G) ty sx sy \<and> in_board dx dy
        \<and> (\<forall>ty'. \<not> occupied G (side_to_move G) ty' dx dy)
        \<and> (if ty = PIECE_PAWN then pawn_moves G (side_to_move G) sx sy dx dy else reaches G ty sx sy dx dy))
     \<and> \<not> king_attacked (apply_move G sx sy dx dy) (side_to_move G)"

lemma in_check_attacked:
  assumes "board_wf G" "one_king G t"
  shows "is_in_check G t \<longleftrightarrow> king_attacked G t"
proof -
  from assms(2) obtain kx ky where k: "\<And>x y. occupied G t PIECE_KING x y \<longleftrightarrow> x = kx \<and> y = ky"
    unfolding one_king_def by blast
  with is_in_check_iff [OF assms, of kx ky] show ?thesis by (simp add: king_attacked_def)
qed

lemma legal_chess_move:
  assumes "pos_ok G"
  shows "is_move_legal G sx sy dx dy \<longleftrightarrow> chess_move G sx sy dx dy"
proof -
  let ?t = "side_to_move G" and ?G = "apply_move G sx sy dx dy"
  have own: "(\<forall>ty'. \<not> occupied G ?t ty' dx dy) \<longleftrightarrow> \<not> (\<not> is_dead (board G dy dx) \<and> team (board G dy dx) = ?t)"
    if dst: "in_board dx dy"
  proof (cases "is_dead (board G dy dx)")
    case False
    then obtain ty where "piece (board G dy dx) = Some (piece_table (team (board G dy dx)) ty)"
      using sq_wf_alive board_wfD [OF pos_okD(1) [OF assms] dst] by metis
    then have "occupied G (team (board G dy dx)) ty dx dy" using dst False by (simp add: occupied_def)
    then show ?thesis using False occupied_alive by metis
  qed (simp add: occupied_def)
  have safe: "\<not> is_in_check ?G ?t \<longleftrightarrow> \<not> king_attacked ?G ?t"
    if *: "occupied G ?t ty sx sy" "in_board dx dy" "\<forall>ty'. \<not> occupied G ?t ty' dx dy"
      "moves G ?t ty sx sy dx dy" for ty
    using in_check_attacked [OF apply_move_wf [OF pos_okD(1) [OF assms] occupied_in_board [OF *(1)] *(2)]]
      kings_after_move [OF assms *(1,2) _ *(4)] own [OF *(2)] *(3) by blast
  show ?thesis
    unfolding is_move_legal_iff [OF pos_okD(1) [OF assms]] Let_def chess_move_def moves_def [symmetric]
    using own safe by blast
qed

text \<open>
  Castling as the rules of chess have it: king and rook on their squares with the right still
  held, nothing between them, and the king neither in check nor passing or reaching an attacked square.
\<close>

definition castles :: "game_t \<Rightarrow> int \<Rightarrow> int \<Rightarrow> int \<Rightarrow> int \<Rightarrow> bool" where
  "castles G sx sy dx dy \<longleftrightarrow>
     (let t = side_to_move G; home = (if t = TEAM_WHITE then 0 else 7);
          rook = (if dx = 6 then 7 else 0);
          right = (if t = TEAM_WHITE
                   then (if dx = 6 then white_can_castle_kingside G else white_can_castle_queenside G)
                   else (if dx = 6 then black_can_castle_kingside G else black_can_castle_queenside G))
      in sx = 4 \<and> sy = home \<and> dy = home \<and> (dx = 6 \<or> dx = 2)
         \<and> occupied G t PIECE_KING sx home \<and> occupied G t PIECE_ROOK rook home \<and> right
         \<and> (\<forall>x \<in> {min 4 rook <..< max 4 rook}. is_dead (board G home x))
         \<and> (\<forall>x \<in> {min 4 dx .. max 4 dx}. \<forall>ty i j.
              \<not> (occupied G (other_team t) ty i j \<and> attacks G (other_team t) ty i j x home)))"

lemma king_moves_one:
  assumes "pos_ok G" "occupied G (side_to_move G) PIECE_KING sx sy" "1 < \<bar>dx - sx\<bar>"
  shows "\<not> is_move_legal G sx sy dx dy"
proof
  assume "is_move_legal G sx sy dx dy"
  from legalE [OF assms(1) this] obtain ty where "occupied G (side_to_move G) ty sx sy"
    "moves G (side_to_move G) ty sx sy dx dy" by metis
  with assms(2) occupied_unique have "moves G (side_to_move G) PIECE_KING sx sy dx dy" by blast
  with assms(3) show False by (simp add: moves_def king_step_def)
qed

text \<open>The start position without White's bishop and knight on the king's side.\<close>

definition open_start :: game_t where
  "open_start = kill_sq (kill_sq (startpos zero_game) 5 0) 6 0"

lemma open_fields:
  "has_moved (board open_start y x) = has_moved (start_board y x)" "halfmove_clock open_start = 0"
  "side_to_move open_start = TEAM_WHITE" "en_passant_x open_start = - 1" "en_passant_y open_start = - 1"
  by (simp_all add: open_start_def)

lemma open_occupied:
  "occupied open_start t ty x y \<longleftrightarrow> occupied (startpos zero_game) t ty x y \<and> \<not> (y = 0 \<and> (x = 5 \<or> x = 6))"
  by (auto simp: open_start_def occupied_def)

lemma open_no_attack:
  assumes "occupied open_start t ty i j" "y = (if t = TEAM_WHITE then 7 else 0)" "in_board x y"
  shows "\<not> attacks open_start t ty i j x y"
proof
  assume a: "attacks open_start t ty i j x y"
  let ?h = "if t = TEAM_WHITE then 0 else 7 :: int" and ?p = "if t = TEAM_WHITE then 1 else 6 :: int"
  from assms(1) have ij: "0 \<le> i" "i < 8" and "j = ?h \<and> ty = back_rank i \<or> j = ?p \<and> ty = PIECE_PAWN"
    by (auto simp: open_occupied start_occupied in_board_def split: if_splits)
  with a assms(2) have j: "j = ?h" by (cases t) (auto simp: attacks_def pawn_attacks_def pawn_dir_def)
  have far: "\<bar>y - j\<bar> = 7" using j assms(2) by simp
  have path: "clear_path open_start i j x y" and x: "x = i \<or> \<bar>x - i\<bar> = 7"
    using a far by (cases ty; cases t; auto simp: attacks_def knight_jump_def king_step_def pawn_attacks_def
        pawn_dir_def orthogonal_def diagonal_def)+
  then have "distance i j x y = 7" using far by (auto simp: distance_def)
  with path have "is_dead (board open_start (j + sgn (y - j)) (i + sgn (x - i)))"
    unfolding clear_path_def by (auto dest!: spec [of _ 1])
  moreover have "j + sgn (y - j) = ?p" using j assms(2) by simp
  moreover have "in_board (i + sgn (x - i)) ?p" using ij x assms(3) by (auto simp: in_board_def sgn_if)
  ultimately show False by (auto simp: open_start_def start_board_def split: if_splits)
qed

lemma open_ok: "pos_ok open_start"
proof -
  have wf: "board_wf open_start"
    using pos_okD(1) [OF startpos_ok, of zero_game]
    unfolding open_start_def by (intro kill_sq_wf) (simp_all add: in_board_def)
  have kings: "occupied open_start t PIECE_KING x y \<longleftrightarrow> x = 4 \<and> y = (if t = TEAM_WHITE then 0 else 7)" for t x y
    unfolding open_occupied start_kings by auto
  then have one: "one_king open_start t" for t unfolding one_king_def by blast
  have "\<not> is_in_check open_start TEAM_BLACK"
    using is_in_check_iff [OF wf one, of TEAM_BLACK 4 7] open_no_attack [of TEAM_WHITE _ _ _ 7 4]
    by (auto simp: kings in_board_def)
  moreover have "pawns_ok open_start"
    using start_pawns [of zero_game] by (auto simp: pawns_ok_def open_occupied open_fields)
  ultimately show ?thesis using wf one by (simp add: pos_ok_def ep_ok_def open_fields)
qed

lemma open_castles: "castles open_start 4 0 6 0"
proof -
  have turn: "side_to_move open_start = TEAM_WHITE" "white_can_castle_kingside open_start"
    by (simp_all add: open_start_def startpos_def)
  have "occupied open_start TEAM_WHITE PIECE_KING 4 0" "occupied open_start TEAM_WHITE PIECE_ROOK 7 0"
    by (simp_all add: open_occupied start_occupied in_board_def back_rank_def)
  moreover have "is_dead (board open_start 0 x)" if "x \<in> {4 <..< 7}" for x
  proof -
    have "x = 5 \<or> x = 6" using that by auto
    then show ?thesis by (auto simp: open_start_def)
  qed
  moreover have "\<not> (occupied open_start TEAM_BLACK ty i j \<and> attacks open_start TEAM_BLACK ty i j x 0)"
    if "x \<in> {4 .. 6}" for x ty i j
    using that open_no_attack [of TEAM_BLACK ty i j 0 x] by (auto simp: in_board_def)
  ultimately show ?thesis unfolding castles_def Let_def turn by (simp add: turn)
qed

text \<open>
  C1: in a sound position \<open>is_move_legal\<close> accepts exactly the legal moves of chess other than
  castling: the moves of a piece of the side to move, by the movement of that piece, to a square on the
  board without an own piece, after which no enemy piece attacks the own king. Castling is never
  accepted, also where the rules of chess allow it, though the README promises it and \<open>is_move_legal\<close>
  and \<open>apply_move\<close> have code for it.
\<close>

theorem legal_moves_characterised:
  assumes "pos_ok G"
  shows "(is_move_legal G sx sy dx dy \<longleftrightarrow>
    (\<exists>ty. occupied G (side_to_move G) ty sx sy \<and> in_board dx dy
       \<and> (\<forall>ty'. \<not> occupied G (side_to_move G) ty' dx dy)
       \<and> (if ty = PIECE_PAWN then pawn_moves G (side_to_move G) sx sy dx dy else reaches G ty sx sy dx dy)
       \<and> (let G' = apply_move G sx sy dx dy; t = side_to_move G in
          \<not> (\<exists>kx ky i j ty'. occupied G' t PIECE_KING kx ky \<and> occupied G' (other_team t) ty' i j
               \<and> attacks G' (other_team t) ty' i j kx ky))))
    \<and> (castles G sx sy dx dy \<longrightarrow> \<not> is_move_legal G sx sy dx dy)"
proof -
  have "\<not> is_move_legal G sx sy dx dy" if "castles G sx sy dx dy"
    using that by (intro king_moves_one [OF assms]) (auto simp: castles_def Let_def)
  then show ?thesis
    unfolding legal_chess_move [OF assms] chess_move_def king_attacked_def Let_def by blast
qed

theorem legal_moves_characterised_witness:
  "\<not> is_move_legal (startpos zero_game) 4 3 4 4
    \<and> pos_ok open_start \<and> castles open_start 4 0 6 0 \<and> \<not> is_move_legal open_start 4 0 6 0"
proof -
  have "\<not> is_move_legal (startpos zero_game) 4 3 4 4"
    using legal_moves_characterised [OF startpos_ok, of zero_game 4 3 4 4] by (simp add: start_occupied)
  then show ?thesis using legal_moves_characterised [OF open_ok, of 4 0 6 0] open_ok open_castles by blast
qed

section \<open>Effect of a move\<close>

text \<open>
  C21: a legal move changes the board in one way: the piece (a queen for a pawn that reaches the last
  rank) is on its new square, its old square is empty, a pawn taken en passant is gone, and every
  other square is as before; the turn passes to the other side, and the fifty-move counter restarts
  after a pawn move or a capture.
\<close>

theorem legal_move_effect:
  assumes "pos_ok G" "is_move_legal G sx sy dx dy" "occupied G (side_to_move G) ty sx sy"
  shows "(\<forall>t' ty' a b. occupied (apply_move G sx sy dx dy) t' ty' a b \<longleftrightarrow>
      (if a = dx \<and> b = dy then t' = side_to_move G \<and> ty' = promoted_type ty dy
       else \<not> (a = sx \<and> b = sy)
          \<and> \<not> (ty = PIECE_PAWN \<and> dx = en_passant_x G \<and> dy = en_passant_y G \<and> a = dx \<and> b = sy)
          \<and> occupied G t' ty' a b))
    \<and> side_to_move (apply_move G sx sy dx dy) = other_team (side_to_move G)
    \<and> halfmove_clock (apply_move G sx sy dx dy) =
        (if ty = PIECE_PAWN \<or> \<not> is_dead (board G dy dx) then 0 else halfmove_clock G + 1)"
proof -
  obtain ty' where ty': "occupied G (side_to_move G) ty' sx sy" "in_board dx dy"
    "moves G (side_to_move G) ty' sx sy dx dy"
    using legalE [OF assms(1,2)] by metis
  then have "ty' = ty" using occupied_unique [OF assms(3)] by blast
  with legal_plain_move [OF assms(1) ty'] have pm: "plain_move G (side_to_move G) ty sx sy dx dy" by simp
  note m = plain_move_facts [OF pm]
  show ?thesis
    using apply_move_side [of G sy sx dx dy] apply_move_halfmove [OF m(1), of dx dy] m(1)
    unfolding occupied_apply_move [OF pm] by (auto simp: ep_capture_def)
qed

theorem legal_move_effect_witness:
  "occupied (apply_move (startpos zero_game) 4 1 4 3) TEAM_WHITE PIECE_PAWN 4 3
     \<and> \<not> occupied (apply_move (startpos zero_game) 4 1 4 3) TEAM_WHITE PIECE_PAWN 4 1"
proof -
  have "occupied (startpos zero_game) (side_to_move (startpos zero_game)) PIECE_PAWN 4 1"
    by (simp add: start_occupied in_board_def)
  from legal_move_effect [OF startpos_ok e4_legal this] show ?thesis by (simp add: promoted_type_def)
qed

text \<open>A sequence of moves, each checked for legality.\<close>

fun play :: "game_t \<Rightarrow> (int \<times> int \<times> int \<times> int) list \<Rightarrow> game_t option" where
  "play G [] = Some G"
| "play G ((sx, sy, dx, dy) # ms) =
     (if is_move_legal G sx sy dx dy then play (apply_move G sx sy dx dy) ms else None)"

text \<open>
  C7: every position reached from the start position by legal moves is sound: one king each, the side
  that has moved is not in check, pawns on ranks 2 to 7, the en passant target consistent; and no
  move of it captures a king.
\<close>

theorem play_sound:
  assumes "play (init_startpos G0) ms = Some G"
  shows "pos_ok G \<and> (\<forall>sx sy dx dy. is_move_legal G sx sy dx dy \<longrightarrow>
    \<not> occupied G (other_team (side_to_move G)) PIECE_KING dx dy)"
proof -
  have ok: "play H ms = Some G \<Longrightarrow> pos_ok H \<Longrightarrow> pos_ok G" for H
    by (induction H ms rule: play.induct) (auto split: if_splits intro: legal_move_pos_ok)
  then have "pos_ok G" using assms startpos_ok init_startpos_eq by metis
  then show ?thesis using no_king_capture legalE by metis
qed

theorem play_sound_witness:
  "\<exists>G. play (init_startpos zero_game) [(4, 1, 4, 3)] = Some G \<and> pos_ok G"
proof -
  have "play (init_startpos zero_game) [(4, 1, 4, 3)] = Some (apply_move (startpos zero_game) 4 1 4 3)"
    using e4_legal by (simp add: init_startpos_eq)
  from play_sound [OF this] this show ?thesis by blast
qed

section \<open>End of the game\<close>

text \<open>
  C34: \<open>is_checkmate\<close> and \<open>is_stalemate\<close> are right: the side to move is mated exactly when its king
  is attacked and it has no legal move, stalemated exactly when it has none and is not attacked; so
  a position is never both, and one of them holds exactly when no legal move exists.
\<close>

theorem mate_and_stalemate:
  assumes "pos_ok G" "occupied G (side_to_move G) PIECE_KING kx ky"
  shows "(is_checkmate G \<longleftrightarrow> is_square_attacked G kx ky (other_team (side_to_move G))
            \<and> \<not> (\<exists>sx sy dx dy. is_move_legal G sx sy dx dy))
    \<and> (is_stalemate G \<longleftrightarrow> \<not> is_square_attacked G kx ky (other_team (side_to_move G))
            \<and> \<not> (\<exists>sx sy dx dy. is_move_legal G sx sy dx dy))
    \<and> \<not> (is_checkmate G \<and> is_stalemate G)
    \<and> (is_checkmate G \<or> is_stalemate G \<longleftrightarrow> \<not> has_legal_move G)"
proof -
  have "is_in_check G (side_to_move G) \<longleftrightarrow> is_square_attacked G kx ky (other_team (side_to_move G))"
    using find_king_unique [OF pos_okD(1) [OF assms(1)] pos_okD(2) [OF assms(1)] assms(2)]
    by (simp add: is_in_check_def)
  then show ?thesis by (auto simp: is_checkmate_iff is_stalemate_iff has_legal_move_iff)
qed

theorem mate_and_stalemate_witness:
  "\<not> is_checkmate (startpos zero_game) \<and> \<not> is_stalemate (startpos zero_game)"
proof -
  have "occupied (startpos zero_game) (side_to_move (startpos zero_game)) PIECE_KING 4 0"
    by (simp add: start_kings)
  from mate_and_stalemate [OF startpos_ok this] e4_legal show ?thesis by blast
qed

section \<open>FEN\<close>

text \<open>
  \<open>init_startpos\<close>, from any previous content of the game, sets up the standard start position:
  the parse of the literal succeeds and places the 32 pieces, White to move, all castling rights, no
  en passant target and a counter of zero; the position is sound.
\<close>

theorem start_position_correct:
  "fen_parse G start_fen = Some (init_startpos G, True)
   \<and> (\<forall>t ty x y. occupied (init_startpos G) t ty x y \<longleftrightarrow>
        in_board x y \<and> (if t = TEAM_WHITE then y = 0 \<and> ty = back_rank x \<or> y = 1 \<and> ty = PIECE_PAWN
                         else y = 7 \<and> ty = back_rank x \<or> y = 6 \<and> ty = PIECE_PAWN))
   \<and> side_to_move (init_startpos G) = TEAM_WHITE \<and> halfmove_clock (init_startpos G) = 0
   \<and> en_passant_x (init_startpos G) = - 1 \<and> pos_ok (init_startpos G)"
  using start_occupied startpos_ok by (simp add: fen_parse_start init_startpos_eq)

lemma fen_fields_count: "fen_fields k G toks = Some (G', True) \<Longrightarrow> 5 \<le> k + length toks"
proof (induction k G toks rule: fen_fields.induct)
  case (2 fld G tok toks)
  then show ?case by (auto split: if_splits option.splits)
qed auto

text \<open>
  The file that the placement loop has reached, from the file \<open>x\<close> on: a slash goes back to the first
  one, a digit skips squares, a letter takes one.
\<close>

fun fen_file :: "int \<Rightarrow> string \<Rightarrow> int" where
  "fen_file x [] = x"
| "fen_file x (c # cs) =
     fen_file (if c = CHR ''/'' then 0 else if c_isdigit c then x + (code c - 48) else x + 1) cs"

definition fen_letter :: "char \<Rightarrow> bool" where
  "fen_letter c \<longleftrightarrow> c \<noteq> CHR ''/'' \<and> \<not> c_isdigit c \<and> piece_of_letter (c_tolower c) \<noteq> None"

text \<open>
  Somewhere in the first eight ranks of a placement, after nothing but slashes, digits and letters of
  pieces, there is a letter for a square beyond the last file.
\<close>

definition overruns :: "int \<Rightarrow> int \<Rightarrow> string \<Rightarrow> bool" where
  "overruns x ranks tok \<longleftrightarrow>
     (\<exists>before p after. tok = before @ p # after \<and> fen_letter p
        \<and> (\<forall>c \<in> set before. c = CHR ''/'' \<or> c_isdigit c \<or> fen_letter c)
        \<and> int (length (filter (\<lambda>c. c = CHR ''/'') before)) < ranks \<and> 8 \<le> fen_file x before)"

lemma overruns_Nil: "\<not> overruns x ranks []"
  by (simp add: overruns_def)

lemma overruns_Cons:
  "overruns x ranks (c # cs) \<longleftrightarrow>
     fen_letter c \<and> 0 < ranks \<and> 8 \<le> x
     \<or> (c = CHR ''/'' \<or> c_isdigit c \<or> fen_letter c)
       \<and> overruns (fen_file x [c]) (if c = CHR ''/'' then ranks - 1 else ranks) cs"
  (is "?l \<longleftrightarrow> ?first \<or> ?later")
proof
  assume ?l
  then obtain before p after where *: "c # cs = before @ p # after" "fen_letter p"
    "\<forall>c \<in> set before. c = CHR ''/'' \<or> c_isdigit c \<or> fen_letter c"
    "int (length (filter (\<lambda>c. c = CHR ''/'') before)) < ranks" "8 \<le> fen_file x before"
    by (auto simp: overruns_def)
  show "?first \<or> ?later"
  proof (cases before)
    case Nil
    with * show ?thesis by simp
  next
    case (Cons d ds)
    then have cs: "c = d" "cs = ds @ p # after" using *(1) by simp_all
    have "8 \<le> fen_file (fen_file x [c]) ds" using *(5) Cons cs(1) by simp
    moreover have "int (length (filter (\<lambda>c. c = CHR ''/'') ds)) < (if c = CHR ''/'' then ranks - 1 else ranks)"
      using *(4) Cons cs(1) by (cases "c = CHR ''/''") simp_all
    moreover have "\<forall>c \<in> set ds. c = CHR ''/'' \<or> c_isdigit c \<or> fen_letter c"
      "c = CHR ''/'' \<or> c_isdigit c \<or> fen_letter c" using *(3) Cons cs(1) by simp_all
    ultimately show ?thesis using *(2) cs(2) unfolding overruns_def by blast
  qed
next
  assume "?first \<or> ?later"
  then show ?l
  proof
    assume ?first
    then show ?l unfolding overruns_def by (intro exI [of _ "[]"] exI [of _ c] exI [of _ cs]) simp
  next
    assume l: ?later
    then obtain before p after where *: "cs = before @ p # after" "fen_letter p"
      "\<forall>c \<in> set before. c = CHR ''/'' \<or> c_isdigit c \<or> fen_letter c"
      "int (length (filter (\<lambda>c. c = CHR ''/'') before)) < (if c = CHR ''/'' then ranks - 1 else ranks)"
      "8 \<le> fen_file (fen_file x [c]) before" by (auto simp: overruns_def)
    have "c # cs = (c # before) @ p # after" "8 \<le> fen_file x (c # before)" using *(1,5) by simp_all
    moreover have "int (length (filter (\<lambda>c. c = CHR ''/'') (c # before))) < ranks"
      using *(4) by (cases "c = CHR ''/''") simp_all
    moreover have "\<forall>a \<in> set (c # before). a = CHR ''/'' \<or> c_isdigit a \<or> fen_letter a" using l *(3) by simp
    ultimately show ?l using *(2) unfolding overruns_def by blast
  qed
qed

lemma overruns_no_rank: "ranks \<le> 0 \<Longrightarrow> \<not> overruns x ranks cs"
  by (auto simp: overruns_def)

lemma fen_place_overruns:
  "0 \<le> x \<Longrightarrow> y \<le> 7 \<Longrightarrow> fen_place G x y cs = None \<longleftrightarrow> overruns x (y + 1) cs"
proof (induction G x y cs rule: fen_place.induct)
  case (1 G x y)
  then show ?case by (simp add: overruns_Nil)
next
  case (2 G x y c cs)
  show ?case
  proof (cases "0 \<le> y")
    case False
    then show ?thesis by (simp add: overruns_no_rank)
  next
    case True
    have digit: "0 \<le> code c - 48" if "c_isdigit c" using that by (simp add: c_isdigit_def)
    show ?thesis
      using True 2 digit
      by (auto simp: overruns_Cons fen_letter_def in_board_def Let_def split: option.split)
  qed
qed

text \<open>
  C40: what the FEN parser does with a string it should refuse. It accepts only with at least five
  fields; but the placement field is read without a check of the file: the parser writes past the
  board exactly if, in the first eight ranks and before any character it refuses, a piece stands
  beyond the eighth file, as in any rank with nine pieces.
\<close>

theorem fen_limits:
  assumes "c_tokens s = tok # toks"
  shows "\<not> (\<exists>G'. fen_parse G s = Some (G', True) \<and> length (c_tokens s) < 5)
    \<and> (fen_field 0 (clear_board G) tok = None \<longleftrightarrow> overruns 0 8 tok)
    \<and> (overruns 0 8 tok \<longrightarrow> fen_parse G s = None)"
proof -
  have "fen_field 0 (clear_board G) tok = None \<longleftrightarrow> overruns 0 8 tok"
    by (simp add: fen_field_def fen_place_overruns)
  then show ?thesis
    using fen_fields_count [of 0 "clear_board G" "c_tokens s"] assms by (auto simp: fen_parse_def)
qed

theorem fen_limits_witness: "fen_parse zero_game ''4p4p w - - 0 1'' = None"
proof -
  have "c_tokens ''4p4p w - - 0 1'' = ''4p4p'' # [''w'', ''-'', ''-'', ''0'', ''1'']" by (simp add: c_tokens_def)
  moreover have "overruns 0 8 ''4p4p''"
    by (simp add: overruns_Cons fen_letter_def char_simps)
  ultimately show ?thesis using fen_limits by blast
qed

section \<open>Protocol\<close>

text \<open>
  Square names: each of the three copies of the parser accepts exactly the 64 names a1 to h8 and
  agrees with the others, and formatting a square and parsing the name gives the square back.
\<close>

theorem coordinates_roundtrip:
  "(in_board x y \<and> s = format_chess_coordinate x y \<longleftrightarrow> parse_chess_coordinate s = Some (x, y))
   \<and> parse_chess_coordinate_client s = parse_chess_coordinate s
   \<and> parse_chess_coordinate_network s = parse_chess_coordinate s
   \<and> format_chess_coordinate_client x y = format_chess_coordinate x y"
  using server_coord.parse_iff [of s x y] server_coord.format_name [of x y]
  by (auto simp: parse_client_copy parse_network_copy format_client_copy)

text \<open>
  The conversions between internal and protocol enumerations are inverse to each other: no team
  or piece type changes on the way to the peer, and only the unspecified values are lost on the way back.
\<close>

theorem protocol_conversions:
  "proto_to_team (team_to_proto t) = t
   \<and> proto_to_piece_type (piece_type_to_proto ty) = ty
   \<and> (team_to_proto (proto_to_team p) = p \<longleftrightarrow> p \<noteq> TEAM__TEAM_UNSPECIFIED)
   \<and> (piece_type_to_proto (proto_to_piece_type q) = q \<longleftrightarrow> q \<noteq> PIECE_TYPE__PT_NONE)"
  by (cases t; cases ty; cases p; cases q; simp)

end
