(* ===== verification/Same_Position.thy ===== *)
theory Same_Position
  imports Fen
begin

text \<open>
  Positions up to the fields that the rules neither read nor write: \<open>fullmove_number\<close> and the three
  flags of \<open>game_t\<close>. Server and client set them up differently (\<open>init_startpos\<close> against
  \<open>init_game\<close>), so this is the sense in which they hold the same game.
\<close>

definition set_extra :: "int \<times> bool \<times> bool \<times> bool \<Rightarrow> game_t \<Rightarrow> game_t" where
  "set_extra e G =
     (case e of (n, a, b, c) \<Rightarrow>
        G\<lparr>fullmove_number := n, is_check := a, is_checkmate_flag := b, is_stalemate_flag := c\<rparr>)"

definition extra :: "game_t \<Rightarrow> int \<times> bool \<times> bool \<times> bool" where
  "extra G = (fullmove_number G, is_check G, is_checkmate_flag G, is_stalemate_flag G)"

definition same_position :: "game_t \<Rightarrow> game_t \<Rightarrow> bool" where
  "same_position G H \<longleftrightarrow> (\<exists>e. H = set_extra e G)"

named_theorems extra_simps "operations commute with changes of the extra fields"

lemma set_extra_fields [extra_simps]:
  "board (set_extra e G) = board G" "side_to_move (set_extra e G) = side_to_move G"
  "halfmove_clock (set_extra e G) = halfmove_clock G"
  "en_passant_x (set_extra e G) = en_passant_x G" "en_passant_y (set_extra e G) = en_passant_y G"
  "white_can_castle_kingside (set_extra e G) = white_can_castle_kingside G"
  "white_can_castle_queenside (set_extra e G) = white_can_castle_queenside G"
  "black_can_castle_kingside (set_extra e G) = black_can_castle_kingside G"
  "black_can_castle_queenside (set_extra e G) = black_can_castle_queenside G"
  by (simp_all add: set_extra_def split: prod.split)

lemma set_extra_id [simp]: "set_extra (extra G) G = G"
  by (simp add: set_extra_def extra_def)

lemma set_extra_again [simp]: "set_extra e (set_extra f G) = set_extra e G"
  by (simp add: set_extra_def split: prod.split)

lemma extra_set_extra [simp]: "extra (set_extra e G) = e"
  by (simp add: set_extra_def extra_def split: prod.split)

lemma same_position_refl: "same_position G G"
  unfolding same_position_def by (metis set_extra_id)

lemma same_position_sym: "same_position G H \<Longrightarrow> same_position H G"
  unfolding same_position_def by (metis set_extra_again set_extra_id)

lemma same_position_trans: "same_position G H \<Longrightarrow> same_position H K \<Longrightarrow> same_position G K"
  unfolding same_position_def by (metis set_extra_again)

text \<open>The same position looks the same on every square, and the same side is to move.\<close>

lemma same_position_fields:
  "same_position G H \<Longrightarrow> board G = board H \<and> side_to_move G = side_to_move H
     \<and> halfmove_clock G = halfmove_clock H
     \<and> en_passant_x G = en_passant_x H \<and> en_passant_y G = en_passant_y H"
  by (auto simp: same_position_def extra_simps)

section \<open>Applying a move\<close>

lemma set_extra_updates [extra_simps]:
  "(set_extra e G)\<lparr>board := v1\<rparr> = set_extra e (G\<lparr>board := v1\<rparr>)"
  "(set_extra e G)\<lparr>side_to_move := v2\<rparr> = set_extra e (G\<lparr>side_to_move := v2\<rparr>)"
  "(set_extra e G)\<lparr>halfmove_clock := v3\<rparr> = set_extra e (G\<lparr>halfmove_clock := v3\<rparr>)"
  "(set_extra e G)\<lparr>en_passant_x := v3\<rparr> = set_extra e (G\<lparr>en_passant_x := v3\<rparr>)"
  "(set_extra e G)\<lparr>en_passant_y := v3\<rparr> = set_extra e (G\<lparr>en_passant_y := v3\<rparr>)"
  "(set_extra e G)\<lparr>white_can_castle_kingside := v4\<rparr> = set_extra e (G\<lparr>white_can_castle_kingside := v4\<rparr>)"
  "(set_extra e G)\<lparr>white_can_castle_queenside := v4\<rparr> = set_extra e (G\<lparr>white_can_castle_queenside := v4\<rparr>)"
  "(set_extra e G)\<lparr>black_can_castle_kingside := v4\<rparr> = set_extra e (G\<lparr>black_can_castle_kingside := v4\<rparr>)"
  "(set_extra e G)\<lparr>black_can_castle_queenside := v4\<rparr> = set_extra e (G\<lparr>black_can_castle_queenside := v4\<rparr>)"
  by (simp_all add: set_extra_def split: prod.split)

lemma set_extra_writes [extra_simps]:
  "set_sq (set_extra e G) x y ps = set_extra e (set_sq G x y ps)"
  "kill_sq (set_extra e G) x y = set_extra e (kill_sq G x y)"
  by (simp_all add: kill_sq_def set_sq_def extra_simps)

lemma set_extra_stages [extra_simps]:
  "apply_clock (set_extra e G) p dx dy = set_extra e (apply_clock G p dx dy)"
  "apply_relocate (set_extra e G) sx sy dx dy = set_extra e (apply_relocate G sx sy dx dy)"
  "apply_ep_capture (set_extra e G) p sy dx dy = set_extra e (apply_ep_capture G p sy dx dy)"
  "dst_is (set_extra e G) dx dy ty = dst_is G dx dy ty"
  by (simp_all add: apply_clock_def apply_relocate_def apply_ep_capture_def dst_is_def extra_simps)

lemma set_extra_rights [extra_simps]:
  "apply_king_rights (set_extra e G) dx dy = set_extra e (apply_king_rights G dx dy)"
  "apply_rook_rights (set_extra e G) sx sy dx dy = set_extra e (apply_rook_rights G sx sy dx dy)"
  by (simp_all add: apply_king_rights_def apply_rook_rights_def Let_def extra_simps)

lemma set_extra_last [extra_simps]:
  "apply_castle_rook (set_extra e G) sx dx dy = set_extra e (apply_castle_rook G sx dx dy)"
  "apply_ep_target (set_extra e G) sy dx dy = set_extra e (apply_ep_target G sy dx dy)"
  "apply_promotion (set_extra e G) dx dy = set_extra e (apply_promotion G dx dy)"
  "apply_finish (set_extra e G) dx dy = set_extra e (apply_finish G dx dy)"
  by (simp_all add: apply_castle_rook_def Let_def apply_ep_target_def apply_promotion_def
      apply_finish_def extra_simps) blast

lemma apply_move_set_extra [extra_simps]:
  "apply_move (set_extra e G) sx sy dx dy = set_extra e (apply_move G sx sy dx dy)"
  by (simp add: apply_move_def extra_simps Let_def split: option.split)

lemma apply_move_same_position:
  "same_position G H \<Longrightarrow> same_position (apply_move G sx sy dx dy) (apply_move H sx sy dx dy)"
  unfolding same_position_def by (metis apply_move_set_extra)

text \<open>A move leaves the extra fields alone.\<close>

lemma extra_apply_move: "extra (apply_move G sx sy dx dy) = extra G"
  by (metis apply_move_set_extra extra_set_extra set_extra_id)

lemma extra_startpos: "extra (startpos G) = extra G"
  by (simp add: startpos_def extra_def)

lemma same_startpos: "same_position (startpos G) (startpos H)"
proof -
  have "startpos H = set_extra (extra H) (startpos G)"
    by (simp add: startpos_def set_extra_def extra_def)
  then show ?thesis unfolding same_position_def by blast
qed

lemma startpos_eqI: "extra G = extra H \<Longrightarrow> startpos G = startpos H"
  by (cases G; cases H) (simp add: startpos_def extra_def)

section \<open>The rules\<close>

lemma ray_walk_set_extra [extra_simps]: "ray_walk n (set_extra e G) x y d i j = ray_walk n G x y d i j"
  by (induction n G x y d i j rule: ray_walk.induct) (simp_all add: extra_simps)

lemma ray_hits_set_extra [extra_simps]: "ray_hits (set_extra e G) x y i j = ray_hits G x y i j"
  by (simp add: ray_hits_def extra_simps fun_eq_iff)

lemma attacked_set_extra [extra_simps]:
  "is_square_attacked (set_extra e G) x y t = is_square_attacked G x y t"
proof -
  have "piece_attacks (set_extra e G) i j x y u = piece_attacks G i j x y u" for i j x y u
    unfolding piece_attacks_def extra_simps ..
  then show ?thesis by (simp add: is_square_attacked_def)
qed

lemma is_in_check_set_extra [extra_simps]: "is_in_check (set_extra e G) t = is_in_check G t"
proof -
  have "find_king (set_extra e G) t = find_king G t"
    by (simp add: find_king_def is_king_of_def extra_simps)
  then show ?thesis unfolding is_in_check_def extra_simps by simp
qed

lemma leaper_set_extra [extra_simps]:
  "leaper_ok (set_extra e G) ty sx sy dx dy ds = leaper_ok G ty sx sy dx dy ds"
proof -
  have "castle_ok (set_extra e G) sx sy dx = castle_ok G sx sy dx"
    by (simp add: castle_ok_def extra_simps Let_def)
  then show ?thesis by (induction ds) simp_all
qed

lemma slider_set_extra [extra_simps]:
  "slider_ok (set_extra e G) sx sy dx dy ds = slider_ok G sx sy dx dy ds"
  by (induction ds) (simp_all add: slider_blocked_def extra_simps Let_def)

lemma is_move_legal_set_extra [extra_simps]:
  "is_move_legal (set_extra e G) sx sy dx dy = is_move_legal G sx sy dx dy"
  unfolding is_move_legal_def pseudo_legal_def pawn_ok_def extra_simps ..

text \<open>Server and client agree on every question of the rules about the same position.\<close>

lemma same_position_rules:
  assumes "same_position G H"
  shows "is_move_legal G sx sy dx dy = is_move_legal H sx sy dx dy"
    "is_in_check G t = is_in_check H t" "has_legal_move G = has_legal_move H"
    "is_checkmate G = is_checkmate H" "is_stalemate G = is_stalemate H"
proof -
  from assms obtain e where H: "H = set_extra e G" unfolding same_position_def by blast
  show "is_move_legal G sx sy dx dy = is_move_legal H sx sy dx dy"
    "is_in_check G t = is_in_check H t"
    by (simp_all add: H extra_simps)
  show "has_legal_move G = has_legal_move H" by (simp add: H has_legal_move_def extra_simps)
  then show "is_checkmate G = is_checkmate H" "is_stalemate G = is_stalemate H"
    by (simp_all add: is_checkmate_def is_stalemate_def H extra_simps)
qed

end
