(* ===== verification/Rule_Tests.thy ===== *)
theory Rule_Tests
  imports Same_Position
begin

text \<open>
  \<open>server/rule_test.c\<close>, the test program of the rules. A test is true when its assertions hold; the
  local \<open>G\<close> of a test is not initialised and an argument here. The last test asserts nothing: its
  value is what it prints.
\<close>

definition has_type :: "game_t \<Rightarrow> int \<Rightarrow> int \<Rightarrow> piece_type_t \<Rightarrow> bool" where
  "has_type G y x ty = (case piece (board G y x) of None \<Rightarrow> False | Some p \<Rightarrow> ptype p = ty)"

definition test_init_startpos :: "game_t \<Rightarrow> bool" where
  "test_init_startpos G0 =
     (let G = init_startpos G0 in
      list_all (\<lambda>x. \<not> is_dead (board G 1 x) \<and> has_type G 1 x PIECE_PAWN) [0..7]
      \<and> list_all (\<lambda>x. \<not> is_dead (board G 6 x) \<and> has_type G 6 x PIECE_PAWN) [0..7]
      \<and> has_type G 0 4 PIECE_KING
      \<and> has_type G 7 3 PIECE_QUEEN
      \<and> white_can_castle_kingside G \<and> white_can_castle_queenside G
      \<and> black_can_castle_kingside G \<and> black_can_castle_queenside G
      \<and> en_passant_x G = - 1 \<and> en_passant_y G = - 1
      \<and> halfmove_clock G = 0
      \<and> side_to_move G = TEAM_WHITE)"

definition test_fen_parser :: "game_t \<Rightarrow> bool" where
  "test_fen_parser G0 =
     (case fen_parse G0 ''8/8/8/8/8/8/8/8 b - - 17 5'' of
        None \<Rightarrow> False
      | Some (G, ok) \<Rightarrow>
          ok
          \<and> list_all (\<lambda>y. list_all (\<lambda>x. is_dead (board G y x)) [0..7]) [0..7]
          \<and> side_to_move G = TEAM_BLACK
          \<and> halfmove_clock G = 17
          \<and> (case fen_parse G ''r3k2r/8/8/8/8/8/8/R3K2R w KQkq e3 0 1'' of
               None \<Rightarrow> False
             | Some (G, ok) \<Rightarrow>
                 ok
                 \<and> has_type G 0 0 PIECE_ROOK \<and> has_type G 0 7 PIECE_ROOK
                 \<and> white_can_castle_kingside G \<and> white_can_castle_queenside G
                 \<and> en_passant_x G = 4 \<and> en_passant_y G = 2))"

text \<open>The truth values that the last test prints, from the conditions of a pawn move on.\<close>

record pawn_report =
  pr_my_turn :: bool
  pr_same_file :: bool
  pr_two_ranks :: bool
  pr_not_moved :: bool
  pr_target_free :: bool
  pr_middle_free :: bool
  pr_in_check_after :: bool
  pr_legal :: bool

definition test_pawn_move_f2_f4 :: "game_t \<Rightarrow> pawn_report" where
  "test_pawn_move_f2_f4 G0 =
     (let G = init_startpos G0;
          sx = 5; sy = 1; dx = 5; dy = 3;
          rx = dx - sx; ry = dy - sy;
          src = board G sy sx; dst = board G dy dx;
          dir = (if team src = TEAM_WHITE then 1 else - 1);
          tmp = apply_move G sx sy dx dy
      in \<lparr>pr_my_turn = (team src = side_to_move G),
          pr_same_file = (rx = 0),
          pr_two_ranks = (ry = 2 * dir),
          pr_not_moved = (\<not> has_moved src),
          pr_target_free = is_dead dst,
          pr_middle_free = is_dead (board G (sy + dir) sx),
          pr_in_check_after = is_in_check tmp (team src),
          pr_legal = is_move_legal G 5 1 5 3\<rparr>)"

lemma test_init_startpos_passes: "test_init_startpos G"
  by (simp add: test_init_startpos_def init_startpos_eq has_type_def start_board_def in_board_def back_rank_def
      startpos_def upto.simps del: piece_table.simps)

lemma test_fen_parser_passes: "test_fen_parser G"
  by (induct G) code_simp

lemma startpos_extra: "startpos G = set_extra (extra G) (startpos zero_game)"
  by (cases G) (simp add: set_extra_def extra_def startpos_def zero_game_def)

lemma f4_legal: "is_move_legal (startpos G) 5 1 5 3"
proof -
  have "is_move_legal (startpos zero_game) 5 1 5 3"
    unfolding init_startpos_eq [symmetric] by code_simp
  then show ?thesis by (subst startpos_extra) (simp add: extra_simps)
qed

lemma f4_no_check: "\<not> is_in_check (apply_move (startpos G) 5 1 5 3) TEAM_WHITE"
  using f4_legal [of G] by (simp add: is_move_legal_def Let_def start_board_def in_board_def split: if_splits)

text \<open>
  Every assertion holds, and the report is that of a legal move, whatever was on the stack.
\<close>

theorem rule_tests_pass:
  "test_init_startpos G \<and> test_fen_parser G
   \<and> test_pawn_move_f2_f4 G = \<lparr>pr_my_turn = True, pr_same_file = True, pr_two_ranks = True,
        pr_not_moved = True, pr_target_free = True, pr_middle_free = True, pr_in_check_after = False,
        pr_legal = True\<rparr>"
  using test_init_startpos_passes test_fen_parser_passes f4_legal [of G] f4_no_check [of G]
  by (simp add: test_pawn_move_f2_f4_def Let_def init_startpos_eq start_board_def in_board_def)

end
