(* ===== verification/Match_Manager.thy ===== *)
theory Match_Manager
  imports Protocol
begin

text \<open>
  \<open>server/match_manager.h\<close> and \<open>server/match_manager.c\<close>: the waiting queue and the table of active
  games, matching, removal, disconnects and the game clocks.

  The state is the global \<open>g_match_manager\<close>, extended by the counter of \<open>generate_game_id\<close> (a static
  variable there) and by the log of the messages sent. Every function below holds the mutex from
  start to end, so it is one step. The result of a send is a parameter (\<open>net\<close>), which may depend on
  everything sent before; the readings of the clocks are arguments. A result \<open>None\<close> stands for
  undefined behaviour of the C code: a \<open>strcpy\<close> that does not fit, or the overflow of the counter.
  Log output is not modelled.
\<close>

section \<open>State\<close>

definition MAX_WAITING_PLAYERS :: nat where "MAX_WAITING_PLAYERS = 100"
definition MAX_ACTIVE_GAMES :: nat where "MAX_ACTIVE_GAMES = 50"
definition GAME_ID_LENGTH :: nat where "GAME_ID_LENGTH = 32"
definition DEFAULT_GAME_TIME_LIMIT :: int where "DEFAULT_GAME_TIME_LIMIT = 600"

datatype MatchStatus = MATCH_STATUS_WAITING | MATCH_STATUS_GAME_STARTED | MATCH_STATUS_ERROR

record WaitingPlayer =
  wp_fd :: int
  wp_player_id :: string
  wp_wait_start_time :: int
  wp_is_active :: bool

record ActiveGame =
  game_id :: string
  white_player_fd :: int
  black_player_fd :: int
  white_player_id :: string
  black_player_id :: string
  game_start_time :: int
  is_active :: bool
  game_state :: game_t
  time_limit_per_player :: int
  white_time_remaining :: int
  black_time_remaining :: int
  last_move_time_ms :: int
  last_timer_check_ms :: int

record MatchResult =
  mr_status :: MatchStatus
  mr_game_id :: "string option"
  mr_assigned_team :: Team
  mr_opponent_fd :: int
  mr_opponent_name :: "string option"
  mr_error_message :: "string option"

record MatchManager =
  waiting_players :: "WaitingPlayer list"
  active_games :: "ActiveGame list"
  waiting_count :: int
  active_game_count :: int

record server_t = MatchManager +
  next_game_no :: int
  outbox :: "(int \<times> ServerMessage) list"

text \<open>The value of \<open>send_server_message(fd, msg)\<close> after the messages already sent.\<close>

type_synonym net_t = "int \<Rightarrow> ServerMessage \<Rightarrow> (int \<times> ServerMessage) list \<Rightarrow> int"

definition send_to :: "net_t \<Rightarrow> int \<Rightarrow> ServerMessage \<Rightarrow> server_t \<Rightarrow> int \<times> server_t" where
  "send_to net fd msg S = (net fd msg (outbox S), S\<lparr>outbox := outbox S @ [(fd, msg)]\<rparr>)"

text \<open>The readings of the clocks in one call of \<open>add_player_to_matching\<close>, in the order of the code.\<close>

record match_clock =
  mc_colour :: int
  mc_id :: int
  mc_start :: int
  mc_move_ms :: int
  mc_check_ms :: int
  mc_wait :: int

section \<open>Initialisation\<close>

definition zero_waiting :: WaitingPlayer where
  "zero_waiting = \<lparr>wp_fd = 0, wp_player_id = [], wp_wait_start_time = 0, wp_is_active = False\<rparr>"

definition zero_active_game :: ActiveGame where
  "zero_active_game =
     \<lparr>game_id = [], white_player_fd = 0, black_player_fd = 0, white_player_id = [],
      black_player_id = [], game_start_time = 0, is_active = False, game_state = zero_game,
      time_limit_per_player = 0, white_time_remaining = 0, black_time_remaining = 0,
      last_move_time_ms = 0, last_timer_check_ms = 0\<rparr>"

text \<open>
  \<open>init_match_manager\<close> with its two calls that may fail, \<open>pthread_mutex_init\<close> and the start of the
  timer thread. The counter of the game numbers starts at 1.
\<close>

definition init_match_manager :: "bool \<Rightarrow> bool \<Rightarrow> server_t \<Rightarrow> int \<times> server_t" where
  "init_match_manager mutex_ok thread_ok S =
     (let S1 = S\<lparr>waiting_players := replicate MAX_WAITING_PLAYERS zero_waiting,
                 active_games := replicate MAX_ACTIVE_GAMES zero_active_game,
                 waiting_count := 0, active_game_count := 0\<rparr>
      in if \<not> mutex_ok then (- 1, S1) else if \<not> thread_ok then (- 1, S1) else (0, S1))"

definition cleanup_match_manager :: "server_t \<Rightarrow> server_t" where
  "cleanup_match_manager S =
     S\<lparr>waiting_players := replicate MAX_WAITING_PLAYERS zero_waiting, waiting_count := 0,
       active_games := replicate MAX_ACTIVE_GAMES zero_active_game, active_game_count := 0\<rparr>"

section \<open>Slots\<close>

text \<open>The writes through a pointer into one of the two tables.\<close>

definition wait_put :: "nat \<Rightarrow> WaitingPlayer \<Rightarrow> server_t \<Rightarrow> server_t" where
  "wait_put i p S =
     S\<lparr>waiting_players := (waiting_players S)[i := p], waiting_count := waiting_count S + 1\<rparr>"

definition wait_drop :: "nat \<Rightarrow> server_t \<Rightarrow> server_t" where
  "wait_drop i S =
     S\<lparr>waiting_players := (waiting_players S)[i := (waiting_players S ! i)\<lparr>wp_is_active := False\<rparr>],
       waiting_count := waiting_count S - 1\<rparr>"

definition game_put :: "nat \<Rightarrow> ActiveGame \<Rightarrow> server_t \<Rightarrow> server_t" where
  "game_put i g S =
     S\<lparr>active_games := (active_games S)[i := g], active_game_count := active_game_count S + 1\<rparr>"

definition game_drop :: "nat \<Rightarrow> server_t \<Rightarrow> server_t" where
  "game_drop i S =
     S\<lparr>active_games := (active_games S)[i := (active_games S ! i)\<lparr>is_active := False\<rparr>],
       active_game_count := active_game_count S - 1\<rparr>"

definition game_set :: "nat \<Rightarrow> ActiveGame \<Rightarrow> server_t \<Rightarrow> server_t" where
  "game_set i g S = S\<lparr>active_games := (active_games S)[i := g]\<rparr>"

section \<open>Matching\<close>

definition game_id_string :: "int \<Rightarrow> int \<Rightarrow> string" where
  "game_id_string t k =
     c_trunc (GAME_ID_LENGTH + 1) (''game_'' @ c_dec (c_mod t 100000) @ ''_'' @ c_dec k)"

definition generate_game_id :: "int \<Rightarrow> server_t \<Rightarrow> (string \<times> server_t) option" where
  "generate_game_id now S =
     (if next_game_no S = 2147483647 then None
      else Some (game_id_string now (next_game_no S), S\<lparr>next_game_no := next_game_no S + 1\<rparr>))"

definition error_result :: MatchResult where
  "error_result =
     \<lparr>mr_status = MATCH_STATUS_ERROR, mr_game_id = None, mr_assigned_team = TEAM__TEAM_UNSPECIFIED,
      mr_opponent_fd = - 1, mr_opponent_name = None, mr_error_message = Some ''Unknown error''\<rparr>"

text \<open>
  The writes to the free game slot \<open>g0\<close> when the caller (\<open>fd\<close>, \<open>me\<close>) meets the waiting player
  (\<open>wfd\<close>, \<open>other\<close>).
\<close>

definition new_game :: "match_clock \<Rightarrow> bool \<Rightarrow> int \<Rightarrow> string \<Rightarrow> int \<Rightarrow> string \<Rightarrow> string \<Rightarrow> ActiveGame \<Rightarrow> ActiveGame" where
  "new_game clk current_is_white fd me wfd other gid g0 =
     (let g1 = g0\<lparr>game_id := gid, game_start_time := mc_start clk, is_active := True,
                  game_state := init_startpos (game_state g0),
                  time_limit_per_player := DEFAULT_GAME_TIME_LIMIT * 1000,
                  white_time_remaining := DEFAULT_GAME_TIME_LIMIT * 1000,
                  black_time_remaining := DEFAULT_GAME_TIME_LIMIT * 1000,
                  last_move_time_ms := mc_move_ms clk, last_timer_check_ms := mc_check_ms clk\<rparr>
      in if current_is_white
         then g1\<lparr>white_player_fd := fd, black_player_fd := wfd, white_player_id := me,
                 black_player_id := other\<rparr>
         else g1\<lparr>white_player_fd := wfd, black_player_fd := fd, white_player_id := other,
                 black_player_id := me\<rparr>)"

text \<open>
  The body of the loop over the free game slots: the caller is matched with slot \<open>i\<close> of the queue
  in game slot \<open>j\<close>.
\<close>

definition start_game :: "match_clock \<Rightarrow> int \<Rightarrow> string \<Rightarrow> nat \<Rightarrow> nat \<Rightarrow> server_t \<Rightarrow> (MatchResult \<times> server_t) option" where
  "start_game clk fd player_id i j S =
     (let waiting_player = waiting_players S ! i;
          current_is_white = (c_mod (mc_colour clk) 2 = 0)
      in case generate_game_id (mc_id clk) S of
           None \<Rightarrow> None
         | Some (gid, S1) \<Rightarrow>
             (case (c_strcpy (GAME_ID_LENGTH + 1) gid, c_strcpy 64 player_id,
                    c_strcpy 64 (wp_player_id waiting_player)) of
                (Some gid', Some me, Some other) \<Rightarrow>
                  (let g = new_game clk current_is_white fd me (wp_fd waiting_player) other gid'
                             (active_games S1 ! j);
                       tm = (if current_is_white then TEAM__TEAM_WHITE else TEAM__TEAM_BLACK)
                   in Some (error_result
                              \<lparr>mr_status := MATCH_STATUS_GAME_STARTED, mr_game_id := Some (game_id g),
                               mr_assigned_team := tm,
                               mr_opponent_fd := (if tm = TEAM__TEAM_WHITE then black_player_fd g
                                                  else white_player_fd g),
                               mr_opponent_name := Some (if current_is_white
                                                         then wp_player_id waiting_player
                                                         else white_player_id g),
                               mr_error_message := None\<rparr>,
                            wait_drop i (game_put j g S1)))
              | _ \<Rightarrow> None))"

definition add_player_to_matching :: "match_clock \<Rightarrow> int \<Rightarrow> string \<Rightarrow> server_t \<Rightarrow> (MatchResult \<times> server_t) option" where
  "add_player_to_matching clk fd player_id S =
     (case find_index wp_is_active (waiting_players S) of
        Some i \<Rightarrow>
          (case find_index (\<lambda>g. \<not> is_active g) (active_games S) of
             Some j \<Rightarrow> start_game clk fd player_id i j S
           | None \<Rightarrow> Some (error_result\<lparr>mr_error_message := Some ''No available game slots''\<rparr>, S))
      | None \<Rightarrow>
          (case find_index (\<lambda>p. \<not> wp_is_active p) (waiting_players S) of
             Some i \<Rightarrow>
               (case c_strcpy 64 player_id of
                  None \<Rightarrow> None
                | Some me \<Rightarrow>
                    Some (error_result\<lparr>mr_status := MATCH_STATUS_WAITING, mr_game_id := Some [],
                                       mr_error_message := None\<rparr>,
                          wait_put i \<lparr>wp_fd = fd, wp_player_id = me, wp_wait_start_time = mc_wait clk,
                                      wp_is_active = True\<rparr> S))
           | None \<Rightarrow> Some (error_result\<lparr>mr_error_message := Some ''Matching queue is full''\<rparr>, S)))"

definition remove_player_from_matching :: "int \<Rightarrow> server_t \<Rightarrow> int \<times> server_t" where
  "remove_player_from_matching fd S =
     (case find_index (\<lambda>p. wp_is_active p \<and> wp_fd p = fd) (waiting_players S) of
        Some i \<Rightarrow> (0, wait_drop i S)
      | None \<Rightarrow> (- 1, S))"

section \<open>Games\<close>

text \<open>A pointer to an active game is its index.\<close>

definition plays :: "int \<Rightarrow> ActiveGame \<Rightarrow> bool" where
  "plays fd g \<longleftrightarrow> is_active g \<and> (white_player_fd g = fd \<or> black_player_fd g = fd)"

definition find_game_by_player_fd :: "int \<Rightarrow> server_t \<Rightarrow> nat option" where
  "find_game_by_player_fd fd S = find_index (plays fd) (active_games S)"

definition remove_game :: "string \<Rightarrow> server_t \<Rightarrow> int \<times> server_t" where
  "remove_game gid S =
     (case find_index (\<lambda>g. is_active g \<and> game_id g = gid) (active_games S) of
        Some i \<Rightarrow> (0, game_drop i S)
      | None \<Rightarrow> (- 1, S))"

definition get_waiting_players_count :: "server_t \<Rightarrow> int" where
  "get_waiting_players_count S = waiting_count S"

definition get_active_games_count :: "server_t \<Rightarrow> int" where
  "get_active_games_count S = active_game_count S"

definition handle_player_disconnect :: "net_t \<Rightarrow> int \<Rightarrow> server_t \<Rightarrow> int \<times> server_t" where
  "handle_player_disconnect net fd S =
     (case find_index (\<lambda>p. wp_is_active p \<and> wp_fd p = fd) (waiting_players S) of
        Some i \<Rightarrow> (0, wait_drop i S)
      | None \<Rightarrow>
          (case find_index (plays fd) (active_games S) of
             Some i \<Rightarrow>
               (let g = active_games S ! i;
                    is_white = (white_player_fd g = fd);
                    opponent_fd = (if is_white then black_player_fd g else white_player_fd g);
                    disconnected_player_id = (if is_white then white_player_id g else black_player_id g);
                    winner_team = (if is_white then TEAM__TEAM_BLACK else TEAM__TEAM_WHITE);
                    (r, S1) = send_to net opponent_fd
                      (SM_GAME_END \<lparr>geb_game_id = game_id g, geb_player_id = disconnected_player_id,
                                    geb_winner_team = winner_team, geb_end_type = GAME_END_DISCONNECT\<rparr>) S
                in (1, game_drop i S1))
           | None \<Rightarrow> (- 1, S)))"

section \<open>Clocks\<close>

definition send_timeout_game_end_broadcast ::
  "net_t \<Rightarrow> ActiveGame \<Rightarrow> string \<Rightarrow> Team \<Rightarrow> server_t \<Rightarrow> int \<times> server_t" where
  "send_timeout_game_end_broadcast net g timeout_player_id winner_team S =
     (let msg = SM_GAME_END \<lparr>geb_game_id = game_id g, geb_player_id = timeout_player_id,
                             geb_winner_team = winner_team, geb_end_type = GAME_END_TIMEOUT\<rparr>;
          (r1, S1) = send_to net (white_player_fd g) msg S;
          (r2, S2) = send_to net (black_player_fd g) msg S1
      in (if r1 < 0 \<or> r2 < 0 then - 1 else 0, S2))"

text \<open>
  The body of the loop of \<open>check_game_timeouts\<close> for one slot: the charge of the elapsed time to the
  side to move, and the end of the game when nothing is left. The elapsed time is converted to
  \<open>int32_t\<close> before the subtraction.
\<close>

definition charge_time :: "int \<Rightarrow> ActiveGame \<Rightarrow> ActiveGame" where
  "charge_time elapsed g =
     (if side_to_move (game_state g) = TEAM_WHITE
      then g\<lparr>white_time_remaining := to_int32 (white_time_remaining g - to_int32 elapsed)\<rparr>
      else g\<lparr>black_time_remaining := to_int32 (black_time_remaining g - to_int32 elapsed)\<rparr>)"

definition check_slot :: "net_t \<Rightarrow> int \<Rightarrow> server_t \<Rightarrow> nat \<Rightarrow> server_t" where
  "check_slot net now S i =
     (let g = active_games S ! i; elapsed = now - last_timer_check_ms g in
      if \<not> is_active g then S
      else if elapsed < 100 then S
      else
        (let g1 = charge_time elapsed g;
             white = (side_to_move (game_state g) = TEAM_WHITE);
             out_of_time = (if white then white_time_remaining g1 \<le> 0 else black_time_remaining g1 \<le> 0);
             g2 = (if \<not> out_of_time then g1
                   else if white then g1\<lparr>white_time_remaining := 0\<rparr>
                   else g1\<lparr>black_time_remaining := 0\<rparr>);
             g3 = g2\<lparr>last_timer_check_ms := now\<rparr>;
             S1 = game_set i g3 S
         in if \<not> out_of_time then S1
            else
              (let (r, S2) = send_timeout_game_end_broadcast net g3
                     (if white then white_player_id g3 else black_player_id g3)
                     (if white then TEAM__TEAM_BLACK else TEAM__TEAM_WHITE) S1
               in game_drop i S2)))"

definition check_game_timeouts :: "net_t \<Rightarrow> int \<Rightarrow> server_t \<Rightarrow> server_t" where
  "check_game_timeouts net now S = foldl (check_slot net now) S [0..<MAX_ACTIVE_GAMES]"

end
