(* ===== verification/Match_Inv.thy ===== *)
theory Match_Inv
  imports Match_Manager
begin

text \<open>
  The invariant of the match manager: the counts agree with the tables, at most one player waits,
  the games that are being played have a valid position, clocks in range and distinct identifiers;
  and every operation of \<open>Match_Manager\<close> keeps it.
\<close>

section \<open>Tables of slots\<close>

definition tally :: "('s \<Rightarrow> bool) \<Rightarrow> 's list \<Rightarrow> int \<Rightarrow> bool" where
  "tally live xs n \<longleftrightarrow> n = int (length (filter live xs))"

lemma length_filter_update:
  "i < length xs \<Longrightarrow>
     int (length (filter p (xs[i := x]))) =
       int (length (filter p xs)) + of_bool (p x) - of_bool (p (xs ! i))"
proof (induction xs arbitrary: i)
  case (Cons y ys)
  then show ?case by (cases i) auto
qed simp

text \<open>
  A table with a count of its live slots: occupying a free slot adds one, releasing a live one
  subtracts one.
\<close>

locale slot_table =
  fixes table :: "server_t \<Rightarrow> 's list" and count :: "server_t \<Rightarrow> int" and live :: "'s \<Rightarrow> bool"
    and put :: "nat \<Rightarrow> 's \<Rightarrow> server_t \<Rightarrow> server_t" and clr :: "nat \<Rightarrow> server_t \<Rightarrow> server_t"
    and gone :: "'s \<Rightarrow> 's"
  assumes table_put: "table (put i s S) = (table S)[i := s]"
    and count_put: "count (put i s S) = count S + 1"
    and table_clr: "table (clr i S) = (table S)[i := gone (table S ! i)]"
    and count_clr: "count (clr i S) = count S - 1"
    and gone_dead: "\<not> live (gone s)"
begin

lemma put_tally:
  "tally live (table S) (count S) \<Longrightarrow> i < length (table S) \<Longrightarrow> \<not> live (table S ! i) \<Longrightarrow> live s \<Longrightarrow>
     tally live (table (put i s S)) (count (put i s S))"
  by (simp add: tally_def table_put count_put length_filter_update)

lemma clr_tally:
  "tally live (table S) (count S) \<Longrightarrow> i < length (table S) \<Longrightarrow> live (table S ! i) \<Longrightarrow>
     tally live (table (clr i S)) (count (clr i S))"
  by (simp add: tally_def table_clr count_clr length_filter_update gone_dead)

lemma put_bound:
  "i < length (table S) \<Longrightarrow> length (filter live (table (put i s S))) \<le> Suc (length (filter live (table S)))"
  using length_filter_update [of i "table S" live s]
  by (cases "live s"; cases "live (table S ! i)") (simp_all add: table_put)

lemma clr_bound:
  "length (filter live (table (clr i S))) \<le> length (filter live (table S))"
  using length_filter_update [of i "table S" live "gone (table S ! i)"] gone_dead [of "table S ! i"]
  by (cases "i < length (table S)"; cases "live (table S ! i)")
    (simp_all add: table_clr list_update_beyond)

lemma length_put: "length (table (put i s S)) = length (table S)"
  by (simp add: table_put)

lemma length_clr: "length (table (clr i S)) = length (table S)"
  by (simp add: table_clr)

lemma clr_nth:
  "j < length (table S) \<Longrightarrow> live (table (clr i S) ! j) \<Longrightarrow> table (clr i S) ! j = table S ! j"
  using gone_dead by (cases "i = j") (auto simp: table_clr)

lemma clr_live:
  "s \<in> set (table (clr i S)) \<Longrightarrow> live s \<Longrightarrow> s \<in> set (table S)"
  using set_update_subset_insert [of "table S" i "gone (table S ! i)"] gone_dead
  by (auto simp: table_clr)

end

interpretation wait_slots: slot_table waiting_players waiting_count wp_is_active wait_put wait_drop
    "\<lambda>p. p\<lparr>wp_is_active := False\<rparr>"
  by unfold_locales (simp_all add: wait_put_def wait_drop_def)

interpretation game_slots: slot_table active_games active_game_count is_active game_put game_drop
    "\<lambda>g. g\<lparr>is_active := False\<rparr>"
  by unfold_locales (simp_all add: game_put_def game_drop_def)

lemma slot_frames [simp, slot_simps]:
  "active_games (wait_put i p S) = active_games S" "active_game_count (wait_put i p S) = active_game_count S"
  "active_games (wait_drop i S) = active_games S" "active_game_count (wait_drop i S) = active_game_count S"
  "waiting_players (game_put i g S) = waiting_players S" "waiting_count (game_put i g S) = waiting_count S"
  "waiting_players (game_drop i S) = waiting_players S" "waiting_count (game_drop i S) = waiting_count S"
  "waiting_players (game_set i g S) = waiting_players S" "waiting_count (game_set i g S) = waiting_count S"
  "active_games (game_set i g S) = (active_games S)[i := g]"
  "active_game_count (game_set i g S) = active_game_count S"
  "next_game_no (wait_put i p S) = next_game_no S" "next_game_no (wait_drop i S) = next_game_no S"
  "next_game_no (game_put i g S) = next_game_no S" "next_game_no (game_drop i S) = next_game_no S"
  "next_game_no (game_set i g S) = next_game_no S"
  "outbox (wait_put i p S) = outbox S" "outbox (wait_drop i S) = outbox S"
  "outbox (game_put i g S) = outbox S" "outbox (game_drop i S) = outbox S"
  "outbox (game_set i g S) = outbox S"
  by (simp_all add: wait_put_def wait_drop_def game_put_def game_drop_def game_set_def)

section \<open>Game identifiers\<close>

lemma game_id_string_eq:
  assumes "0 \<le> k" "k \<le> 2147483647"
  shows "game_id_string t k = ''game_'' @ c_dec (c_mod t 100000) @ ''_'' @ c_dec k"
    and "length (game_id_string t k) \<le> 32"
proof -
  have "\<bar>c_mod t 100000\<bar> < 10 ^ 5" using abs_c_mod_less [of 100000 t] by simp
  then have "length (c_dec (c_mod t 100000)) \<le> 6" using length_c_dec [of _ 5] by simp
  moreover have "length (c_dec k) \<le> 11" using length_c_dec [of k 10] assms by simp
  ultimately have "length (''game_'' @ c_dec (c_mod t 100000) @ ''_'' @ c_dec k) \<le> 32" by simp
  then show "game_id_string t k = ''game_'' @ c_dec (c_mod t 100000) @ ''_'' @ c_dec k"
    and "length (game_id_string t k) \<le> 32"
    unfolding game_id_string_def GAME_ID_LENGTH_def by (simp_all add: c_trunc_def)
qed

lemma game_id_string_inj:
  assumes "0 \<le> k" "k \<le> 2147483647" "0 \<le> k'" "k' \<le> 2147483647"
    and "game_id_string t k = game_id_string t' k'"
  shows "k = k'"
proof -
  from assms have "c_dec (c_mod t 100000) @ CHR ''_'' # c_dec k = c_dec (c_mod t' 100000) @ CHR ''_'' # c_dec k'"
    by (simp add: game_id_string_eq(1))
  then show ?thesis
    by (simp add: append_Cons_eq_iff [OF c_dec_no_underscore c_dec_no_underscore] c_dec_inj)
qed

section \<open>The invariant\<close>

definition slots_ok :: "server_t \<Rightarrow> bool" where
  "slots_ok S \<longleftrightarrow>
     length (waiting_players S) = MAX_WAITING_PLAYERS \<and> length (active_games S) = MAX_ACTIVE_GAMES
     \<and> tally wp_is_active (waiting_players S) (waiting_count S)
     \<and> tally is_active (active_games S) (active_game_count S)
     \<and> length (filter wp_is_active (waiting_players S)) \<le> 1
     \<and> (\<forall>p \<in> set (waiting_players S). wp_is_active p \<longrightarrow> length (wp_player_id p) < 64)"

definition game_ok :: "ActiveGame \<Rightarrow> bool" where
  "game_ok g \<longleftrightarrow>
     pos_ok (game_state g) \<and> length (white_player_id g) < 64 \<and> length (black_player_id g) < 64
     \<and> time_limit_per_player g = 600000
     \<and> 0 < white_time_remaining g \<and> white_time_remaining g \<le> 600000
     \<and> 0 < black_time_remaining g \<and> black_time_remaining g \<le> 600000"

definition distinct_ids :: "ActiveGame list \<Rightarrow> bool" where
  "distinct_ids gs \<longleftrightarrow>
     (\<forall>i j. i < length gs \<and> j < length gs \<and> is_active (gs ! i) \<and> is_active (gs ! j)
        \<and> game_id (gs ! i) = game_id (gs ! j) \<longrightarrow> i = j)"

definition known_id :: "int \<Rightarrow> string \<Rightarrow> bool" where
  "known_id n gid \<longleftrightarrow> (\<exists>t k. 1 \<le> k \<and> k < n \<and> gid = game_id_string t k)"

definition ids_ok :: "server_t \<Rightarrow> bool" where
  "ids_ok S \<longleftrightarrow>
     1 \<le> next_game_no S \<and> next_game_no S \<le> 2147483647 \<and> distinct_ids (active_games S)
     \<and> (\<forall>g \<in> set (active_games S). is_active g \<longrightarrow> known_id (next_game_no S) (game_id g))"

lemma distinct_idsD:
  "distinct_ids gs \<Longrightarrow> i < length gs \<Longrightarrow> j < length gs \<Longrightarrow> is_active (gs ! i) \<Longrightarrow> is_active (gs ! j) \<Longrightarrow>
     game_id (gs ! i) = game_id (gs ! j) \<Longrightarrow> i = j"
  by (auto simp: distinct_ids_def)

lemma distinct_ids_update:
  assumes "distinct_ids gs"
    and "\<And>j. j < length gs \<Longrightarrow> j \<noteq> i \<Longrightarrow> is_active g \<Longrightarrow> is_active (gs ! j) \<Longrightarrow> game_id (gs ! j) \<noteq> game_id g"
  shows "distinct_ids (gs[i := g])"
  unfolding distinct_ids_def length_list_update
proof (intro allI impI, elim conjE)
  fix a b
  assume *: "a < length gs" "b < length gs" "is_active (gs[i := g] ! a)" "is_active (gs[i := g] ! b)"
    "game_id (gs[i := g] ! a) = game_id (gs[i := g] ! b)"
  show "a = b"
  proof (rule ccontr)
    assume "a \<noteq> b"
    with * assms(2) [of a] assms(2) [of b] distinct_idsD [OF assms(1) *(1,2)] show False
      by (cases "a = i"; cases "b = i") simp_all
  qed
qed

definition server_ok :: "server_t \<Rightarrow> bool" where
  "server_ok S \<longleftrightarrow>
     slots_ok S \<and> ids_ok S \<and> (\<forall>g \<in> set (active_games S). is_active g \<longrightarrow> game_ok g)"

lemma server_okI: "slots_ok S \<Longrightarrow> ids_ok S \<Longrightarrow> (\<And>g. g \<in> set (active_games S) \<Longrightarrow> is_active g \<Longrightarrow> game_ok g) \<Longrightarrow> server_ok S"
  by (simp add: server_ok_def)

lemma server_okD:
  assumes "server_ok S"
  shows "slots_ok S" "ids_ok S"
    and "\<And>g. g \<in> set (active_games S) \<Longrightarrow> is_active g \<Longrightarrow> game_ok g"
    and "length (waiting_players S) = 100" "length (active_games S) = 50"
  using assms by (auto simp: server_ok_def slots_ok_def MAX_WAITING_PLAYERS_def MAX_ACTIVE_GAMES_def)

lemma server_ok_outbox [simp]: "server_ok (S\<lparr>outbox := q\<rparr>) = server_ok S"
  by (simp add: server_ok_def slots_ok_def ids_ok_def)

lemma server_ok_game:
  assumes "server_ok S" "i < 50" "is_active (active_games S ! i)"
  shows "game_ok (active_games S ! i)"
  using assms server_okD [OF assms(1)] by simp

lemma in_update_cases: "x \<in> set (xs[i := y]) \<Longrightarrow> x = y \<or> x \<in> set xs"
  using set_update_subset_insert by fastforce

lemma server_ok_wait_drop:
  assumes "server_ok S" "i < 100" "wp_is_active (waiting_players S ! i)"
  shows "server_ok (wait_drop i S)"
proof -
  note ok = server_okD [OF assms(1)]
  have "slots_ok (wait_drop i S)"
    using ok(1) ok(4) assms(2,3) wait_slots.clr_tally [of S i] wait_slots.clr_bound [of i S]
      wait_slots.clr_live [of _ i S]
    by (auto simp: slots_ok_def wait_slots.length_clr)
  with assms(1) show ?thesis by (simp add: server_ok_def ids_ok_def)
qed

lemma server_ok_wait_put:
  assumes "server_ok S" "i < 100" "find_index wp_is_active (waiting_players S) = None"
    and "wp_is_active p" "length (wp_player_id p) < 64"
  shows "server_ok (wait_put i p S)"
proof -
  note ok = server_okD [OF assms(1)]
  have none: "\<forall>q \<in> set (waiting_players S). \<not> wp_is_active q"
    using assms(3) by (simp add: find_index_None)
  then have "filter wp_is_active (waiting_players S) = []" by (simp add: filter_empty_conv)
  moreover have "\<not> wp_is_active (waiting_players S ! i)" using none ok(4) assms(2) by simp
  ultimately have "slots_ok (wait_put i p S)"
    using ok(1) ok(4) assms none wait_slots.put_tally [of S i p] wait_slots.put_bound [of i S p]
    by (auto simp: slots_ok_def wait_slots.length_put wait_slots.table_put dest!: in_update_cases)
  with assms(1) show ?thesis by (simp add: server_ok_def ids_ok_def)
qed

lemma server_ok_game_drop:
  assumes "server_ok S" "i < 50" "is_active (active_games S ! i)"
  shows "server_ok (game_drop i S)"
proof (rule server_okI)
  note ok = server_okD [OF assms(1)]
  show "slots_ok (game_drop i S)"
    using ok(1) ok(5) assms(2,3) game_slots.clr_tally [of S i]
    by (simp add: slots_ok_def game_slots.length_clr)
  show "ids_ok (game_drop i S)"
    using ok(2) game_slots.clr_live [of _ i S]
      distinct_ids_update [of "active_games S" i "(active_games S ! i)\<lparr>is_active := False\<rparr>"]
    by (simp add: ids_ok_def game_slots.table_clr)
  fix g assume "g \<in> set (active_games (game_drop i S))" "is_active g"
  then show "game_ok g" using ok(3) game_slots.clr_live by blast
qed

lemma server_ok_game_set:
  assumes "server_ok S" "i < 50" "is_active (active_games S ! i)"
    and "is_active g" "game_ok g" "game_id g = game_id (active_games S ! i)"
  shows "server_ok (game_set i g S)"
proof (rule server_okI)
  note ok = server_okD [OF assms(1)]
  have old: "active_games S ! i \<in> set (active_games S)" using assms(2) ok(5) by simp
  show "slots_ok (game_set i g S)"
    using ok(1) ok(5) assms(2-4) length_filter_update [of i "active_games S" is_active g]
    by (simp add: slots_ok_def tally_def)
  have "game_id (active_games S ! j) \<noteq> game_id g" if "j < 50" "j \<noteq> i" "is_active (active_games S ! j)" for j
    using that assms(2,3,6) ok(2,5) distinct_idsD [of "active_games S" j i] by (auto simp: ids_ok_def)
  then have "distinct_ids ((active_games S)[i := g])"
    using ok(2,5) by (intro distinct_ids_update) (simp_all add: ids_ok_def)
  then show "ids_ok (game_set i g S)"
    using ok(2) assms(3,6) old by (auto simp: ids_ok_def dest!: in_update_cases)
  fix g' assume "g' \<in> set (active_games (game_set i g S))" "is_active g'"
  then show "game_ok g'" using ok(3) assms(5) by (auto dest!: in_update_cases)
qed

section \<open>The operations keep the invariant\<close>

lemma distinct_ids_dead: "\<forall>g \<in> set gs. \<not> is_active g \<Longrightarrow> distinct_ids gs"
  by (auto simp: distinct_ids_def)

lemma init_match_manager_ok:
  assumes "1 \<le> next_game_no S" "next_game_no S \<le> 2147483647"
  shows "server_ok (snd (init_match_manager a b S))"
  using assms
  by (simp add: init_match_manager_def Let_def server_ok_def slots_ok_def ids_ok_def tally_def
      distinct_ids_dead zero_waiting_def zero_active_game_def)

lemma cleanup_match_manager_ok:
  "server_ok S \<Longrightarrow> server_ok (cleanup_match_manager S)"
  by (simp add: cleanup_match_manager_def server_ok_def slots_ok_def ids_ok_def tally_def
      distinct_ids_dead zero_waiting_def zero_active_game_def)

lemma remove_player_ok: "server_ok S \<Longrightarrow> server_ok (snd (remove_player_from_matching fd S))"
  using server_okD(4) [of S]
  by (auto simp: remove_player_from_matching_def dest!: find_index_SomeD intro!: server_ok_wait_drop
      split: option.splits)

lemma remove_game_ok: "server_ok S \<Longrightarrow> server_ok (snd (remove_game gid S))"
  using server_okD(5) [of S]
  by (auto simp: remove_game_def dest!: find_index_SomeD intro!: server_ok_game_drop split: option.splits)

lemma send_to_state: "send_to net fd msg S = (r, S') \<Longrightarrow> S' = S\<lparr>outbox := outbox S @ [(fd, msg)]\<rparr>"
  by (simp add: send_to_def)

lemma send_to_ok: "server_ok S \<Longrightarrow> send_to net fd msg S = (r, S') \<Longrightarrow> server_ok S'"
  by (simp add: send_to_def) (use server_ok_outbox in blast)

lemma disconnect_ok: "server_ok S \<Longrightarrow> server_ok (snd (handle_player_disconnect net fd S))"
  using server_okD(4,5) [of S]
  by (auto simp: handle_player_disconnect_def send_to_def Let_def plays_def dest!: find_index_SomeD
      intro!: server_ok_wait_drop server_ok_game_drop split: option.splits)

text \<open>A started game: a fresh identifier, the start position and full clocks.\<close>

lemma find_game_slot:
  assumes "server_ok S" "find_index (\<lambda>g. \<not> is_active g) (active_games S) = Some j"
  shows "j < 50" "\<not> is_active (active_games S ! j)"
  using find_index_SomeD [OF assms(2)] server_okD(5) [OF assms(1)] by simp_all

lemma server_ok_new_game:
  assumes "server_ok S" "j < 50" "\<not> is_active (active_games S ! j)"
    and "next_game_no S < 2147483647" "is_active g" "game_ok g" "game_id g = game_id_string t (next_game_no S)"
  shows "server_ok (game_put j g (S\<lparr>next_game_no := next_game_no S + 1\<rparr>))"
proof (rule server_okI)
  let ?S = "S\<lparr>next_game_no := next_game_no S + 1\<rparr>"
  note ok = server_okD [OF assms(1)]
  have pos: "1 \<le> next_game_no S" using ok(2) by (simp add: ids_ok_def)
  show "slots_ok (game_put j g ?S)"
    using ok(1) ok(5) assms(2,3,5) game_slots.put_tally [of ?S j g]
    by (simp add: slots_ok_def game_slots.table_put game_slots.count_put)
  have fresh: "game_id g' \<noteq> game_id g" if "g' \<in> set (active_games S)" "is_active g'" for g'
  proof
    assume same: "game_id g' = game_id g"
    from that ok(2) obtain t' k where "1 \<le> k" "k < next_game_no S" "game_id g' = game_id_string t' k"
      by (auto simp: ids_ok_def known_id_def)
    with same assms(4,7) pos game_id_string_inj [of k "next_game_no S" t' t] show False by simp
  qed
  have "distinct_ids ((active_games S)[j := g])"
    using ok(2) fresh by (intro distinct_ids_update) (auto simp: ids_ok_def)
  moreover have "known_id (next_game_no S + 1) (game_id g)"
    using assms(7) pos by (auto simp: known_id_def)
  moreover have "known_id (next_game_no S + 1) gid" if "known_id (next_game_no S) gid" for gid
    using that unfolding known_id_def by (metis add.commute zless_add1_eq)
  ultimately show "ids_ok (game_put j g ?S)"
    using ok(2) assms(4) pos
    by (auto simp: ids_ok_def game_slots.table_put dest!: in_update_cases)
  fix g' assume "g' \<in> set (active_games (game_put j g ?S))" "is_active g'"
  then show "game_ok g'" using ok(3) assms(6) by (auto simp: game_slots.table_put dest!: in_update_cases)
qed

lemma new_game_fields [simp]:
  "is_active (new_game clk w fd me wfd other gid g0)"
  "game_id (new_game clk w fd me wfd other gid g0) = gid"
  "white_player_fd (new_game clk w fd me wfd other gid g0) = (if w then fd else wfd)"
  "black_player_fd (new_game clk w fd me wfd other gid g0) = (if w then wfd else fd)"
  "white_player_id (new_game clk w fd me wfd other gid g0) = (if w then me else other)"
  "black_player_id (new_game clk w fd me wfd other gid g0) = (if w then other else me)"
  "game_state (new_game clk w fd me wfd other gid g0) = startpos (game_state g0)"
  "time_limit_per_player (new_game clk w fd me wfd other gid g0) = 600000"
  "white_time_remaining (new_game clk w fd me wfd other gid g0) = 600000"
  "black_time_remaining (new_game clk w fd me wfd other gid g0) = 600000"
  "game_start_time (new_game clk w fd me wfd other gid g0) = mc_start clk"
  by (simp_all add: new_game_def Let_def DEFAULT_GAME_TIME_LIMIT_def init_startpos_eq)

lemma new_game_ok:
  "length me < 64 \<Longrightarrow> length other < 64 \<Longrightarrow> game_ok (new_game clk w fd me wfd other gid g0)"
  by (simp add: game_ok_def startpos_ok)

text \<open>The value of a call that finds an opponent.\<close>

lemma start_game_eq:
  assumes "server_ok S" "find_index wp_is_active (waiting_players S) = Some i"
    and "next_game_no S < 2147483647" "length player_id < 64"
  shows "start_game clk fd player_id i j S =
    (let w = (c_mod (mc_colour clk) 2 = 0); p = waiting_players S ! i;
         gid = game_id_string (mc_id clk) (next_game_no S);
         g = new_game clk w fd player_id (wp_fd p) (wp_player_id p) gid (active_games S ! j)
     in Some (\<lparr>mr_status = MATCH_STATUS_GAME_STARTED, mr_game_id = Some gid,
               mr_assigned_team = (if w then TEAM__TEAM_WHITE else TEAM__TEAM_BLACK),
               mr_opponent_fd = wp_fd p, mr_opponent_name = Some (wp_player_id p),
               mr_error_message = None\<rparr>,
              wait_drop i (game_put j g (S\<lparr>next_game_no := next_game_no S + 1\<rparr>))))"
proof -
  have "1 \<le> next_game_no S" using server_okD(2) [OF assms(1)] by (simp add: ids_ok_def)
  then have "length (game_id_string (mc_id clk) (next_game_no S)) < 33"
    using game_id_string_eq(2) [of "next_game_no S" "mc_id clk"] assms(3) by simp
  moreover have "length (wp_player_id (waiting_players S ! i)) < 64"
    using find_index_SomeD [OF assms(2)] server_okD(1) [OF assms(1)] by (simp add: slots_ok_def)
  ultimately show ?thesis
    using assms(3,4)
    by (simp add: start_game_def generate_game_id_def c_strcpy_def GAME_ID_LENGTH_def Let_def error_result_def)
qed

lemma start_game_ok:
  assumes "server_ok S" "find_index wp_is_active (waiting_players S) = Some i"
    and "find_index (\<lambda>g. \<not> is_active g) (active_games S) = Some j"
    and "start_game clk fd player_id i j S = Some (r, S')"
  shows "server_ok S'"
proof -
  have room: "next_game_no S < 2147483647"
    using assms(4) server_okD(2) [OF assms(1)]
    by (auto simp: start_game_def generate_game_id_def ids_ok_def Let_def split: if_splits)
  have len: "length player_id < 64"
    using assms(4) by (auto simp: start_game_def c_strcpy_def Let_def split: option.splits if_splits)
  have i: "i < 100" "wp_is_active (waiting_players S ! i)" "length (wp_player_id (waiting_players S ! i)) < 64"
    using find_index_SomeD [OF assms(2)] server_okD(1,4) [OF assms(1)] by (simp_all add: slots_ok_def)
  let ?g = "new_game clk (c_mod (mc_colour clk) 2 = 0) fd player_id (wp_fd (waiting_players S ! i))
    (wp_player_id (waiting_players S ! i)) (game_id_string (mc_id clk) (next_game_no S)) (active_games S ! j)"
  have "server_ok (game_put j ?g (S\<lparr>next_game_no := next_game_no S + 1\<rparr>))"
    using server_ok_new_game [OF assms(1) find_game_slot [OF assms(1,3)] room] new_game_ok [OF len i(3)]
    by simp
  then have "server_ok (wait_drop i (game_put j ?g (S\<lparr>next_game_no := next_game_no S + 1\<rparr>)))"
    using i by (intro server_ok_wait_drop) simp_all
  then show ?thesis
    using assms(4) start_game_eq [OF assms(1,2) room len] by (simp add: Let_def)
qed

lemma add_player_ok:
  assumes "server_ok S" "add_player_to_matching clk fd player_id S = Some (r, S')"
  shows "server_ok S'"
  using assms start_game_ok [OF assms(1)] server_okD(4) [OF assms(1)]
  by (auto simp: add_player_to_matching_def c_strcpy_def dest!: find_index_SomeD
      intro!: server_ok_wait_put split: option.splits if_splits)

section \<open>The clocks\<close>

text \<open>What one pass does to one slot, and the messages it sends for it.\<close>

definition mover_time :: "ActiveGame \<Rightarrow> int" where
  "mover_time g =
     (if side_to_move (game_state g) = TEAM_WHITE then white_time_remaining g else black_time_remaining g)"

definition due :: "int \<Rightarrow> ActiveGame \<Rightarrow> bool" where
  "due now g \<longleftrightarrow> is_active g \<and> 100 \<le> now - last_timer_check_ms g"

definition out_of_time :: "int \<Rightarrow> ActiveGame \<Rightarrow> bool" where
  "out_of_time now g \<longleftrightarrow> mover_time (charge_time (now - last_timer_check_ms g) g) \<le> 0"

definition ticked :: "int \<Rightarrow> ActiveGame \<Rightarrow> ActiveGame" where
  "ticked now g =
     (if \<not> due now g then g
      else
        (let g1 = charge_time (now - last_timer_check_ms g) g in
         if \<not> out_of_time now g then g1\<lparr>last_timer_check_ms := now\<rparr>
         else if side_to_move (game_state g) = TEAM_WHITE
         then g1\<lparr>white_time_remaining := 0, last_timer_check_ms := now, is_active := False\<rparr>
         else g1\<lparr>black_time_remaining := 0, last_timer_check_ms := now, is_active := False\<rparr>))"

definition timeout_message :: "ActiveGame \<Rightarrow> ServerMessage" where
  "timeout_message g =
     SM_GAME_END
       \<lparr>geb_game_id = game_id g,
        geb_player_id = (if side_to_move (game_state g) = TEAM_WHITE then white_player_id g
                         else black_player_id g),
        geb_winner_team = team_to_proto (other_team (side_to_move (game_state g))),
        geb_end_type = GAME_END_TIMEOUT\<rparr>"

definition timeout_messages :: "int \<Rightarrow> ActiveGame \<Rightarrow> (int \<times> ServerMessage) list" where
  "timeout_messages now g =
     (if due now g \<and> out_of_time now g
      then [(white_player_fd g, timeout_message g), (black_player_fd g, timeout_message g)] else [])"

lemma charge_time_fields [simp]:
  "game_id (charge_time e g) = game_id g" "game_state (charge_time e g) = game_state g"
  "is_active (charge_time e g) = is_active g" "white_player_id (charge_time e g) = white_player_id g"
  "black_player_id (charge_time e g) = black_player_id g" "white_player_fd (charge_time e g) = white_player_fd g"
  "black_player_fd (charge_time e g) = black_player_fd g"
  "time_limit_per_player (charge_time e g) = time_limit_per_player g"
  "last_timer_check_ms (charge_time e g) = last_timer_check_ms g"
  by (simp_all add: charge_time_def)

lemma check_slot_eq:
  assumes "i < length (active_games S)"
  shows "check_slot net now S i =
    S\<lparr>active_games := (active_games S)[i := ticked now (active_games S ! i)],
      active_game_count := active_game_count S -
        of_bool (due now (active_games S ! i) \<and> out_of_time now (active_games S ! i)),
      outbox := outbox S @ timeout_messages now (active_games S ! i)\<rparr>"
proof -
  let ?g = "active_games S ! i"
  let ?e = "now - last_timer_check_ms ?g"
  consider "\<not> due now ?g" | "due now ?g" "\<not> out_of_time now ?g" | "due now ?g" "out_of_time now ?g" by blast
  then show ?thesis
  proof cases
    case 1
    then have "check_slot net now S i = S" by (auto simp: check_slot_def due_def Let_def)
    with 1 show ?thesis by (simp add: ticked_def timeout_messages_def)
  next
    case 2
    then show ?thesis
      by (auto simp: check_slot_def ticked_def timeout_messages_def due_def out_of_time_def mover_time_def
          game_set_def Let_def)
  next
    case 3
    then show ?thesis using assms
      by (cases "side_to_move (game_state ?g)"; intro server_t.equality)
        (auto simp: check_slot_def ticked_def timeout_messages_def timeout_message_def due_def
          out_of_time_def mover_time_def game_set_def game_drop_def send_timeout_game_end_broadcast_def
          send_to_def Let_def)
  qed
qed

text \<open>The slots are independent of one another.\<close>

lemma foldl_check_slots:
  assumes "n \<le> length (active_games S)"
  shows "foldl (check_slot net now) S [0..<n] =
    S\<lparr>active_games := map (ticked now) (take n (active_games S)) @ drop n (active_games S),
      active_game_count := active_game_count S -
        int (length (filter (\<lambda>g. due now g \<and> out_of_time now g) (take n (active_games S)))),
      outbox := outbox S @ concat (map (timeout_messages now) (take n (active_games S)))\<rparr>"
  using assms
proof (induction n)
  case (Suc n)
  let ?xs = "active_games S"
  have n: "n < length ?xs" using Suc.prems by simp
  have "(map (ticked now) (take n ?xs) @ drop n ?xs)[n := y] = map (ticked now) (take n ?xs) @ y # drop (Suc n) ?xs" for y
    using n by (simp add: list_update_append Cons_nth_drop_Suc [symmetric])
  moreover have "(map (ticked now) (take n ?xs) @ drop n ?xs) ! n = ?xs ! n"
    using n by (simp add: nth_append)
  ultimately show ?case
    using Suc n by (simp add: check_slot_eq take_Suc_conv_app_nth)
qed simp

lemma check_game_timeouts_eq:
  assumes "length (active_games S) = 50"
  shows "check_game_timeouts net now S =
    S\<lparr>active_games := map (ticked now) (active_games S),
      active_game_count := active_game_count S -
        int (length (filter (\<lambda>g. due now g \<and> out_of_time now g) (active_games S))),
      outbox := outbox S @ concat (map (timeout_messages now) (active_games S))\<rparr>"
  using foldl_check_slots [of 50 S net now] assms
  by (simp add: check_game_timeouts_def MAX_ACTIVE_GAMES_def)

text \<open>While the clock of the program does not jump by 2^31 ms, the arithmetic is exact.\<close>

lemma charge_exact:
  assumes "game_ok g" "100 \<le> e" "e < 2147483648"
  shows "mover_time (charge_time e g) = mover_time g - e"
    and "side_to_move (game_state g) = TEAM_WHITE \<Longrightarrow> black_time_remaining (charge_time e g) = black_time_remaining g"
    and "side_to_move (game_state g) = TEAM_BLACK \<Longrightarrow> white_time_remaining (charge_time e g) = white_time_remaining g"
proof -
  have "to_int32 e = e" using assms by (intro to_int32_id) simp_all
  then show "mover_time (charge_time e g) = mover_time g - e"
    using assms by (auto simp: mover_time_def charge_time_def game_ok_def intro!: to_int32_id)
qed (simp_all add: charge_time_def)

lemma ticked_ok:
  assumes "game_ok g" "is_active g" "now - last_timer_check_ms g < 2147483648"
    and "is_active (ticked now g)"
  shows "game_ok (ticked now g)"
proof (cases "due now g")
  case False
  with assms show ?thesis by (simp add: ticked_def)
next
  case True
  let ?e = "now - last_timer_check_ms g"
  have e: "100 \<le> ?e" using True by (simp add: due_def)
  have left: "\<not> out_of_time now g" using assms(4) True by (auto simp: ticked_def Let_def split: if_splits)
  note ch = charge_exact [OF assms(1) e assms(3)]
  show ?thesis
    using True left assms(1) ch e
    by (cases "side_to_move (game_state g)")
      (auto simp: ticked_def game_ok_def out_of_time_def mover_time_def Let_def)
qed

lemma ticked_fields [simp]:
  "game_id (ticked now g) = game_id g" "game_state (ticked now g) = game_state g"
  "white_player_fd (ticked now g) = white_player_fd g" "black_player_fd (ticked now g) = black_player_fd g"
  "white_player_id (ticked now g) = white_player_id g" "black_player_id (ticked now g) = black_player_id g"
  "time_limit_per_player (ticked now g) = time_limit_per_player g"
  "is_active (ticked now g) \<longleftrightarrow> is_active g \<and> \<not> (due now g \<and> out_of_time now g)"
  by (auto simp: ticked_def Let_def)

lemma ticked_count:
  "int (length (filter (\<lambda>g. is_active (ticked now g)) gs)) =
     int (length (filter is_active gs)) - int (length (filter (\<lambda>g. due now g \<and> out_of_time now g) gs))"
  by (induction gs) (auto simp: due_def)

definition no_clock_jump :: "int \<Rightarrow> server_t \<Rightarrow> bool" where
  "no_clock_jump now S \<longleftrightarrow>
     list_all (\<lambda>g. is_active g \<longrightarrow> now - last_timer_check_ms g < 2147483648) (active_games S)"

lemma check_game_timeouts_ok:
  assumes "server_ok S" "no_clock_jump now S"
  shows "server_ok (check_game_timeouts net now S)"
proof (rule server_okI)
  note ok = server_okD [OF assms(1)]
  note eq = check_game_timeouts_eq [OF ok(5), of net now]
  show "slots_ok (check_game_timeouts net now S)"
    using ok(1) by (simp add: slots_ok_def eq tally_def filter_map o_def ticked_count del: ticked_fields(8))
  have "distinct_ids (map (ticked now) (active_games S))"
    using ok(2) by (auto simp: distinct_ids_def ids_ok_def)
  then show "ids_ok (check_game_timeouts net now S)"
    using ok(2) by (auto simp: ids_ok_def eq)
  fix g assume "g \<in> set (active_games (check_game_timeouts net now S))" "is_active g"
  then show "game_ok g"
    using ok(3) assms(2) ticked_ok by (auto simp: eq no_clock_jump_def list_all_iff)
qed

section \<open>A server with one game\<close>

text \<open>A concrete state, used to instantiate the properties: White is on socket 7, Black on 5.\<close>

definition boot :: server_t where
  "boot = snd (init_match_manager True True
     \<lparr>waiting_players = [], active_games = [], waiting_count = 0, active_game_count = 0,
      next_game_no = 1, outbox = []\<rparr>)"

definition demo_clock :: match_clock where
  "demo_clock = \<lparr>mc_colour = 0, mc_id = 0, mc_start = 0, mc_move_ms = 0, mc_check_ms = 0, mc_wait = 0\<rparr>"

definition demo_game :: ActiveGame where
  "demo_game = new_game demo_clock True 7 ''ann'' 5 ''bob'' (game_id_string 0 1) zero_active_game"

definition demo_server :: server_t where
  "demo_server = game_put 0 demo_game (boot\<lparr>next_game_no := 2\<rparr>)"

lemma boot_ok: "server_ok boot"
  unfolding boot_def by (rule init_match_manager_ok) simp_all

lemma boot_fields:
  "active_games boot = replicate 50 zero_active_game" "waiting_players boot = replicate 100 zero_waiting"
  "next_game_no boot = 1" "outbox boot = []"
  by (simp_all add: boot_def init_match_manager_def MAX_ACTIVE_GAMES_def MAX_WAITING_PLAYERS_def Let_def)

lemma demo_server_ok: "server_ok demo_server"
  using server_ok_new_game [OF boot_ok, of 0 demo_game 0] new_game_ok
  by (simp add: demo_server_def demo_game_def boot_fields zero_active_game_def)

lemma demo_server_game [simp]: "active_games demo_server ! 0 = demo_game"
  by (simp add: demo_server_def game_slots.table_put boot_fields)

lemma demo_game_fields [simp]:
  "is_active demo_game" "last_timer_check_ms demo_game = 0" "mover_time demo_game = 600000"
  "side_to_move (game_state demo_game) = TEAM_WHITE" "black_time_remaining demo_game = 600000"
  "white_player_fd demo_game = 7" "black_player_fd demo_game = 5"
  "white_player_id demo_game = ''ann''" "black_player_id demo_game = ''bob''"
  by (simp_all add: demo_game_def mover_time_def) (simp add: new_game_def Let_def demo_clock_def)

section \<open>Properties\<close>

text \<open>
  C29: one pass of the timer thread over a game that is due takes the elapsed milliseconds from the
  clock of the side to move and from no other clock, never below zero, leaves the position, and ends
  the game exactly when nothing is left.
\<close>

theorem timer_charges_side_to_move:
  assumes "server_ok S" "i < 50" "due now (active_games S ! i)"
    and "now - last_timer_check_ms (active_games S ! i) < 2147483648"
  shows "let g = active_games S ! i; g' = active_games (check_game_timeouts net now S) ! i;
             e = now - last_timer_check_ms g
         in mover_time g' = max 0 (mover_time g - e)
            \<and> (if side_to_move (game_state g) = TEAM_WHITE
               then black_time_remaining g' = black_time_remaining g
               else white_time_remaining g' = white_time_remaining g)
            \<and> game_state g' = game_state g \<and> last_timer_check_ms g' = now
            \<and> (is_active g' \<longleftrightarrow> e < mover_time g)"
proof -
  let ?g = "active_games S ! i" and ?e = "now - last_timer_check_ms (active_games S ! i)"
  have ok: "game_ok ?g" using server_ok_game [OF assms(1,2)] assms(3) by (simp add: due_def)
  have e: "100 \<le> ?e" using assms(3) by (simp add: due_def)
  note ch = charge_exact [OF ok e assms(4)]
  have "active_games (check_game_timeouts net now S) ! i = ticked now ?g"
    using check_game_timeouts_eq [OF server_okD(5) [OF assms(1)], of net now] server_okD(5) [OF assms(1)] assms(2)
    by simp
  then show ?thesis
    using assms(3) ch
    by (cases "side_to_move (game_state ?g)")
      (auto simp: ticked_def out_of_time_def mover_time_def due_def Let_def)
qed

theorem timer_charges_side_to_move_witness:
  "mover_time (active_games (check_game_timeouts (\<lambda>fd m q. 0) 250 demo_server) ! 0) = 599750"
  using timer_charges_side_to_move [OF demo_server_ok, of 0 250 "\<lambda>fd m q. 0"]
  by (simp add: due_def Let_def)

text \<open>
  A pass of the timer ends a game with a message to both players, White first, that names the
  loser and the opponent as the winner; games that are not out of time send nothing, and the games
  in other slots have no influence.
\<close>

theorem timer_messages:
  assumes "server_ok S"
  shows "outbox (check_game_timeouts net now S) = outbox S @ concat (map (timeout_messages now) (active_games S))
    \<and> active_games (check_game_timeouts net now S) = map (ticked now) (active_games S)
    \<and> waiting_players (check_game_timeouts net now S) = waiting_players S"
  by (simp add: check_game_timeouts_eq [OF server_okD(5) [OF assms]])

theorem timer_messages_witness:
  "outbox (check_game_timeouts (\<lambda>fd m q. 0) 600000 demo_server) =
     concat (map (timeout_messages 600000) (active_games demo_server))"
  using timer_messages [OF demo_server_ok, of "\<lambda>fd m q. 0" 600000]
  by (simp add: demo_server_def boot_fields)

text \<open>
  Game identifiers are not reused: two identifiers made with different values of the counter
  differ, whatever the clock shows, and the identifier always fits its array.
\<close>

theorem game_ids_distinct:
  assumes "1 \<le> k" "k < k'" "k' \<le> 2147483647"
  shows "game_id_string t k \<noteq> game_id_string t' k' \<and> length (game_id_string t k) < GAME_ID_LENGTH + 1"
  using assms game_id_string_inj [of k k' t t'] game_id_string_eq(2) [of k t]
  by (auto simp: GAME_ID_LENGTH_def)

theorem game_ids_distinct_witness:
  "game_id_string 1700000000 1 \<noteq> game_id_string 1700000003 12
    \<and> length (game_id_string 1700000000 1) < GAME_ID_LENGTH + 1"
  by (rule game_ids_distinct) simp_all

end
