(* ===== verification/Match_Props.thy ===== *)
theory Match_Props
  imports Match_Inv
begin

text \<open>
  What the operations of the match manager do, on every branch: matching, cancelling, removal and
  disconnects.
\<close>

section \<open>Counts and tables\<close>

lemma tally_zero: "tally live xs n \<Longrightarrow> n = 0 \<longleftrightarrow> find_index live xs = None"
  by (auto simp: tally_def find_index_None filter_empty_conv)

lemma tally_full:
  assumes "tally live xs n"
  shows "n = int (length xs) \<longleftrightarrow> find_index (\<lambda>x. \<not> live x) xs = None"
proof -
  have "length (filter live xs) = length xs \<longleftrightarrow> (\<forall>x \<in> set xs. live x)"
    by (metis filter_True length_filter_less less_irrefl)
  with assms show ?thesis by (simp add: tally_def find_index_None)
qed

lemma waiting_count_zero:
  "server_ok S \<Longrightarrow> waiting_count S = 0 \<longleftrightarrow> find_index wp_is_active (waiting_players S) = None"
  by (rule tally_zero) (simp add: server_ok_def slots_ok_def)

lemma waiting_count_le: "server_ok S \<Longrightarrow> 0 \<le> waiting_count S \<and> waiting_count S \<le> 1"
  by (simp add: server_ok_def slots_ok_def tally_def)

lemma active_count_full:
  assumes "server_ok S"
  shows "active_game_count S = 50 \<longleftrightarrow> find_index (\<lambda>g. \<not> is_active g) (active_games S) = None"
  using tally_full [of is_active "active_games S" "active_game_count S"] server_okD(1,5) [OF assms]
  by (simp add: slots_ok_def)

lemma active_count_range: "server_ok S \<Longrightarrow> 0 \<le> active_game_count S \<and> active_game_count S \<le> 50"
  using server_okD(5) [of S] length_filter_le [of is_active "active_games S"]
  by (simp add: server_ok_def slots_ok_def tally_def)

text \<open>Releasing the only waiting player empties the queue.\<close>

lemma drop_last_waiting:
  assumes "server_ok S" "i < 100" "wp_is_active (waiting_players S ! i)"
  shows "waiting_count S = 1" "waiting_count (wait_drop i S) = 0"
proof -
  have "find_index wp_is_active (waiting_players S) \<noteq> None"
    using assms server_okD(4) [OF assms(1)] by (auto simp: find_index_None)
  with waiting_count_zero [OF assms(1)] waiting_count_le [OF assms(1)] show "waiting_count S = 1" by auto
  then show "waiting_count (wait_drop i S) = 0" by (simp add: wait_slots.count_clr)
qed

lemma free_waiting_slot:
  assumes "server_ok S" "find_index wp_is_active (waiting_players S) = None"
  obtains i where "find_index (\<lambda>p. \<not> wp_is_active p) (waiting_players S) = Some i" "i < 100"
proof -
  have "\<not> wp_is_active (waiting_players S ! 0)" "0 < length (waiting_players S)"
    using assms(2) server_okD(4) [OF assms(1)] by (auto simp: find_index_None)
  then have "find_index (\<lambda>p. \<not> wp_is_active p) (waiting_players S) \<noteq> None"
    by (auto simp: find_index_None)
  then obtain i where "find_index (\<lambda>p. \<not> wp_is_active p) (waiting_players S) = Some i" by auto
  with that find_index_SomeD [OF this] server_okD(4) [OF assms(1)] show thesis by simp
qed

section \<open>Matching\<close>

text \<open>
  \<open>add_player_to_matching\<close> answers a valid player in exactly one of three ways. If nobody waits
  the player is queued (the queue of 100 is never full, since no two players ever wait). If somebody
  waits and a game slot is free, the two are put into a fresh game at the start position, on
  opposite sides, and the queue is empty again. If all 50 slots are taken the state is unchanged and
  an error is reported.
\<close>

theorem matching_outcome:
  assumes "server_ok S" "length player_id < 64" "next_game_no S < 2147483647"
  shows "\<exists>r S'. add_player_to_matching clk fd player_id S = Some (r, S') \<and>
    (if waiting_count S = 0 then
       mr_status r = MATCH_STATUS_WAITING \<and> waiting_count S' = 1 \<and> active_games S' = active_games S
     else if active_game_count S < 50 then
       mr_status r = MATCH_STATUS_GAME_STARTED \<and> waiting_count S' = 0
       \<and> active_game_count S' = active_game_count S + 1
       \<and> (\<exists>j < 50. \<not> is_active (active_games S ! j) \<and> active_games S' = (active_games S)[j := active_games S' ! j]
            \<and> (let g = active_games S' ! j in
               is_active g \<and> game_state g = startpos (game_state (active_games S ! j))
               \<and> mr_game_id r = Some (game_id g)
               \<and> (if mr_assigned_team r = TEAM__TEAM_WHITE
                  then white_player_fd g = fd \<and> black_player_fd g = mr_opponent_fd r
                  else black_player_fd g = fd \<and> white_player_fd g = mr_opponent_fd r)))
     else mr_status r = MATCH_STATUS_ERROR \<and> S' = S)"
proof (cases "find_index wp_is_active (waiting_players S)")
  case None
  then obtain i where i: "find_index (\<lambda>p. \<not> wp_is_active p) (waiting_players S) = Some i"
    by (rule free_waiting_slot [OF assms(1)])
  from None have "waiting_count S = 0" by (simp add: waiting_count_zero [OF assms(1)])
  with None i assms(2) show ?thesis
    by (simp add: add_player_to_matching_def c_strcpy_def error_result_def wait_slots.count_put)
next
  case (Some i)
  have i: "i < 100" "wp_is_active (waiting_players S ! i)"
    using find_index_SomeD [OF Some] server_okD(4) [OF assms(1)] by simp_all
  note w = drop_last_waiting [OF assms(1) i]
  show ?thesis
  proof (cases "find_index (\<lambda>g. \<not> is_active g) (active_games S)")
    case None
    with active_count_full [OF assms(1)] Some w(1) show ?thesis
      by (simp add: add_player_to_matching_def error_result_def)
  next
    case free: (Some j)
    note j = find_game_slot [OF assms(1) free]
    let ?w = "c_mod (mc_colour clk) 2 = 0" and ?p = "waiting_players S ! i"
    let ?g = "new_game clk ?w fd player_id (wp_fd ?p) (wp_player_id ?p)
      (game_id_string (mc_id clk) (next_game_no S)) (active_games S ! j)"
    let ?S = "wait_drop i (game_put j ?g (S\<lparr>next_game_no := next_game_no S + 1\<rparr>))"
    obtain r where eq: "add_player_to_matching clk fd player_id S = Some (r, ?S)"
      and r: "mr_status r = MATCH_STATUS_GAME_STARTED" "mr_game_id r = Some (game_id ?g)"
        "mr_assigned_team r = (if ?w then TEAM__TEAM_WHITE else TEAM__TEAM_BLACK)"
        "mr_opponent_fd r = wp_fd ?p"
      by (simp add: add_player_to_matching_def Some free start_game_eq [OF assms(1) Some assms(3,2)] Let_def)
    have gs: "active_games ?S = (active_games S)[j := ?g]" "active_games ?S ! j = ?g"
      using j server_okD(5) [OF assms(1)] by (simp_all add: game_slots.table_put)
    have counts: "waiting_count ?S = 0" "active_game_count ?S = active_game_count S + 1"
      "active_game_count S < 50" "waiting_count S = 1"
      using w active_count_full [OF assms(1)] active_count_range [OF assms(1)] free
      by (auto simp: wait_slots.count_clr game_slots.count_put)
    have "\<exists>k < 50. \<not> is_active (active_games S ! k) \<and> active_games ?S = (active_games S)[k := active_games ?S ! k]
        \<and> (let g = active_games ?S ! k in
               is_active g \<and> game_state g = startpos (game_state (active_games S ! k))
               \<and> mr_game_id r = Some (game_id g)
               \<and> (if mr_assigned_team r = TEAM__TEAM_WHITE
                  then white_player_fd g = fd \<and> black_player_fd g = mr_opponent_fd r
                  else black_player_fd g = fd \<and> white_player_fd g = mr_opponent_fd r))"
    proof (intro exI [of _ j] conjI)
      show "active_games ?S = (active_games S)[j := active_games ?S ! j]"
        unfolding gs(2) by (rule gs(1))
    qed (use j in \<open>simp_all only: gs(2) Let_def r new_game_fields split: if_splits\<close>, simp_all)
    with eq r(1) counts show ?thesis by auto
  qed
qed

theorem matching_outcome_witness:
  "\<exists>r S'. add_player_to_matching demo_clock 9 ''eve'' demo_server = Some (r, S') \<and>
     mr_status r = MATCH_STATUS_WAITING \<and> waiting_count S' = 1"
proof -
  have "waiting_count demo_server = 0" "next_game_no demo_server = 2"
    by (simp_all add: demo_server_def boot_def init_match_manager_def Let_def)
  then show ?thesis
    using matching_outcome [OF demo_server_ok, of "''eve''" demo_clock 9] by auto
qed

section \<open>Leaving\<close>

lemma find_game_SomeD:
  assumes "server_ok S" "find_game_by_player_fd fd S = Some i"
  shows "i < 50" "is_active (active_games S ! i)"
    "white_player_fd (active_games S ! i) = fd \<or> black_player_fd (active_games S ! i) = fd"
    "game_ok (active_games S ! i)"
  using find_index_SomeD [of "plays fd" "active_games S" i] assms(2) server_okD(5) [OF assms(1)]
    server_ok_game [OF assms(1), of i]
  by (simp_all add: find_game_by_player_fd_def plays_def)

text \<open>
  When a connection ends, a waiting player leaves the queue; a player in a game loses it, the
  opponent alone is told so and is named the winner, the slot is free again and no other game
  changes; anybody else changes nothing.
\<close>

theorem disconnect_outcome:
  assumes "server_ok S"
  shows "case handle_player_disconnect net fd S of (r, S') \<Rightarrow>
    (if \<exists>p \<in> set (waiting_players S). wp_is_active p \<and> wp_fd p = fd then
       r = 0 \<and> waiting_count S' = 0 \<and> active_games S' = active_games S \<and> outbox S' = outbox S
     else case find_game_by_player_fd fd S of
       None \<Rightarrow> r = - 1 \<and> S' = S
     | Some i \<Rightarrow>
         (let g = active_games S ! i in
          r = 1 \<and> waiting_players S' = waiting_players S
          \<and> active_game_count S' = active_game_count S - 1
          \<and> active_games S' = (active_games S)[i := g\<lparr>is_active := False\<rparr>]
          \<and> outbox S' = outbox S @
              [if white_player_fd g = fd
               then (black_player_fd g,
                 SM_GAME_END \<lparr>geb_game_id = game_id g, geb_player_id = white_player_id g,
                   geb_winner_team = TEAM__TEAM_BLACK, geb_end_type = GAME_END_DISCONNECT\<rparr>)
               else (white_player_fd g,
                 SM_GAME_END \<lparr>geb_game_id = game_id g, geb_player_id = black_player_id g,
                   geb_winner_team = TEAM__TEAM_WHITE, geb_end_type = GAME_END_DISCONNECT\<rparr>)]))"
proof (cases "find_index (\<lambda>p. wp_is_active p \<and> wp_fd p = fd) (waiting_players S)")
  case None
  then have "\<not> (\<exists>p \<in> set (waiting_players S). wp_is_active p \<and> wp_fd p = fd)"
    by (auto simp: find_index_None)
  with None show ?thesis
    by (auto simp: handle_player_disconnect_def find_game_by_player_fd_def send_to_def Let_def
        game_slots.table_clr game_slots.count_clr split: option.splits)
next
  case (Some i)
  have i: "i < 100" "wp_is_active (waiting_players S ! i)" "wp_fd (waiting_players S ! i) = fd"
    using find_index_SomeD [OF Some] server_okD(4) [OF assms(1)] by simp_all
  then have "waiting_players S ! i \<in> set (waiting_players S)" using server_okD(4) [OF assms(1)] by simp
  with i have "\<exists>p \<in> set (waiting_players S). wp_is_active p \<and> wp_fd p = fd" by blast
  with Some drop_last_waiting [OF assms i(1,2)] show ?thesis
    by (simp add: handle_player_disconnect_def)
qed

theorem disconnect_outcome_witness:
  "active_game_count (snd (handle_player_disconnect (\<lambda>fd m q. 0) 7 demo_server)) =
     active_game_count demo_server - 1"
proof -
  have nobody: "\<not> (\<exists>p \<in> set (waiting_players demo_server). wp_is_active p \<and> wp_fd p = 7)"
    by (simp add: demo_server_def boot_fields zero_waiting_def)
  have found: "find_game_by_player_fd 7 demo_server = Some 0"
    by (simp add: find_game_by_player_fd_def find_index_Some plays_def)
      (simp add: demo_server_def game_slots.table_put boot_fields)
  show ?thesis
    using disconnect_outcome [OF demo_server_ok, where net = "\<lambda>fd m q. 0" and fd = 7]
    unfolding if_not_P [OF nobody] found by (simp add: Let_def case_prod_beta)
qed

text \<open>
  \<open>remove_game\<close> on the identifier of an active game ends that game and no other: no two active
  games share an identifier.
\<close>

theorem remove_game_exact:
  assumes "server_ok S" "i < 50" "is_active (active_games S ! i)"
  shows "remove_game (game_id (active_games S ! i)) S = (0, game_drop i S)"
proof -
  have "find_index (\<lambda>g. is_active g \<and> game_id g = game_id (active_games S ! i)) (active_games S) = Some i"
    unfolding find_index_Some
  proof (intro conjI allI impI)
    fix k
    assume "k < i"
    with assms(2,3) server_okD(2,5) [OF assms(1)] distinct_idsD [of "active_games S" k i]
    show "\<not> (is_active (active_games S ! k) \<and> game_id (active_games S ! k) = game_id (active_games S ! i))"
      by (auto simp: ids_ok_def)
  qed (use assms server_okD(5) [OF assms(1)] in simp_all)
  then show ?thesis by (simp add: remove_game_def)
qed

theorem remove_game_exact_witness:
  "remove_game (game_id demo_game) demo_server = (0, game_drop 0 demo_server)"
  using remove_game_exact [OF demo_server_ok, of 0] by simp

end
