(* ===== verification/Server_Handlers.thy ===== *)
theory Server_Handlers
  imports Match_Props
begin

text \<open>
  \<open>server/handlers/*.c\<close> and the per-message part of \<open>server/server_network.c\<close>: one definition per
  handler, with its guards, its replies in their order and its changes of the match manager.

  A handler returns its integer result and the new state, or \<open>None\<close> where the code has undefined
  behaviour. Allocations are taken to succeed.
\<close>

type_synonym outcome = "(int \<times> server_t) option"

section \<open>Error replies\<close>

definition send_error_response :: "net_t \<Rightarrow> int \<Rightarrow> int \<Rightarrow> string \<Rightarrow> server_t \<Rightarrow> int \<times> server_t" where
  "send_error_response net fd error_code error_message S =
     send_to net fd (SM_ERROR \<lparr>err_code = error_code, err_message = error_message\<rparr>) S"

section \<open>Ping and echo\<close>

definition handle_ping_message :: "net_t \<Rightarrow> int \<Rightarrow> ClientMessage \<Rightarrow> server_t \<Rightarrow> outcome" where
  "handle_ping_message net fd req S =
     (case req of
        CM_PING m \<Rightarrow>
          (let (result, S1) = send_to net fd (SM_PING_RES ''Pong from server!'') S
           in Some (if result < 0 then - 1 else 0, S1))
      | _ \<Rightarrow> Some (- 1, S))"

definition handle_echo_message :: "net_t \<Rightarrow> int \<Rightarrow> ClientMessage \<Rightarrow> server_t \<Rightarrow> outcome" where
  "handle_echo_message net fd req S =
     (case req of
        CM_ECHO m \<Rightarrow>
          (let (result, S1) = send_to net fd (SM_ECHO_RES m) S
           in Some (if result < 0 then - 1 else 0, S1))
      | _ \<Rightarrow> Some (- 1, S))"

section \<open>Matching\<close>

text \<open>The message about a started game, with the clocks in seconds.\<close>

definition match_started :: "string \<Rightarrow> Team \<Rightarrow> string \<Rightarrow> ActiveGame \<Rightarrow> ServerMessage" where
  "match_started gid tm opponent g =
     SM_MATCH_GAME_RES
       \<lparr>mgr_game_id = gid, mgr_success = True, mgr_message = ''Match found! Game starting...'',
        mgr_assigned_team = tm, mgr_opponent_name = opponent,
        mgr_time_limit_per_player = c_div (time_limit_per_player g) 1000,
        mgr_game_start_time = Some (game_start_time g),
        mgr_white_time_remaining = c_div (white_time_remaining g) 1000,
        mgr_black_time_remaining = c_div (black_time_remaining g) 1000\<rparr>"

definition match_waiting :: "string \<Rightarrow> ServerMessage" where
  "match_waiting gid =
     SM_MATCH_GAME_RES
       \<lparr>mgr_game_id = gid, mgr_success = True, mgr_message = ''Waiting for opponent...'',
        mgr_assigned_team = TEAM__TEAM_UNSPECIFIED, mgr_opponent_name = [],
        mgr_time_limit_per_player = 0, mgr_game_start_time = None,
        mgr_white_time_remaining = 0, mgr_black_time_remaining = 0\<rparr>"

definition or_else :: "'a option \<Rightarrow> 'a \<Rightarrow> 'a" where
  "or_else p d = (case p of None \<Rightarrow> d | Some x \<Rightarrow> x)"

definition handle_match_game_message ::
  "net_t \<Rightarrow> match_clock \<Rightarrow> int \<Rightarrow> ClientMessage \<Rightarrow> server_t \<Rightarrow> outcome" where
  "handle_match_game_message net clk fd req S =
     (case req of
        CM_MATCH_GAME (Some match_req) \<Rightarrow>
          if mgq_player_id match_req = []
          then Some (send_error_response net fd 2 ''Player ID is required'' S)
          else
            (case add_player_to_matching clk fd (mgq_player_id match_req) S of
               None \<Rightarrow> None
             | Some (result, S1) \<Rightarrow>
                 (case mr_status result of
                    MATCH_STATUS_WAITING \<Rightarrow>
                      Some (send_to net fd (match_waiting (or_else (mr_game_id result) [])) S1)
                  | MATCH_STATUS_GAME_STARTED \<Rightarrow>
                      (case find_game_by_player_fd fd S1 of
                         None \<Rightarrow> Some (- 1, S1)
                       | Some i \<Rightarrow>
                           (let game = active_games S1 ! i;
                                gid = or_else (mr_game_id result) [];
                                tm = mr_assigned_team result;
                                (send_result, S2) = send_to net fd
                                  (match_started gid tm (or_else (mr_opponent_name result) []) game) S1
                            in if send_result \<ge> 0 \<and> mr_opponent_fd result \<ge> 0 then
                                 (let current_player_name =
                                        (if white_player_fd game = fd then white_player_id game
                                         else black_player_id game);
                                      other = (if tm = TEAM__TEAM_WHITE then TEAM__TEAM_BLACK
                                               else TEAM__TEAM_WHITE);
                                      (r, S3) = send_to net (mr_opponent_fd result)
                                        (match_started gid other current_player_name game) S2
                                  in Some (send_result, S3))
                               else Some (send_result, S2)))
                  | MATCH_STATUS_ERROR \<Rightarrow>
                      Some (send_error_response net fd 3
                              (or_else (mr_error_message result) ''Matchmaking failed'') S1)))
      | _ \<Rightarrow> Some (send_error_response net fd 1 ''Invalid match request data'' S))"

definition handle_cancel_match_message :: "net_t \<Rightarrow> int \<Rightarrow> ClientMessage \<Rightarrow> server_t \<Rightarrow> outcome" where
  "handle_cancel_match_message net fd req S =
     (case req of
        CM_CANCEL_MATCH (Some player_id) \<Rightarrow>
          if player_id = [] then Some (send_error_response net fd 2 ''Player ID is required'' S)
          else
            (let (removal_result, S1) = remove_player_from_matching fd S in
             if removal_result = 0
             then Some (send_to net fd (SM_CANCEL_MATCH_RES
                    \<lparr>cmr_player_id = player_id, cmr_success = True,
                     cmr_message = ''Matching cancelled successfully''\<rparr>) S1)
             else Some (send_to net fd (SM_CANCEL_MATCH_RES
                    \<lparr>cmr_player_id = player_id, cmr_success = False,
                     cmr_message = ''Player not in matching queue''\<rparr>) S1))
      | _ \<Rightarrow> Some (send_error_response net fd 1 ''Invalid cancel match request data'' S))"

section \<open>Chat\<close>

definition handle_chat_message :: "net_t \<Rightarrow> int \<Rightarrow> ClientMessage \<Rightarrow> server_t \<Rightarrow> outcome" where
  "handle_chat_message net fd req S =
     (case req of
        CM_CHAT m \<Rightarrow>
          (case find_game_by_player_fd fd S of
             None \<Rightarrow> Some (- 1, S)
           | Some i \<Rightarrow>
               (let game = active_games S ! i;
                    sender_id = (if white_player_fd game = fd then white_player_id game
                                 else black_player_id game);
                    resp = SM_CHAT_BROADCAST \<lparr>chb_player_id = sender_id, chb_message = m\<rparr>;
                    (r1, S1) = send_to net (white_player_fd game) resp S
                in if r1 < 0 then Some (- 1, S1)
                   else
                     (let (r2, S2) = send_to net (black_player_fd game) resp S1
                      in Some (if r2 < 0 then - 1 else 0, S2))))
      | _ \<Rightarrow> Some (- 1, S))"

section \<open>Moves\<close>

definition send_move_error :: "net_t \<Rightarrow> int \<Rightarrow> string \<Rightarrow> string \<Rightarrow> string \<Rightarrow> server_t \<Rightarrow> int \<times> server_t" where
  "send_move_error net fd gid player_id error_msg S =
     send_to net fd (SM_MOVE_RES
       \<lparr>mvr_game_id = gid, mvr_player_id = player_id, mvr_success = False, mvr_message = error_msg,
        mvr_updated_fen = []\<rparr>) S"

definition send_move_success :: "net_t \<Rightarrow> int \<Rightarrow> string \<Rightarrow> string \<Rightarrow> string \<Rightarrow> server_t \<Rightarrow> int \<times> server_t" where
  "send_move_success net fd gid player_id updated_fen S =
     send_to net fd (SM_MOVE_RES
       \<lparr>mvr_game_id = gid, mvr_player_id = player_id, mvr_success = True,
        mvr_message = ''Move successful'', mvr_updated_fen = updated_fen\<rparr>) S"

definition broadcast_move_with_state ::
  "net_t \<Rightarrow> int \<Rightarrow> int \<Rightarrow> string \<Rightarrow> string \<Rightarrow> string \<Rightarrow> string \<Rightarrow> bool \<Rightarrow> Team \<Rightarrow> GameEndType \<Rightarrow> bool \<Rightarrow> Team
     \<Rightarrow> int \<Rightarrow> int \<Rightarrow> server_t \<Rightarrow> int \<times> server_t" where
  "broadcast_move_with_state net now fd gid player_id from_sq to_sq game_ends winner_team end_type
     chk checked_team white_time black_time S =
     send_to net fd (SM_MOVE_BROADCAST
       \<lparr>mvb_game_id = gid, mvb_player_id = player_id, mvb_from = from_sq, mvb_to = to_sq,
        mvb_promotion = PIECE_TYPE__PT_NONE, mvb_game_ends = game_ends,
        mvb_winner_team = winner_team, mvb_end_type = end_type, mvb_is_check = chk,
        mvb_checked_team = checked_team, mvb_white_time_remaining = white_time,
        mvb_black_time_remaining = black_time, mvb_move_timestamp = Some now\<rparr>) S"

definition broadcast_move ::
  "net_t \<Rightarrow> int \<Rightarrow> int \<Rightarrow> string \<Rightarrow> string \<Rightarrow> string \<Rightarrow> string \<Rightarrow> server_t \<Rightarrow> int \<times> server_t" where
  "broadcast_move net now fd gid player_id from_sq to_sq S =
     broadcast_move_with_state net now fd gid player_id from_sq to_sq False TEAM__TEAM_UNSPECIFIED
       GAME_END_UNKNOWN False TEAM__TEAM_UNSPECIFIED 0 0 S"

definition send_game_end_broadcast ::
  "net_t \<Rightarrow> ActiveGame \<Rightarrow> string \<Rightarrow> Team \<Rightarrow> GameEndType \<Rightarrow> server_t \<Rightarrow> int \<times> server_t" where
  "send_game_end_broadcast net g player_id winner_team end_type S =
     (let msg = SM_GAME_END \<lparr>geb_game_id = game_id g, geb_player_id = player_id,
                             geb_winner_team = winner_team, geb_end_type = end_type\<rparr>;
          (r1, S1) = send_to net (white_player_fd g) msg S;
          (r2, S2) = send_to net (black_player_fd g) msg S1
      in (if r1 < 0 \<or> r2 < 0 then - 1 else 0, S2))"

text \<open>The end of the game as \<open>handle_move_message\<close> computes it from the position after the move.\<close>

definition end_of_game :: "game_t \<Rightarrow> bool \<times> Team \<times> GameEndType" where
  "end_of_game G =
     (if is_checkmate G then
        (True, (if side_to_move G = TEAM_WHITE then TEAM__TEAM_BLACK else TEAM__TEAM_WHITE),
         GAME_END_CHECKMATE)
      else if is_stalemate G then (True, TEAM__TEAM_UNSPECIFIED, GAME_END_STALEMATE)
      else if is_fifty_move_rule G then (True, TEAM__TEAM_UNSPECIFIED, GAME_END_DRAW)
      else (False, TEAM__TEAM_UNSPECIFIED, GAME_END_UNKNOWN))"

definition team_number :: "team_t \<Rightarrow> int" where
  "team_number t = (case t of TEAM_WHITE \<Rightarrow> 0 | TEAM_BLACK \<Rightarrow> 1)"

definition fen_placeholder :: "game_t \<Rightarrow> string" where
  "fen_placeholder G =
     c_trunc 256 (''move_'' @ c_dec (halfmove_clock G) @ ''_to_'' @ c_dec (team_number (side_to_move G)))"

text \<open>The readings of the clocks of one call.\<close>

record move_clock =
  vc_now_ms :: int
  vc_opponent :: int
  vc_requester :: int

text \<open>From the successful application of the move to the end of \<open>handle_move_message\<close>.\<close>

definition finish_move ::
  "net_t \<Rightarrow> move_clock \<Rightarrow> int \<Rightarrow> string \<Rightarrow> int \<Rightarrow> MoveRequest \<Rightarrow> nat \<Rightarrow> server_t \<Rightarrow> int \<times> server_t" where
  "finish_move net clk fd player_id opponent_fd move_req i S =
     (let game = active_games S ! i; G = game_state game;
          (r, S1) = send_move_success net fd (game_id game) player_id (fen_placeholder G) S
      in if r < 0 then (- 1, S1)
         else
           (let current_side = side_to_move G;
                chk = is_in_check G current_side;
                checked_team = (if chk then (if current_side = TEAM_WHITE then TEAM__TEAM_WHITE
                                             else TEAM__TEAM_BLACK)
                                else TEAM__TEAM_UNSPECIFIED);
                (game_ends, winner_team, end_type) = end_of_game G;
                wt = c_div (white_time_remaining game) 1000;
                bt = c_div (black_time_remaining game) 1000;
                (r2, S2) = broadcast_move_with_state net (vc_opponent clk) opponent_fd (game_id game)
                  player_id (mvq_from move_req) (mvq_to move_req) game_ends winner_team end_type
                  chk checked_team wt bt S1;
                (r3, S3) = broadcast_move_with_state net (vc_requester clk) fd (game_id game)
                  player_id (mvq_from move_req) (mvq_to move_req) game_ends winner_team end_type
                  chk checked_team wt bt S2
            in (0, if game_ends then snd (remove_game (game_id game) S3) else S3)))"

definition handle_move_message ::
  "net_t \<Rightarrow> move_clock \<Rightarrow> int \<Rightarrow> ClientMessage \<Rightarrow> server_t \<Rightarrow> outcome" where
  "handle_move_message net clk fd req S =
     (case req of
        CM_MOVE (Some move_req) \<Rightarrow>
          (case find_game_by_player_fd fd S of
             None \<Rightarrow> Some (send_move_error net fd [] [] ''You are not in an active game'' S)
           | Some i \<Rightarrow>
               (let game = active_games S ! i in
                if white_player_fd game \<noteq> fd \<and> black_player_fd game \<noteq> fd
                then Some (send_move_error net fd (game_id game) []
                             ''Internal error: player not found in game'' S)
                else
                  (let is_white = (white_player_fd game = fd);
                       player_id = (if is_white then white_player_id game else black_player_id game);
                       opponent_fd = (if is_white then black_player_fd game else white_player_fd game);
                       player_team = (if is_white then TEAM_WHITE else TEAM_BLACK);
                       fail = (\<lambda>msg. Some (send_move_error net fd (game_id game) player_id msg S))
                   in if side_to_move (game_state game) \<noteq> player_team then fail ''It's not your turn''
                      else
                        (case parse_chess_coordinate (mvq_from move_req) of
                           None \<Rightarrow> fail ''Invalid source coordinate''
                         | Some (from_x, from_y) \<Rightarrow>
                             (case parse_chess_coordinate (mvq_to move_req) of
                                None \<Rightarrow> fail ''Invalid destination coordinate''
                              | Some (to_x, to_y) \<Rightarrow>
                                  if \<not> is_move_legal (game_state game) from_x from_y to_x to_y
                                  then fail ''Illegal move''
                                  else
                                    (let G' = apply_move (game_state game) from_x from_y to_x to_y;
                                         S1 = game_set i (game\<lparr>game_state := G',
                                                               last_move_time_ms := vc_now_ms clk\<rparr>) S
                                     in Some (finish_move net clk fd player_id opponent_fd move_req i S1)))))))
      | _ \<Rightarrow> Some (- 1, S))"

section \<open>Resignation\<close>

definition handle_resign_message :: "net_t \<Rightarrow> int \<Rightarrow> ClientMessage \<Rightarrow> server_t \<Rightarrow> outcome" where
  "handle_resign_message net fd req S =
     (case req of
        CM_RESIGN (Some player_id) \<Rightarrow>
          (case find_index (plays fd) (active_games S) of
             None \<Rightarrow> Some (send_error_response net fd 404 ''You are not in any active game'' S)
           | Some i \<Rightarrow>
               (let game = active_games S ! i;
                    is_white = (white_player_fd game = fd);
                    winner_team = (if is_white then TEAM__TEAM_BLACK else TEAM__TEAM_WHITE);
                    opponent_fd = (if is_white then black_player_fd game else white_player_fd game);
                    broadcast = SM_RESIGN_BROADCAST
                      \<lparr>rsb_game_id = game_id game, rsb_player_id = player_id, rsb_winner_team = winner_team\<rparr>;
                    (r1, S1) = send_to net fd (SM_RESIGN_RES
                      \<lparr>rsr_game_id = game_id game, rsr_player_id = player_id, rsr_success = True,
                       rsr_message = ''Resignation successful''\<rparr>) S;
                    (r2, S2) = send_to net fd broadcast S1;
                    S3 = (if opponent_fd \<ge> 0 then snd (send_to net opponent_fd broadcast S2) else S2)
                in Some (0, game_drop i S3)))
      | _ \<Rightarrow> Some (send_error_response net fd 400 ''Invalid resign request'' S))"

section \<open>Dispatch\<close>

definition handle_unknown_message :: "net_t \<Rightarrow> int \<Rightarrow> server_t \<Rightarrow> outcome" where
  "handle_unknown_message net fd S =
     (let (result, S1) = send_error_response net fd 400 ''Unsupported message type'' S
      in Some (if result < 0 then - 1 else 0, S1))"

definition dispatch_client_message ::
  "net_t \<Rightarrow> match_clock \<Rightarrow> move_clock \<Rightarrow> int \<Rightarrow> ClientMessage \<Rightarrow> server_t \<Rightarrow> outcome" where
  "dispatch_client_message net mclk vclk fd msg S =
     (case msg of
        CM_PING m \<Rightarrow> handle_ping_message net fd msg S
      | CM_ECHO m \<Rightarrow> handle_echo_message net fd msg S
      | CM_MATCH_GAME q \<Rightarrow> handle_match_game_message net mclk fd msg S
      | CM_CANCEL_MATCH q \<Rightarrow> handle_cancel_match_message net fd msg S
      | CM_CHAT m \<Rightarrow> handle_chat_message net fd msg S
      | CM_MOVE q \<Rightarrow> handle_move_message net vclk fd msg S
      | CM_RESIGN q \<Rightarrow> handle_resign_message net fd msg S
      | CM_NOT_SET \<Rightarrow> handle_unknown_message net fd S)"

text \<open>
  \<open>handle_client_message\<close> on what \<open>receive_client_message\<close> returned: the new state and whether the
  connection is closed. The value \<open>None\<close> stands for two errors only: a name that \<open>strcpy\<close> copies past its
  array and the overflow of the counter of games. Boards are total functions, and the handler runs
  without the timer between its steps; \<open>Move_Race\<close> takes it apart.
\<close>

definition handle_client_message ::
  "net_t \<Rightarrow> match_clock \<Rightarrow> move_clock \<Rightarrow> int \<Rightarrow> ClientMessage option \<Rightarrow> server_t \<Rightarrow> (bool \<times> server_t) option" where
  "handle_client_message net mclk vclk fd received S =
     (case received of
        None \<Rightarrow> Some (True, snd (handle_player_disconnect net fd S))
      | Some msg \<Rightarrow>
          (case dispatch_client_message net mclk vclk fd msg S of
             None \<Rightarrow> None
           | Some (result, S1) \<Rightarrow>
               if result < 0
               then Some (False, snd (send_error_response net fd (- result)
                      ''An error occurred while processing the request'' S1))
               else Some (False, S1)))"

end
