(* ===== verification/Server_Props.thy ===== *)
theory Server_Props
  imports Server_Handlers
begin

text \<open>
  Every handler keeps the invariant of the match manager, and what the handlers do on each branch.
\<close>

section \<open>Sending changes the log only\<close>

lemma send_to_simps [simp]:
  "fst (send_to net fd msg S) = net fd msg (outbox S)"
  "snd (send_to net fd msg S) = S\<lparr>outbox := outbox S @ [(fd, msg)]\<rparr>"
  by (simp_all add: send_to_def)

lemma send_error_response_ok [simp]: "server_ok (snd (send_error_response net fd c m S)) = server_ok S"
  by (simp add: send_error_response_def)

lemma send_move_error_ok [simp]: "server_ok (snd (send_move_error net fd g p m S)) = server_ok S"
  by (simp add: send_move_error_def)

lemma remove_active_game:
  assumes "server_ok S" "i < 50" "is_active (active_games S ! i)"
  shows "snd (remove_game (game_id (active_games S ! i)) (S\<lparr>outbox := q\<rparr>)) = game_drop i (S\<lparr>outbox := q\<rparr>)"
proof -
  have "find_index (\<lambda>g. is_active g \<and> game_id g = game_id (active_games S ! i)) (active_games S) = Some i"
    unfolding find_index_Some
  proof (intro conjI allI impI)
    fix k
    assume "k < i"
    with assms(2,3) server_okD(2,5) [OF assms(1)] distinct_idsD [of "active_games S" k i]
    show "\<not> (is_active (active_games S ! k) \<and> game_id (active_games S ! k) = game_id (active_games S ! i))"
      by (auto simp: ids_ok_def)
  qed (use assms server_okD(5) [OF assms(1)] in simp_all)
  then show ?thesis by (simp add: remove_game_def)
qed

section \<open>Moves\<close>

text \<open>
  A request the server must carry out: the sender is in a game, it is the sender's turn, both square
  names are well formed and the move is legal.
\<close>

definition playable ::
  "server_t \<Rightarrow> int \<Rightarrow> MoveRequest \<Rightarrow> nat \<Rightarrow> int \<Rightarrow> int \<Rightarrow> int \<Rightarrow> int \<Rightarrow> bool" where
  "playable S fd q i fx fy tx ty \<longleftrightarrow>
     find_game_by_player_fd fd S = Some i
     \<and> side_to_move (game_state (active_games S ! i)) =
         (if white_player_fd (active_games S ! i) = fd then TEAM_WHITE else TEAM_BLACK)
     \<and> parse_chess_coordinate (mvq_from q) = Some (fx, fy)
     \<and> parse_chess_coordinate (mvq_to q) = Some (tx, ty)
     \<and> is_move_legal (game_state (active_games S ! i)) fx fy tx ty"

definition moved_game :: "move_clock \<Rightarrow> ActiveGame \<Rightarrow> int \<Rightarrow> int \<Rightarrow> int \<Rightarrow> int \<Rightarrow> ActiveGame" where
  "moved_game clk g fx fy tx ty =
     g\<lparr>game_state := apply_move (game_state g) fx fy tx ty, last_move_time_ms := vc_now_ms clk\<rparr>"

lemma handle_move_playable:
  assumes "server_ok S" "playable S fd q i fx fy tx ty"
  shows "handle_move_message net clk fd (CM_MOVE (Some q)) S =
    (let g = active_games S ! i; w = (white_player_fd g = fd) in
     Some (finish_move net clk fd (if w then white_player_id g else black_player_id g)
             (if w then black_player_fd g else white_player_fd g) q i
             (game_set i (moved_game clk g fx fy tx ty) S)))"
  using assms find_game_SomeD(3) [OF assms(1), of fd i]
  by (auto simp: handle_move_message_def playable_def moved_game_def Let_def)

lemma handle_move_refused:
  assumes "\<And>i fx fy tx ty. \<not> playable S fd q i fx fy tx ty"
  shows "\<exists>gid pid msg. handle_move_message net clk fd (CM_MOVE (Some q)) S =
    Some (send_move_error net fd gid pid msg S)"
  using assms by (auto simp: handle_move_message_def playable_def Let_def split: option.splits)

lemma moved_game_ok:
  assumes "game_ok g" "is_move_legal (game_state g) fx fy tx ty"
  shows "game_ok (moved_game clk g fx fy tx ty)"
  using assms legal_move_pos_ok by (simp add: game_ok_def moved_game_def)

lemma moved_game_fields [simp]:
  "is_active (moved_game clk g a b c d) = is_active g" "game_id (moved_game clk g a b c d) = game_id g"
  "game_state (moved_game clk g a b c d) = apply_move (game_state g) a b c d"
  "white_time_remaining (moved_game clk g a b c d) = white_time_remaining g"
  "black_time_remaining (moved_game clk g a b c d) = black_time_remaining g"
  by (simp_all add: moved_game_def)

lemma playable_set_ok:
  assumes "server_ok S" "playable S fd q i fx fy tx ty"
  shows "server_ok (game_set i (moved_game clk (active_games S ! i) fx fy tx ty) S)" "i < 50"
    "is_active (active_games S ! i)"
proof -
  from assms(2) have find: "find_game_by_player_fd fd S = Some i"
    and legal: "is_move_legal (game_state (active_games S ! i)) fx fy tx ty"
    by (simp_all add: playable_def)
  note g = find_game_SomeD [OF assms(1) find]
  show "server_ok (game_set i (moved_game clk (active_games S ! i) fx fy tx ty) S)"
    using server_ok_game_set [OF assms(1) g(1,2)] g(2) moved_game_ok [OF g(4) legal] by simp
  show "i < 50" "is_active (active_games S ! i)" by (rule g(1), rule g(2))
qed

text \<open>The message both players get for a move, computed from the game after the move.\<close>

definition move_message :: "int \<Rightarrow> string \<Rightarrow> MoveRequest \<Rightarrow> ActiveGame \<Rightarrow> ServerMessage" where
  "move_message now player_id q g =
     SM_MOVE_BROADCAST
       \<lparr>mvb_game_id = game_id g, mvb_player_id = player_id, mvb_from = mvq_from q, mvb_to = mvq_to q,
        mvb_promotion = PIECE_TYPE__PT_NONE, mvb_game_ends = fst (end_of_game (game_state g)),
        mvb_winner_team = fst (snd (end_of_game (game_state g))),
        mvb_end_type = snd (snd (end_of_game (game_state g))),
        mvb_is_check = is_in_check (game_state g) (side_to_move (game_state g)),
        mvb_checked_team = (if is_in_check (game_state g) (side_to_move (game_state g))
                            then team_to_proto (side_to_move (game_state g)) else TEAM__TEAM_UNSPECIFIED),
        mvb_white_time_remaining = c_div (white_time_remaining g) 1000,
        mvb_black_time_remaining = c_div (black_time_remaining g) 1000,
        mvb_move_timestamp = Some now\<rparr>"

definition move_ack :: "string \<Rightarrow> ActiveGame \<Rightarrow> ServerMessage" where
  "move_ack player_id g =
     SM_MOVE_RES
       \<lparr>mvr_game_id = game_id g, mvr_player_id = player_id, mvr_success = True,
        mvr_message = ''Move successful'', mvr_updated_fen = fen_placeholder (game_state g)\<rparr>"

lemma finish_move_eq:
  assumes "server_ok S" "i < 50" "is_active (active_games S ! i)"
  shows "finish_move net clk fd pid ofd q i S =
    (let g = active_games S ! i; q1 = outbox S @ [(fd, move_ack pid g)];
         q2 = q1 @ [(ofd, move_message (vc_opponent clk) pid q g), (fd, move_message (vc_requester clk) pid q g)]
     in if net fd (move_ack pid g) (outbox S) < 0 then (- 1, S\<lparr>outbox := q1\<rparr>)
        else (0, if fst (end_of_game (game_state g)) then game_drop i (S\<lparr>outbox := q2\<rparr>)
                 else S\<lparr>outbox := q2\<rparr>))"
proof -
  have team: "(if side_to_move G = TEAM_WHITE then TEAM__TEAM_WHITE else TEAM__TEAM_BLACK) =
      team_to_proto (side_to_move G)" for G
    by (cases "side_to_move G") simp_all
  note rm = remove_active_game [OF assms]
  show ?thesis
    by (cases "end_of_game (game_state (active_games S ! i))")
      (auto simp: finish_move_def send_move_success_def broadcast_move_with_state_def send_to_def
        move_message_def move_ack_def rm Let_def team)
qed

lemma handle_move_ok:
  assumes "server_ok S" "handle_move_message net clk fd req S = Some (r, S')"
  shows "server_ok S'"
proof (cases "\<exists>q i fx fy tx ty. req = CM_MOVE (Some q) \<and> playable S fd q i fx fy tx ty")
  case True
  then obtain q i fx fy tx ty where req: "req = CM_MOVE (Some q)" and p: "playable S fd q i fx fy tx ty"
    by blast
  let ?S = "game_set i (moved_game clk (active_games S ! i) fx fy tx ty) S"
  note ok = playable_set_ok [OF assms(1) p]
  have act: "is_active (active_games ?S ! i)" using ok(2,3) server_okD(5) [OF assms(1)] by simp
  have "server_ok (snd (finish_move net clk fd pid ofd q i ?S))" for pid ofd
    using ok(1,2) act server_ok_game_drop [of "?S\<lparr>outbox := qq\<rparr>" i for qq]
    by (simp add: finish_move_eq [OF ok(1,2) act] Let_def)
  moreover obtain pid ofd where "finish_move net clk fd pid ofd q i ?S = (r, S')"
    using assms(2) by (auto simp: req handle_move_playable [OF assms(1) p] Let_def)
  ultimately show ?thesis by (metis snd_conv)
next
  case False
  show ?thesis
  proof (cases "\<exists>q. req = CM_MOVE (Some q)")
    case True
    with False handle_move_refused [of S fd _ net clk] assms show ?thesis
      by (metis option.inject prod.sel(2) send_move_error_ok)
  next
    case False
    with assms show ?thesis
      by (auto simp: handle_move_message_def split: ClientMessage.splits option.splits)
  qed
qed

section \<open>The other handlers\<close>

lemma send_out: "send_to net fd msg S = (net fd msg (outbox S), S\<lparr>outbox := outbox S @ [(fd, msg)]\<rparr>)"
  by (simp add: send_to_def)

lemma ping_echo_ok:
  "server_ok S \<Longrightarrow> handle_ping_message net fd req S = Some (r, S') \<Longrightarrow> server_ok S'"
  "server_ok S \<Longrightarrow> handle_echo_message net fd req S = Some (r, S') \<Longrightarrow> server_ok S'"
  by (auto simp: handle_ping_message_def handle_echo_message_def send_out split: ClientMessage.splits)

lemma match_handler_ok:
  assumes "server_ok S" "handle_match_game_message net clk fd req S = Some (r, S')"
  shows "server_ok S'"
  using assms(2) add_player_ok [OF assms(1)] assms(1)
  by (auto simp: handle_match_game_message_def send_out send_error_response_def Let_def
      split: ClientMessage.splits option.splits if_splits MatchStatus.splits)

lemma cancel_handler_ok:
  assumes "server_ok S" "handle_cancel_match_message net fd req S = Some (r, S')"
  shows "server_ok S'"
  using assms(2) remove_player_ok [OF assms(1), of fd] assms(1)
  by (auto simp: handle_cancel_match_message_def send_out send_error_response_def Let_def
      split: ClientMessage.splits option.splits if_splits prod.splits)

lemma chat_handler_ok:
  assumes "server_ok S" "handle_chat_message net fd req S = Some (r, S')"
  shows "server_ok S'"
  using assms
  by (auto simp: handle_chat_message_def send_out Let_def split: ClientMessage.splits option.splits if_splits)

lemma resign_handler_ok:
  assumes "server_ok S" "handle_resign_message net fd req S = Some (r, S')"
  shows "server_ok S'"
  using assms server_okD(5) [OF assms(1)]
  by (auto simp: handle_resign_message_def send_out send_error_response_def plays_def Let_def
      dest!: find_index_SomeD intro!: server_ok_game_drop
      split: ClientMessage.splits option.splits if_splits)

lemma dispatch_ok:
  assumes "server_ok S" "dispatch_client_message net mclk vclk fd msg S = Some (r, S')"
  shows "server_ok S'"
  using assms(2) assms(1)
  by (cases msg)
    (auto simp: dispatch_client_message_def handle_unknown_message_def send_error_response_def send_out
      dest: ping_echo_ok [OF assms(1)] match_handler_ok [OF assms(1)] cancel_handler_ok [OF assms(1)]
        chat_handler_ok [OF assms(1)] resign_handler_ok [OF assms(1)] handle_move_ok [OF assms(1)])

lemma handle_client_message_ok:
  assumes "server_ok S" "handle_client_message net mclk vclk fd received S = Some (closed, S')"
  shows "server_ok S'"
  using assms disconnect_ok dispatch_ok
  by (auto simp: handle_client_message_def split: option.splits if_splits)

end
