(* ===== verification/Server_Thms.thy ===== *)
theory Server_Thms
  imports Server_Props Rule_Thms
begin

text \<open>What the server's handlers do, on every branch.\<close>

section \<open>Moves\<close>

text \<open>
  C9: a move request is refused unless the sender is in a game, it is the sender's turn, both square
  names are well formed and the move is legal. A refused request changes nothing: the sender gets
  one negative reply, and no other message is sent.
\<close>

theorem move_refused:
  assumes "\<And>i fx fy tx ty. \<not> playable S fd q i fx fy tx ty"
  shows "\<exists>r rep. handle_move_message net clk fd (CM_MOVE (Some q)) S =
      Some (r, S\<lparr>outbox := outbox S @ [(fd, SM_MOVE_RES rep)]\<rparr>) \<and> \<not> mvr_success rep"
proof -
  obtain gid pid msg where
    "handle_move_message net clk fd (CM_MOVE (Some q)) S = Some (send_move_error net fd gid pid msg S)"
    using handle_move_refused [OF assms] by blast
  then have "handle_move_message net clk fd (CM_MOVE (Some q)) S =
      Some (fst (send_move_error net fd gid pid msg S), S\<lparr>outbox := outbox S @ [(fd, SM_MOVE_RES
        \<lparr>mvr_game_id = gid, mvr_player_id = pid, mvr_success = False, mvr_message = msg,
         mvr_updated_fen = []\<rparr>)]\<rparr>)"
    by (simp add: send_move_error_def send_to_def)
  then show ?thesis by (intro exI conjI) (assumption, simp)
qed

theorem move_refused_witness:
  "\<exists>r rep. handle_move_message (\<lambda>fd m q. 0) \<lparr>vc_now_ms = 5, vc_opponent = 6, vc_requester = 7\<rparr> 9 (CM_MOVE (Some \<lparr>mvq_from = ''e2'', mvq_to = ''e4''\<rparr>)) boot =
      Some (r, boot\<lparr>outbox := outbox boot @ [(9, SM_MOVE_RES rep)]\<rparr>) \<and> \<not> mvr_success rep"
proof (rule move_refused)
  fix i fx fy tx ty
  have "find_game_by_player_fd 9 boot = None"
    by (simp add: find_game_by_player_fd_def find_index_None boot_fields plays_def zero_active_game_def)
  then show "\<not> playable boot 9 \<lparr>mvq_from = ''e2'', mvq_to = ''e4''\<rparr> i fx fy tx ty"
    by (simp add: playable_def)
qed

text \<open>
  The end of a game by the rules of chess: the side to move has no move, with its king attacked or
  not, or a hundred half-moves were made without a pawn move or capture.
\<close>

definition chess_end :: "game_t \<Rightarrow> GameEndType \<times> Team" where
  "chess_end G =
     (let t = side_to_move G; stuck = (\<forall>sx sy dx dy. \<not> chess_move G sx sy dx dy)
      in if stuck \<and> king_attacked G t then (GAME_END_CHECKMATE, team_to_proto (other_team t))
         else if stuck then (GAME_END_STALEMATE, TEAM__TEAM_UNSPECIFIED)
         else if 100 \<le> halfmove_clock G then (GAME_END_DRAW, TEAM__TEAM_UNSPECIFIED)
         else (GAME_END_UNKNOWN, TEAM__TEAM_UNSPECIFIED))"

lemma end_of_game_chess:
  assumes "pos_ok G"
  shows "end_of_game G = (fst (chess_end G) \<noteq> GAME_END_UNKNOWN, snd (chess_end G), fst (chess_end G))"
proof -
  have "is_in_check G (side_to_move G) \<longleftrightarrow> king_attacked G (side_to_move G)"
    using in_check_attacked pos_okD(1,2) [OF assms] by blast
  then show ?thesis
    by (cases "side_to_move G")
      (auto simp: end_of_game_def chess_end_def is_checkmate_iff is_stalemate_iff is_fifty_move_rule_def
        legal_chess_move [OF assms] Let_def)
qed

text \<open>
  C8: a legal move of the player to move is applied, and if its acknowledgement can be sent the
  opponent and then the mover get the same news of the move, with the clocks in seconds and the state of
  the new position: whether its king is attacked, and the end of the game by checkmate, stalemate or the
  fifty-move rule, with the winner. The game's slot is released exactly when the game has ended in one
  of these ways (a threefold repetition, which the README names, is not among them). No other game and
  no queue entry changes.
\<close>

theorem move_accepted:
  assumes "server_ok S" "playable S fd q i fx fy tx ty"
    and "g = active_games S ! i" "g' = moved_game clk g fx fy tx ty"
    and "pid = (if white_player_fd g = fd then white_player_id g else black_player_id g)"
    and "ofd = (if white_player_fd g = fd then black_player_fd g else white_player_fd g)"
    and "0 \<le> net fd (move_ack pid g') (outbox S)"
    and "G' = apply_move (game_state g) fx fy tx ty" "(kind, winner) = chess_end G'"
    and "news = (\<lambda>now. SM_MOVE_BROADCAST
           \<lparr>mvb_game_id = game_id g, mvb_player_id = pid, mvb_from = mvq_from q, mvb_to = mvq_to q,
            mvb_promotion = PIECE_TYPE__PT_NONE, mvb_game_ends = (kind \<noteq> GAME_END_UNKNOWN),
            mvb_winner_team = winner, mvb_end_type = kind,
            mvb_is_check = king_attacked G' (side_to_move G'),
            mvb_checked_team = (if king_attacked G' (side_to_move G') then team_to_proto (side_to_move G')
                                else TEAM__TEAM_UNSPECIFIED),
            mvb_white_time_remaining = c_div (white_time_remaining g) 1000,
            mvb_black_time_remaining = c_div (black_time_remaining g) 1000,
            mvb_move_timestamp = Some now\<rparr>)"
  shows "\<exists>S'. handle_move_message net clk fd (CM_MOVE (Some q)) S = Some (0, S')
    \<and> active_games S' = (active_games S)[i := g'\<lparr>is_active := (kind = GAME_END_UNKNOWN)\<rparr>]
    \<and> game_state g' = G'
    \<and> waiting_players S' = waiting_players S
    \<and> outbox S' = outbox S @ [(fd, move_ack pid g'), (ofd, news (vc_opponent clk)), (fd, news (vc_requester clk))]"
proof -
  let ?S = "game_set i g' S"
  note ok = playable_set_ok(1) [OF assms(1,2), where clk = clk, folded assms(3), folded assms(4)]
    playable_set_ok(2,3) [OF assms(1,2)]
  have i: "i < length (active_games S)" "is_active g'"
    using ok(2,3) server_okD(5) [OF assms(1)] assms(3,4) by simp_all
  then have act: "is_active (active_games ?S ! i)" by simp
  have upd: "g'\<lparr>is_active := \<not> over\<rparr> = (if over then g'\<lparr>is_active := False\<rparr> else g')" for over
    using i(2) by (cases g') simp
  have run: "handle_move_message net clk fd (CM_MOVE (Some q)) S = Some (finish_move net clk fd pid ofd q i ?S)"
    using handle_move_playable [OF assms(1,2), of net clk] assms(3-6) by (simp add: Let_def)
  have G': "game_state g' = G'" using assms(3,4,8) by (simp add: moved_game_def)
  have sound: "pos_ok G'"
    using find_game_SomeD(4) [OF assms(1)] assms(2,3,8) legal_move_pos_ok
    by (auto simp: playable_def game_ok_def)
  have ends: "end_of_game G' = (kind \<noteq> GAME_END_UNKNOWN, winner, kind)"
    using end_of_game_chess [OF sound] assms(9) by (metis fst_conv snd_conv)
  have "is_in_check G' (side_to_move G') \<longleftrightarrow> king_attacked G' (side_to_move G')"
    using in_check_attacked pos_okD(1,2) [OF sound] by blast
  then have told: "move_message now pid q g' = news now" for now
    using assms(3,4,10) G' ends by (simp add: move_message_def)
  have slot: "g'\<lparr>is_active := (kind = GAME_END_UNKNOWN)\<rparr> =
      (if kind \<noteq> GAME_END_UNKNOWN then g'\<lparr>is_active := False\<rparr> else g')"
    using upd [of "kind \<noteq> GAME_END_UNKNOWN"] by simp
  show ?thesis
    unfolding slot told [symmetric] using run G' ends i assms(7) finish_move_eq [OF ok(1,2) act, where pid = pid and ofd = ofd and q = q and net = net and clk = clk and fd = fd]
    by (auto simp: Let_def game_slots.table_clr)
qed

lemma demo_playable: "playable demo_server 7 \<lparr>mvq_from = ''e2'', mvq_to = ''e4''\<rparr> 0 4 1 4 3"
proof -
  have "parse_chess_coordinate ''e2'' = Some (4, 1)" "parse_chess_coordinate ''e4'' = Some (4, 3)"
    by code_simp+
  moreover have "find_game_by_player_fd 7 demo_server = Some 0"
    by (simp add: find_game_by_player_fd_def find_index_Some plays_def)
      (simp add: demo_server_def game_slots.table_put boot_fields)
  moreover have "game_state demo_game = startpos zero_game"
    by (simp add: demo_game_def zero_active_game_def)
  ultimately show ?thesis using e4_legal by (simp add: playable_def)
qed

theorem move_accepted_witness:
  "\<exists>S'. handle_move_message (\<lambda>fd m q. 12) \<lparr>vc_now_ms = 5, vc_opponent = 6, vc_requester = 7\<rparr> 7
     (CM_MOVE (Some \<lparr>mvq_from = ''e2'', mvq_to = ''e4''\<rparr>)) demo_server = Some (0, S')
     \<and> length (outbox S') = length (outbox demo_server) + 3"
  using move_accepted [OF demo_server_ok demo_playable refl refl refl refl _ refl prod.collapse refl, of "\<lambda>fd m q. 12"
      "\<lparr>vc_now_ms = 5, vc_opponent = 6, vc_requester = 7\<rparr>"]
  by auto

text \<open>
  C39: if the acknowledgement of a legal move cannot be sent, the move is kept but nobody is told: no
  broadcast goes out, and the game stays in the table even when the move was mate.
\<close>

theorem move_reply_lost:
  assumes "server_ok S" "playable S fd q i fx fy tx ty"
    and "g = active_games S ! i" "g' = moved_game clk g fx fy tx ty"
    and "pid = (if white_player_fd g = fd then white_player_id g else black_player_id g)"
    and "net fd (move_ack pid g') (outbox S) < 0"
  shows "\<exists>S'. handle_move_message net clk fd (CM_MOVE (Some q)) S = Some (- 1, S')
    \<and> active_games S' = (active_games S)[i := g'] \<and> is_active g'
    \<and> outbox S' = outbox S @ [(fd, move_ack pid g')]"
proof -
  let ?S = "game_set i g' S"
  let ?ofd = "if white_player_fd g = fd then black_player_fd g else white_player_fd g"
  note ok = playable_set_ok(1) [OF assms(1,2), where clk = clk, folded assms(3), folded assms(4)]
    playable_set_ok(2,3) [OF assms(1,2)]
  have i: "i < length (active_games S)" "is_active g'"
    using ok(2,3) server_okD(5) [OF assms(1)] assms(3,4) by simp_all
  then have act: "is_active (active_games ?S ! i)" by simp
  have "handle_move_message net clk fd (CM_MOVE (Some q)) S = Some (finish_move net clk fd pid ?ofd q i ?S)"
    using handle_move_playable [OF assms(1,2), of net clk] assms(3-5) by (simp add: Let_def)
  then show ?thesis
    using i assms(6) finish_move_eq [OF ok(1,2) act, where pid = pid and ofd = ?ofd and q = q and net = net and clk = clk and fd = fd]
    by (auto simp: Let_def)
qed

theorem move_reply_lost_witness:
  "\<exists>S'. handle_move_message (\<lambda>fd m q. - 1) \<lparr>vc_now_ms = 5, vc_opponent = 6, vc_requester = 7\<rparr> 7
     (CM_MOVE (Some \<lparr>mvq_from = ''e2'', mvq_to = ''e4''\<rparr>)) demo_server = Some (- 1, S')
     \<and> length (outbox S') = length (outbox demo_server) + 1"
  using move_reply_lost [OF demo_server_ok demo_playable refl refl refl, of "\<lambda>fd m q. - 1"
      "\<lparr>vc_now_ms = 5, vc_opponent = 6, vc_requester = 7\<rparr>"]
  by auto

section \<open>Resignation, cancelling and chat\<close>

text \<open>
  A resignation of a player in a game always succeeds: the game's slot is released, the opponent
  is the winner, the player gets the confirmation and the news, the opponent the news, and no other
  game changes. A player without a game gets an error and nothing changes.
\<close>

theorem resign_outcome:
  "handle_resign_message net fd (CM_RESIGN (Some pid)) S =
    (case find_game_by_player_fd fd S of
       None \<Rightarrow> Some (net fd (SM_ERROR \<lparr>err_code = 404, err_message = ''You are not in any active game''\<rparr>) (outbox S),
                 S\<lparr>outbox := outbox S @ [(fd, SM_ERROR \<lparr>err_code = 404, err_message = ''You are not in any active game''\<rparr>)]\<rparr>)
     | Some i \<Rightarrow>
         (let g = active_games S ! i; white = (white_player_fd g = fd);
              ofd = (if white then black_player_fd g else white_player_fd g);
              news = SM_RESIGN_BROADCAST \<lparr>rsb_game_id = game_id g, rsb_player_id = pid,
                       rsb_winner_team = (if white then TEAM__TEAM_BLACK else TEAM__TEAM_WHITE)\<rparr>
          in Some (0, S\<lparr>active_games := (active_games S)[i := g\<lparr>is_active := False\<rparr>],
                       active_game_count := active_game_count S - 1,
                       outbox := outbox S @
                         [(fd, SM_RESIGN_RES \<lparr>rsr_game_id = game_id g, rsr_player_id = pid,
                             rsr_success = True, rsr_message = ''Resignation successful''\<rparr>),
                          (fd, news)] @ (if 0 \<le> ofd then [(ofd, news)] else [])\<rparr>)))"
  by (auto simp: handle_resign_message_def find_game_by_player_fd_def send_error_response_def send_out
      Let_def game_drop_def split: option.splits intro!: server_t.equality)

text \<open>
  A cancel request takes the sender out of the queue exactly when the sender waits there, says so
  in its one reply, and touches nothing else.
\<close>

theorem cancel_outcome:
  assumes "server_ok S" "pid \<noteq> []"
  shows "\<exists>r S' rep. handle_cancel_match_message net fd (CM_CANCEL_MATCH (Some pid)) S = Some (r, S')
    \<and> outbox S' = outbox S @ [(fd, SM_CANCEL_MATCH_RES rep)] \<and> cmr_player_id rep = pid
    \<and> (cmr_success rep \<longleftrightarrow> (\<exists>p \<in> set (waiting_players S). wp_is_active p \<and> wp_fd p = fd))
    \<and> waiting_count S' = (if cmr_success rep then 0 else waiting_count S)
    \<and> active_games S' = active_games S"
proof (cases "find_index (\<lambda>p. wp_is_active p \<and> wp_fd p = fd) (waiting_players S)")
  case None
  moreover from None have "\<not> (\<exists>p \<in> set (waiting_players S). wp_is_active p \<and> wp_fd p = fd)"
    by (auto simp: find_index_None)
  ultimately show ?thesis
    using assms(2) by (auto simp: handle_cancel_match_message_def remove_player_from_matching_def send_out)
next
  case (Some i)
  have i: "i < 100" "wp_is_active (waiting_players S ! i)" "wp_fd (waiting_players S ! i) = fd"
    using find_index_SomeD [OF Some] server_okD(4) [OF assms(1)] by simp_all
  then have "waiting_players S ! i \<in> set (waiting_players S)" using server_okD(4) [OF assms(1)] by simp
  with i Some drop_last_waiting [OF assms(1) i(1,2)] assms(2) show ?thesis
    by (auto simp: handle_cancel_match_message_def remove_player_from_matching_def send_out)
qed

theorem cancel_outcome_witness:
  "\<exists>r S'. handle_cancel_match_message (\<lambda>fd m q. 0) 9 (CM_CANCEL_MATCH (Some ''eve'')) boot = Some (r, S')
     \<and> active_games S' = active_games boot"
  using cancel_outcome [OF boot_ok, of "''eve''" "\<lambda>fd m q. 0" 9] by auto

text \<open>
  A chat line of a player in a game goes to both players of that game and to nobody else, under
  the name the server has for the sender; without a game it goes nowhere.
\<close>

theorem chat_outcome:
  assumes "find_game_by_player_fd fd S = Some i" "active_games S ! i = g"
    and "(if white_player_fd g = fd then white_player_id g else black_player_id g) = pid"
    and "0 \<le> net (white_player_fd g) (SM_CHAT_BROADCAST \<lparr>chb_player_id = pid, chb_message = m\<rparr>) (outbox S)"
  shows "\<exists>r. handle_chat_message net fd (CM_CHAT m) S =
    Some (r, S\<lparr>outbox := outbox S @
      [(white_player_fd g, SM_CHAT_BROADCAST \<lparr>chb_player_id = pid, chb_message = m\<rparr>),
       (black_player_fd g, SM_CHAT_BROADCAST \<lparr>chb_player_id = pid, chb_message = m\<rparr>)]\<rparr>)"
  using assms(4) unfolding handle_chat_message_def send_out Let_def ClientMessage.case assms(1-3) option.case
  by simp

theorem chat_outcome_witness:
  "\<exists>r. handle_chat_message (\<lambda>fd m q. 0) 5 (CM_CHAT ''hi'') demo_server =
    Some (r, demo_server\<lparr>outbox := outbox demo_server @
      [(7, SM_CHAT_BROADCAST \<lparr>chb_player_id = ''bob'', chb_message = ''hi''\<rparr>),
       (5, SM_CHAT_BROADCAST \<lparr>chb_player_id = ''bob'', chb_message = ''hi''\<rparr>)]\<rparr>)"
proof -
  have "find_game_by_player_fd 5 demo_server = Some 0"
    by (simp add: find_game_by_player_fd_def find_index_Some plays_def)
      (simp add: demo_server_def game_slots.table_put boot_fields)
  from chat_outcome [OF this refl refl, of "\<lambda>fd m q. 0" "''hi''"] show ?thesis by simp
qed

text \<open>The handlers without a string copy always have a value.\<close>

lemma ping_echo_defined:
  "handle_ping_message net fd req S \<noteq> None" "handle_echo_message net fd req S \<noteq> None"
  by (cases req; simp add: handle_ping_message_def handle_echo_message_def send_out)+

lemma cancel_defined: "handle_cancel_match_message net fd req S \<noteq> None"
  by (cases req) (auto simp: handle_cancel_match_message_def Let_def split: option.split prod.split)

lemma chat_defined: "handle_chat_message net fd req S \<noteq> None"
  by (cases req) (auto simp: handle_chat_message_def send_out Let_def split: option.split)

lemma resign_defined: "handle_resign_message net fd req S \<noteq> None"
  by (cases req) (auto simp: handle_resign_message_def send_out Let_def split: option.split)

lemma move_defined: "handle_move_message net clk fd req S \<noteq> None"
proof (cases req)
  case (CM_MOVE q)
  then show ?thesis by (cases q) (auto simp: handle_move_message_def Let_def split: option.split)
qed (simp_all add: handle_move_message_def)

lemma start_game_none:
  assumes "server_ok S" "find_index wp_is_active (waiting_players S) = Some i"
  shows "start_game clk fd pid i j S = None \<longleftrightarrow> 64 \<le> length pid \<or> next_game_no S = 2147483647"
proof (cases "64 \<le> length pid \<or> next_game_no S = 2147483647")
  case True
  then show ?thesis
    by (auto simp: start_game_def generate_game_id_def c_strcpy_def Let_def split: option.split)
next
  case False
  moreover have "next_game_no S \<le> 2147483647" using server_okD(2) [OF assms(1)] by (simp add: ids_ok_def)
  ultimately show ?thesis
    using start_game_eq [OF assms, of pid clk fd j] by (simp add: Let_def)
qed

lemma add_player_none:
  assumes "server_ok S"
  shows "add_player_to_matching clk fd pid S = None \<longleftrightarrow>
    (if \<exists>p \<in> set (waiting_players S). wp_is_active p
     then (\<exists>g \<in> set (active_games S). \<not> is_active g) \<and> (64 \<le> length pid \<or> next_game_no S = 2147483647)
     else 64 \<le> length pid)"
proof (cases "find_index wp_is_active (waiting_players S)")
  case None
  then obtain i where "find_index (\<lambda>p. \<not> wp_is_active p) (waiting_players S) = Some i"
    using free_waiting_slot [OF assms] by blast
  moreover have "\<not> (\<exists>p \<in> set (waiting_players S). wp_is_active p)" using None by (simp add: find_index_None)
  ultimately show ?thesis using None by (simp add: add_player_to_matching_def c_strcpy_def not_less)
next
  case (Some i)
  then have waits: "\<exists>p \<in> set (waiting_players S). wp_is_active p"
    using find_index_None [of wp_is_active "waiting_players S"] by auto
  show ?thesis
  proof (cases "find_index (\<lambda>g. \<not> is_active g) (active_games S)")
    case None
    moreover from this have "\<not> (\<exists>g \<in> set (active_games S). \<not> is_active g)" by (simp add: find_index_None)
    ultimately show ?thesis using Some waits by (simp add: add_player_to_matching_def)
  next
    case (Some j)
    then have "\<exists>g \<in> set (active_games S). \<not> is_active g"
      using find_index_None [of "\<lambda>g. \<not> is_active g" "active_games S"] by auto
    with Some waits \<open>find_index wp_is_active (waiting_players S) = _\<close> show ?thesis
      using start_game_none [OF assms \<open>find_index wp_is_active (waiting_players S) = _\<close>]
      by (simp add: add_player_to_matching_def)
  qed
qed

lemma match_none:
  "handle_match_game_message net clk fd req S = None \<longleftrightarrow>
     (\<exists>q. req = CM_MATCH_GAME (Some q) \<and> mgq_player_id q \<noteq> []
        \<and> add_player_to_matching clk fd (mgq_player_id q) S = None)"
proof (cases "\<exists>q. req = CM_MATCH_GAME (Some q)")
  case True
  then obtain q where q: "req = CM_MATCH_GAME (Some q)" by blast
  then show ?thesis
  proof (cases "add_player_to_matching clk fd (mgq_player_id q) S")
    case None
    with q show ?thesis by (simp add: handle_match_game_message_def)
  next
    case (Some x)
    then obtain r S1 where "add_player_to_matching clk fd (mgq_player_id q) S = Some (r, S1)" by (cases x) auto
    with q have "handle_match_game_message net clk fd req S \<noteq> None"
      by (auto simp: handle_match_game_message_def send_out Let_def split: option.split MatchStatus.split)
    with q Some show ?thesis by simp
  qed
qed (auto simp: handle_match_game_message_def split: ClientMessage.split option.split)

text \<open>
  C38: which requests overrun the array of a player's name or the counter of the games. The copy of a
  name with \<open>strcpy\<close> writes past its 64 bytes, or the increment of the counter overflows, exactly for a
  request for a match whose name has 64 bytes or more and is stored, or that starts a game when the
  counter is at its maximum. Nothing in the code checks either. (Only these two errors are stated:
  accesses of the threads to the same data are not part of it.)
\<close>

theorem requests_that_overrun:
  assumes "server_ok S"
  shows "handle_client_message net mclk vclk fd received S = None \<longleftrightarrow>
    (\<exists>q. received = Some (CM_MATCH_GAME (Some q)) \<and> mgq_player_id q \<noteq> []
       \<and> (if \<exists>p \<in> set (waiting_players S). wp_is_active p
          then (\<exists>g \<in> set (active_games S). \<not> is_active g)
               \<and> (64 \<le> length (mgq_player_id q) \<or> next_game_no S = 2147483647)
          else 64 \<le> length (mgq_player_id q)))"
proof (cases received)
  case None
  then show ?thesis by (simp add: handle_client_message_def)
next
  case (Some msg)
  have "dispatch_client_message net mclk vclk fd msg S = None \<longleftrightarrow> handle_match_game_message net mclk fd msg S = None"
    using ping_echo_defined cancel_defined chat_defined resign_defined move_defined
    by (cases msg) (simp_all add: dispatch_client_message_def handle_unknown_message_def match_none
        send_error_response_def send_out)
  then have "handle_client_message net mclk vclk fd received S = None \<longleftrightarrow>
      handle_match_game_message net mclk fd msg S = None"
    using Some by (auto simp: handle_client_message_def split: option.split)
  with Some show ?thesis by (simp add: match_none add_player_none [OF assms])
qed

theorem requests_that_overrun_witness:
  "handle_client_message (\<lambda>fd m q. 0) demo_clock \<lparr>vc_now_ms = 5, vc_opponent = 6, vc_requester = 7\<rparr> 9
     (Some (CM_MATCH_GAME (Some \<lparr>mgq_player_id = ''eve'', mgq_desired_game_id = []\<rparr>))) boot \<noteq> None
   \<and> handle_client_message (\<lambda>fd m q. 0) demo_clock \<lparr>vc_now_ms = 5, vc_opponent = 6, vc_requester = 7\<rparr> 9
     (Some (CM_MATCH_GAME (Some \<lparr>mgq_player_id = replicate 64 (CHR ''e''), mgq_desired_game_id = []\<rparr>))) boot = None"
  unfolding requests_that_overrun [OF boot_ok] by (auto simp: boot_fields zero_waiting_def)

end
