(* ===== verification/Server_System.thy ===== *)
theory Server_System
  imports Server_Thms
begin

text \<open>
  The server process of \<open>server/main.c\<close> and \<open>server/server_network.c\<close>: the command line, the event
  loop with its connections, and the timer thread, as a step relation.

  A step is one iteration of the loop body over a ready descriptor, or one pass of the timer thread.
  The two threads interleave at these steps: \<open>check_game_timeouts\<close> and the match manager's functions
  hold the mutex throughout. (The handlers for moves and chat read the game outside the mutex; for
  moves, \<open>Move_Race\<close> has passes in the middle of the handler.)
\<close>

section \<open>Start\<close>

definition DEFAULT_PORT :: int where "DEFAULT_PORT = 8080"

text \<open>The arguments after the program name; \<open>Inl ()\<close> is \<open>exit(EXIT_FAILURE)\<close>.\<close>

fun parse_port_loop :: "string list \<Rightarrow> int \<Rightarrow> (unit + int) option" where
  "parse_port_loop [] port = Some (Inr port)"
| "parse_port_loop [a] port = Some (Inr port)"
| "parse_port_loop (a # b # rest) port =
     (if a = ''-p'' then
        (case c_atoi b of
           None \<Rightarrow> None
         | Some p \<Rightarrow> if p \<le> 0 \<or> p > 65535 then Some (Inl ()) else parse_port_loop rest p)
      else parse_port_loop (b # rest) port)"

definition parse_port_from_args :: "string list \<Rightarrow> (unit + int) option" where
  "parse_port_from_args args = parse_port_loop args DEFAULT_PORT"

text \<open>
  The set-up of the listener and of epoll: what \<open>socket\<close> and \<open>epoll_create1\<close> return, and whether the
  other calls succeed. \<open>Inl ()\<close> is \<open>exit(EXIT_FAILURE)\<close>.
\<close>

definition create_and_bind_listener :: "int \<Rightarrow> bool \<Rightarrow> bool \<Rightarrow> unit + int" where
  "create_and_bind_listener listener bind_ok listen_ok =
     (if listener < 0 then Inl () else if \<not> bind_ok then Inl () else if \<not> listen_ok then Inl ()
      else Inr listener)"

definition setup_epoll :: "int \<Rightarrow> bool \<Rightarrow> unit + int" where
  "setup_epoll epfd add_ok =
     (if epfd = - 1 then Inl () else if \<not> add_ok then Inl () else Inr epfd)"

section \<open>The event loop\<close>

record system_t =
  srv :: server_t
  connections :: "int list"

text \<open>What one call of \<open>accept\<close> returns, and whether the new socket could be added to epoll.\<close>

datatype accept_event = ACCEPTED int bool | WOULD_BLOCK | ACCEPT_FAILS

text \<open>The loop of \<open>handle_new_connection\<close>; it ends with the first failing call.\<close>

fun handle_new_connection :: "accept_event list \<Rightarrow> int list \<Rightarrow> int list" where
  "handle_new_connection [] conns = conns"
| "handle_new_connection (ACCEPTED fd added # evs) conns =
     handle_new_connection evs (if added then conns @ [fd] else conns)"
| "handle_new_connection (WOULD_BLOCK # evs) conns = conns"
| "handle_new_connection (ACCEPT_FAILS # evs) conns = conns"

text \<open>
  A descriptor that \<open>epoll_wait\<close> reports: the listener with the connections to accept, or a client
  with its event mask (whether \<open>EPOLLIN\<close> is set), what is received from it, and the readings of
  the clocks.
\<close>

datatype ready =
  READY_LISTENER "accept_event list"
| READY_CLIENT int bool "ClientMessage option" match_clock move_clock

definition process_event :: "net_t \<Rightarrow> ready \<Rightarrow> system_t \<Rightarrow> system_t option" where
  "process_event net ev Y =
     (case ev of
        READY_LISTENER evs \<Rightarrow> Some (Y\<lparr>connections := handle_new_connection evs (connections Y)\<rparr>)
      | READY_CLIENT fd readable received mclk vclk \<Rightarrow>
          if readable then
            (case handle_client_message net mclk vclk fd received (srv Y) of
               None \<Rightarrow> None
             | Some (closed, S') \<Rightarrow>
                 Some (Y\<lparr>srv := S', connections :=
                          (if closed then filter (\<lambda>c. c \<noteq> fd) (connections Y) else connections Y)\<rparr>))
          else Some Y)"

text \<open>The \<open>for\<close> loop over the reported events.\<close>

fun process_events :: "net_t \<Rightarrow> ready list \<Rightarrow> system_t \<Rightarrow> system_t option" where
  "process_events net [] Y = Some Y"
| "process_events net (ev # evs) Y =
     (case process_event net ev Y of None \<Rightarrow> None | Some Y' \<Rightarrow> process_events net evs Y')"

text \<open>
  \<open>event_loop\<close> over the results of \<open>epoll_wait\<close>; the second result tells whether the loop ended, which
  it does when \<open>epoll_wait\<close> fails otherwise than by an interrupt.
\<close>

datatype epoll_result = EPOLL_READY "ready list" | EPOLL_INTERRUPTED | EPOLL_FAILS

fun event_loop :: "net_t \<Rightarrow> epoll_result list \<Rightarrow> system_t \<Rightarrow> (system_t \<times> bool) option" where
  "event_loop net [] Y = Some (Y, False)"
| "event_loop net (EPOLL_READY evs # rs) Y =
     (case process_events net evs Y of None \<Rightarrow> None | Some Y' \<Rightarrow> event_loop net rs Y')"
| "event_loop net (EPOLL_INTERRUPTED # rs) Y = event_loop net rs Y"
| "event_loop net (EPOLL_FAILS # rs) Y = Some (Y, True)"

definition timer_pass :: "net_t \<Rightarrow> int \<Rightarrow> system_t \<Rightarrow> system_t" where
  "timer_pass net now Y = Y\<lparr>srv := check_game_timeouts net now (srv Y)\<rparr>"

section \<open>The main function\<close>

definition static_server :: server_t where
  "static_server =
     \<lparr>waiting_players = replicate MAX_WAITING_PLAYERS zero_waiting,
      active_games = replicate MAX_ACTIVE_GAMES zero_active_game, waiting_count = 0,
      active_game_count = 0, next_game_no = 1, outbox = []\<rparr>"

text \<open>What the calls of the system return during the start.\<close>

record start_results =
  sr_logger :: bool
  sr_mutex :: bool
  sr_thread :: bool
  sr_socket :: int
  sr_bind :: bool
  sr_listen :: bool
  sr_epoll :: int
  sr_add :: bool

text \<open>
  \<open>main\<close> up to a point of its event loop: \<open>Inl\<close> is the exit status of a program that has ended, \<open>Inr\<close>
  the state of one that runs; no value where the code has undefined behaviour.
\<close>

definition server_main ::
  "net_t \<Rightarrow> start_results \<Rightarrow> string list \<Rightarrow> epoll_result list \<Rightarrow> (int + system_t) option" where
  "server_main net r args rounds =
     (if \<not> sr_logger r then Some (Inl 1)
      else
        (let (res, S) = init_match_manager (sr_mutex r) (sr_thread r) static_server in
         if res < 0 then Some (Inl 1)
         else
           (case parse_port_from_args args of
              None \<Rightarrow> None
            | Some (Inl _) \<Rightarrow> Some (Inl 1)
            | Some (Inr port) \<Rightarrow>
                (case create_and_bind_listener (sr_socket r) (sr_bind r) (sr_listen r) of
                   Inl _ \<Rightarrow> Some (Inl 1)
                 | Inr listener \<Rightarrow>
                     (case setup_epoll (sr_epoll r) (sr_add r) of
                        Inl _ \<Rightarrow> Some (Inl 1)
                      | Inr epfd \<Rightarrow>
                          (case event_loop net rounds \<lparr>srv = S, connections = []\<rparr> of
                             None \<Rightarrow> None
                           | Some (Y, ended) \<Rightarrow> Some (if ended then Inl 0 else Inr Y)))))))"

section \<open>Steps\<close>

definition boot_system :: system_t where
  "boot_system = \<lparr>srv = boot, connections = []\<rparr>"

inductive server_step :: "net_t \<Rightarrow> system_t \<Rightarrow> system_t \<Rightarrow> bool" for net :: net_t where
  event: "process_event net ev Y = Some Y' \<Longrightarrow> server_step net Y Y'"
| tick: "no_clock_jump now (srv Y) \<Longrightarrow> server_step net Y (timer_pass net now Y)"

inductive_cases server_stepE: "server_step net Y Y'"

inductive reachable :: "net_t \<Rightarrow> system_t \<Rightarrow> bool" for net :: net_t where
  start: "reachable net boot_system"
| step: "reachable net Y \<Longrightarrow> server_step net Y Y' \<Longrightarrow> reachable net Y'"

lemma process_event_ok:
  "server_ok (srv Y) \<Longrightarrow> process_event net ev Y = Some Y' \<Longrightarrow> server_ok (srv Y')"
  by (auto simp: process_event_def dest: handle_client_message_ok split: ready.splits option.splits if_splits)

lemma server_step_ok: "server_step net Y Y' \<Longrightarrow> server_ok (srv Y) \<Longrightarrow> server_ok (srv Y')"
  by (induction rule: server_step.induct) (auto simp: timer_pass_def intro: process_event_ok check_game_timeouts_ok)

lemma reachable_ok: "reachable net Y \<Longrightarrow> server_ok (srv Y)"
  by (induction rule: reachable.induct) (auto simp: boot_system_def boot_ok intro: server_step_ok)

lemma process_events_steps:
  "reachable net Y \<Longrightarrow> process_events net evs Y = Some Y' \<Longrightarrow> reachable net Y'"
  by (induction net evs Y rule: process_events.induct)
    (auto split: option.splits intro: reachable.step server_step.event)

lemma event_loop_steps:
  "reachable net Y \<Longrightarrow> event_loop net rs Y = Some (Y', ended) \<Longrightarrow> reachable net Y'"
  by (induction net rs Y rule: event_loop.induct)
    (auto split: option.splits dest: process_events_steps)

text \<open>Every state of a running server is reachable from the start of the manager.\<close>

lemma server_main_reachable:
  assumes "server_main net r args rounds = Some (Inr Y)"
  shows "reachable net Y"
proof -
  have "snd (init_match_manager (sr_mutex r) (sr_thread r) static_server) = boot"
    by (auto simp: init_match_manager_def boot_def static_server_def Let_def)
  with assms have "event_loop net rounds \<lparr>srv = boot, connections = []\<rparr> = Some (Y, False)"
    by (auto simp: server_main_def split: prod.splits if_splits option.splits sum.splits)
  with event_loop_steps [OF reachable.start] show ?thesis by (simp add: boot_system_def)
qed

lemma distinct_ids_Cons:
  assumes "distinct_ids (g # gs)"
  shows "distinct_ids gs" "is_active g \<Longrightarrow> h \<in> set gs \<Longrightarrow> is_active h \<Longrightarrow> game_id h \<noteq> game_id g"
proof -
  show "distinct_ids gs"
    using distinct_idsD [OF assms, of "Suc _" "Suc _"] unfolding distinct_ids_def
    by (metis Suc_inject Suc_less_eq length_Cons nth_Cons_Suc)
  assume "is_active g" "h \<in> set gs" "is_active h"
  then show "game_id h \<noteq> game_id g"
    using distinct_idsD [OF assms, of "Suc _" 0] by (auto simp: in_set_conv_nth)
qed

lemma distinct_active_ids: "distinct_ids gs \<Longrightarrow> distinct (map game_id (filter is_active gs))"
proof (induction gs)
  case (Cons g gs)
  from distinct_ids_Cons [OF Cons.prems] Cons.IH show ?case by fastforce
qed simp

text \<open>Two players meet: the first request waits, the second starts a game on slot 0.\<close>

definition ask :: "int \<Rightarrow> string \<Rightarrow> ready" where
  "ask fd name = READY_CLIENT fd True (Some (CM_MATCH_GAME (Some \<lparr>mgq_player_id = name, mgq_desired_game_id = []\<rparr>)))
     demo_clock \<lparr>vc_now_ms = 0, vc_opponent = 0, vc_requester = 0\<rparr>"

definition fine :: net_t where "fine fd m q = 1"

abbreviation ask_msg :: "string \<Rightarrow> ClientMessage" where
  "ask_msg name \<equiv> CM_MATCH_GAME (Some \<lparr>mgq_player_id = name, mgq_desired_game_id = []\<rparr>)"

abbreviation zero_clock :: move_clock where
  "zero_clock \<equiv> \<lparr>vc_now_ms = 0, vc_opponent = 0, vc_requester = 0\<rparr>"

lemma two_requests:
  obtains S1 S2 where
    "handle_client_message fine demo_clock zero_clock 5 (Some (ask_msg ''bob'')) boot = Some (False, S1)"
    "handle_client_message fine demo_clock zero_clock 7 (Some (ask_msg ''ann'')) S1 = Some (False, S2)"
    "active_games S1 = active_games boot" "wp_is_active (waiting_players S1 ! 0)"
    "\<forall>p \<in> set (waiting_players S1). wp_is_active p \<longrightarrow> wp_fd p = 5"
    "is_active (active_games S2 ! 0)" "white_player_fd (active_games S2 ! 0) = 7"
    "black_player_fd (active_games S2 ! 0) = 5" "length (active_games S2) = 50"
    "game_state (active_games S2 ! 0) = startpos zero_game"
    "\<exists>m. (7, SM_MATCH_GAME_RES m) \<in> set (outbox S2)" "length (outbox S2) \<le> 3"
    "set (outbox S1) \<subseteq> set (outbox S2)"
proof -
  let ?p = "\<lparr>wp_fd = 5, wp_player_id = ''bob'', wp_wait_start_time = 0, wp_is_active = True\<rparr>"
  have none: "find_index wp_is_active (waiting_players boot) = None"
    by (simp add: find_index_None boot_fields zero_waiting_def)
  have first: "find_index (\<lambda>p. \<not> wp_is_active p) (waiting_players boot) = Some 0"
    by (simp add: find_index_Some boot_fields zero_waiting_def)
  obtain q where 1: "handle_client_message fine demo_clock zero_clock 5 (Some (ask_msg ''bob'')) boot =
      Some (False, (wait_put 0 ?p boot)\<lparr>outbox := [q]\<rparr>)"
    by (simp add: handle_client_message_def
        dispatch_client_message_def handle_match_game_message_def add_player_to_matching_def none first
        c_strcpy_def error_result_def send_out fine_def demo_clock_def or_else_def boot_fields(4))
  let ?S = "(wait_put 0 ?p boot)\<lparr>outbox := [q]\<rparr>"
  have ok: "server_ok ?S" using handle_client_message_ok [OF boot_ok 1] .
  have w: "find_index wp_is_active (waiting_players ?S) = Some 0"
    by (simp add: find_index_Some wait_slots.table_put boot_fields)
  have g: "find_index (\<lambda>g. \<not> is_active g) (active_games ?S) = Some 0"
    by (simp add: find_index_Some boot_fields zero_active_game_def)
  obtain r S2 where 2: "add_player_to_matching demo_clock 7 ''ann'' ?S = Some (r, S2)"
    and act: "is_active (active_games S2 ! 0)" "white_player_fd (active_games S2 ! 0) = 7"
      "black_player_fd (active_games S2 ! 0) = 5" "length (active_games S2) = 50"
      "mr_status r = MATCH_STATUS_GAME_STARTED" "0 \<le> mr_opponent_fd r" "outbox S2 = [q]"
      "game_state (active_games S2 ! 0) = startpos zero_game"
    using start_game_eq [OF ok w, of "''ann''" demo_clock 7 0] unfolding add_player_to_matching_def w g option.case
    by (simp add: Let_def boot_fields game_slots.table_put wait_slots.table_put demo_clock_def c_mod_nonneg
        zero_active_game_def)
  have "find_game_by_player_fd 7 S2 \<noteq> None"
    using act by (auto simp: find_game_by_player_fd_def find_index_None plays_def)
  then obtain k S3 where 3: "handle_match_game_message fine demo_clock 7 (ask_msg ''ann'') ?S = Some (k, S3)"
    "0 \<le> k" "active_games S3 = active_games S2" "\<exists>m. (7, SM_MATCH_GAME_RES m) \<in> set (outbox S3)" "length (outbox S3) \<le> 3"
    "set (outbox ?S) \<subseteq> set (outbox S3)"
    using 2 act(5-7) by (auto simp: handle_match_game_message_def send_out Let_def fine_def match_started_def
        ex_disj_distrib)
  then have 4: "handle_client_message fine demo_clock zero_clock 7 (Some (ask_msg ''ann'')) ?S = Some (False, S3)"
    by (simp add: handle_client_message_def dispatch_client_message_def)
  have "\<forall>p \<in> set (waiting_players ?S). wp_is_active p \<longrightarrow> wp_fd p = 5" "active_games ?S = active_games boot"
    "wp_is_active (waiting_players ?S ! 0)"
    by (auto simp: wait_slots.table_put boot_fields zero_waiting_def dest!: in_update_cases)
  with that 1 4 act(1-4,8) 3(3-6) show thesis by metis
qed

lemma two_players_meet:
  obtains Y where "reachable fine Y" "is_active (active_games (srv Y) ! 0)" "length (active_games (srv Y)) = 50"
    "\<exists>m. (7, SM_MATCH_GAME_RES m) \<in> set (outbox (srv Y))"
proof -
  obtain S1 S2 where
    "handle_client_message fine demo_clock zero_clock 5 (Some (ask_msg ''bob'')) boot = Some (False, S1)"
    "handle_client_message fine demo_clock zero_clock 7 (Some (ask_msg ''ann'')) S1 = Some (False, S2)"
    and act: "is_active (active_games S2 ! 0)" "length (active_games S2) = 50"
      "\<exists>m. (7, SM_MATCH_GAME_RES m) \<in> set (outbox S2)"
    by (rule two_requests)
  then have "process_event fine (ask 5 ''bob'') boot_system = Some \<lparr>srv = S1, connections = []\<rparr>"
    "process_event fine (ask 7 ''ann'') \<lparr>srv = S1, connections = []\<rparr> = Some \<lparr>srv = S2, connections = []\<rparr>"
    by (simp_all add: process_event_def ask_def boot_system_def)
  then have "reachable fine \<lparr>srv = S2, connections = []\<rparr>"
    by (blast intro: reachable.intros server_step.event)
  with that act show thesis by fastforce
qed

section \<open>Properties\<close>

text \<open>
  C11: in every state the server can reach, the counters agree with the tables and stay within them,
  at most one player waits, and no two active games share an identifier.
\<close>

theorem server_tables_invariant:
  assumes "reachable net Y"
  shows "waiting_count (srv Y) = int (length (filter wp_is_active (waiting_players (srv Y))))
    \<and> active_game_count (srv Y) = int (length (filter is_active (active_games (srv Y))))
    \<and> waiting_count (srv Y) \<le> 1 \<and> 0 \<le> active_game_count (srv Y) \<and> active_game_count (srv Y) \<le> 50
    \<and> distinct (map game_id (filter is_active (active_games (srv Y))))"
proof -
  note ok = reachable_ok [OF assms]
  from ok active_count_range [OF ok] waiting_count_le [OF ok] show ?thesis
    using distinct_active_ids by (simp add: server_ok_def slots_ok_def ids_ok_def tally_def)
qed

theorem server_tables_invariant_witness:
  "\<exists>Y. reachable fine Y \<and> 1 \<le> length (filter is_active (active_games (srv Y)))
     \<and> active_game_count (srv Y) = int (length (filter is_active (active_games (srv Y))))"
proof -
  obtain Y where Y: "reachable fine Y" "is_active (active_games (srv Y) ! 0)" "length (active_games (srv Y)) = 50"
    by (rule two_players_meet)
  then have "active_games (srv Y) ! 0 \<in> set (filter is_active (active_games (srv Y)))" by simp
  then have "1 \<le> length (filter is_active (active_games (srv Y)))"
    by (cases "filter is_active (active_games (srv Y))") auto
  with Y(1) server_tables_invariant [OF Y(1)] show ?thesis by blast
qed

text \<open>
  C2: in every state the server can reach, every game in progress is in a sound position: each side
  has exactly one king, the side that has just moved is not in check, pawns stand on ranks 2 to 7,
  the en passant square lies behind a pawn that can be taken, and both clocks are running: over
  zero and at most ten minutes.
\<close>

theorem server_games_invariant:
  assumes "reachable net Y" "g \<in> set (active_games (srv Y))" "is_active g"
  shows "(\<forall>t. one_king (game_state g) t)
    \<and> \<not> is_in_check (game_state g) (other_team (side_to_move (game_state g)))
    \<and> pawns_ok (game_state g) \<and> ep_ok (game_state g) \<and> board_wf (game_state g)
    \<and> 0 < white_time_remaining g \<and> white_time_remaining g \<le> 600000
    \<and> 0 < black_time_remaining g \<and> black_time_remaining g \<le> 600000"
proof -
  have "game_ok g" using server_okD(3) [OF reachable_ok [OF assms(1)] assms(2,3)] .
  moreover have "\<forall>t. one_king (game_state g) t" if "one_king (game_state g) TEAM_WHITE" "one_king (game_state g) TEAM_BLACK"
    using that by (metis team_t.exhaust)
  ultimately show ?thesis by (simp add: game_ok_def pos_ok_def)
qed

theorem server_games_invariant_witness:
  "\<exists>Y g. reachable fine Y \<and> g \<in> set (active_games (srv Y)) \<and> is_active g \<and> (\<forall>t. one_king (game_state g) t)"
proof -
  obtain Y where Y: "reachable fine Y" "is_active (active_games (srv Y) ! 0)" "length (active_games (srv Y)) = 50"
    by (rule two_players_meet)
  then have "active_games (srv Y) ! 0 \<in> set (active_games (srv Y))" by simp
  from server_games_invariant [OF Y(1) this Y(2)] this Y show ?thesis by blast
qed

text \<open>The port the server starts on is a valid TCP port, whatever the command line.\<close>

theorem port_valid:
  "case parse_port_from_args args of Some (Inr p) \<Rightarrow> 1 \<le> p \<and> p \<le> 65535 | _ \<Rightarrow> True"
proof -
  have "case parse_port_loop args port of Some (Inr p) \<Rightarrow> 1 \<le> p \<and> p \<le> 65535 | _ \<Rightarrow> True"
    if "1 \<le> port \<and> port \<le> 65535" for port
    using that by (induction args port rule: parse_port_loop.induct) (auto split: option.splits sum.splits)
  then show ?thesis by (simp add: parse_port_from_args_def DEFAULT_PORT_def)
qed

end
