(* ===== verification/Simulation.thy ===== *)
theory Simulation
  imports Prelude
begin

text \<open>
  The interface between a system of steps and one that abstracts from it: every step of the one is a
  sequence of steps of the other, possibly empty. What holds in every reachable state of the
  abstraction then holds for the abstraction of every reachable state.
\<close>

locale transition_system =
  fixes init :: "'c \<Rightarrow> bool" and step :: "'c \<Rightarrow> 'c \<Rightarrow> bool" and reach :: "'c \<Rightarrow> bool"
  assumes reach_init: "init c \<Longrightarrow> reach c"
    and reach_step: "reach c \<Longrightarrow> step c c' \<Longrightarrow> reach c'"
    and reach_induct: "reach c \<Longrightarrow> (\<And>c. init c \<Longrightarrow> P c) \<Longrightarrow>
      (\<And>c c'. reach c \<Longrightarrow> P c \<Longrightarrow> step c c' \<Longrightarrow> P c') \<Longrightarrow> P c"
begin

lemma reach_steps: "step\<^sup>*\<^sup>* c c' \<Longrightarrow> reach c \<Longrightarrow> reach c'"
  by (induction rule: rtranclp_induct) (auto intro: reach_step)

lemma invariant:
  assumes "\<And>c. init c \<Longrightarrow> I c" "\<And>c c'. reach c \<Longrightarrow> I c \<Longrightarrow> step c c' \<Longrightarrow> I c'" "reach c"
  shows "I c"
  using assms(3) by (rule reach_induct) (fact assms(1), fact assms(2))

end

locale simulation = transition_system init step reach
  for init :: "'c \<Rightarrow> bool" and step :: "'c \<Rightarrow> 'c \<Rightarrow> bool" and reach :: "'c \<Rightarrow> bool" +
  fixes abs :: "'c \<Rightarrow> 'a" and ainit :: "'a \<Rightarrow> bool" and astep :: "'a \<Rightarrow> 'a \<Rightarrow> bool" and areach :: "'a \<Rightarrow> bool"
  assumes abstract: "transition_system ainit astep areach"
    and init_abs: "init c \<Longrightarrow> ainit (abs c)"
    and step_abs: "reach c \<Longrightarrow> step c c' \<Longrightarrow> astep\<^sup>*\<^sup>* (abs c) (abs c')"
begin

lemma reach_abs: "reach c \<Longrightarrow> areach (abs c)"
proof (erule invariant [rotated 2])
  fix c assume "init c"
  then show "areach (abs c)" using init_abs transition_system.reach_init [OF abstract] by blast
next
  fix c c' assume "reach c" "areach (abs c)" "step c c'"
  then show "areach (abs c')" using step_abs transition_system.reach_steps [OF abstract] by blast
qed

lemma transfer: "(\<And>a. areach a \<Longrightarrow> I a) \<Longrightarrow> reach c \<Longrightarrow> I (abs c)"
  using reach_abs by blast

end

end
