(* ===== verification/Lobby.thy ===== *)
theory Lobby
  imports Server_System Rule_Thms Simulation
begin

text \<open>
  What the server promises, without its tables, descriptors and messages: a lobby in which at most
  one player waits, and matches that go on by legal moves and by the running of the clocks. The
  server refines it: the abstraction of its tables is a lobby, and each of its steps is one of the
  lobby, or none.
\<close>

section \<open>The lobby\<close>

record match_t =
  mt_white :: "int \<times> string"
  mt_black :: "int \<times> string"
  mt_position :: game_t
  mt_white_left :: int
  mt_black_left :: int

record lobby_t =
  lb_waiting :: "(int \<times> string) option"
  lb_matches :: "string \<Rightarrow> match_t option"

definition empty_lobby :: lobby_t where
  "empty_lobby = \<lparr>lb_waiting = None, lb_matches = (\<lambda>_. None)\<rparr>"

definition on_move :: "match_t \<Rightarrow> int" where
  "on_move m = fst (if side_to_move (mt_position m) = TEAM_WHITE then mt_white m else mt_black m)"

text \<open>What the player \<open>f\<close> can do: wait, meet the one who waits, leave, move, decide a match, give up.\<close>

inductive lobby_act :: "int \<Rightarrow> lobby_t \<Rightarrow> lobby_t \<Rightarrow> bool" for f :: int where
  wait: "lb_waiting L = None \<Longrightarrow> lobby_act f L (L\<lparr>lb_waiting := Some (f, name)\<rparr>)"
| meet: "lb_waiting L = Some other \<Longrightarrow> lb_matches L gid = None \<Longrightarrow>
    (mt_white m, mt_black m) \<in> {((f, name), other), (other, (f, name))} \<Longrightarrow>
    mt_position m = startpos G \<Longrightarrow> mt_white_left m = 600000 \<Longrightarrow> mt_black_left m = 600000 \<Longrightarrow>
    lobby_act f L (L\<lparr>lb_waiting := None, lb_matches := (lb_matches L)(gid \<mapsto> m)\<rparr>)"
| leave: "lb_waiting L = Some (f, name) \<Longrightarrow> lobby_act f L (L\<lparr>lb_waiting := None\<rparr>)"
| move: "lb_matches L gid = Some m \<Longrightarrow> on_move m = f \<Longrightarrow> is_move_legal (mt_position m) fx fy tx ty \<Longrightarrow>
    lobby_act f L (L\<lparr>lb_matches := (lb_matches L)
      (gid \<mapsto> m\<lparr>mt_position := apply_move (mt_position m) fx fy tx ty\<rparr>)\<rparr>)"
| decide: "lb_matches L gid = Some m \<Longrightarrow> on_move m = f \<Longrightarrow> is_move_legal (mt_position m) fx fy tx ty \<Longrightarrow>
    fst (end_of_game (apply_move (mt_position m) fx fy tx ty)) \<Longrightarrow>
    lobby_act f L (L\<lparr>lb_matches := (lb_matches L)(gid := None)\<rparr>)"
| give_up: "lb_matches L gid = Some m \<Longrightarrow> f = fst (mt_white m) \<or> f = fst (mt_black m) \<Longrightarrow>
    lobby_act f L (L\<lparr>lb_matches := (lb_matches L)(gid := None)\<rparr>)"

text \<open>The clock of the side to move runs; at zero the match is over.\<close>

definition run_clock :: "int \<Rightarrow> match_t \<Rightarrow> match_t option" where
  "run_clock e m =
     (if e = 0 then Some m
      else if side_to_move (mt_position m) = TEAM_WHITE
      then (if e < mt_white_left m then Some (m\<lparr>mt_white_left := mt_white_left m - e\<rparr>) else None)
      else (if e < mt_black_left m then Some (m\<lparr>mt_black_left := mt_black_left m - e\<rparr>) else None))"

inductive lobby_tick :: "lobby_t \<Rightarrow> lobby_t \<Rightarrow> bool" where
  tick: "(\<And>gid. 0 \<le> e gid) \<Longrightarrow>
    lobby_tick L (L\<lparr>lb_matches := (\<lambda>gid. Option.bind (lb_matches L gid) (run_clock (e gid)))\<rparr>)"

definition lobby_step :: "lobby_t \<Rightarrow> lobby_t \<Rightarrow> bool" where
  "lobby_step L L' \<longleftrightarrow> (\<exists>f. lobby_act f L L') \<or> lobby_tick L L'"

inductive lobby_reachable :: "lobby_t \<Rightarrow> bool" where
  start: "lobby_reachable empty_lobby"
| step: "lobby_reachable L \<Longrightarrow> lobby_step L L' \<Longrightarrow> lobby_reachable L'"

interpretation lobby: transition_system "\<lambda>L. L = empty_lobby" lobby_step lobby_reachable
proof unfold_locales
  fix L P
  assume "lobby_reachable L" "\<And>L. L = empty_lobby \<Longrightarrow> P L"
    "\<And>L L'. lobby_reachable L \<Longrightarrow> P L \<Longrightarrow> lobby_step L L' \<Longrightarrow> P L'"
  then show "P L" by (induction rule: lobby_reachable.induct) blast+
qed (auto intro: lobby_reachable.intros)

section \<open>What a lobby guarantees\<close>

lemma played_on:
  "play G ms = Some H \<Longrightarrow> is_move_legal H fx fy tx ty \<Longrightarrow>
   play G (ms @ [(fx, fy, tx, ty)]) = Some (apply_move H fx fy tx ty)"
proof (induction ms arbitrary: G)
  case (Cons m ms)
  then show ?case by (cases m) (simp split: if_splits)
qed simp

text \<open>A match is a line of legal moves from the start position, with time left on both clocks.\<close>

definition played :: "game_t \<Rightarrow> bool" where
  "played G \<longleftrightarrow> (\<exists>G0 ms. play (startpos G0) ms = Some G)"

definition match_ok :: "match_t \<Rightarrow> bool" where
  "match_ok m \<longleftrightarrow> played (mt_position m)
     \<and> 0 < mt_white_left m \<and> mt_white_left m \<le> 600000 \<and> 0 < mt_black_left m \<and> mt_black_left m \<le> 600000"

definition lobby_ok :: "lobby_t \<Rightarrow> bool" where
  "lobby_ok L \<longleftrightarrow> (\<forall>gid m. lb_matches L gid = Some m \<longrightarrow> match_ok m)"

lemma played_start: "played (startpos G)"
proof -
  have "play (startpos G) [] = Some (startpos G)" by simp
  then show ?thesis unfolding played_def by blast
qed

lemma played_move: "played G \<Longrightarrow> is_move_legal G fx fy tx ty \<Longrightarrow> played (apply_move G fx fy tx ty)"
  unfolding played_def using played_on by blast

lemma match_ok_moved:
  "match_ok m \<Longrightarrow> is_move_legal (mt_position m) fx fy tx ty \<Longrightarrow>
   match_ok (m\<lparr>mt_position := apply_move (mt_position m) fx fy tx ty\<rparr>)"
  by (simp add: match_ok_def played_move)

lemma match_ok_new:
  "mt_position m = startpos G \<Longrightarrow> mt_white_left m = 600000 \<Longrightarrow> mt_black_left m = 600000 \<Longrightarrow> match_ok m"
  by (simp add: match_ok_def played_start)

lemma lobby_act_ok: "lobby_act f L L' \<Longrightarrow> lobby_ok L \<Longrightarrow> lobby_ok L'"
  by (induction rule: lobby_act.induct) (auto simp: lobby_ok_def intro: match_ok_moved match_ok_new)

lemma lobby_tick_ok: "lobby_tick L L' \<Longrightarrow> lobby_ok L \<Longrightarrow> lobby_ok L'"
proof (induction rule: lobby_tick.induct)
  case (tick e L)
  have "match_ok m'" if "match_ok m" "run_clock (e gid) m = Some m'" for gid m m'
    using that tick.hyps [of gid] by (auto simp: run_clock_def match_ok_def split: if_splits)
  with tick.prems show ?case by (fastforce simp: lobby_ok_def bind_eq_Some_conv)
qed

lemma lobby_reachable_ok: "lobby_reachable L \<Longrightarrow> lobby_ok L"
proof (erule lobby.invariant [rotated 2])
  fix L assume "L = empty_lobby"
  then show "lobby_ok L" by (simp add: lobby_ok_def empty_lobby_def)
qed (auto simp: lobby_step_def intro: lobby_act_ok lobby_tick_ok)

end
