(* ===== verification/Session.thy ===== *)
theory Session
  imports Server_Thms
begin

text \<open>
  Who plays and who waits on the server: the discipline under which nobody sits in two games, and
  the steps of the server that neither change a position nor send one. Together with the client this
  carries the simulation of \<open>Joint\<close>.
\<close>

section \<open>Players\<close>

definition waits :: "int \<Rightarrow> server_t \<Rightarrow> bool" where
  "waits f S \<longleftrightarrow> list_ex (\<lambda>p. wp_is_active p \<and> wp_fd p = f) (waiting_players S)"

definition in_game :: "int \<Rightarrow> server_t \<Rightarrow> bool" where
  "in_game f S \<longleftrightarrow> list_ex (plays f) (active_games S)"

text \<open>
  Nobody plays in two games or on both sides, and nobody waits while playing. The code does not
  check this: a request for a match is not refused to a player who waits or plays. So it is said of the
  descriptors only that have not gone astray, a predicate that the systems of \<open>Joint\<close> and \<open>Wire\<close> keep.
\<close>

definition players_ok :: "(int \<Rightarrow> bool) \<Rightarrow> server_t \<Rightarrow> bool" where
  "players_ok A S \<longleftrightarrow>
     (\<forall>i j f. \<not> A f \<and> i < length (active_games S) \<and> j < length (active_games S)
        \<and> plays f (active_games S ! i) \<and> plays f (active_games S ! j) \<longrightarrow> i = j)
     \<and> (\<forall>g \<in> set (active_games S). \<forall>f. \<not> A f \<and> plays f g \<longrightarrow> white_player_fd g \<noteq> black_player_fd g)
     \<and> (\<forall>f. waits f S \<longrightarrow> 0 \<le> f \<and> (\<not> A f \<longrightarrow> \<not> in_game f S))"

lemma players_okD:
  assumes "players_ok A S"
  shows "\<not> A f \<Longrightarrow> i < length (active_games S) \<Longrightarrow> j < length (active_games S) \<Longrightarrow>
      plays f (active_games S ! i) \<Longrightarrow> plays f (active_games S ! j) \<Longrightarrow> i = j"
    and "\<not> A f \<Longrightarrow> g \<in> set (active_games S) \<Longrightarrow> plays f g \<Longrightarrow> white_player_fd g \<noteq> black_player_fd g"
    and "waits f S \<Longrightarrow> 0 \<le> f" "waits f S \<Longrightarrow> \<not> A f \<Longrightarrow> \<not> in_game f S"
  using assms unfolding players_ok_def by blast+

lemma players_okI:
  assumes "\<And>f i j. \<not> A f \<Longrightarrow> i < length (active_games S) \<Longrightarrow> j < length (active_games S) \<Longrightarrow>
      plays f (active_games S ! i) \<Longrightarrow> plays f (active_games S ! j) \<Longrightarrow> i = j"
    and "\<And>f g. \<not> A f \<Longrightarrow> g \<in> set (active_games S) \<Longrightarrow> plays f g \<Longrightarrow> white_player_fd g \<noteq> black_player_fd g"
    and "\<And>f. waits f S \<Longrightarrow> 0 \<le> f" "\<And>f. waits f S \<Longrightarrow> \<not> A f \<Longrightarrow> \<not> in_game f S"
  shows "players_ok A S"
  unfolding players_ok_def using assms by blast

lemma players_ok_mono: "players_ok A S \<Longrightarrow> (\<And>f. A f \<Longrightarrow> A' f) \<Longrightarrow> players_ok A' S"
  unfolding players_ok_def by meson

lemma in_gameI: "i < length (active_games S) \<Longrightarrow> plays f (active_games S ! i) \<Longrightarrow> in_game f S"
  by (auto simp: in_game_def list_ex_length)

lemma in_game_iff: "in_game f S \<longleftrightarrow> (\<exists>i < length (active_games S). plays f (active_games S ! i))"
  by (auto simp: in_game_def list_ex_length)

section \<open>Messages that show a position\<close>

definition board_message :: "ServerMessage \<Rightarrow> bool" where
  "board_message msg =
     (case msg of
        SM_MATCH_GAME_RES r \<Rightarrow> mgr_success r \<and> mgr_assigned_team r \<noteq> TEAM__TEAM_UNSPECIFIED
      | SM_MOVE_BROADCAST b \<Rightarrow> True
      | _ \<Rightarrow> False)"

text \<open>The messages for one client that a step has sent.\<close>

definition mail :: "server_t \<Rightarrow> server_t \<Rightarrow> int \<Rightarrow> ServerMessage list" where
  "mail S S' f = map snd (filter (\<lambda>p. fst p = f) (drop (length (outbox S)) (outbox S')))"

lemma mail_append: "outbox S' = outbox S @ ms \<Longrightarrow> mail S S' f = map snd (filter (\<lambda>p. fst p = f) ms)"
  by (simp add: mail_def)

section \<open>Quiet steps\<close>

text \<open>
  A slot goes on with the same players and position, or its game ends; nobody joins the queue; no
  message shows a position.
\<close>

definition carries :: "ActiveGame \<Rightarrow> ActiveGame \<Rightarrow> bool" where
  "carries g g' \<longleftrightarrow>
     (is_active g' \<longrightarrow> is_active g \<and> game_state g' = game_state g
        \<and> white_player_fd g' = white_player_fd g \<and> black_player_fd g' = black_player_fd g)"

definition quiet :: "server_t \<Rightarrow> server_t \<Rightarrow> bool" where
  "quiet S S' \<longleftrightarrow>
     list_all2 carries (active_games S) (active_games S')
     \<and> (\<forall>f. waits f S' \<longrightarrow> waits f S)
     \<and> (\<exists>ms. outbox S' = outbox S @ ms \<and> list_all (\<lambda>p. \<not> board_message (snd p)) ms)"

named_theorems quiet_steps "steps of the server that show no position"

lemma carries_refl [simp]: "carries g g"
  by (simp add: carries_def)

lemma carries_trans: "carries g h \<Longrightarrow> carries h k \<Longrightarrow> carries g k"
  by (auto simp: carries_def)

lemma carries_plays: "carries g g' \<Longrightarrow> plays f g' \<Longrightarrow> plays f g \<and> game_state g' = game_state g"
  by (auto simp: carries_def plays_def)

lemma quiet_refl [quiet_steps]: "quiet S S"
  by (simp add: quiet_def list_all2_refl)

lemma quiet_trans: "quiet S S1 \<Longrightarrow> quiet S1 S2 \<Longrightarrow> quiet S S2"
proof -
  assume q: "quiet S S1" "quiet S1 S2"
  then have "list_all2 carries (active_games S) (active_games S2)"
    unfolding quiet_def using list_all2_trans [of carries carries carries] carries_trans by blast
  moreover from q obtain ms ms' where "outbox S1 = outbox S @ ms" "outbox S2 = outbox S1 @ ms'"
    "list_all (\<lambda>p. \<not> board_message (snd p)) (ms @ ms')"
    unfolding quiet_def list_all_append by blast
  ultimately show "quiet S S2" using q by (simp add: quiet_def)
qed

lemma quiet_send [quiet_steps]: "\<not> board_message m \<Longrightarrow> quiet S (S\<lparr>outbox := outbox S @ [(f, m)]\<rparr>)"
  by (simp add: quiet_def list_all2_refl waits_def)

lemma quiet_send_to [quiet_steps]: "\<not> board_message m \<Longrightarrow> quiet S (snd (send_to net f m S))"
  by (simp add: send_to_def quiet_send)

lemma quiet_game_drop [quiet_steps]: "quiet S (game_drop i S)"
proof -
  have "list_all2 carries gs (gs[i := (gs ! i)\<lparr>is_active := False\<rparr>])" for gs
  proof (rule list_all2_all_nthI)
    fix n assume "n < length gs"
    then show "carries (gs ! n) (gs[i := (gs ! i)\<lparr>is_active := False\<rparr>] ! n)"
      by (cases "i = n") (simp_all add: carries_def)
  qed simp
  then show ?thesis by (simp add: quiet_def game_drop_def waits_def)
qed

lemma released_slot:
  "n < length ws \<Longrightarrow> wp_is_active (ws[i := (ws ! i)\<lparr>wp_is_active := False\<rparr>] ! n) \<Longrightarrow>
   ws[i := (ws ! i)\<lparr>wp_is_active := False\<rparr>] ! n = ws ! n"
  by (cases "i = n") simp_all

lemma waits_drop: "waits f (wait_drop i S) \<Longrightarrow> waits f S"
  unfolding waits_def wait_drop_def list_ex_length using released_slot by fastforce

lemma quiet_wait_drop [quiet_steps]: "quiet S (wait_drop i S)"
  using waits_drop by (auto simp: quiet_def list_all2_refl)

lemma quiet_error [quiet_steps]: "quiet S (snd (send_error_response net f c m S))"
  by (simp add: send_error_response_def board_message_def quiet_send)

lemma quiet_move_error [quiet_steps]: "quiet S (snd (send_move_error net f gid p m S))"
  by (simp add: send_move_error_def board_message_def quiet_send)

lemma quiet_timer [quiet_steps]:
  assumes "length (active_games S) = 50"
  shows "quiet S (check_game_timeouts net now S)"
proof -
  have "carries g (ticked now g)" for g by (simp add: carries_def)
  moreover have "list_all (\<lambda>p. \<not> board_message (snd p)) (timeout_messages now g)" for g
    by (simp add: timeout_messages_def timeout_message_def board_message_def)
  ultimately show ?thesis
    by (auto simp: quiet_def check_game_timeouts_eq [OF assms] waits_def list_all2_conv_all_nth list_all_iff)
qed

lemma quiet_disconnect [quiet_steps]: "quiet S (snd (handle_player_disconnect net f S))"
  using quiet_trans [OF quiet_send quiet_game_drop]
  by (auto simp: handle_player_disconnect_def send_to_def Let_def board_message_def quiet_steps
      split: option.split)

section \<open>What quiet steps keep\<close>

lemma quiet_nth:
  assumes "quiet S S'" "i < length (active_games S')"
  shows "i < length (active_games S)" "carries (active_games S ! i) (active_games S' ! i)"
  using assms by (auto simp: quiet_def list_all2_conv_all_nth)

text \<open>A step after which every game of a player who is not astray goes on from before.\<close>

lemma kept_players:
  assumes "players_ok A S"
    and keep: "\<And>i f. \<not> A f \<Longrightarrow> i < length (active_games S') \<Longrightarrow> plays f (active_games S' ! i) \<Longrightarrow>
      i < length (active_games S) \<and> carries (active_games S ! i) (active_games S' ! i)"
    and wait: "\<And>f. waits f S' \<Longrightarrow> 0 \<le> f \<and> (A f \<or> waits f S)"
  shows "players_ok A S'"
proof -
  have keep': "i < length (active_games S) \<and> plays f (active_games S ! i)"
    if "\<not> A f" "i < length (active_games S')" "plays f (active_games S' ! i)" for i f
    using keep [OF that] that(3) carries_plays by blast
  have "white_player_fd g \<noteq> black_player_fd g" if "g \<in> set (active_games S')" "\<not> A f" "plays f g" for g f
  proof -
    from that obtain i where i: "i < length (active_games S')" "g = active_games S' ! i"
      by (auto simp: in_set_conv_nth)
    with that keep [of f i] keep' [of f i] players_okD(2) [OF assms(1) that(2), of "active_games S ! i"]
    show ?thesis by (auto simp: carries_def plays_def)
  qed
  moreover have "in_game f S' \<Longrightarrow> \<not> A f \<Longrightarrow> in_game f S" for f using keep' by (auto simp: in_game_iff)
  moreover have "i = j" if "\<not> A f" "i < length (active_games S')" "j < length (active_games S')"
    "plays f (active_games S' ! i)" "plays f (active_games S' ! j)" for f i j
    using keep' [OF that(1,2,4)] keep' [OF that(1,3,5)] players_okD(1) [OF assms(1) that(1)] by blast
  ultimately show ?thesis
    using players_okD(3,4) [OF assms(1)] wait by (intro players_okI) (assumption | blast)+
qed

lemma quiet_players:
  assumes "quiet S S'" "players_ok A S"
  shows "players_ok A S'"
proof (rule kept_players [OF assms(2)])
  fix f assume "waits f S'"
  then have "waits f S" using assms(1) by (auto simp: quiet_def)
  then show "0 \<le> f \<and> (A f \<or> waits f S)" using players_okD(3) [OF assms(2)] by blast
qed (use quiet_nth [OF assms(1)] in blast)

lemma quiet_mail: "quiet S S' \<Longrightarrow> m \<in> set (mail S S' f) \<Longrightarrow> \<not> board_message m"
  by (auto simp: quiet_def mail_append list_all_iff)

section \<open>The handlers\<close>

text \<open>A request that may show a position: one that finds an opponent, or a move that is played.\<close>

lemma quiet_ping_echo:
  "handle_ping_message net f req S = Some (r, S') \<Longrightarrow> quiet S S'"
  "handle_echo_message net f req S = Some (r, S') \<Longrightarrow> quiet S S'"
  by (auto simp: handle_ping_message_def handle_echo_message_def send_out board_message_def
      intro: quiet_steps split: ClientMessage.splits)

lemma quiet_cancel: "handle_cancel_match_message net f req S = Some (r, S') \<Longrightarrow> quiet S S'"
  using quiet_trans [OF quiet_wait_drop quiet_send]
  by (auto simp: handle_cancel_match_message_def remove_player_from_matching_def send_out
      send_error_response_def Let_def board_message_def quiet_steps
      split: ClientMessage.splits option.splits if_splits)

lemma quiet_chat:
  assumes "handle_chat_message net f req S = Some (r, S')"
  shows "quiet S S'"
proof -
  have two: "quiet S (S\<lparr>outbox := outbox S @ [(a, SM_CHAT_BROADCAST b), (c, SM_CHAT_BROADCAST b)]\<rparr>)" for a b c
    by (simp add: quiet_def list_all2_refl waits_def board_message_def)
  show ?thesis
    using assms two
    by (auto simp: handle_chat_message_def send_out Let_def board_message_def quiet_steps
        split: ClientMessage.splits option.splits if_splits)
qed

lemma quiet_resign:
  assumes "handle_resign_message net f req S = Some (r, S')"
  shows "quiet S S'"
proof -
  have "quiet S (S\<lparr>outbox := outbox S @ ms\<rparr>)" if "list_all (\<lambda>p. \<not> board_message (snd p)) ms" for ms
    using that by (simp add: quiet_def list_all2_refl waits_def)
  then have out: "quiet S (game_drop i (S\<lparr>outbox := outbox S @ ms\<rparr>))"
    if "list_all (\<lambda>p. \<not> board_message (snd p)) ms" for ms i
    using that quiet_trans quiet_game_drop by blast
  show ?thesis
    using assms
    by (auto simp: handle_resign_message_def send_out send_error_response_def Let_def board_message_def
        quiet_steps intro!: out split: ClientMessage.splits option.splits if_splits)
qed

lemma quiet_unknown: "handle_unknown_message net f S = Some (r, S') \<Longrightarrow> quiet S S'"
  by (auto simp: handle_unknown_message_def send_error_response_def send_out board_message_def quiet_steps)

lemma quiet_refused_move:
  assumes "\<And>i fx fy tx ty q. req = CM_MOVE (Some q) \<Longrightarrow> \<not> playable S f q i fx fy tx ty"
    "handle_move_message net clk f req S = Some (r, S')"
  shows "quiet S S'"
proof (cases "\<exists>q. req = CM_MOVE (Some q)")
  case True
  then obtain q where q: "req = CM_MOVE (Some q)" by blast
  with handle_move_refused [of S f q net clk] assms obtain gid pid msg where
    "(r, S') = send_move_error net f gid pid msg S" by force
  then show ?thesis using quiet_move_error [of S net f gid pid msg] by (metis snd_conv)
next
  case False
  with assms(2) have "S' = S"
    by (auto simp: handle_move_message_def split: ClientMessage.splits option.splits)
  then show ?thesis by (simp add: quiet_steps)
qed

section \<open>Joining the queue\<close>

definition queued :: "int \<Rightarrow> server_t \<Rightarrow> server_t \<Rightarrow> bool" where
  "queued f S S' \<longleftrightarrow>
     active_games S' = active_games S \<and> (\<forall>h. waits h S' \<longrightarrow> waits h S \<or> h = f)
     \<and> (\<exists>m. outbox S' = outbox S @ [(f, m)] \<and> \<not> board_message m)"

lemma waits_put: "waits h (wait_put i p S) \<Longrightarrow> waits h S \<or> h = wp_fd p"
  by (auto simp: waits_def wait_put_def list_ex_iff dest!: in_update_cases)

lemma queued_players:
  assumes "queued f S S'" "players_ok A S" "0 \<le> f" "\<not> A f \<Longrightarrow> \<not> in_game f S"
  shows "players_ok A S'"
proof -
  have "active_games S' = active_games S" "\<And>h. waits h S' \<Longrightarrow> waits h S \<or> h = f"
    using assms(1) by (simp_all add: queued_def)
  then show ?thesis
    using assms(3,4) players_okD [OF assms(2)] by (intro players_okI) (simp_all add: in_game_def, blast+)
qed

section \<open>The start of a game\<close>

definition start_message :: "ServerMessage \<Rightarrow> bool" where
  "start_message msg =
     (case msg of
        SM_MATCH_GAME_RES r \<Rightarrow> mgr_success r \<and> mgr_assigned_team r \<noteq> TEAM__TEAM_UNSPECIFIED
      | _ \<Rightarrow> False)"

text \<open>
  The game that begins between \<open>f\<close> and a waiting \<open>w\<close> (nothing keeps them from being the same), and what
  is sent: both start messages, or, when the first send fails, one only.
\<close>

definition begun :: "int \<Rightarrow> int \<Rightarrow> nat \<Rightarrow> (int \<times> ServerMessage) list \<Rightarrow> server_t \<Rightarrow> server_t \<Rightarrow> bool" where
  "begun f w j ms S S' \<longleftrightarrow>
     j < length (active_games S) \<and> \<not> is_active (active_games S ! j) \<and> waits w S
     \<and> (\<exists>g. active_games S' = (active_games S)[j := g] \<and> is_active g
          \<and> (\<exists>G. game_state g = startpos G)
          \<and> {white_player_fd g, black_player_fd g} = {f, w})
     \<and> (\<forall>h. \<not> waits h S')
     \<and> outbox S' = outbox S @ ms"

definition started :: "int \<Rightarrow> int \<Rightarrow> nat \<Rightarrow> server_t \<Rightarrow> server_t \<Rightarrow> bool" where
  "started f w j S S' \<longleftrightarrow>
     (\<exists>m m'. begun f w j [(f, m), (w, m')] S S' \<and> start_message m \<and> start_message m')"

lemma started_players:
  assumes "started f w j S S'" "players_ok A S" "\<not> A f \<Longrightarrow> \<not> in_game f S \<and> f \<noteq> w"
  shows "players_ok A S'"
proof -
  let ?gs = "active_games S"
  from assms(1) obtain g where g: "active_games S' = ?gs[j := g]" "is_active g" "j < length ?gs"
    "{white_player_fd g, black_player_fd g} = {f, w}"
    and w: "waits w S" "\<forall>h. \<not> waits h S'"
    by (auto simp: started_def begun_def)
  have new: "plays h g \<longleftrightarrow> h = f \<or> h = w" for h using g(2,4) by (auto simp: plays_def doubleton_eq_iff)
  have old: "\<not> plays h (?gs ! i)" if "\<not> A h" "h = f \<or> h = w" "i < length ?gs" for h i
    using that assms(3) players_okD(4) [OF assms(2) w(1)] in_gameI by blast
  have "a = b" if "\<not> A h" "a < length ?gs" "b < length ?gs" "plays h (?gs[j := g] ! a)" "plays h (?gs[j := g] ! b)" for a b h
    using that new [of h] old [of h] players_okD(1) [OF assms(2), of h a b] g(3)
    by (cases "a = j"; cases "b = j") auto
  moreover have "white_player_fd k \<noteq> black_player_fd k" if "k \<in> set (?gs[j := g])" "\<not> A h" "plays h k" for k h
  proof (cases "k = g")
    case True
    then have "f \<noteq> w" using that new assms(3) by auto
    with True g(4) show ?thesis by (auto simp: doubleton_eq_iff)
  next
    case False
    then show ?thesis using that players_okD(2) [OF assms(2)] by (auto dest!: in_update_cases)
  qed
  ultimately show ?thesis using w(2) unfolding players_ok_def g(1) length_list_update by blast
qed

lemma nobody_waits: "server_ok S \<Longrightarrow> waiting_count S = 0 \<Longrightarrow> \<not> waits h S"
  using waiting_count_zero [of S] by (auto simp: waits_def list_ex_iff find_index_None)

lemma found_waits: "find_index wp_is_active (waiting_players S) = Some i \<Longrightarrow> waits (wp_fd (waiting_players S ! i)) S"
  using find_index_SomeD [of wp_is_active] by (auto simp: waits_def list_ex_length)

lemma start_game_room:
  assumes "server_ok S" "start_game clk f pid i j S = Some x"
  shows "next_game_no S < 2147483647" "length pid < 64"
  using assms(2) server_okD(2) [OF assms(1)]
  by (auto simp: start_game_def generate_game_id_def ids_ok_def c_strcpy_def Let_def
      split: if_splits option.splits)

lemma found_game: "i < length (active_games S) \<Longrightarrow> plays f (active_games S ! i) \<Longrightarrow> find_game_by_player_fd f S \<noteq> None"
  by (auto simp: find_game_by_player_fd_def find_index_None)

section \<open>Sends that fail\<close>

text \<open>A message that a step has handed to a send that failed, by its receiver.\<close>

definition failed :: "net_t \<Rightarrow> server_t \<Rightarrow> server_t \<Rightarrow> int \<Rightarrow> bool" where
  "failed net S S' h \<longleftrightarrow>
     (\<exists>k < length (outbox S'). length (outbox S) \<le> k \<and> fst (outbox S' ! k) = h
        \<and> net h (snd (outbox S' ! k)) (take k (outbox S')) < 0)"

lemma failed_first: "outbox S' = outbox S @ (h, m) # ms \<Longrightarrow> net h m (outbox S) < 0 \<Longrightarrow> failed net S S' h"
  unfolding failed_def by (intro exI [of _ "length (outbox S)"]) simp

lemma failed_more: "failed net S S1 h \<Longrightarrow> outbox S' = outbox S1 @ ms \<Longrightarrow> failed net S S' h"
  unfolding failed_def by (fastforce simp: nth_append)

text \<open>
  What a request of \<open>f\<close> can reach: \<open>f\<close> itself and those who share a game with it. Every other game
  goes on, and only those within reach get a message that shows a position.
\<close>

definition touched :: "int \<Rightarrow> server_t \<Rightarrow> server_t \<Rightarrow> int \<Rightarrow> bool" where
  "touched f S S' h \<longleftrightarrow>
     h = f \<or> (\<exists>g \<in> set (active_games S) \<union> set (active_games S'). plays f g \<and> plays h g)"

definition within :: "int \<Rightarrow> server_t \<Rightarrow> server_t \<Rightarrow> bool" where
  "within f S S' \<longleftrightarrow>
     length (active_games S') = length (active_games S)
     \<and> (\<forall>i < length (active_games S). carries (active_games S ! i) (active_games S' ! i) \<or> plays f (active_games S' ! i))
     \<and> (\<forall>h. waits h S' \<longrightarrow> waits h S \<or> h = f)
     \<and> (\<exists>ms. outbox S' = outbox S @ ms \<and> (\<forall>p \<in> set ms. board_message (snd p) \<longrightarrow> touched f S S' (fst p)))"

lemma within_error: "within f S S1 \<Longrightarrow> within f S (snd (send_error_response net h c m S1))"
  by (auto simp: within_def send_error_response_def send_out board_message_def touched_def waits_def)

lemma begun_within:
  assumes "begun f w j ms S S'" "fst ` set ms \<subseteq> {f, w}"
  shows "within f S S'"
proof -
  from assms(1) obtain g where g: "active_games S' = (active_games S)[j := g]" "is_active g" "j < length (active_games S)"
    "{white_player_fd g, black_player_fd g} = {f, w}" by (auto simp: begun_def)
  then have "plays f g" "plays w g" by (auto simp: plays_def doubleton_eq_iff)
  moreover have "g \<in> set (active_games S')" using g(1,3) by (simp add: set_update_memI)
  ultimately have "touched f S S' (fst p)" if "p \<in> set ms" for p
    using that assms(2) by (auto simp: touched_def)
  moreover have "carries (active_games S ! i) (active_games S' ! i) \<or> plays f (active_games S' ! i)"
    if "i < length (active_games S)" for i
    using that g(1) \<open>plays f g\<close> by (cases "i = j") simp_all
  ultimately show ?thesis using assms(1) g(1) by (auto simp: begun_def within_def)
qed

section \<open>Match requests\<close>

lemma match_steps:
  assumes "server_ok S" "\<And>h. waits h S \<Longrightarrow> 0 \<le> h"
    and "handle_match_game_message net clk f req S = Some (r, S')"
  shows "quiet S S' \<or> queued f S S' \<and> (0 \<le> r \<or> failed net S S' f)
    \<or> (\<exists>w j. started f w j S S' \<and> 0 \<le> r)
    \<or> (\<exists>w j ms. begun f w j ms S S' \<and> fst ` set ms \<subseteq> {f, w} \<and> failed net S S' f)"
proof (cases "\<exists>q. req = CM_MATCH_GAME (Some q) \<and> mgq_player_id q \<noteq> []")
  case False
  then show ?thesis
    using assms(3) by (auto simp: handle_match_game_message_def quiet_error
        send_error_response_def send_out board_message_def quiet_send
        split: ClientMessage.splits option.splits if_splits)
next
  case True
  then obtain q where q: "req = CM_MATCH_GAME (Some q)" "mgq_player_id q \<noteq> []" by blast
  obtain res S1 where res: "add_player_to_matching clk f (mgq_player_id q) S = Some (res, S1)"
    using assms(3) q by (auto simp: handle_match_game_message_def split: option.splits)
  show ?thesis
  proof (cases "find_index wp_is_active (waiting_players S)")
    case None
    then obtain i where i: "find_index (\<lambda>p. \<not> wp_is_active p) (waiting_players S) = Some i"
      by (rule free_waiting_slot [OF assms(1)])
    define p where "p = \<lparr>wp_fd = f, wp_player_id = mgq_player_id q, wp_wait_start_time = mc_wait clk,
                           wp_is_active = True\<rparr>"
    have p: "wp_fd p = f" "S1 = wait_put i p S" "mr_status res = MATCH_STATUS_WAITING"
      using res None i by (auto simp: p_def add_player_to_matching_def c_strcpy_def error_result_def split: if_splits)
    have "(r, S') = send_to net f (match_waiting (or_else (mr_game_id res) [])) S1"
      using assms(3) q res p(3) by (simp add: handle_match_game_message_def)
    then have "queued f S S'" "0 \<le> r \<or> failed net S S' f"
      using p waits_put [of _ i p S]
      by (auto simp: queued_def send_out match_waiting_def board_message_def waits_def not_le intro!: failed_first)
    then show ?thesis by blast
  next
    case (Some i)
    show ?thesis
    proof (cases "find_index (\<lambda>g. \<not> is_active g) (active_games S)")
      case None
      with res Some have "S1 = S" "mr_status res = MATCH_STATUS_ERROR"
        by (auto simp: add_player_to_matching_def error_result_def)
      with assms(3) q res show ?thesis
        by (auto simp: handle_match_game_message_def send_error_response_def send_out
            board_message_def quiet_send)
    next
      case free: (Some j)
      note j = find_game_slot [OF assms(1) free] and len = server_okD(5) [OF assms(1)]
      let ?w = "wp_fd (waiting_players S ! i)"
      from res Some free have st: "start_game clk f (mgq_player_id q) i j S = Some (res, S1)"
        by (simp add: add_player_to_matching_def)
      define c where "c \<longleftrightarrow> c_mod (mc_colour clk) 2 = 0"
      define g where "g = new_game clk c f (mgq_player_id q) ?w (wp_player_id (waiting_players S ! i))
        (game_id_string (mc_id clk) (next_game_no S)) (active_games S ! j)"
      have S1: "S1 = wait_drop i (game_put j g (S\<lparr>next_game_no := next_game_no S + 1\<rparr>))"
        and r1: "mr_status res = MATCH_STATUS_GAME_STARTED" "mr_opponent_fd res = ?w"
          "mr_assigned_team res = (if c then TEAM__TEAM_WHITE else TEAM__TEAM_BLACK)"
        using st start_game_eq [OF assms(1) Some start_game_room [OF assms(1) st]]
        by (auto simp: Let_def c_def g_def)
      have gs: "active_games S1 = (active_games S)[j := g]" by (simp add: S1 game_slots.table_put)
      have w: "waits ?w S" "0 \<le> ?w" using found_waits [OF Some] assms(2) by auto
      have "plays f (active_games S1 ! j)" using j len by (simp add: gs g_def plays_def)
      then obtain k where k: "find_game_by_player_fd f S1 = Some k"
        using found_game [of j S1 f] j len by (auto simp: gs)
      have i: "i < 100" "wp_is_active (waiting_players S ! i)"
        using find_index_SomeD [OF Some] server_okD(4) [OF assms(1)] by simp_all
      have quietq: "\<not> waits h S1" for h
      proof (rule nobody_waits)
        show "server_ok S1" using start_game_ok [OF assms(1) Some free st] .
        show "waiting_count S1 = 0"
          using drop_last_waiting [OF assms(1) i] by (simp add: S1 wait_slots.count_clr)
      qed
      have out: "outbox S1 = outbox S" by (simp add: S1)
      have g: "is_active g" "\<exists>G. game_state g = startpos G" "{white_player_fd g, black_player_fd g} = {f, ?w}"
        by (auto simp: g_def)
      have start: "begun f ?w j ms S (S1\<lparr>outbox := outbox S @ ms\<rparr>)" for ms
        unfolding begun_def using j len w(1) g gs quietq by (auto simp: waits_def)
      obtain m m' where m: "start_message m" "start_message m'"
        "r = net f m (outbox S)"
        "S' = S1\<lparr>outbox := outbox S @ (if 0 \<le> r then [(f, m), (?w, m')] else [(f, m)])\<rparr>"
      proof (rule that)
        let ?G = "active_games S1 ! k" and ?gid = "or_else (mr_game_id res) []"
        let ?t = "if c then TEAM__TEAM_WHITE else TEAM__TEAM_BLACK"
        let ?o = "if ?t = TEAM__TEAM_WHITE then TEAM__TEAM_BLACK else TEAM__TEAM_WHITE"
        let ?n = "if white_player_fd ?G = f then white_player_id ?G else black_player_id ?G"
        let ?m = "match_started ?gid ?t (or_else (mr_opponent_name res) []) ?G"
          and ?m' = "match_started ?gid ?o ?n ?G"
        show "start_message ?m" "start_message ?m'" by (simp_all add: match_started_def start_message_def)
        show "r = net f ?m (outbox S)"
          "S' = S1\<lparr>outbox := outbox S @ (if 0 \<le> r then [(f, ?m), (?w, ?m')] else [(f, ?m)])\<rparr>"
          using assms(3) q res r1 k w(2)
          by (auto simp: handle_match_game_message_def send_out Let_def out split: if_splits)
      qed
      show ?thesis
      proof (cases "0 \<le> r")
        case True
        with m start [of "[(f, m), (?w, m')]"] show ?thesis unfolding started_def by auto
      next
        case False
        then have "failed net S S' f" using m by (intro failed_first [of S' S f m "[]"]) simp_all
        with False m start [of "[(f, m)]"] show ?thesis by fastforce
      qed
    qed
  qed
qed

section \<open>Moves\<close>

definition moved :: "int \<Rightarrow> MoveRequest \<Rightarrow> nat \<Rightarrow> int \<times> int \<times> int \<times> int \<Rightarrow> server_t \<Rightarrow> server_t \<Rightarrow> bool" where
  "moved f q i sq S S' \<longleftrightarrow>
     (case sq of (fx, fy, tx, ty) \<Rightarrow>
        i < length (active_games S) \<and> plays f (active_games S ! i)
        \<and> parse_chess_coordinate (mvq_from q) = Some (fx, fy)
        \<and> parse_chess_coordinate (mvq_to q) = Some (tx, ty)
        \<and> (\<exists>g. active_games S' = (active_games S)[i := g]
             \<and> game_state g = apply_move (game_state (active_games S ! i)) fx fy tx ty
             \<and> white_player_fd g = white_player_fd (active_games S ! i)
             \<and> black_player_fd g = black_player_fd (active_games S ! i)))
     \<and> waiting_players S' = waiting_players S
     \<and> (\<exists>ack b b' ofd. outbox S' = outbox S @ [(f, ack), (ofd, SM_MOVE_BROADCAST b), (f, SM_MOVE_BROADCAST b')]
          \<and> \<not> board_message ack
          \<and> ofd = (if white_player_fd (active_games S ! i) = f then black_player_fd (active_games S ! i)
                   else white_player_fd (active_games S ! i))
          \<and> mvb_from b = mvq_from q \<and> mvb_to b = mvq_to q
          \<and> mvb_from b' = mvq_from q \<and> mvb_to b' = mvq_to q)"

lemma moved_players:
  assumes "moved f q i sq S S'" "players_ok A S"
  shows "players_ok A S'"
proof -
  let ?gs = "active_games S"
  from assms(1) obtain g where g: "active_games S' = ?gs[i := g]" "i < length ?gs" "plays f (?gs ! i)"
    "white_player_fd g = white_player_fd (?gs ! i)" "black_player_fd g = black_player_fd (?gs ! i)"
    and w: "waiting_players S' = waiting_players S"
    by (auto simp: moved_def)
  have fewer: "plays h (?gs[i := g] ! k) \<Longrightarrow> plays h (?gs ! k)" if "k < length ?gs" for h k
    using that g by (cases "k = i") (auto simp: plays_def)
  have "in_game h S' \<Longrightarrow> in_game h S" for h using fewer by (auto simp: in_game_iff g(1))
  moreover have "waits h S' = waits h S" for h by (simp add: waits_def w)
  moreover have "white_player_fd k \<noteq> black_player_fd k" if "k \<in> set (?gs[i := g])" "\<not> A h" "plays h k" for k h
  proof (cases "k = g")
    case True
    have "?gs ! i \<in> set ?gs" "plays h (?gs ! i)" using that(3) True g(2-5) by (simp_all add: plays_def)
    with True g(4,5) that(2) players_okD(2) [OF assms(2)] show ?thesis by metis
  next
    case False
    then show ?thesis using that players_okD(2) [OF assms(2)] by (auto dest!: in_update_cases)
  qed
  ultimately show ?thesis
    using players_okD [OF assms(2)] fewer
    by (intro players_okI) (simp_all only: g(1) length_list_update, blast+)
qed

text \<open>A move whose acknowledgement fails: the move is made and nothing more is sent.\<close>

definition half_moved :: "int \<Rightarrow> nat \<Rightarrow> server_t \<Rightarrow> server_t \<Rightarrow> bool" where
  "half_moved f i S S' \<longleftrightarrow>
     i < length (active_games S) \<and> waiting_players S' = waiting_players S
     \<and> (\<exists>g. active_games S' = (active_games S)[i := g] \<and> plays f g)
     \<and> (\<exists>ack. outbox S' = outbox S @ [(f, ack)] \<and> \<not> board_message ack)"

lemma half_moved_within: "half_moved f i S S' \<Longrightarrow> within f S S'"
  by (auto simp: half_moved_def within_def waits_def nth_list_update)

lemma move_steps:
  assumes "server_ok S" "handle_move_message net clk f req S = Some (r, S')"
  shows "quiet S S' \<or> r = 0 \<and> (\<exists>q i sq. moved f q i sq S S')
    \<or> (\<exists>i. half_moved f i S S') \<and> failed net S S' f"
proof (cases "\<exists>q i fx fy tx ty. req = CM_MOVE (Some q) \<and> playable S f q i fx fy tx ty")
  case False
  then show ?thesis using quiet_refused_move [OF _ assms(2)] by blast
next
  case True
  then obtain q i fx fy tx ty where req: "req = CM_MOVE (Some q)" and p: "playable S f q i fx fy tx ty" by blast
  let ?g = "active_games S ! i"
  define h where "h = moved_game clk ?g fx fy tx ty"
  let ?S = "game_set i h S"
  note ok = playable_set_ok(1) [OF assms(1) p, where clk = clk, folded h_def]
    playable_set_ok(2,3) [OF assms(1) p]
  have h: "is_active h = is_active ?g" "game_state h = apply_move (game_state ?g) fx fy tx ty"
    "white_player_fd h = white_player_fd ?g" "black_player_fd h = black_player_fd ?g"
    by (simp_all add: h_def) (simp_all add: moved_game_def)
  have find: "find_game_by_player_fd f S = Some i" using p by (simp add: playable_def)
  note in_slot = find_game_SomeD [OF assms(1) find] and len = server_okD(5) [OF assms(1)]
  have act: "is_active (active_games ?S ! i)" using ok(2,3) len by (simp add: h)
  define pid where "pid = (if white_player_fd ?g = f then white_player_id ?g else black_player_id ?g)"
  define ofd where "ofd = (if white_player_fd ?g = f then black_player_fd ?g else white_player_fd ?g)"
  have eq: "(r, S') = finish_move net clk f pid ofd q i ?S"
    using handle_move_playable [OF assms(1) p, of net clk] assms(2) by (simp add: req Let_def pid_def ofd_def h_def)
  show ?thesis
  proof (cases "net f (move_ack pid h) (outbox S) < 0")
    case True
    then have S': "S' = ?S\<lparr>outbox := outbox S @ [(f, move_ack pid h)]\<rparr>"
      using eq ok(2) len by (simp add: finish_move_eq [OF ok(1,2) act])
    then have "half_moved f i S S'"
      using in_slot len h by (auto simp: half_moved_def plays_def move_ack_def board_message_def)
    moreover have "failed net S S' f"
      using True S' by (intro failed_first [of S' S f "move_ack pid h" "[]"]) simp_all
    ultimately show ?thesis by blast
  next
    case False
    have "r = 0" "waiting_players S' = waiting_players S"
      "\<exists>g. active_games S' = (active_games S)[i := g] \<and> game_state g = game_state h
         \<and> white_player_fd g = white_player_fd ?g \<and> black_player_fd g = black_player_fd ?g"
      "outbox S' = outbox S @ [(f, move_ack pid h), (ofd, move_message (vc_opponent clk) pid q h),
         (f, move_message (vc_requester clk) pid q h)]"
      using eq False ok(2) len
      by (auto simp: finish_move_eq [OF ok(1,2) act] Let_def game_drop_def h split: if_splits)
    then have "moved f q i (fx, fy, tx, ty) S S'"
      using p in_slot len by (auto simp: moved_def h playable_def plays_def ofd_def move_message_def
          move_ack_def board_message_def)
    with \<open>r = 0\<close> show ?thesis by blast
  qed
qed

section \<open>A request as a whole\<close>

text \<open>
  Every request of a client is one of four things for the positions: nothing, a place in the queue,
  the start of a game, or a move; unless a send has failed, and then it has reached only those who
  share a game with the client.
\<close>

lemma request_steps:
  assumes "server_ok S" "\<And>h. waits h S \<Longrightarrow> 0 \<le> h"
    and "handle_client_message net mclk vclk f (Some msg) S = Some (closed, S')"
  shows "quiet S S' \<or> queued f S S' \<and> (\<exists>q. msg = CM_MATCH_GAME q)
    \<or> (\<exists>w j. started f w j S S') \<and> (\<exists>q. msg = CM_MATCH_GAME q)
    \<or> (\<exists>q i sq. moved f q i sq S S')
    \<or> within f S S' \<and> (\<exists>h. failed net S S' h)"
proof -
  obtain r S1 where d: "dispatch_client_message net mclk vclk f msg S = Some (r, S1)"
    using assms(3) by (auto simp: handle_client_message_def split: option.splits)
  then have S': "S' = (if r < 0 then snd (send_error_response net f (- r)
      ''An error occurred while processing the request'' S1) else S1)"
    using assms(3) by (auto simp: handle_client_message_def split: if_splits)
  have out: "\<exists>ms. outbox S' = outbox S1 @ ms" using S' by (auto simp: send_error_response_def send_out)
  have quiet_end: "quiet S S'" if "quiet S S1"
    using S' that quiet_trans [OF that quiet_error] by (cases "r < 0") simp_all
  have within_end: "within f S S' \<and> (\<exists>h. failed net S S' h)" if "within f S S1" "failed net S S1 f"
  proof -
    from out obtain ms where "outbox S' = outbox S1 @ ms" by blast
    with that(2) have "failed net S S' f" by (rule failed_more)
    moreover have "within f S S'" using S' that(1) within_error [OF that(1)] by (cases "r < 0") simp_all
    ultimately show ?thesis by blast
  qed
  show ?thesis
  proof (cases "(\<exists>q. msg = CM_MATCH_GAME q) \<or> (\<exists>q. msg = CM_MOVE q)")
    case False
    then have "quiet S S1"
      using d by (cases msg) (auto simp: dispatch_client_message_def
          dest: quiet_ping_echo quiet_cancel quiet_chat quiet_resign quiet_unknown)
    then show ?thesis using quiet_end by blast
  next
    case True
    then show ?thesis
    proof (elim disjE exE)
      fix q assume q: "msg = CM_MATCH_GAME q"
      with d have "handle_match_game_message net mclk f msg S = Some (r, S1)"
        by (simp add: dispatch_client_message_def)
      from match_steps [OF assms(1,2) this] consider "quiet S S1" | "queued f S S1" "0 \<le> r"
        | w j where "started f w j S S1" "0 \<le> r" | "queued f S S1" "failed net S S1 f"
        | w j ms where "begun f w j ms S S1" "fst ` set ms \<subseteq> {f, w}" "failed net S S1 f"
        by blast
      then show ?thesis
      proof cases
        case 4
        then have "within f S S1" by (auto simp: queued_def within_def touched_def)
        with within_end 4 show ?thesis by blast
      qed (use S' q quiet_end within_end begun_within in auto)
    next
      fix q assume "msg = CM_MOVE q"
      with d have "handle_move_message net vclk f msg S = Some (r, S1)"
        by (simp add: dispatch_client_message_def)
      from move_steps [OF assms(1) this] show ?thesis
        using S' quiet_end within_end half_moved_within by auto
    qed
  qed
qed

end
