(* ===== verification/Lobby_Refine.thy ===== *)
theory Lobby_Refine
  imports Lobby Session
begin

text \<open>The server refines the lobby: the abstraction of its tables, one lemma per operation.\<close>

section \<open>The abstraction\<close>

definition match_of :: "ActiveGame \<Rightarrow> match_t" where
  "match_of g =
     \<lparr>mt_white = (white_player_fd g, white_player_id g), mt_black = (black_player_fd g, black_player_id g),
      mt_position = game_state g,
      mt_white_left = white_time_remaining g, mt_black_left = black_time_remaining g\<rparr>"

definition matches_of :: "ActiveGame list \<Rightarrow> string \<Rightarrow> match_t option" where
  "matches_of gs = map_of (map (\<lambda>g. (game_id g, match_of g)) (filter is_active gs))"

definition waiting_of :: "WaitingPlayer list \<Rightarrow> (int \<times> string) option" where
  "waiting_of ps = map_option (\<lambda>i. (wp_fd (ps ! i), wp_player_id (ps ! i))) (find_index wp_is_active ps)"

definition lobby_of :: "server_t \<Rightarrow> lobby_t" where
  "lobby_of S = \<lparr>lb_waiting = waiting_of (waiting_players S), lb_matches = matches_of (active_games S)\<rparr>"

lemma lobby_of_fields [simp]:
  "lb_waiting (lobby_of S) = waiting_of (waiting_players S)"
  "lb_matches (lobby_of S) = matches_of (active_games S)"
  by (simp_all add: lobby_of_def)

lemma lobby_of_frames [simp]:
  "lobby_of (S\<lparr>outbox := q\<rparr>) = lobby_of S" "lobby_of (S\<lparr>next_game_no := n\<rparr>) = lobby_of S"
  by (simp_all add: lobby_of_def)

section \<open>The table of games as a map\<close>

lemma option_eqI: "(\<And>v. a = Some v \<longleftrightarrow> b = Some v) \<Longrightarrow> a = b"
  by (metis not_None_eq)

lemma map_eqI: "(\<And>k v. m k = Some v \<longleftrightarrow> m' k = Some v) \<Longrightarrow> m = m'"
  by (rule ext) (metis not_None_eq)

lemma matches_of_Some:
  assumes "distinct_ids gs"
  shows "matches_of gs gid = Some m \<longleftrightarrow>
    (\<exists>j < length gs. is_active (gs ! j) \<and> game_id (gs ! j) = gid \<and> m = match_of (gs ! j))"
proof -
  have "distinct (map fst (map (\<lambda>g. (game_id g, match_of g)) (filter is_active gs)))"
    using distinct_active_ids [OF assms] by (simp add: o_def)
  from map_of_eq_Some_iff [OF this] have
    "matches_of gs gid = Some m \<longleftrightarrow> (\<exists>g \<in> set gs. is_active g \<and> game_id g = gid \<and> m = match_of g)"
    by (auto simp: matches_of_def)
  then show ?thesis by (metis in_set_conv_nth)
qed

lemma matches_live:
  assumes "distinct_ids gs" "distinct_ids (gs[i := g])" "i < length gs" "is_active g"
    and "is_active (gs ! i) \<Longrightarrow> game_id (gs ! i) = game_id g"
  shows "matches_of (gs[i := g]) = (matches_of gs)(game_id g \<mapsto> match_of g)"
proof (rule map_eqI)
  fix k v
  show "matches_of (gs[i := g]) k = Some v \<longleftrightarrow> ((matches_of gs)(game_id g \<mapsto> match_of g)) k = Some v"
  proof (cases "k = game_id g")
    case True
    have "matches_of (gs[i := g]) (game_id g) = Some (match_of g)"
      using assms(3,4) by (auto simp: matches_of_Some [OF assms(2)] intro!: exI [of _ i])
    with True show ?thesis by auto
  next
    case False
    then have "(j < length gs \<and> is_active (gs[i := g] ! j) \<and> game_id (gs[i := g] ! j) = k \<and> v = match_of (gs[i := g] ! j))
        \<longleftrightarrow> (j < length gs \<and> is_active (gs ! j) \<and> game_id (gs ! j) = k \<and> v = match_of (gs ! j))" for j
      using assms(5) by (cases "i = j") auto
    with False show ?thesis by (simp add: matches_of_Some [OF assms(1)] matches_of_Some [OF assms(2)])
  qed
qed

lemma matches_dead:
  assumes "distinct_ids gs" "distinct_ids (gs[i := g])" "i < length gs" "is_active (gs ! i)" "\<not> is_active g"
  shows "matches_of (gs[i := g]) = (matches_of gs)(game_id (gs ! i) := None)"
proof (rule map_eqI)
  fix k v
  have "(j < length gs \<and> is_active (gs[i := g] ! j) \<and> game_id (gs[i := g] ! j) = k \<and> v = match_of (gs[i := g] ! j))
      \<longleftrightarrow> k \<noteq> game_id (gs ! i) \<and>
        (j < length gs \<and> is_active (gs ! j) \<and> game_id (gs ! j) = k \<and> v = match_of (gs ! j))" for j
    using assms(3-5) distinct_idsD [OF assms(1), of i j] by (cases "i = j") auto
  then show "matches_of (gs[i := g]) k = Some v \<longleftrightarrow> ((matches_of gs)(game_id (gs ! i) := None)) k = Some v"
    by (auto simp: matches_of_Some [OF assms(1)] matches_of_Some [OF assms(2)])
qed

section \<open>The writes of the server\<close>

lemma lobby_eqI: "lb_waiting L = lb_waiting L' \<Longrightarrow> lb_matches L = lb_matches L' \<Longrightarrow> L = (L' :: lobby_t)"
  by simp

lemma server_ids: "server_ok S \<Longrightarrow> distinct_ids (active_games S)"
  by (simp add: server_ok_def ids_ok_def)

lemma lobby_game_drop:
  assumes "server_ok S" "i < 50" "is_active (active_games S ! i)"
  shows "lobby_of (game_drop i S) =
    (lobby_of S)\<lparr>lb_matches := (lb_matches (lobby_of S))(game_id (active_games S ! i) := None)\<rparr>"
  using matches_dead [OF server_ids [OF assms(1)], of i "(active_games S ! i)\<lparr>is_active := False\<rparr>"]
    server_ids [OF server_ok_game_drop [OF assms]] assms(2,3) server_okD(5) [OF assms(1)]
  by (intro lobby_eqI) (simp_all add: game_slots.table_clr)

lemma lobby_game_set:
  assumes "server_ok S" "i < 50" "is_active (active_games S ! i)"
    and "server_ok (game_set i g S)" "is_active g" "game_id g = game_id (active_games S ! i)"
  shows "lobby_of (game_set i g S) =
    (lobby_of S)\<lparr>lb_matches := (lb_matches (lobby_of S))(game_id (active_games S ! i) \<mapsto> match_of g)\<rparr>"
  using matches_live [OF server_ids [OF assms(1)], of i g] server_ids [OF assms(4)] assms
    server_okD(5) [OF assms(1)]
  by (intro lobby_eqI) simp_all

lemma one_waits:
  assumes "server_ok S" "i < 100" "j < 100" "wp_is_active (waiting_players S ! i)" "wp_is_active (waiting_players S ! j)"
  shows "i = j"
proof (rule ccontr)
  let ?ws = "waiting_players S"
  assume "i \<noteq> j"
  have len: "length ?ws = 100" and one: "length (filter wp_is_active ?ws) \<le> 1"
    using assms(1) server_okD(4) [OF assms(1)] by (auto simp: server_ok_def slots_ok_def)
  have "{i, j} \<subseteq> {k. k < length ?ws \<and> wp_is_active (?ws ! k)}" using assms len by auto
  then have "card {i, j} \<le> length (filter wp_is_active ?ws)"
    unfolding length_filter_conv_card by (rule card_mono [rotated]) simp
  with one \<open>i \<noteq> j\<close> show False by simp
qed

lemma lobby_wait_drop:
  assumes "server_ok S" "i < 100" "wp_is_active (waiting_players S ! i)"
  shows "lobby_of (wait_drop i S) = (lobby_of S)\<lparr>lb_waiting := None\<rparr>"
    "lb_waiting (lobby_of S) = Some (wp_fd (waiting_players S ! i), wp_player_id (waiting_players S ! i))"
proof -
  have len: "length (waiting_players S) = 100" using server_okD(4) [OF assms(1)] .
  have "\<not> wp_is_active ((waiting_players S)[i := (waiting_players S ! i)\<lparr>wp_is_active := False\<rparr>] ! k)" if "k < 100" for k
    using that assms one_waits [OF assms(1,2) that assms(3)] len by (cases "i = k") auto
  then have "find_index wp_is_active ((waiting_players S)[i := (waiting_players S ! i)\<lparr>wp_is_active := False\<rparr>]) = None"
    using len by (auto simp: find_index_None in_set_conv_nth)
  then show "lobby_of (wait_drop i S) = (lobby_of S)\<lparr>lb_waiting := None\<rparr>"
    by (intro lobby_eqI) (simp_all add: waiting_of_def wait_slots.table_clr)
  obtain k where k: "find_index wp_is_active (waiting_players S) = Some k"
    using assms len by (cases "find_index wp_is_active (waiting_players S)") (auto simp: find_index_None)
  from find_index_SomeD [OF k] one_waits [OF assms(1,2) _ assms(3), of k] len have "k = i" by simp
  with k show "lb_waiting (lobby_of S) = Some (wp_fd (waiting_players S ! i), wp_player_id (waiting_players S ! i))"
    by (simp add: waiting_of_def)
qed

lemma lobby_wait_put:
  assumes "server_ok S" "i < 100" "find_index wp_is_active (waiting_players S) = None" "wp_is_active p"
  shows "lobby_of (wait_put i p S) = (lobby_of S)\<lparr>lb_waiting := Some (wp_fd p, wp_player_id p)\<rparr>"
    "lb_waiting (lobby_of S) = None"
proof -
  have len: "length (waiting_players S) = 100" using server_okD(4) [OF assms(1)] .
  have "find_index wp_is_active ((waiting_players S)[i := p]) = Some i"
    using assms len by (auto simp: find_index_Some find_index_None)
  then show "lobby_of (wait_put i p S) = (lobby_of S)\<lparr>lb_waiting := Some (wp_fd p, wp_player_id p)\<rparr>"
    using assms(2) len by (intro lobby_eqI) (simp_all add: waiting_of_def wait_slots.table_put)
  show "lb_waiting (lobby_of S) = None" by (simp add: waiting_of_def assms(3))
qed

section \<open>The handlers\<close>

text \<open>A step of the player \<open>f\<close>, or none.\<close>

definition acts :: "int \<Rightarrow> server_t \<Rightarrow> server_t \<Rightarrow> bool" where
  "acts f S S' \<longleftrightarrow> lobby_of S' = lobby_of S \<or> lobby_act f (lobby_of S) (lobby_of S')"

lemma acts_same: "lobby_of S' = lobby_of S \<Longrightarrow> acts f S S'"
  by (simp add: acts_def)

lemma acts_error: "acts f S (snd (send_error_response net g c m S))"
  by (simp add: acts_same send_error_response_def)

lemma acts_then_error: "acts f S S1 \<Longrightarrow> acts f S (snd (send_error_response net g c m S1))"
  by (simp add: acts_def send_error_response_def)

lemma matches_active:
  "server_ok S \<Longrightarrow> i < 50 \<Longrightarrow> is_active (active_games S ! i) \<Longrightarrow>
   lb_matches (lobby_of S) (game_id (active_games S ! i)) = Some (match_of (active_games S ! i))"
  using server_okD(5) by (auto simp: matches_of_Some [OF server_ids])

lemma acts_give_up:
  assumes "server_ok S" "find_index (plays f) (active_games S) = Some i"
  shows "acts f S (game_drop i (S\<lparr>outbox := q\<rparr>))"
proof -
  have i: "i < 50" "plays f (active_games S ! i)"
    using find_index_SomeD [OF assms(2)] server_okD(5) [OF assms(1)] by simp_all
  have act: "is_active (active_games S ! i)" using i(2) by (simp add: plays_def)
  have "server_ok (S\<lparr>outbox := q\<rparr>)" using assms(1) by simp
  from lobby_game_drop [OF this i(1)] act have
    "lobby_of (game_drop i (S\<lparr>outbox := q\<rparr>)) =
      (lobby_of S)\<lparr>lb_matches := (lb_matches (lobby_of S))(game_id (active_games S ! i) := None)\<rparr>" by simp
  with lobby_act.give_up [OF matches_active [OF assms(1) i(1) act], of f] i(2) show ?thesis
    by (auto simp: acts_def plays_def match_of_def)
qed

lemma acts_leave:
  assumes "server_ok S" "find_index (\<lambda>p. wp_is_active p \<and> wp_fd p = f) (waiting_players S) = Some i"
  shows "acts f S (wait_drop i S)"
proof -
  have i: "i < 100" "wp_is_active (waiting_players S ! i)" "wp_fd (waiting_players S ! i) = f"
    using find_index_SomeD [OF assms(2)] server_okD(4) [OF assms(1)] by simp_all
  from lobby_wait_drop [OF assms(1) i(1,2)] i(3) lobby_act.leave [of "lobby_of S" f]
  show ?thesis by (simp add: acts_def)
qed

lemma acts_ping_echo:
  "handle_ping_message net f req S = Some (r, S') \<Longrightarrow> acts f S S'"
  "handle_echo_message net f req S = Some (r, S') \<Longrightarrow> acts f S S'"
  by (auto simp: handle_ping_message_def handle_echo_message_def send_out intro: acts_same
      split: ClientMessage.splits)

lemma acts_cancel:
  assumes "server_ok S" "handle_cancel_match_message net f req S = Some (r, S')"
  shows "acts f S S'"
proof -
  have "acts f S ((wait_drop i S)\<lparr>outbox := q\<rparr>)"
    if "find_index (\<lambda>p. wp_is_active p \<and> wp_fd p = f) (waiting_players S) = Some i" for i q
    using acts_leave [OF assms(1) that] by (simp add: acts_def)
  then show ?thesis
    using assms(2)
    by (auto simp: handle_cancel_match_message_def remove_player_from_matching_def send_out
        send_error_response_def Let_def acts_same split: ClientMessage.splits option.splits if_splits)
qed

lemma acts_chat: "handle_chat_message net f req S = Some (r, S') \<Longrightarrow> acts f S S'"
  by (auto simp: handle_chat_message_def send_out Let_def acts_same
      split: ClientMessage.splits option.splits if_splits)

lemma acts_resign:
  assumes "server_ok S" "handle_resign_message net f req S = Some (r, S')"
  shows "acts f S S'"
  using assms(2) acts_give_up [OF assms(1)]
  by (auto simp: handle_resign_message_def send_out send_error_response_def Let_def acts_same
      split: ClientMessage.splits option.splits if_splits)

lemma acts_unknown: "handle_unknown_message net f S = Some (r, S') \<Longrightarrow> acts f S S'"
  by (auto simp: handle_unknown_message_def send_error_response_def send_out acts_same)

lemma acts_disconnect:
  assumes "server_ok S"
  shows "acts f S (snd (handle_player_disconnect net f S))"
  using acts_give_up [OF assms] acts_leave [OF assms]
  by (auto simp: handle_player_disconnect_def send_to_def Let_def acts_same split: option.split)

text \<open>A move that is played, and the game that it may decide.\<close>

lemma match_of_moved:
  "match_of (moved_game clk g fx fy tx ty) =
     (match_of g)\<lparr>mt_position := apply_move (mt_position (match_of g)) fx fy tx ty\<rparr>"
  by (simp add: match_of_def moved_game_def)

lemma on_move_playable:
  assumes "server_ok S" "playable S f q i fx fy tx ty"
  shows "on_move (match_of (active_games S ! i)) = f"
proof -
  have "find_game_by_player_fd f S = Some i" using assms(2) by (simp add: playable_def)
  from find_game_SomeD(3) [OF assms(1) this] assms(2) show ?thesis
    by (auto simp: on_move_def match_of_def playable_def split: if_splits)
qed

lemma acts_move:
  assumes "server_ok S" "handle_move_message net clk f req S = Some (r, S')"
  shows "acts f S S'"
proof (cases "\<exists>q i fx fy tx ty. req = CM_MOVE (Some q) \<and> playable S f q i fx fy tx ty")
  case True
  then obtain q i fx fy tx ty where req: "req = CM_MOVE (Some q)" and p: "playable S f q i fx fy tx ty" by blast
  let ?g = "active_games S ! i"
  define h where "h = moved_game clk ?g fx fy tx ty"
  let ?S = "game_set i h S" and ?L = "lobby_of S"
  note ok = playable_set_ok(1) [OF assms(1) p, where clk = clk, folded h_def] playable_set_ok(2,3) [OF assms(1) p]
  have len: "length (active_games S) = 50" using server_okD(5) [OF assms(1)] .
  have h: "is_active h" "game_id h = game_id ?g" "game_state h = apply_move (game_state ?g) fx fy tx ty"
    using ok(3) by (simp_all add: h_def)
  have act: "is_active (active_games ?S ! i)" using ok(2) len h by simp
  have legal: "is_move_legal (mt_position (match_of ?g)) fx fy tx ty"
    using p by (simp add: playable_def match_of_def)
  note there = matches_active [OF assms(1) ok(2,3)] and mover = on_move_playable [OF assms(1) p]
  have set: "lobby_of ?S = ?L\<lparr>lb_matches := (lb_matches ?L)(game_id ?g \<mapsto> match_of h)\<rparr>"
    by (rule lobby_game_set [OF assms(1) ok(2,3,1) h(1,2)])
  have one: "lobby_act f ?L (lobby_of ?S)"
    unfolding set using lobby_act.move [OF there mover legal] by (simp only: h_def match_of_moved)
  have two: "lobby_act f ?L (lobby_of (game_drop i (?S\<lparr>outbox := o2\<rparr>)))"
    if "fst (end_of_game (game_state h))" for o2
  proof -
    have "server_ok (?S\<lparr>outbox := o2\<rparr>)" using ok(1) by simp
    from lobby_game_drop [OF this ok(2)] act have
      "lobby_of (game_drop i (?S\<lparr>outbox := o2\<rparr>)) = ?L\<lparr>lb_matches := (lb_matches ?L)(game_id ?g := None)\<rparr>"
      using ok(2) len h(2) by (simp add: set del: lobby_of_fields)
    with lobby_act.decide [OF there mover legal] that h(3) show ?thesis by (simp add: match_of_def)
  qed
  define pid where "pid = (if white_player_fd ?g = f then white_player_id ?g else black_player_id ?g)"
  define ofd where "ofd = (if white_player_fd ?g = f then black_player_fd ?g else white_player_fd ?g)"
  have "(r, S') = finish_move net clk f pid ofd q i ?S"
    using handle_move_playable [OF assms(1) p, of net clk] assms(2) by (simp add: req Let_def pid_def ofd_def h_def)
  moreover have "active_games ?S ! i = h" using ok(2) len by simp
  ultimately show ?thesis
    using one two
    by (auto simp: finish_move_eq [OF ok(1,2) act] Let_def acts_def simp del: slot_frames split: if_splits)
next
  case False
  show ?thesis
  proof (cases "\<exists>q. req = CM_MOVE (Some q)")
    case True
    then obtain q where q: "req = CM_MOVE (Some q)" by blast
    with handle_move_refused [of S f q net clk] False assms(2) obtain gid pid msg where
      "(r, S') = send_move_error net f gid pid msg S" by (metis option.inject)
    then show ?thesis by (simp add: send_move_error_def send_out acts_same)
  next
    case False
    with assms(2) have "S' = S"
      by (auto simp: handle_move_message_def split: ClientMessage.splits option.splits)
    then show ?thesis by (simp add: acts_same)
  qed
qed

section \<open>Matching\<close>

lemma acts_queue:
  assumes "server_ok S" "add_player_to_matching clk f pid S = Some (res, S1)"
  shows "acts f S S1"
proof (cases "find_index wp_is_active (waiting_players S)")
  case None
  from free_waiting_slot [OF assms(1) None] obtain i where
    i: "find_index (\<lambda>p. \<not> wp_is_active p) (waiting_players S) = Some i" "i < 100" .
  define p where "p = \<lparr>wp_fd = f, wp_player_id = pid, wp_wait_start_time = mc_wait clk, wp_is_active = True\<rparr>"
  have S1: "S1 = wait_put i p S"
    using assms(2) None i(1) by (auto simp: p_def add_player_to_matching_def c_strcpy_def error_result_def split: if_splits)
  note put = lobby_wait_put [OF assms(1) i(2) None, of p]
  show ?thesis
    using put lobby_act.wait [of "lobby_of S" f pid] by (simp add: S1 acts_def p_def)
next
  case (Some i)
  let ?p = "waiting_players S ! i"
  have i: "i < 100" "wp_is_active ?p"
    using find_index_SomeD [OF Some] server_okD(4) [OF assms(1)] by simp_all
  show ?thesis
  proof (cases "find_index (\<lambda>g. \<not> is_active g) (active_games S)")
    case None
    with assms(2) Some have "S1 = S" by (auto simp: add_player_to_matching_def error_result_def)
    then show ?thesis by (simp add: acts_same)
  next
    case free: (Some j)
    note j = find_game_slot [OF assms(1) free] and len = server_okD(5) [OF assms(1)]
    from assms(2) Some free have st: "start_game clk f pid i j S = Some (res, S1)"
      by (simp add: add_player_to_matching_def)
    note room = start_game_room [OF assms(1) st]
    define c where "c \<longleftrightarrow> c_mod (mc_colour clk) 2 = 0"
    define gid where "gid = game_id_string (mc_id clk) (next_game_no S)"
    define g where "g = new_game clk c f pid (wp_fd ?p) (wp_player_id ?p) gid (active_games S ! j)"
    let ?S = "game_put j g (S\<lparr>next_game_no := next_game_no S + 1\<rparr>)" and ?L = "lobby_of S"
    have S1: "S1 = wait_drop i ?S"
      using st start_game_eq [OF assms(1) Some room] by (simp add: Let_def c_def g_def gid_def)
    have name: "length (wp_player_id ?p) < 64"
      using find_index_SomeD [OF Some] server_okD(1) [OF assms(1)] by (simp add: slots_ok_def)
    have ok: "server_ok ?S"
      using server_ok_new_game [OF assms(1) j room(1), of g "mc_id clk"] new_game_ok [OF room(2) name]
      by (simp add: g_def gid_def)
    have g: "is_active g" "game_id g = gid" by (simp_all add: g_def)
    have matches: "matches_of ((active_games S)[j := g]) = (matches_of (active_games S))(gid \<mapsto> match_of g)"
      using matches_live [OF server_ids [OF assms(1)], of j g] server_ids [OF ok] j len g
      by (simp add: game_slots.table_put)
    have fresh: "matches_of (active_games S) gid = None"
    proof (rule ccontr)
      assume "matches_of (active_games S) gid \<noteq> None"
      then obtain m where "matches_of (active_games S) gid = Some m" by blast
      then obtain k where k: "k < 50" "is_active (active_games S ! k)" "game_id (active_games S ! k) = gid"
        using len by (auto simp: matches_of_Some [OF server_ids [OF assms(1)]])
      with j have "k \<noteq> j" by auto
      with distinct_idsD [OF server_ids [OF ok], of k j] j len k g show False
        by (simp add: game_slots.table_put)
    qed
    have L: "lobby_of S1 = ?L\<lparr>lb_waiting := None, lb_matches := (lb_matches ?L)(gid \<mapsto> match_of g)\<rparr>"
      using lobby_wait_drop(1) [OF ok, of i] i matches
      by (intro lobby_eqI) (simp_all add: S1 game_slots.table_put)
    have "lobby_act f ?L (?L\<lparr>lb_waiting := None, lb_matches := (lb_matches ?L)(gid \<mapsto> match_of g)\<rparr>)"
    proof (rule lobby_act.meet)
      show "lb_waiting ?L = Some (wp_fd ?p, wp_player_id ?p)" using lobby_wait_drop(2) [OF assms(1) i] .
      show "lb_matches ?L gid = None" using fresh by simp
      show "(mt_white (match_of g), mt_black (match_of g))
          \<in> {((f, pid), (wp_fd ?p, wp_player_id ?p)), ((wp_fd ?p, wp_player_id ?p), (f, pid))}"
        by (simp add: match_of_def g_def)
      show "mt_position (match_of g) = startpos (game_state (active_games S ! j))"
        "mt_white_left (match_of g) = 600000" "mt_black_left (match_of g) = 600000"
        by (simp_all add: match_of_def g_def)
    qed
    then show ?thesis by (simp add: acts_def L)
  qed
qed

lemma acts_match:
  assumes "server_ok S" "handle_match_game_message net clk f req S = Some (r, S')"
  shows "acts f S S'"
proof -
  have "acts f S (S1\<lparr>outbox := q\<rparr>)" if "add_player_to_matching clk f pid S = Some (res, S1)" for pid res S1 q
    using acts_queue [OF assms(1) that] by (simp add: acts_def)
  then show ?thesis
    using assms(2) acts_queue [OF assms(1)]
    by (auto simp: handle_match_game_message_def send_error_response_def send_out Let_def acts_same
        split: ClientMessage.splits option.splits if_splits MatchStatus.splits)
qed

section \<open>Messages and clocks\<close>

lemma acts_dispatch:
  assumes "server_ok S" "dispatch_client_message net mclk vclk f msg S = Some (r, S')"
  shows "acts f S S'"
  using assms(2)
  by (cases msg) (auto simp: dispatch_client_message_def
      dest: acts_ping_echo acts_cancel [OF assms(1)] acts_chat acts_resign [OF assms(1)] acts_unknown
        acts_move [OF assms(1)] acts_match [OF assms(1)])

lemma acts_client:
  assumes "server_ok S" "handle_client_message net mclk vclk f received S = Some (closed, S')"
  shows "acts f S S'"
proof (cases received)
  case None
  with assms acts_disconnect show ?thesis by (auto simp: handle_client_message_def)
next
  case (Some msg)
  then obtain r S1 where d: "dispatch_client_message net mclk vclk f msg S = Some (r, S1)"
    using assms(2) by (auto simp: handle_client_message_def split: option.splits)
  have "S' = (if r < 0 then snd (send_error_response net f (- r)
      ''An error occurred while processing the request'' S1) else S1)"
    using assms(2) Some d by (auto simp: handle_client_message_def split: if_splits)
  then show ?thesis using acts_dispatch [OF assms(1) d] acts_then_error by (cases "r < 0") simp_all
qed

lemma run_clock_ticked:
  assumes "game_ok g" "is_active g" "now - last_timer_check_ms g < 2147483648"
  shows "run_clock (if due now g then now - last_timer_check_ms g else 0) (match_of g) =
    (if is_active (ticked now g) then Some (match_of (ticked now g)) else None)"
proof (cases "due now g")
  case False
  with assms(2) show ?thesis by (simp add: run_clock_def ticked_def)
next
  case True
  let ?e = "now - last_timer_check_ms g"
  have e: "100 \<le> ?e" using True by (simp add: due_def)
  note ch = charge_exact [OF assms(1) e assms(3)]
  show ?thesis
    using True e ch
    by (cases "side_to_move (game_state g)")
      (auto simp: run_clock_def match_of_def ticked_def out_of_time_def mover_time_def due_def Let_def)
qed

lemma timer_ticks:
  assumes "server_ok S" "no_clock_jump now S"
  shows "lobby_tick (lobby_of S) (lobby_of (check_game_timeouts net now S))"
proof -
  let ?gs = "active_games S"
  define e where "e gid = (case find_index (\<lambda>g. is_active g \<and> game_id g = gid) ?gs of None \<Rightarrow> 0
    | Some j \<Rightarrow> if due now (?gs ! j) then now - last_timer_check_ms (?gs ! j) else 0)" for gid
  note eq = check_game_timeouts_eq [OF server_okD(5) [OF assms(1)], of net now]
  have pos: "0 \<le> e gid" for gid by (simp add: e_def due_def split: option.split)
  have ids: "distinct_ids ?gs" "distinct_ids (map (ticked now) ?gs)"
    using server_ids [OF assms(1)] by (auto simp: distinct_ids_def)
  have e: "e (game_id (?gs ! j)) = (if due now (?gs ! j) then now - last_timer_check_ms (?gs ! j) else 0)"
    if j: "j < length ?gs" "is_active (?gs ! j)" for j
  proof -
    obtain k where k: "find_index (\<lambda>g. is_active g \<and> game_id g = game_id (?gs ! j)) ?gs = Some k"
      using j by (cases "find_index (\<lambda>g. is_active g \<and> game_id g = game_id (?gs ! j)) ?gs") (auto simp: find_index_None)
    from find_index_SomeD [OF k] distinct_idsD [OF ids(1), of k j] j have "k = j" by simp
    with k show ?thesis by (simp add: e_def)
  qed
  have run: "run_clock (e (game_id (?gs ! j))) (match_of (?gs ! j)) =
      (if is_active (ticked now (?gs ! j)) then Some (match_of (ticked now (?gs ! j))) else None)"
    if "j < length ?gs" "is_active (?gs ! j)" for j
    using run_clock_ticked [of "?gs ! j" now] server_okD(3) [OF assms(1), of "?gs ! j"] assms(2) that
    by (simp add: e [OF that] no_clock_jump_def list_all_length)
  have "matches_of (map (ticked now) ?gs) k = Option.bind (matches_of ?gs k) (run_clock (e k))" for k
  proof (rule option_eqI)
    fix v
    have "(is_active (ticked now (?gs ! j)) \<and> game_id (?gs ! j) = k \<and> v = match_of (ticked now (?gs ! j))) \<longleftrightarrow>
        (is_active (?gs ! j) \<and> game_id (?gs ! j) = k \<and> run_clock (e k) (match_of (?gs ! j)) = Some v)"
      if "j < length ?gs" for j
      using run [OF that] by (cases "is_active (?gs ! j)") (auto split: if_splits)
    moreover have "matches_of (map (ticked now) ?gs) k = Some v \<longleftrightarrow>
        (\<exists>j < length ?gs. is_active (ticked now (?gs ! j)) \<and> game_id (?gs ! j) = k
           \<and> v = match_of (ticked now (?gs ! j)))"
      by (auto simp: matches_of_Some [OF ids(2)] simp del: ticked_fields(8))
    ultimately have "matches_of (map (ticked now) ?gs) k = Some v \<longleftrightarrow>
        (\<exists>j < length ?gs. is_active (?gs ! j) \<and> game_id (?gs ! j) = k
           \<and> run_clock (e k) (match_of (?gs ! j)) = Some v)" by blast
    then show "matches_of (map (ticked now) ?gs) k = Some v \<longleftrightarrow>
        Option.bind (matches_of ?gs k) (run_clock (e k)) = Some v"
      by (auto simp: bind_eq_Some_conv matches_of_Some [OF ids(1)])
  qed
  then have "lobby_of (check_game_timeouts net now S) =
      (lobby_of S)\<lparr>lb_matches := (\<lambda>gid. Option.bind (lb_matches (lobby_of S) gid) (run_clock (e gid)))\<rparr>"
    by (intro lobby_eqI) (auto simp: eq)
  with lobby_tick.tick [of e "lobby_of S"] pos show ?thesis by simp
qed

section \<open>The refinement\<close>

lemma boot_lobby: "lobby_of boot = empty_lobby"
proof (rule lobby_eqI)
  have "find_index wp_is_active (waiting_players boot) = None"
    by (simp add: find_index_None boot_fields zero_waiting_def)
  then show "lb_waiting (lobby_of boot) = lb_waiting empty_lobby" by (simp add: waiting_of_def empty_lobby_def)
  show "lb_matches (lobby_of boot) = lb_matches empty_lobby"
    by (simp add: matches_of_def boot_fields zero_active_game_def empty_lobby_def)
qed

lemma acts_event:
  assumes "server_ok (srv Y)" "process_event net (READY_CLIENT fd readable received mclk vclk) Y = Some Y'"
  shows "acts fd (srv Y) (srv Y')"
  using assms by (auto simp: process_event_def acts_same dest: acts_client split: option.splits if_splits)

interpretation server: transition_system "\<lambda>Y. Y = boot_system" "server_step net" "reachable net" for net
proof unfold_locales
  fix Y P
  assume "reachable net Y" "\<And>Y. Y = boot_system \<Longrightarrow> P Y"
    "\<And>Y Y'. reachable net Y \<Longrightarrow> P Y \<Longrightarrow> server_step net Y Y' \<Longrightarrow> P Y'"
  then show "P Y" by (induction rule: reachable.induct) blast+
qed (auto intro: reachable.intros)

lemma step_lobby:
  assumes "server_step net Y Y'" "server_ok (srv Y)"
  shows "lobby_step\<^sup>*\<^sup>* (lobby_of (srv Y)) (lobby_of (srv Y'))"
  using assms(1)
proof (cases rule: server_step.cases)
  case (event ev)
  show ?thesis
  proof (cases ev)
    case (READY_LISTENER evs)
    with event show ?thesis by (auto simp: process_event_def)
  next
    case (READY_CLIENT fd readable received mclk vclk)
    with acts_event [OF assms(2)] event have "acts fd (srv Y) (srv Y')" by blast
    then have "lobby_of (srv Y') = lobby_of (srv Y) \<or> lobby_step (lobby_of (srv Y)) (lobby_of (srv Y'))"
      by (auto simp: acts_def lobby_step_def)
    then show ?thesis by auto
  qed
next
  case (tick now)
  with timer_ticks [OF assms(2)] have "lobby_step (lobby_of (srv Y)) (lobby_of (srv Y'))"
    by (simp add: timer_pass_def lobby_step_def)
  then show ?thesis by blast
qed

interpretation server_lobby: simulation "\<lambda>Y. Y = boot_system" "server_step net" "reachable net"
    "\<lambda>Y. lobby_of (srv Y)" "\<lambda>L. L = empty_lobby" lobby_step lobby_reachable for net
proof unfold_locales
  show "lobby_of (srv Y) = empty_lobby" if "Y = boot_system" for Y
    using that boot_lobby by (simp add: boot_system_def)
  show "lobby_step\<^sup>*\<^sup>* (lobby_of (srv Y)) (lobby_of (srv Y'))" if "reachable net Y" "server_step net Y Y'" for Y Y'
    using step_lobby that reachable_ok by blast
qed

text \<open>What a lobby guarantees, carried over to the tables of the server.\<close>

lemma game_played:
  assumes "reachable net Y" "g \<in> set (active_games (srv Y))" "is_active g"
  shows "played (game_state g)"
proof -
  obtain i where i: "i < 50" "g = active_games (srv Y) ! i"
    using assms(2) server_okD(5) [OF reachable_ok [OF assms(1)]] by (auto simp: in_set_conv_nth)
  have "lobby_ok (lobby_of (srv Y))" by (rule server_lobby.transfer [OF lobby_reachable_ok assms(1)])
  with matches_active [OF reachable_ok [OF assms(1)] i(1)] assms(3) i(2) have "match_ok (match_of g)"
    by (auto simp: lobby_ok_def)
  then show ?thesis by (simp add: match_ok_def match_of_def)
qed

end
