(* ===== verification/Client_State.thy ===== *)
theory Client_State
  imports Protocol
begin

text \<open>
  \<open>client/game_state.h\<close>, \<open>client/game_state.c\<close>, \<open>client/client_state.h\<close> and
  \<open>client/client_state.c\<close>: the state of the client and the operations on it.

  The global \<open>g_client\<close> is the record \<open>client_t\<close>; it also holds the static variables of other
  files (the cursor of \<open>ui/input.c\<close>, \<open>first_connect\<close> of \<open>client_network.c\<close>), the log of the
  messages sent and the log of the replay files written. The pointer \<open>g_game_state\<close> always
  points to the game state inside \<open>g_client\<close>. A reading of the clock is an argument. A function
  that takes \<open>screen_mutex\<close> is one step.
\<close>

section \<open>State\<close>

definition MAX_CHAT_MESSAGES :: nat where "MAX_CHAT_MESSAGES = 50"
definition MAX_MESSAGE_LENGTH :: nat where "MAX_MESSAGE_LENGTH = 256"
definition MAX_PLAYER_NAME_LENGTH :: nat where "MAX_PLAYER_NAME_LENGTH = 32"
definition MAX_PGN_MOVES :: nat where "MAX_PGN_MOVES = 512"
definition MAX_COORD_STR :: nat where "MAX_COORD_STR = 6"

record chat_message_t =
  cm_sender :: string
  cm_message :: string
  cm_timestamp :: int

record game_state_t =
  gs_game :: game_t
  gs_chat_messages :: "chat_message_t list"
  gs_chat_count :: nat
  gs_local_player :: string
  gs_opponent_player :: string
  gs_local_team :: team_t
  gs_game_in_progress :: bool
  gs_game_start_time :: int
  gs_white_time :: int
  gs_black_time :: int
  gs_last_timer_update :: int
  gs_white_time_at_last_sync :: int
  gs_black_time_at_last_sync :: int
  gs_possible_moves :: "int \<Rightarrow> int \<Rightarrow> bool"
  gs_capture_moves :: "int \<Rightarrow> int \<Rightarrow> bool"
  gs_opponent_disconnected :: bool
  gs_opponent_disconnect_message :: string
  gs_white_in_check :: bool
  gs_black_in_check :: bool
  gs_pgn_moves :: "string list"
  gs_pgn_move_count :: nat
  gs_pgn_result :: string

datatype screen_state_t = SCREEN_MAIN | SCREEN_MATCHING | SCREEN_GAME

record client_t =
  cl_username :: string
  cl_socket_fd :: int
  cl_connected :: bool
  cl_current_screen :: screen_state_t
  cl_match_start_time :: int
  cl_gs :: game_state_t
  cl_selected_x :: int
  cl_selected_y :: int
  cl_piece_selected :: bool
  cl_chat_input_mode :: bool
  cl_chat_input :: string
  cl_reconnecting :: bool
  cl_last_reconnect_attempt :: int
  cl_dialog_active :: bool
  cl_resign_dialog_active :: bool
  cl_resign_result_dialog_pending :: bool
  cl_resign_result_title :: string
  cl_resign_result_message :: string
  cl_game_end_dialog_pending :: bool
  cl_game_end_message :: string
  cl_connection_lost :: bool
  cl_disconnect_message :: string
  cl_server_host :: string
  cl_server_port :: int
  cl_screen_update_requested :: bool
  cl_cursor_x :: int
  cl_cursor_y :: int
  cl_cursor_mode :: bool
  cl_first_connect :: bool
  cl_sent :: "(int \<times> ClientMessage) list"
  cl_files :: "(string \<times> string) list"

text \<open>
  What the client takes from its surroundings in one call: the readings of the clock
  (\<open>ce_time env k\<close> is the reading number \<open>k\<close> of the call), the results of \<open>localtime_r\<close> with
  \<open>strftime\<close> for the date and for the name of a replay file, whether the directory \<open>replays\<close>
  is there and a file can be opened for writing, and the result of \<open>send_client_message\<close>, which
  may depend on everything sent before.
\<close>

record client_env =
  ce_time :: "nat \<Rightarrow> int"
  ce_date :: "int \<Rightarrow> string"
  ce_replay_name :: "int \<Rightarrow> string"
  ce_mkdir_ok :: bool
  ce_fopen_ok :: bool
  ce_send :: "int \<Rightarrow> ClientMessage \<Rightarrow> (int \<times> ClientMessage) list \<Rightarrow> int"

text \<open>
  The pair \<open>chat_input_buffer\<close>, \<open>chat_input_cursor\<close> is one string: the code keeps every byte
  from the cursor on zero, so the cursor is the length of the string. The writes
  \<open>client->game_state.f = v\<close>:
\<close>

definition on_gs :: "(game_state_t \<Rightarrow> game_state_t) \<Rightarrow> client_t \<Rightarrow> client_t" where
  "on_gs f c = c\<lparr>cl_gs := f (cl_gs c)\<rparr>"

section \<open>The game\<close>

definition reset_game_to_starting_position :: "game_t \<Rightarrow> game_t" where
  "reset_game_to_starting_position G =
     (case fen_parse G start_fen of None \<Rightarrow> G | Some (G', _) \<Rightarrow> G')"

definition reset_game_for_player :: "game_t \<Rightarrow> team_t \<Rightarrow> game_t" where
  "reset_game_for_player G player_team =
     (case fen_parse G start_fen of None \<Rightarrow> G | Some (G', _) \<Rightarrow> G')"

definition init_game :: "game_t \<Rightarrow> game_t" where
  "init_game G =
     (reset_game_to_starting_position (clear_board zero_game))
       \<lparr>side_to_move := TEAM_WHITE, halfmove_clock := 0, fullmove_number := 1,
        white_can_castle_kingside := True, white_can_castle_queenside := True,
        black_can_castle_kingside := True, black_can_castle_queenside := True,
        en_passant_x := - 1, en_passant_y := - 1\<rparr>"

definition is_valid_move :: "game_t \<Rightarrow> int \<Rightarrow> int \<Rightarrow> int \<Rightarrow> int \<Rightarrow> bool" where
  "is_valid_move G from_x from_y to_x to_y = is_move_legal G from_x from_y to_x to_y"

definition make_move :: "game_t \<Rightarrow> int \<Rightarrow> int \<Rightarrow> int \<Rightarrow> int \<Rightarrow> bool \<times> game_t" where
  "make_move G from_x from_y to_x to_y =
     (if \<not> is_valid_move G from_x from_y to_x to_y then (False, G)
      else (True, apply_move G from_x from_y to_x to_y))"

definition apply_move_from_server :: "game_t \<Rightarrow> string \<Rightarrow> string \<Rightarrow> bool \<times> game_t" where
  "apply_move_from_server G from to =
     (if length from \<noteq> 2 \<or> length to \<noteq> 2 then (False, G)
      else
        (let from_x = code (char_at from 0) - 97; from_y = code (char_at from 1) - 49;
             to_x = code (char_at to 0) - 97; to_y = code (char_at to 1) - 49
         in if from_x < 0 \<or> from_x \<ge> 8 \<or> from_y < 0 \<or> from_y \<ge> 8
               \<or> to_x < 0 \<or> to_x \<ge> 8 \<or> to_y < 0 \<or> to_y \<ge> 8
            then (False, G)
            else (True, apply_move G from_x from_y to_x to_y)))"

section \<open>The game state\<close>

definition zero_chat :: chat_message_t where
  "zero_chat = \<lparr>cm_sender = [], cm_message = [], cm_timestamp = 0\<rparr>"

text \<open>\<open>init_game_state\<close>; the creation of the directory \<open>replays\<close> has no effect on the state.\<close>

definition init_game_state :: "game_state_t \<Rightarrow> game_state_t" where
  "init_game_state gs =
     \<lparr>gs_game = init_game zero_game,
      gs_chat_messages = replicate MAX_CHAT_MESSAGES zero_chat, gs_chat_count = 0,
      gs_local_player = [], gs_opponent_player = [], gs_local_team = TEAM_WHITE,
      gs_game_in_progress = False, gs_game_start_time = 0,
      gs_white_time = 600, gs_black_time = 600, gs_last_timer_update = 0,
      gs_white_time_at_last_sync = 600, gs_black_time_at_last_sync = 600,
      gs_possible_moves = (\<lambda>_ _. False), gs_capture_moves = (\<lambda>_ _. False),
      gs_opponent_disconnected = False, gs_opponent_disconnect_message = [],
      gs_white_in_check = False, gs_black_in_check = False,
      gs_pgn_moves = replicate MAX_PGN_MOVES [], gs_pgn_move_count = 0, gs_pgn_result = ''*''\<rparr>"

text \<open>The loop that shifts the array: slot \<open>i - 1\<close> takes slot \<open>i\<close>, for \<open>i\<close> from 1 upwards.\<close>

fun shift_left :: "'a list \<Rightarrow> nat list \<Rightarrow> 'a list" where
  "shift_left xs [] = xs"
| "shift_left xs (i # is) = shift_left (xs[i - 1 := xs ! i]) is"

definition add_chat_message :: "int \<Rightarrow> string \<Rightarrow> string \<Rightarrow> game_state_t \<Rightarrow> game_state_t" where
  "add_chat_message now sender message gs =
     (let gs1 = (if gs_chat_count gs \<ge> MAX_CHAT_MESSAGES
                 then gs\<lparr>gs_chat_messages := shift_left (gs_chat_messages gs) [1..<MAX_CHAT_MESSAGES],
                         gs_chat_count := MAX_CHAT_MESSAGES - 1\<rparr>
                 else gs);
          msg = \<lparr>cm_sender = c_trunc MAX_PLAYER_NAME_LENGTH sender,
                 cm_message = c_trunc MAX_MESSAGE_LENGTH message, cm_timestamp = now\<rparr>
      in gs1\<lparr>gs_chat_messages := (gs_chat_messages gs1)[gs_chat_count gs1 := msg],
             gs_chat_count := gs_chat_count gs1 + 1\<rparr>)"

definition game_is_white_player :: "game_state_t \<Rightarrow> bool" where
  "game_is_white_player gs = (gs_local_team gs = TEAM_WHITE)"

definition get_opponent_name :: "game_state_t \<Rightarrow> string" where
  "get_opponent_name gs = gs_opponent_player gs"

definition update_game_timer :: "int \<Rightarrow> game_state_t \<Rightarrow> game_state_t" where
  "update_game_timer current_time gs =
     (if \<not> gs_game_in_progress gs then gs
      else if gs_last_timer_update gs = 0 then gs\<lparr>gs_last_timer_update := current_time\<rparr>
      else
        (let elapsed_time = current_time - gs_last_timer_update gs in
         if elapsed_time < 1 then gs
         else
           (let gs1 =
              (if side_to_move (gs_game gs) = TEAM_WHITE then
                 (let t = gs_white_time gs - to_int32 elapsed_time
                  in gs\<lparr>gs_white_time := (if t < 0 then 0 else t)\<rparr>)
               else
                 (let t = gs_black_time gs - to_int32 elapsed_time
                  in gs\<lparr>gs_black_time := (if t < 0 then 0 else t)\<rparr>))
            in gs1\<lparr>gs_last_timer_update := current_time\<rparr>)))"

definition sync_timer_from_server :: "int \<Rightarrow> int \<Rightarrow> int \<Rightarrow> game_state_t \<Rightarrow> game_state_t" where
  "sync_timer_from_server white_time black_time move_time gs =
     gs\<lparr>gs_white_time := white_time, gs_black_time := black_time,
        gs_game_start_time := move_time, gs_last_timer_update := move_time,
        gs_white_time_at_last_sync := white_time, gs_black_time_at_last_sync := black_time\<rparr>"

section \<open>The client state\<close>

definition SERVER_DEFAULT_HOST :: string where "SERVER_DEFAULT_HOST = ''127.0.0.1''"
definition SERVER_DEFAULT_PORT :: int where "SERVER_DEFAULT_PORT = 8080"

text \<open>
  \<open>init_client_state\<close> clears \<open>g_client\<close> and leaves what lies outside it: the cursor,
  \<open>first_connect\<close> and the two logs.
\<close>

definition init_client_state :: "client_t \<Rightarrow> client_t" where
  "init_client_state c =
     \<lparr>cl_username = [], cl_socket_fd = - 1, cl_connected = False, cl_current_screen = SCREEN_MAIN,
      cl_match_start_time = 0, cl_gs = init_game_state (cl_gs c),
      cl_selected_x = - 1, cl_selected_y = - 1, cl_piece_selected = False,
      cl_chat_input_mode = False, cl_chat_input = [], cl_reconnecting = False,
      cl_last_reconnect_attempt = 0, cl_dialog_active = False, cl_resign_dialog_active = False,
      cl_resign_result_dialog_pending = False, cl_resign_result_title = [],
      cl_resign_result_message = [], cl_game_end_dialog_pending = False, cl_game_end_message = [],
      cl_connection_lost = False, cl_disconnect_message = [],
      cl_server_host = SERVER_DEFAULT_HOST, cl_server_port = SERVER_DEFAULT_PORT,
      cl_screen_update_requested = False,
      cl_cursor_x = cl_cursor_x c, cl_cursor_y = cl_cursor_y c, cl_cursor_mode = cl_cursor_mode c,
      cl_first_connect = cl_first_connect c, cl_sent = cl_sent c, cl_files = cl_files c\<rparr>"

definition add_chat_message_safe :: "int \<Rightarrow> string \<Rightarrow> string \<Rightarrow> client_t \<Rightarrow> client_t" where
  "add_chat_message_safe now sender message c = on_gs (add_chat_message now sender message) c"

definition client_is_white :: "client_t \<Rightarrow> bool" where
  "client_is_white c = game_is_white_player (cl_gs c)"

definition get_opponent_name_client :: "client_t \<Rightarrow> string" where
  "get_opponent_name_client c = get_opponent_name (cl_gs c)"

text \<open>The static storage before \<open>main\<close>: \<open>first_connect\<close> is true and everything else zero.\<close>

definition static_client :: client_t where
  "static_client =
     \<lparr>cl_username = [], cl_socket_fd = 0, cl_connected = False, cl_current_screen = SCREEN_MAIN,
      cl_match_start_time = 0,
      cl_gs = \<lparr>gs_game = zero_game,
        gs_chat_messages = replicate MAX_CHAT_MESSAGES zero_chat, gs_chat_count = 0,
        gs_local_player = [], gs_opponent_player = [], gs_local_team = TEAM_WHITE,
        gs_game_in_progress = False, gs_game_start_time = 0, gs_white_time = 0, gs_black_time = 0,
        gs_last_timer_update = 0, gs_white_time_at_last_sync = 0, gs_black_time_at_last_sync = 0,
        gs_possible_moves = (\<lambda>_ _. False), gs_capture_moves = (\<lambda>_ _. False),
        gs_opponent_disconnected = False, gs_opponent_disconnect_message = [],
        gs_white_in_check = False, gs_black_in_check = False,
        gs_pgn_moves = replicate MAX_PGN_MOVES [], gs_pgn_move_count = 0, gs_pgn_result = []\<rparr>,
      cl_selected_x = 0, cl_selected_y = 0, cl_piece_selected = False,
      cl_chat_input_mode = False, cl_chat_input = [], cl_reconnecting = False,
      cl_last_reconnect_attempt = 0, cl_dialog_active = False, cl_resign_dialog_active = False,
      cl_resign_result_dialog_pending = False, cl_resign_result_title = [],
      cl_resign_result_message = [], cl_game_end_dialog_pending = False, cl_game_end_message = [],
      cl_connection_lost = False, cl_disconnect_message = [], cl_server_host = [],
      cl_server_port = 0, cl_screen_update_requested = False,
      cl_cursor_x = 0, cl_cursor_y = 0, cl_cursor_mode = False, cl_first_connect = True,
      cl_sent = [], cl_files = []\<rparr>"

end
