(* ===== verification/Client_Save.thy ===== *)
theory Client_Save
  imports Client_State
begin

text \<open>
  \<open>client/pgn_save.c\<close>, \<open>client/game_save.c\<close> and \<open>client/replay.c\<close>: the replay file of a finished
  game, its result, reading it back, and the replay of its moves.

  A file is the string of its bytes. The screen that the replay draws is in \<open>Client_Screen\<close>.
\<close>

section \<open>Writing a replay file\<close>

definition nl :: string where
  "nl = [CHR 0x0A]"

definition pgn_tag :: "string \<Rightarrow> string \<Rightarrow> string" where
  "pgn_tag name v = ''['' @ name @ '' '' @ [CHR 0x22] @ v @ [CHR 0x22] @ '']'' @ nl"

definition pgn_header :: "string \<Rightarrow> game_state_t \<Rightarrow> string" where
  "pgn_header date gs =
     pgn_tag ''Event'' ''Multiplay Chess'' @ pgn_tag ''Site'' ''Local'' @ pgn_tag ''Date'' date
     @ pgn_tag ''Round'' ''1''
     @ (if gs_local_team gs = TEAM_WHITE
        then pgn_tag ''White'' (gs_local_player gs) @ pgn_tag ''Black'' (gs_opponent_player gs)
        else pgn_tag ''White'' (gs_opponent_player gs) @ pgn_tag ''Black'' (gs_local_player gs))
     @ pgn_tag ''Result'' (gs_pgn_result gs) @ nl"

definition pgn_move_text :: "nat \<Rightarrow> string \<Rightarrow> string" where
  "pgn_move_text i m =
     (if i mod 2 = 0 then c_dec (int (i div 2) + 1) @ ''. '' @ m else '' '' @ m @ nl)"

definition pgn_body :: "nat \<Rightarrow> string list \<Rightarrow> string" where
  "pgn_body n mvs =
     concat (map (\<lambda>i. pgn_move_text i (mvs ! i)) [0..<n]) @ (if n mod 2 \<noteq> 0 then nl else [])"

text \<open>\<open>write_pgn\<close>: its result and the text written, if the file could be opened.\<close>

definition write_pgn :: "client_env \<Rightarrow> int \<Rightarrow> game_state_t \<Rightarrow> int \<times> string option" where
  "write_pgn env now gs =
     (if \<not> ce_fopen_ok env then (- 1, None)
      else (0, Some (pgn_header (ce_date env now) gs
                     @ pgn_body (gs_pgn_move_count gs) (gs_pgn_moves gs))))"

section \<open>Saving the current game\<close>

text \<open>The branches that choose the result tag.\<close>

definition game_result :: "game_state_t \<Rightarrow> string" where
  "game_result gs =
     (if is_checkmate (gs_game gs) then
        (if side_to_move (gs_game gs) = gs_local_team gs
         then (if gs_local_team gs = TEAM_WHITE then ''0-1'' else ''1-0'')
         else (if gs_local_team gs = TEAM_WHITE then ''1-0'' else ''0-1''))
      else if is_stalemate (gs_game gs) then ''1/2-1/2''
      else if gs_opponent_disconnected gs
        then (if gs_local_team gs = TEAM_WHITE then ''1-0'' else ''0-1'')
      else ''*'')"

text \<open>
  \<open>save_current_game\<close>: \<open>t_name\<close> and \<open>t_date\<close> are the readings of the clock for the file name
  and inside \<open>write_pgn\<close>. The second result is the file written.
\<close>

definition save_current_game ::
  "client_env \<Rightarrow> int \<Rightarrow> int \<Rightarrow> game_state_t \<Rightarrow> game_state_t \<times> (string \<times> string) option" where
  "save_current_game env t_name t_date gs =
     (if gs_pgn_move_count gs = 0 then (gs, None)
      else if \<not> ce_mkdir_ok env then (gs, None)
      else
        (let gs1 = gs\<lparr>gs_pgn_result := game_result gs\<rparr>;
             filename = ce_replay_name env t_name
         in case write_pgn env t_date gs1 of
              (r, None) \<Rightarrow> (gs1, None)
            | (r, Some content) \<Rightarrow> (gs1, Some (filename, content))))"

text \<open>The call on the state of the client, from the reading number \<open>k\<close> of the clock on.\<close>

definition save_game :: "client_env \<Rightarrow> nat \<Rightarrow> client_t \<Rightarrow> client_t" where
  "save_game env k c =
     (case save_current_game env (ce_time env k) (ce_time env (k + 1)) (cl_gs c) of
        (gs, None) \<Rightarrow> c\<lparr>cl_gs := gs\<rparr>
      | (gs, Some f) \<Rightarrow> c\<lparr>cl_gs := gs, cl_files := cl_files c @ [f]\<rparr>)"

section \<open>Reading a replay file\<close>

definition MAX_MOVES :: nat where "MAX_MOVES = 512"
definition MAX_SAN :: nat where "MAX_SAN = 16"

text \<open>\<open>fgets\<close> with a buffer of \<open>n + 1\<close> bytes: the line read and what is left of the file.\<close>

fun c_fgets :: "nat \<Rightarrow> string \<Rightarrow> string \<times> string" where
  "c_fgets 0 s = ([], s)"
| "c_fgets (Suc n) [] = ([], [])"
| "c_fgets (Suc n) (ch # s) =
     (if ch = CHR 0x0A then ([ch], s) else (let (l, r) = c_fgets n s in (ch # l, r)))"

lemma c_fgets_length: "length (snd (c_fgets n s)) \<le> length s"
  by (induction n s rule: c_fgets.induct) (auto split: prod.splits)

lemma c_fgets_shorter: "s \<noteq> [] \<Longrightarrow> length (snd (c_fgets (Suc n) s)) < length s"
  using c_fgets_length [of n "tl s"] by (cases s) (auto split: prod.splits)

function skip_header :: "string \<Rightarrow> string" where
  "skip_header s =
     (if s = [] then []
      else (let (line, rest) = c_fgets 511 s
            in if char_at line 0 = CHR 0x0A then rest else skip_header rest))"
  by pat_completeness auto

termination skip_header
proof (relation "measure length")
  fix s :: string and x :: "string \<times> string" and line rest
  assume "s \<noteq> []" and "x = c_fgets 511 s" and "(line, rest) = x"
  then have "rest = snd (c_fgets (Suc 510) s)"
    by (metis snd_conv eval_nat_numeral(3) Suc_eq_plus1 add_num_simps numeral_eq_Suc pred_numeral_simps)
  with c_fgets_shorter [OF \<open>s \<noteq> []\<close>, of 510]
  show "(rest, s) \<in> measure length" by simp
qed simp

declare skip_header.simps [simp del]

text \<open>\<open>fscanf(fp, "%31s", token)\<close> until it fails: the tokens it delivers.\<close>

lemma drop_word_shorter:
  "dropWhile P s = c # r \<Longrightarrow>
   length (drop (length (takeWhile (\<lambda>x. \<not> P x) (take 31 (c # r)))) (c # r)) < length s"
proof -
  assume a: "dropWhile P s = c # r"
  then have "\<not> P c" by (metis hd_dropWhile list.distinct(1) list.sel(1))
  moreover have "length (c # r) \<le> length s" using a by (metis length_dropWhile_le)
  ultimately show ?thesis by simp
qed

function scan_tokens :: "string \<Rightarrow> string list" where
  "scan_tokens s =
     (case dropWhile c_isspace s of
        [] \<Rightarrow> []
      | c # r \<Rightarrow>
          (let token = takeWhile (\<lambda>x. \<not> c_isspace x) (take 31 (c # r))
           in token # scan_tokens (drop (length token) (c # r))))"
  by pat_completeness auto

termination scan_tokens
  by (relation "measure length") (simp_all only: wf_measure in_measure drop_word_shorter)

declare scan_tokens.simps [simp del]

text \<open>The string that a buffer holds ends at its first NUL.\<close>

definition c_str :: "string \<Rightarrow> string" where
  "c_str s = takeWhile (\<lambda>c. c \<noteq> NUL) s"

fun load_loop :: "string list \<Rightarrow> string list \<Rightarrow> string list" where
  "load_loop mvs [] = mvs"
| "load_loop mvs (token # ts) =
     (if \<not> length mvs < MAX_MOVES then mvs
      else if CHR ''.'' \<in> set (c_str token) then load_loop mvs ts
      else load_loop (mvs @ [c_trunc MAX_SAN (c_str token)]) ts)"

text \<open>\<open>load_moves\<close>: the argument is the content of the file if it could be opened.\<close>

definition load_moves :: "string option \<Rightarrow> string list" where
  "load_moves file =
     (case file of None \<Rightarrow> [] | Some s \<Rightarrow> load_loop [] (scan_tokens (skip_header s)))"

section \<open>The replay\<close>

record timeval =
  tv_sec :: int
  tv_usec :: int

definition time_diff_ms :: "timeval \<Rightarrow> timeval \<Rightarrow> int" where
  "time_diff_ms t1 t2 = (tv_sec t2 - tv_sec t1) * 1000 + c_div (tv_usec t2 - tv_usec t1) 1000"

record replay_state_t =
  rp_moves :: "string list"
  rp_current_move :: int
  rp_auto_play :: bool
  rp_last_auto_play_time :: timeval

definition replay_move :: "string \<Rightarrow> game_t \<Rightarrow> game_t" where
  "replay_move m G =
     (if length m \<ge> 4
      then snd (apply_move_from_server G [char_at m 0, char_at m 1] [char_at m 2, char_at m 3])
      else G)"

text \<open>\<open>replay_to_move\<close>: the loop runs over the moves 0 to \<open>target_move\<close>.\<close>

definition replay_to_move :: "replay_state_t \<Rightarrow> int \<Rightarrow> game_t \<Rightarrow> game_t" where
  "replay_to_move st target_move G =
     fold replay_move (take (nat (target_move + 1)) (rp_moves st))
       (reset_game_to_starting_position G)"

text \<open>The keys of the terminal; a key without a name of its own is its code.\<close>

datatype key = KEY_UP | KEY_DOWN | KEY_LEFT | KEY_RIGHT | KEY_BACKSPACE | Key int

text \<open>
  One turn of the loop of \<open>start_replay\<close>: the readings of the clock (for the test, after an
  automatic move, at the start of the automatic replay), the shutdown flag and the key, if any.
\<close>

record replay_event =
  re_now :: timeval
  re_auto :: timeval
  re_toggle :: timeval
  re_shutdown :: bool
  re_key :: "key option"

definition replay_auto :: "replay_event \<Rightarrow> replay_state_t \<times> game_t \<Rightarrow> replay_state_t \<times> game_t" where
  "replay_auto ev sg =
     (let (st, G) = sg in
      if rp_auto_play st \<and> rp_current_move st < int (length (rp_moves st)) - 1
         \<and> time_diff_ms (rp_last_auto_play_time st) (re_now ev) \<ge> 500
      then (let n = rp_current_move st + 1 in
            (st\<lparr>rp_current_move := n, rp_last_auto_play_time := re_auto ev\<rparr>,
             replay_to_move st n G))
      else sg)"

definition replay_key :: "replay_event \<Rightarrow> key \<Rightarrow> replay_state_t \<times> game_t \<Rightarrow> replay_state_t \<times> game_t" where
  "replay_key ev ch sg =
     (let (st, G) = sg in
      if ch = KEY_UP \<and> rp_current_move st \<ge> 0
      then (let n = rp_current_move st - 1 in
            (st\<lparr>rp_current_move := n, rp_auto_play := False\<rparr>, replay_to_move st n G))
      else if (ch = KEY_DOWN \<or> ch = Key 10) \<and> rp_current_move st < int (length (rp_moves st)) - 1
      then (let n = rp_current_move st + 1 in
            (st\<lparr>rp_current_move := n, rp_auto_play := False\<rparr>, replay_to_move st n G))
      else if ch = Key 32
      then (let st1 = st\<lparr>rp_auto_play := \<not> rp_auto_play st\<rparr> in
            (if rp_auto_play st1 then st1\<lparr>rp_last_auto_play_time := re_toggle ev\<rparr> else st1, G))
      else sg)"

text \<open>The last result tells whether the loop goes on.\<close>

definition replay_step :: "replay_event \<Rightarrow> replay_state_t \<times> game_t \<Rightarrow> (replay_state_t \<times> game_t) \<times> bool" where
  "replay_step ev sg =
     (let sg1 = replay_auto ev sg in
      if re_shutdown ev then (sg1, False)
      else
        (case re_key ev of
           None \<Rightarrow> (sg1, True)
         | Some ch \<Rightarrow>
             if ch = Key 113 \<or> ch = Key 81 \<or> ch = Key 27 then (sg1, False)
             else (replay_key ev ch sg1, True)))"

fun replay_loop :: "replay_event list \<Rightarrow> replay_state_t \<times> game_t \<Rightarrow> replay_state_t \<times> game_t" where
  "replay_loop [] sg = sg"
| "replay_loop (ev # evs) sg =
     (let (sg1, go) = replay_step ev sg in if go then replay_loop evs sg1 else sg1)"

definition start_replay :: "string option \<Rightarrow> replay_event list \<Rightarrow> game_t \<Rightarrow> game_t" where
  "start_replay file evs G =
     (let mvs = load_moves file in
      if mvs = [] then G
      else snd (replay_loop evs
                 (\<lparr>rp_moves = mvs, rp_current_move = - 1, rp_auto_play = False,
                   rp_last_auto_play_time = \<lparr>tv_sec = 0, tv_usec = 0\<rparr>\<rparr>,
                  reset_game_to_starting_position G)))"

end
