(* ===== verification/Client_Marks.thy ===== *)
theory Client_Marks
  imports Client_State
begin

text \<open>
  What drawing changes in the state: the marked squares of \<open>client/ui/game_screen.c\<close>
  (\<open>calculate_possible_moves\<close>, called by \<open>draw_game_screen\<close>) and the flag that \<open>show_dialog\<close> of
  \<open>client/ui/core.c\<close> sets. \<open>board\<close> is read at a selected square only while a piece is selected.
\<close>

section \<open>Marked squares\<close>

definition mark_move :: "int \<Rightarrow> int \<Rightarrow> int \<Rightarrow> int \<Rightarrow> game_state_t \<Rightarrow> game_state_t" where
  "mark_move sx sy dy dx gs =
     (let game = gs_game gs; target = board game dy dx in
      if sx = dx \<and> sy = dy then gs
      else if is_move_legal game sx sy dx dy then
        (if piece target \<noteq> None \<and> \<not> is_dead target \<and> team target \<noteq> team (board game sy sx)
         then gs\<lparr>gs_capture_moves := (gs_capture_moves gs)(dy := (gs_capture_moves gs dy)(dx := True))\<rparr>
         else gs\<lparr>gs_possible_moves := (gs_possible_moves gs)(dy := (gs_possible_moves gs dy)(dx := True))\<rparr>)
      else gs)"

definition calculate_possible_moves :: "int \<Rightarrow> int \<Rightarrow> bool \<Rightarrow> game_state_t \<Rightarrow> game_state_t" where
  "calculate_possible_moves selected_x selected_y piece_selected gs =
     (let gs1 = gs\<lparr>gs_possible_moves := (\<lambda>_ _. False), gs_capture_moves := (\<lambda>_ _. False)\<rparr> in
      if \<not> piece_selected then gs1
      else
        (let sx = selected_x; sy = selected_y; ps = board (gs_game gs1) sy sx in
         if piece ps = None \<or> is_dead ps then gs1
         else fold (\<lambda>dy. fold (mark_move sx sy dy) [0..7]) [0..7] gs1))"

section \<open>Drawing\<close>

definition draw_game_screen :: "client_t \<Rightarrow> client_t" where
  "draw_game_screen c =
     on_gs (calculate_possible_moves (cl_selected_x c) (cl_selected_y c) (cl_piece_selected c)) c"

definition draw_current_screen :: "client_t \<Rightarrow> client_t" where
  "draw_current_screen c =
     (case cl_current_screen c of
        SCREEN_MAIN \<Rightarrow> c
      | SCREEN_MATCHING \<Rightarrow> c
      | SCREEN_GAME \<Rightarrow> draw_game_screen c)"

definition show_dialog :: "client_t \<Rightarrow> client_t" where
  "show_dialog c = draw_current_screen (c\<lparr>cl_dialog_active := True\<rparr>)"

end
