(* ===== verification/Client_Handlers.thy ===== *)
theory Client_Handlers
  imports Client_Save Client_Marks
begin

text \<open>
  \<open>client/handlers/*.c\<close>: what the network thread of the client does with a message of the server,
  one definition per handler, and the dispatcher.

  A handler returns its integer result and the new state. \<open>show_dialog\<close> is its effect on the
  state; what it prints is in \<open>Client_Screen\<close>. Log output is not modelled.
\<close>

section \<open>Small handlers\<close>

definition request_update :: "client_t \<Rightarrow> client_t" where
  "request_update c = c\<lparr>cl_screen_update_requested := True\<rparr>"

definition handle_ping_response :: "ServerMessage \<Rightarrow> client_t \<Rightarrow> int \<times> client_t" where
  "handle_ping_response msg c = (case msg of SM_PING_RES m \<Rightarrow> (0, c) | _ \<Rightarrow> (- 1, c))"

definition handle_echo_response :: "client_env \<Rightarrow> ServerMessage \<Rightarrow> client_t \<Rightarrow> int \<times> client_t" where
  "handle_echo_response env msg c =
     (case msg of
        SM_ECHO_RES m \<Rightarrow>
          (0, add_chat_message_safe (ce_time env 0) ''Server'' (c_trunc 256 (''Echo: '' @ m)) c)
      | _ \<Rightarrow> (- 1, c))"

definition handle_chat_broadcast :: "client_env \<Rightarrow> ServerMessage \<Rightarrow> client_t \<Rightarrow> int \<times> client_t" where
  "handle_chat_broadcast env msg c =
     (case msg of
        SM_CHAT_BROADCAST b \<Rightarrow>
          (0, request_update (add_chat_message_safe (ce_time env 0) (chb_player_id b) (chb_message b) c))
      | _ \<Rightarrow> (- 1, c))"

definition handle_error_response :: "client_env \<Rightarrow> ServerMessage \<Rightarrow> client_t \<Rightarrow> int \<times> client_t" where
  "handle_error_response env msg c =
     (case msg of
        SM_ERROR e \<Rightarrow>
          (0, show_dialog (add_chat_message_safe (ce_time env 0) ''System''
                 (c_trunc 256 (''Error: '' @ err_message e)) c))
      | _ \<Rightarrow> (- 1, c))"

definition handle_cancel_match_response :: "client_env \<Rightarrow> ServerMessage \<Rightarrow> client_t \<Rightarrow> int \<times> client_t" where
  "handle_cancel_match_response env msg c =
     (case msg of
        SM_CANCEL_MATCH_RES r \<Rightarrow>
          (0, add_chat_message_safe (ce_time env 0) ''System''
                (if cmr_success r then ''Matching cancelled successfully'' else cmr_message r) c)
      | _ \<Rightarrow> (- 1, c))"

definition handle_check_broadcast :: "client_env \<Rightarrow> ServerMessage \<Rightarrow> client_t \<Rightarrow> int \<times> client_t" where
  "handle_check_broadcast env msg c =
     (case msg of
        SM_CHECK_BROADCAST b \<Rightarrow>
          (let c1 = (if ckb_by_team b = TEAM__TEAM_WHITE then on_gs (\<lambda>gs. gs\<lparr>gs_white_in_check := True\<rparr>) c
                     else if ckb_by_team b = TEAM__TEAM_BLACK
                       then on_gs (\<lambda>gs. gs\<lparr>gs_black_in_check := True\<rparr>) c
                     else c);
               c2 = request_update c1;
               checked_player = (if ckb_by_team b = TEAM__TEAM_WHITE then ''White'' else ''Black'')
           in (0, add_chat_message_safe (ce_time env 0) ''Game''
                    (c_trunc 256 (checked_player @ '' is in check!'')) c2))
      | _ \<Rightarrow> (- 1, c))"

section \<open>The end of a game\<close>

definition end_reason :: "GameEndType \<Rightarrow> string" where
  "end_reason e =
     (case e of
        GAME_END_DISCONNECT \<Rightarrow> ''opponent disconnected''
      | GAME_END_RESIGN \<Rightarrow> ''resignation''
      | GAME_END_CHECKMATE \<Rightarrow> ''checkmate''
      | GAME_END_STALEMATE \<Rightarrow> ''stalemate''
      | GAME_END_DRAW \<Rightarrow> ''draw''
      | GAME_END_TIMEOUT \<Rightarrow> ''timeout''
      | GAME_END_UNKNOWN \<Rightarrow> ''unknown reason'')"

definition handle_game_end_broadcast :: "client_env \<Rightarrow> ServerMessage \<Rightarrow> client_t \<Rightarrow> int \<times> client_t" where
  "handle_game_end_broadcast env msg c =
     (case msg of
        SM_GAME_END b \<Rightarrow>
          (let winner_text = (if geb_winner_team b = TEAM__TEAM_WHITE then ''White'' else ''Black'');
               reason = end_reason (geb_end_type b);
               dialog = c_trunc 256 (''Game ended by '' @ reason @ ''.'' @ nl
                          @ winner_text @ '' team wins the game!'');
               notification = c_trunc 256 (''Game ended by '' @ reason @ ''. ''
                          @ winner_text @ '' team wins!'');
               c1 = on_gs (\<lambda>gs. gs\<lparr>gs_opponent_disconnect_message := dialog,
                                   gs_opponent_disconnected := True\<rparr>) c;
               c2 = on_gs (add_chat_message (ce_time env 0) ''System'' notification) c1
           in (0, request_update c2))
      | _ \<Rightarrow> (- 1, c))"

definition handle_resign_response :: "client_env \<Rightarrow> ServerMessage \<Rightarrow> client_t \<Rightarrow> int \<times> client_t" where
  "handle_resign_response env msg c =
     (case msg of
        SM_RESIGN_RES r \<Rightarrow>
          (0, add_chat_message_safe (ce_time env 0) ''System''
                (if rsr_success r then ''Resignation successful. Game will end shortly.''
                 else c_trunc 256 (''Resignation failed: '' @ rsr_message r)) c)
      | _ \<Rightarrow> (- 1, c))"

definition handle_resign_broadcast :: "client_env \<Rightarrow> ServerMessage \<Rightarrow> client_t \<Rightarrow> int \<times> client_t" where
  "handle_resign_broadcast env msg c =
     (case msg of
        SM_RESIGN_BROADCAST b \<Rightarrow>
          (let i_resigned = (rsb_player_id b = cl_username c);
               c1 = add_chat_message_safe (ce_time env 0) ''System''
                      (if i_resigned then ''You resigned the game.''
                       else ''Opponent resigned the game. You win!'') c;
               c2 = on_gs (\<lambda>gs. gs\<lparr>gs_pgn_result :=
                      (if i_resigned
                       then (if gs_local_team gs = TEAM_WHITE then ''0-1'' else ''1-0'')
                       else (if gs_local_team gs = TEAM_WHITE then ''1-0'' else ''0-1''))\<rparr>) c1;
               c3 = save_game env 1 c2;
               c4 = on_gs (\<lambda>gs. gs\<lparr>gs_game_in_progress := False\<rparr>) c3;
               c5 = c4\<lparr>cl_resign_result_dialog_pending := True,
                       cl_resign_result_title :=
                         (if i_resigned then ''Game Over - Resignation'' else ''Game Over - Victory''),
                       cl_resign_result_message :=
                         (if i_resigned
                          then ''You resigned the game.'' @ nl @ ''You lose by resignation!''
                          else ''Opponent resigned the game.'' @ nl @ ''You win by resignation!'')\<rparr>
           in (0, request_update c5))
      | _ \<Rightarrow> (- 1, c))"

section \<open>Matching\<close>

text \<open>The writes to the game state under the lock when a game starts.\<close>

definition client_start_game :: "client_env \<Rightarrow> string \<Rightarrow> MatchGameResponse \<Rightarrow> game_state_t \<Rightarrow> game_state_t" where
  "client_start_game env username r gs =
     (let tm = (if mgr_assigned_team r = TEAM__TEAM_WHITE then TEAM_WHITE
                else if mgr_assigned_team r = TEAM__TEAM_BLACK then TEAM_BLACK else TEAM_WHITE);
          gs1 = gs\<lparr>gs_opponent_player := c_trunc MAX_PLAYER_NAME_LENGTH (mgr_opponent_name r),
                   gs_local_player := c_trunc MAX_PLAYER_NAME_LENGTH username,
                   gs_local_team := tm, gs_game_in_progress := True,
                   gs_game := (reset_game_for_player (init_game (gs_game gs)) tm)
                                \<lparr>side_to_move := TEAM_WHITE\<rparr>\<rparr>;
          gs2 = (if mgr_time_limit_per_player r > 0
                 then gs1\<lparr>gs_white_time := mgr_white_time_remaining r,
                          gs_black_time := mgr_black_time_remaining r\<rparr>
                 else gs1\<lparr>gs_white_time := 600, gs_black_time := 600\<rparr>);
          start = (case mgr_game_start_time r of Some t \<Rightarrow> t | None \<Rightarrow> ce_time env 2)
      in gs2\<lparr>gs_game_start_time := start, gs_last_timer_update := start,
             gs_white_time_at_last_sync := gs_white_time gs2,
             gs_black_time_at_last_sync := gs_black_time gs2,
             gs_pgn_move_count := 0, gs_pgn_result := ''*''\<rparr>)"

definition handle_match_game_response :: "client_env \<Rightarrow> ServerMessage \<Rightarrow> client_t \<Rightarrow> int \<times> client_t" where
  "handle_match_game_response env msg c =
     (case msg of
        SM_MATCH_GAME_RES r \<Rightarrow>
          if mgr_success r then
            (if mgr_assigned_team r = TEAM__TEAM_UNSPECIFIED then (0, c)
             else
               (let c1 = add_chat_message_safe (ce_time env 0) ''System''
                           ''Match found! Game starting...'' c;
                    c2 = on_gs (client_start_game env (cl_username c1) r) c1
                in (0, request_update (c2\<lparr>cl_current_screen := SCREEN_GAME\<rparr>))))
          else
            (0, (add_chat_message_safe (ce_time env 0) ''System'' (mgr_message r) c)
                  \<lparr>cl_current_screen := SCREEN_MAIN\<rparr>)
      | _ \<Rightarrow> (- 1, c))"

section \<open>Moves\<close>

definition handle_move_response :: "client_env \<Rightarrow> ServerMessage \<Rightarrow> client_t \<Rightarrow> int \<times> client_t" where
  "handle_move_response env msg c =
     (case msg of
        SM_MOVE_RES r \<Rightarrow>
          if mvr_success r then (0, request_update c)
          else (0, add_chat_message_safe (ce_time env 0) ''System''
                     (c_trunc 256 (''Move failed: '' @ mvr_message r)) c)
      | _ \<Rightarrow> (- 1, c))"

text \<open>The record of the move, unless the array is full or the last entry is the same move.\<close>

definition record_move :: "string \<Rightarrow> string \<Rightarrow> game_state_t \<Rightarrow> game_state_t" where
  "record_move from to gs =
     (let n = gs_pgn_move_count gs; m = c_trunc MAX_COORD_STR (from @ to) in
      if n < MAX_PGN_MOVES then
        (if n > 0 \<and> gs_pgn_moves gs ! (n - 1) = m then gs
         else gs\<lparr>gs_pgn_moves := (gs_pgn_moves gs)[n := m], gs_pgn_move_count := n + 1\<rparr>)
      else gs)"

definition set_check_flags :: "MoveBroadcast \<Rightarrow> game_state_t \<Rightarrow> game_state_t" where
  "set_check_flags b gs =
     (if mvb_is_check b then
        (if mvb_checked_team b = TEAM__TEAM_WHITE
           then gs\<lparr>gs_white_in_check := True, gs_black_in_check := False\<rparr>
         else if mvb_checked_team b = TEAM__TEAM_BLACK
           then gs\<lparr>gs_white_in_check := False, gs_black_in_check := True\<rparr>
         else gs)
      else gs\<lparr>gs_white_in_check := False, gs_black_in_check := False\<rparr>)"

definition sync_from_broadcast :: "client_env \<Rightarrow> MoveBroadcast \<Rightarrow> game_state_t \<Rightarrow> game_state_t" where
  "sync_from_broadcast env b gs =
     (if mvb_white_time_remaining b \<ge> 0 \<and> mvb_black_time_remaining b \<ge> 0
      then sync_timer_from_server (mvb_white_time_remaining b) (mvb_black_time_remaining b)
             (case mvb_move_timestamp b of Some t \<Rightarrow> t | None \<Rightarrow> ce_time env 1) gs
      else gs)"

text \<open>The update of the board; both strings are there after unpacking.\<close>

definition broadcast_board :: "client_env \<Rightarrow> MoveBroadcast \<Rightarrow> client_t \<Rightarrow> client_t" where
  "broadcast_board env b c =
     (let (ok, G) = apply_move_from_server (gs_game (cl_gs c)) (mvb_from b) (mvb_to b);
          c1 = on_gs (\<lambda>gs. gs\<lparr>gs_game := G\<rparr>) c
      in if ok then
           request_update (on_gs (sync_from_broadcast env b)
             (on_gs (set_check_flags b) (on_gs (record_move (mvb_from b) (mvb_to b)) c1)))
         else add_chat_message_safe (ce_time env 1) ''System''
                ''Failed to update board state - invalid move coordinates'' c1)"

definition end_type_str :: "GameEndType \<Rightarrow> string" where
  "end_type_str e =
     (case e of
        GAME_END_CHECKMATE \<Rightarrow> ''checkmate''
      | GAME_END_STALEMATE \<Rightarrow> ''stalemate''
      | GAME_END_DRAW \<Rightarrow> ''draw''
      | GAME_END_RESIGN \<Rightarrow> ''resignation''
      | GAME_END_DISCONNECT \<Rightarrow> ''disconnection''
      | GAME_END_TIMEOUT \<Rightarrow> ''timeout''
      | GAME_END_UNKNOWN \<Rightarrow> ''unknown reason'')"

definition winner_str :: "Team \<Rightarrow> string" where
  "winner_str t =
     (case t of TEAM__TEAM_WHITE \<Rightarrow> ''White wins'' | TEAM__TEAM_BLACK \<Rightarrow> ''Black wins''
      | TEAM__TEAM_UNSPECIFIED \<Rightarrow> ''Draw'')"

definition broadcast_end :: "client_env \<Rightarrow> MoveBroadcast \<Rightarrow> client_t \<Rightarrow> client_t" where
  "broadcast_end env b c =
     (if mvb_game_ends b then
        (let end_msg = c_trunc 256 (''Game Over: '' @ winner_str (mvb_winner_team b) @ '' by ''
                          @ end_type_str (mvb_end_type b));
             c1 = add_chat_message_safe (ce_time env 2) ''Game'' end_msg c;
             c2 = save_game env 3 c1;
             c3 = on_gs (\<lambda>gs. gs\<lparr>gs_game_in_progress := False\<rparr>) c2
         in request_update (c3\<lparr>cl_game_end_dialog_pending := True, cl_game_end_message := end_msg\<rparr>))
      else c)"

definition handle_move_broadcast :: "client_env \<Rightarrow> ServerMessage \<Rightarrow> client_t \<Rightarrow> int \<times> client_t" where
  "handle_move_broadcast env msg c =
     (case msg of
        SM_MOVE_BROADCAST b \<Rightarrow>
          (let c1 = add_chat_message_safe (ce_time env 0) ''Game''
                 (c_trunc 256 (mvb_player_id b @ '' moved '' @ mvb_from b @ '' -> '' @ mvb_to b)) c
           in (0, broadcast_end env b (broadcast_board env b c1)))
      | _ \<Rightarrow> (- 1, c))"

section \<open>The dispatcher\<close>

definition dispatch_server_message :: "client_env \<Rightarrow> ServerMessage \<Rightarrow> client_t \<Rightarrow> int \<times> client_t" where
  "dispatch_server_message env msg c =
     (case msg of
        SM_PING_RES _ \<Rightarrow> handle_ping_response msg c
      | SM_ECHO_RES _ \<Rightarrow> handle_echo_response env msg c
      | SM_MATCH_GAME_RES _ \<Rightarrow> handle_match_game_response env msg c
      | SM_CANCEL_MATCH_RES _ \<Rightarrow> handle_cancel_match_response env msg c
      | SM_CHAT_BROADCAST _ \<Rightarrow> handle_chat_broadcast env msg c
      | SM_GAME_END _ \<Rightarrow> handle_game_end_broadcast env msg c
      | SM_ERROR _ \<Rightarrow> handle_error_response env msg c
      | SM_MOVE_RES _ \<Rightarrow> handle_move_response env msg c
      | SM_MOVE_BROADCAST _ \<Rightarrow> handle_move_broadcast env msg c
      | SM_CHECK_BROADCAST _ \<Rightarrow> handle_check_broadcast env msg c
      | SM_RESIGN_RES _ \<Rightarrow> handle_resign_response env msg c
      | SM_RESIGN_BROADCAST _ \<Rightarrow> handle_resign_broadcast env msg c
      | SM_NOT_SET \<Rightarrow>
          (0, add_chat_message_safe (ce_time env 0) ''System'' ''Unknown server message'' c))"

end
