(* ===== verification/Client_Net.thy ===== *)
theory Client_Net
  imports Client_Handlers
begin

text \<open>
  \<open>client/client_network.c\<close>: connecting, the turns of the network thread, reconnecting, and the
  requests the client sends.

  The name resolution and the sockets are arguments: the addresses with the descriptor of each
  socket and whether \<open>connect\<close> succeeds. A closed descriptor is the value -1 of \<open>socket_fd\<close>.
\<close>

section \<open>Sending\<close>

definition send_client :: "client_env \<Rightarrow> ClientMessage \<Rightarrow> client_t \<Rightarrow> int \<times> client_t" where
  "send_client env msg c =
     (ce_send env (cl_socket_fd c) msg (cl_sent c),
      c\<lparr>cl_sent := cl_sent c @ [(cl_socket_fd c, msg)]\<rparr>)"

definition send_chat_message :: "client_env \<Rightarrow> string \<Rightarrow> client_t \<Rightarrow> client_t" where
  "send_chat_message env message c =
     (if \<not> cl_connected c
      then add_chat_message_safe (ce_time env 0) ''System'' ''Cannot send message: not connected'' c
      else if message = [] then c
      else snd (send_client env (CM_CHAT message) c))"

definition send_move_request :: "client_env \<Rightarrow> string \<Rightarrow> string \<Rightarrow> client_t \<Rightarrow> int \<times> client_t" where
  "send_move_request env from to c =
     (if \<not> cl_connected c
      then (- 1, add_chat_message_safe (ce_time env 0) ''System'' ''Cannot send move: not connected'' c)
      else if parse_chess_coordinate_network from = None
      then (- 1, add_chat_message_safe (ce_time env 0) ''System'' ''Invalid source coordinate'' c)
      else if parse_chess_coordinate_network to = None
      then (- 1, add_chat_message_safe (ce_time env 0) ''System'' ''Invalid destination coordinate'' c)
      else
        (let (r, c1) = send_client env (CM_MOVE (Some \<lparr>mvq_from = from, mvq_to = to\<rparr>)) c in
         if r < 0
         then (- 1, add_chat_message_safe (ce_time env 0) ''System'' ''Failed to send move request'' c1)
         else (0, c1)))"

definition send_resign_request :: "client_env \<Rightarrow> client_t \<Rightarrow> int \<times> client_t" where
  "send_resign_request env c =
     (if \<not> cl_connected c then (- 1, c)
      else
        (let (result, c1) = send_client env (CM_RESIGN (Some (cl_username c))) c in
         if result < 0
         then (- 1, add_chat_message_safe (ce_time env 0) ''System''
                      ''Failed to send resignation request'' c1)
         else (0, c1)))"

section \<open>Matching\<close>

definition start_matching :: "client_env \<Rightarrow> client_t \<Rightarrow> client_t" where
  "start_matching env c =
     (let c1 = c\<lparr>cl_current_screen := SCREEN_MATCHING, cl_match_start_time := ce_time env 0\<rparr> in
      if cl_connected c1 then
        (let (r, c2) = send_client env (CM_MATCH_GAME (Some
               \<lparr>mgq_player_id = cl_username c1, mgq_desired_game_id = []\<rparr>)) c1
         in if r < 0 then c2\<lparr>cl_current_screen := SCREEN_MAIN\<rparr> else c2)
      else c1\<lparr>cl_current_screen := SCREEN_MAIN\<rparr>)"

definition cancel_matching :: "client_env \<Rightarrow> client_t \<Rightarrow> client_t" where
  "cancel_matching env c =
     (let c1 = (if cl_connected c
                then snd (send_client env (CM_CANCEL_MATCH (Some (cl_username c))) c) else c)
      in c1\<lparr>cl_current_screen := SCREEN_MAIN\<rparr>)"

section \<open>Connecting\<close>

definition RECONNECT_INTERVAL :: int where "RECONNECT_INTERVAL = 5"

text \<open>
  The loop over the addresses. An element is the result of \<open>socket\<close> and whether \<open>connect\<close>
  succeeds; the accumulator is \<open>sockfd\<close>.
\<close>

fun connect_loop :: "int \<Rightarrow> (int \<times> bool) list \<Rightarrow> int" where
  "connect_loop sockfd [] = sockfd"
| "connect_loop sockfd ((fd, connects) # rest) =
     (if fd < 0 then connect_loop fd rest
      else if connects then fd
      else connect_loop (- 1) rest)"

text \<open>\<open>None\<close> stands for a \<open>getaddrinfo\<close> that fails.\<close>

definition connect_to_server :: "(int \<times> bool) list option \<Rightarrow> int" where
  "connect_to_server addrs =
     (case addrs of
        None \<Rightarrow> - 1
      | Some result \<Rightarrow> (let sockfd = connect_loop (- 1) result in if sockfd < 0 then - 1 else sockfd))"

definition should_attempt_reconnect :: "int \<Rightarrow> client_t \<Rightarrow> bool" where
  "should_attempt_reconnect current_time c =
     (if cl_reconnecting c then False
      else current_time - cl_last_reconnect_attempt c \<ge> RECONNECT_INTERVAL)"

definition start_reconnect :: "client_env \<Rightarrow> int \<Rightarrow> (int \<times> bool) list option \<Rightarrow> client_t \<Rightarrow> client_t" where
  "start_reconnect env now addrs c =
     (let c1 = c\<lparr>cl_reconnecting := True, cl_last_reconnect_attempt := now,
                 cl_first_connect := False, cl_socket_fd := connect_to_server addrs\<rparr>
      in if cl_socket_fd c1 < 0 then c1\<lparr>cl_connected := False, cl_reconnecting := False\<rparr>
         else
           (let c2 = c1\<lparr>cl_connected := True, cl_reconnecting := False\<rparr>;
                greeting = (if cl_first_connect c2 then ''Hello Server!'' else ''Reconnection ping'');
                (r, c3) = send_client env (CM_PING greeting) c2
            in if r < 0 then c3\<lparr>cl_connected := False, cl_socket_fd := - 1\<rparr> else c3))"

section \<open>The network thread\<close>

definition connection_down :: "client_t \<Rightarrow> client_t" where
  "connection_down c =
     (let c1 = c\<lparr>cl_connected := False\<rparr>;
          c2 = (if cl_current_screen c1 = SCREEN_GAME
                then request_update (c1\<lparr>cl_connection_lost := True,
                       cl_disconnect_message := ''Connection lost''\<rparr>)
                else c1)
      in if cl_socket_fd c2 \<ge> 0 then c2\<lparr>cl_socket_fd := - 1\<rparr> else c2)"

text \<open>
  What one turn of the loop meets: the addresses for a reconnection and the result of
  \<open>receive_server_message\<close>. The first two readings of the clock are for the reconnection.
\<close>

record net_event =
  ne_env :: client_env
  ne_addrs :: "(int \<times> bool) list option"
  ne_received :: "ServerMessage option"

definition later :: "nat \<Rightarrow> client_env \<Rightarrow> client_env" where
  "later k env = env\<lparr>ce_time := (\<lambda>n. ce_time env (n + k))\<rparr>"

definition network_turn :: "net_event \<Rightarrow> client_t \<Rightarrow> client_t" where
  "network_turn ev c =
     (let env = ne_env ev in
      if \<not> cl_connected c \<and> \<not> should_attempt_reconnect (ce_time env 0) c then c
      else
        (let c1 = (if \<not> cl_connected c then start_reconnect env (ce_time env 1) (ne_addrs ev) c else c) in
         if \<not> cl_connected c1 then c1
         else
           (case ne_received ev of
              None \<Rightarrow> connection_down c1
            | Some msg \<Rightarrow> snd (dispatch_server_message (later 2 env) msg c1))))"

text \<open>
  The thread as a whole: the turns until \<open>network_thread_running\<close> is cleared, then the end.
  \<open>cleanup_network\<close>, called by the main thread, does the same to the state.
\<close>

definition network_thread_end :: "client_t \<Rightarrow> client_t" where
  "network_thread_end c =
     (let c1 = c\<lparr>cl_connected := False\<rparr>
      in if cl_socket_fd c1 \<ge> 0 then c1\<lparr>cl_socket_fd := - 1\<rparr> else c1)"

definition network_thread :: "net_event list \<Rightarrow> client_t \<Rightarrow> client_t" where
  "network_thread evs c =
     network_thread_end (fold network_turn evs (c\<lparr>cl_last_reconnect_attempt := 0\<rparr>))"

definition cleanup_network :: "client_t \<Rightarrow> client_t" where
  "cleanup_network c =
     (let c1 = (if cl_socket_fd c \<ge> 0 then c\<lparr>cl_socket_fd := - 1\<rparr> else c)
      in c1\<lparr>cl_connected := False\<rparr>)"

end
