(* ===== verification/Client_UI.thy ===== *)
theory Client_UI
  imports Client_Net
begin

text \<open>
  The parts of \<open>client/ui\<close> that compute: \<open>input.c\<close> (mouse, cursor and keyboard on the board, typed
  moves), \<open>chat.c\<close> (the input line), \<open>game_screen.c\<close> (the marked squares, what a square shows,
  the chat area), \<open>matching_screen.c\<close>, and the resign dialog of \<open>core.c\<close>.

  Of the drawing functions these are the choices of text and colour; what they print is in
  \<open>Client_Screen\<close>. The static variables of \<open>input.c\<close> are fields of the client.
\<close>

section \<open>The geometry of the screen\<close>

definition BOARD_SIZE :: int where "BOARD_SIZE = 8"
definition SQUARE_W :: int where "SQUARE_W = 7"
definition SQUARE_H :: int where "SQUARE_H = 3"
definition BOARD_LABEL_X :: int where "BOARD_LABEL_X = 4"
definition BOARD_LABEL_Y :: int where "BOARD_LABEL_Y = 2"
definition BOARD_WIDTH :: int where "BOARD_WIDTH = SQUARE_W * BOARD_SIZE + BOARD_LABEL_X * 2"
definition BOARD_HEIGHT :: int where "BOARD_HEIGHT = SQUARE_H * BOARD_SIZE + BOARD_LABEL_Y * 2"

lemmas screen_consts = BOARD_SIZE_def SQUARE_W_def SQUARE_H_def BOARD_LABEL_X_def BOARD_LABEL_Y_def
  BOARD_WIDTH_def BOARD_HEIGHT_def

definition coord_to_board_pos :: "team_t \<Rightarrow> int \<Rightarrow> int \<Rightarrow> (int \<times> int) option" where
  "coord_to_board_pos local_team screen_x screen_y =
     (let rel_x = screen_x - 2; rel_y = screen_y - 2;
          chess_start_x = BOARD_LABEL_X; chess_start_y = 2
      in if rel_x < chess_start_x \<or> rel_y < chess_start_y then None
         else
           (let chess_rel_x = rel_x - chess_start_x; chess_rel_y = rel_y - chess_start_y
            in if chess_rel_x \<ge> SQUARE_W * BOARD_SIZE \<or> chess_rel_y \<ge> SQUARE_H * BOARD_SIZE then None
               else
                 (let display_x = c_div chess_rel_x SQUARE_W; display_y = c_div chess_rel_y SQUARE_H
                  in if display_x \<ge> 0 \<and> display_x < BOARD_SIZE \<and> display_y \<ge> 0 \<and> display_y < BOARD_SIZE
                     then
                       (let (board_x, board_y) =
                              (if local_team = TEAM_BLACK then (7 - display_x, display_y)
                               else (display_x, 7 - display_y))
                        in if board_x < 0 \<or> board_x \<ge> 8 \<or> board_y < 0 \<or> board_y \<ge> 8 then None
                           else Some (board_x, board_y))
                     else None)))"

text \<open>
  The loops of \<open>draw_chess_board\<close>: the board square shown in a row and column of the display, and
  the terminal position of its upper left corner (the window stands at (2, 2)).
\<close>

definition display_square :: "team_t \<Rightarrow> int \<Rightarrow> int \<Rightarrow> int \<times> int" where
  "display_square local_team row col =
     (let is_black_player = (local_team = TEAM_BLACK);
          actual_row = (if is_black_player then row else 7 - row);
          actual_col = (if is_black_player then 7 - col else col)
      in (actual_col, actual_row))"

definition display_corner :: "int \<Rightarrow> int \<Rightarrow> int \<times> int" where
  "display_corner row col = (2 + (BOARD_LABEL_X + col * SQUARE_W), 2 + (2 + row * SQUARE_H))"

definition display_rank :: "team_t \<Rightarrow> int \<Rightarrow> int" where
  "display_rank local_team row = (if local_team = TEAM_BLACK then row + 1 else 8 - row)"

section \<open>Clicks on the board\<close>

definition click_select :: "client_env \<Rightarrow> int \<Rightarrow> int \<Rightarrow> client_t \<Rightarrow> client_t" where
  "click_select env board_x board_y c =
     (let gs = cl_gs c; game = gs_game gs; ps = board game board_y board_x in
      if piece ps \<noteq> None \<and> \<not> is_dead ps then
        (if side_to_move game \<noteq> gs_local_team gs
         then add_chat_message_safe (ce_time env 0) ''System''
                (''Not your turn! Current: ''
                 @ (if side_to_move game = TEAM_WHITE then ''White'' else ''Black'')) c
         else if team ps \<noteq> gs_local_team gs
         then add_chat_message_safe (ce_time env 0) ''System'' ''That's not your piece!'' c
         else add_chat_message_safe (ce_time env 0) ''System'' ''Piece selected. Click destination.''
                (c\<lparr>cl_selected_x := board_x, cl_selected_y := board_y, cl_piece_selected := True\<rparr>))
      else c)"

definition click_move :: "client_env \<Rightarrow> int \<Rightarrow> int \<Rightarrow> client_t \<Rightarrow> client_t" where
  "click_move env board_x board_y c =
     (let sx = cl_selected_x c; sy = cl_selected_y c in
      if board_x = sx \<and> board_y = sy
      then add_chat_message_safe (ce_time env 0) ''System'' ''Selection cancelled.''
             (c\<lparr>cl_piece_selected := False\<rparr>)
      else if sx < 0 \<or> sx \<ge> 8 \<or> sy < 0 \<or> sy \<ge> 8
      then add_chat_message_safe (ce_time env 0) ''System'' ''Invalid selection, cancelled.''
             (c\<lparr>cl_piece_selected := False\<rparr>)
      else
        (let from_coord = [c_char (97 + sx), c_char (49 + sy)];
             to_coord = [c_char (97 + board_x), c_char (49 + board_y)];
             (r, c1) = send_move_request env from_coord to_coord c
         in if r = 0 then c1\<lparr>cl_piece_selected := False\<rparr>
            else add_chat_message_safe (ce_time env 1) ''System'' ''Failed to send move request.'' c1))"

definition handle_board_click :: "client_env \<Rightarrow> int \<Rightarrow> int \<Rightarrow> client_t \<Rightarrow> client_t" where
  "handle_board_click env board_x board_y c =
     (if \<not> cl_piece_selected c then click_select env board_x board_y c
      else click_move env board_x board_y c)"

text \<open>A mouse event is its position and whether the bit \<open>BUTTON1_CLICKED\<close> is set.\<close>

definition handle_mouse_input :: "client_env \<Rightarrow> int \<times> int \<times> bool \<Rightarrow> client_t \<Rightarrow> client_t" where
  "handle_mouse_input env event c =
     (let (x, y, clicked) = event in
      if clicked \<and> cl_current_screen c = SCREEN_GAME then
        (case coord_to_board_pos (gs_local_team (cl_gs c)) x y of
           None \<Rightarrow> c
         | Some (board_x, board_y) \<Rightarrow> handle_board_click env board_x board_y c)
      else c)"

section \<open>The cursor\<close>

definition enable_cursor_mode :: "client_t \<Rightarrow> client_t" where
  "enable_cursor_mode c = c\<lparr>cl_cursor_mode := True, cl_cursor_x := 0, cl_cursor_y := 0\<rparr>"

definition disable_cursor_mode :: "client_t \<Rightarrow> client_t" where
  "disable_cursor_mode c = c\<lparr>cl_cursor_mode := False\<rparr>"

definition is_cursor_mode :: "client_t \<Rightarrow> bool" where
  "is_cursor_mode c = cl_cursor_mode c"

definition get_cursor_position :: "client_t \<Rightarrow> int \<times> int" where
  "get_cursor_position c =
     (let x = cl_cursor_x c; y = cl_cursor_y c
      in if x < 0 \<or> x \<ge> 8 \<or> y < 0 \<or> y \<ge> 8 then (0, 0) else (x, y))"

definition wake_cursor :: "client_t \<Rightarrow> client_t" where
  "wake_cursor c = (if \<not> cl_cursor_mode c then enable_cursor_mode c else c)"

definition handle_keyboard_board_input :: "client_env \<Rightarrow> key \<Rightarrow> client_t \<Rightarrow> bool \<times> client_t" where
  "handle_keyboard_board_input env ch c =
     (if cl_current_screen c \<noteq> SCREEN_GAME then (False, c)
      else
        (case ch of
           KEY_UP \<Rightarrow>
             (let c1 = wake_cursor c in
              (True, if cl_cursor_y c1 > 0 then c1\<lparr>cl_cursor_y := cl_cursor_y c1 - 1\<rparr> else c1))
         | KEY_DOWN \<Rightarrow>
             (let c1 = wake_cursor c in
              (True, if cl_cursor_y c1 < BOARD_SIZE - 1 then c1\<lparr>cl_cursor_y := cl_cursor_y c1 + 1\<rparr> else c1))
         | KEY_LEFT \<Rightarrow>
             (let c1 = wake_cursor c in
              (True, if cl_cursor_x c1 > 0 then c1\<lparr>cl_cursor_x := cl_cursor_x c1 - 1\<rparr> else c1))
         | KEY_RIGHT \<Rightarrow>
             (let c1 = wake_cursor c in
              (True, if cl_cursor_x c1 < BOARD_SIZE - 1 then c1\<lparr>cl_cursor_x := cl_cursor_x c1 + 1\<rparr> else c1))
         | KEY_BACKSPACE \<Rightarrow> (False, c)
         | Key n \<Rightarrow>
             if n = 32 \<or> n = 10 \<or> n = 13 then
               (if cl_cursor_mode c then
                  (let (actual_x, actual_y) =
                         (if gs_local_team (cl_gs c) = TEAM_BLACK then (7 - cl_cursor_x c, cl_cursor_y c)
                          else (cl_cursor_x c, 7 - cl_cursor_y c))
                   in (True, handle_board_click env actual_x actual_y c))
                else (False, c))
             else if n = 27 then
               (if cl_piece_selected c then (True, c\<lparr>cl_piece_selected := False\<rparr>)
                else if cl_cursor_mode c then (True, disable_cursor_mode c)
                else (True, c))
             else (False, c)))"

section \<open>Typed moves\<close>

definition handle_chess_notation :: "client_env \<Rightarrow> string \<Rightarrow> client_t \<Rightarrow> bool \<times> client_t" where
  "handle_chess_notation env notation c =
     (if cl_current_screen c \<noteq> SCREEN_GAME then (False, c)
      else if length notation = 4 then
        (let from_x = code (char_at notation 0) - 97; from_y = code (char_at notation 1) - 49;
             to_x = code (char_at notation 2) - 97; to_y = code (char_at notation 3) - 49;
             gs = cl_gs c; ps = board (gs_game gs) from_y from_x
         in if from_x < 0 \<or> from_x \<ge> 8 \<or> from_y < 0 \<or> from_y \<ge> 8
               \<or> to_x < 0 \<or> to_x \<ge> 8 \<or> to_y < 0 \<or> to_y \<ge> 8
            then (False, add_chat_message_safe (ce_time env 0) ''System'' ''Invalid coordinates'' c)
            else if piece ps = None \<or> is_dead ps
            then (False, add_chat_message_safe (ce_time env 0) ''System''
                           ''No piece at source position'' c)
            else if side_to_move (gs_game gs) \<noteq> gs_local_team gs
            then (False, add_chat_message_safe (ce_time env 0) ''System'' ''Not your turn!'' c)
            else
              (let (r, c1) = send_move_request env [char_at notation 0, char_at notation 1]
                               [char_at notation 2, char_at notation 3] c
               in if r = 0 then (True, c1)
                  else (False, add_chat_message_safe (ce_time env 1) ''System''
                                 ''Failed to send move request.'' c1)))
      else (False, add_chat_message_safe (ce_time env 0) ''System'' ''Use format: e2e4 (from-to)'' c))"

section \<open>The chat line\<close>

definition enable_chat_input :: "client_t \<Rightarrow> client_t" where
  "enable_chat_input c = c\<lparr>cl_chat_input_mode := True, cl_chat_input := []\<rparr>"

definition disable_chat_input :: "client_t \<Rightarrow> client_t" where
  "disable_chat_input c = c\<lparr>cl_chat_input_mode := False, cl_chat_input := []\<rparr>"

definition chat_submit :: "client_env \<Rightarrow> client_t \<Rightarrow> client_t" where
  "chat_submit env c =
     (if take 5 (cl_chat_input c) = ''move:''
      then snd (handle_chess_notation env
                  (dropWhile (\<lambda>ch. ch = CHR '' '') (drop 5 (cl_chat_input c))) c)
      else send_chat_message env (cl_chat_input c) c)"

definition handle_chat_input :: "client_env \<Rightarrow> key \<Rightarrow> client_t \<Rightarrow> client_t" where
  "handle_chat_input env ch c =
     (if \<not> cl_chat_input_mode c then c
      else if ch = Key 10 \<or> ch = Key 13 then
        disable_chat_input
          (if length (cl_chat_input c) > 0 then draw_current_screen (chat_submit env c) else c)
      else if ch = Key 27 then disable_chat_input c
      else if ch = KEY_BACKSPACE \<or> ch = Key 8 \<or> ch = Key 127 then
        (if length (cl_chat_input c) > 0
         then c\<lparr>cl_chat_input := butlast (cl_chat_input c)\<rparr> else c)
      else
        (case ch of
           Key n \<Rightarrow>
             if n \<ge> 32 \<and> n \<le> 126 \<and> length (cl_chat_input c) < 255
             then c\<lparr>cl_chat_input := cl_chat_input c @ [c_char n]\<rparr> else c
         | _ \<Rightarrow> c))"

text \<open>The part of the line that \<open>draw_chat_input\<close> shows in a window of the given width.\<close>

definition chat_input_display :: "int \<Rightarrow> client_t \<Rightarrow> string" where
  "chat_input_display win_width c =
     (let max_display_len = win_width - 12; buffer_len = int (length (cl_chat_input c))
      in if buffer_len > max_display_len
         then take (nat max_display_len) (drop (nat (buffer_len - max_display_len)) (cl_chat_input c))
         else cl_chat_input c)"

section \<open>What a square shows\<close>

definition get_piece_unicode :: "piece_t option \<Rightarrow> team_t \<Rightarrow> string" where
  "get_piece_unicode p t =
     (case p of
        None \<Rightarrow> '' ''
      | Some q \<Rightarrow>
          (if t = TEAM_WHITE then
             (case ptype q of
                PIECE_KING \<Rightarrow> ''W KNG'' | PIECE_QUEEN \<Rightarrow> ''W QUE'' | PIECE_ROOK \<Rightarrow> ''W ROK''
              | PIECE_BISHOP \<Rightarrow> ''W BIS'' | PIECE_KNIGHT \<Rightarrow> ''W KNT'' | PIECE_PAWN \<Rightarrow> ''W PAW'')
           else
             (case ptype q of
                PIECE_KING \<Rightarrow> ''B KNG'' | PIECE_QUEEN \<Rightarrow> ''B QUE'' | PIECE_ROOK \<Rightarrow> ''B ROK''
              | PIECE_BISHOP \<Rightarrow> ''B BIS'' | PIECE_KNIGHT \<Rightarrow> ''B KNT'' | PIECE_PAWN \<Rightarrow> ''B PAW'')))"

text \<open>The pair \<open>is_check_king\<close>, \<open>is_checkmate_king\<close>.\<close>

definition king_marks :: "game_t \<Rightarrow> piecestate_t \<Rightarrow> bool \<times> bool" where
  "king_marks game ps =
     (case piece ps of
        None \<Rightarrow> (False, False)
      | Some p \<Rightarrow>
          if \<not> is_dead ps \<and> ptype p = PIECE_KING then
            (let white_in_check = is_in_check game TEAM_WHITE;
                 black_in_check = is_in_check game TEAM_BLACK
             in if is_checkmate game then
                  (False, team ps = side_to_move game \<and> white_in_check \<and> team ps = TEAM_WHITE
                          \<or> team ps = side_to_move game \<and> black_in_check \<and> team ps = TEAM_BLACK)
                else
                  (team ps = TEAM_WHITE \<and> white_in_check \<or> team ps = TEAM_BLACK \<and> black_in_check,
                   False))
          else (False, False))"

datatype square_color =
  SELECTED_SQUARE | CHECKMATE_KING | CHECK_KING | CURSOR_SQUARE | CAPTURE_MOVE | POSSIBLE_MOVE
| BOARD_BLACK | BOARD_WHITE

definition square_colour :: "client_t \<Rightarrow> int \<Rightarrow> int \<Rightarrow> square_color" where
  "square_colour c row col =
     (let gs = cl_gs c;
          (actual_col, actual_row) = display_square (gs_local_team gs) row col;
          (is_check_king, is_checkmate_king) =
             king_marks (gs_game gs) (board (gs_game gs) actual_row actual_col)
      in if cl_piece_selected c \<and> cl_selected_x c = actual_col \<and> cl_selected_y c = actual_row
         then SELECTED_SQUARE
         else if is_checkmate_king then CHECKMATE_KING
         else if is_check_king then CHECK_KING
         else if is_cursor_mode c \<and> get_cursor_position c = (col, row) then CURSOR_SQUARE
         else if gs_capture_moves gs actual_row actual_col then CAPTURE_MOVE
         else if gs_possible_moves gs actual_row actual_col then POSSIBLE_MOVE
         else if (row + col) mod 2 = 0 then BOARD_BLACK else BOARD_WHITE)"

definition square_text :: "client_t \<Rightarrow> int \<Rightarrow> int \<Rightarrow> string" where
  "square_text c row col =
     (let gs = cl_gs c;
          (actual_col, actual_row) = display_square (gs_local_team gs) row col;
          ps = board (gs_game gs) actual_row actual_col
      in if piece ps \<noteq> None \<and> \<not> is_dead ps
         then '' '' @ get_piece_unicode (piece ps) (team ps) @ '' ''
         else if is_cursor_mode c \<and> get_cursor_position c = (col, row) then ''   *   ''
         else ''       '')"

section \<open>The chat area\<close>

definition calculate_chat_dimensions :: "int \<Rightarrow> int \<times> int" where
  "calculate_chat_dimensions terminal_cols =
     (let available_width = terminal_cols - BOARD_WIDTH - 2 - 1 - 2;
          chat_width = (if available_width < 35 then 35
                        else if available_width > 80 then 80 else available_width)
      in (chat_width, chat_width))"

definition full_msg :: "chat_message_t \<Rightarrow> string" where
  "full_msg m = c_trunc 512 (cm_sender m @ '': '' @ cm_message m)"

definition chat_indent :: "int \<Rightarrow> chat_message_t \<Rightarrow> int" where
  "chat_indent max_line_len m =
     (let indent = int (length (cm_sender m)) + 2
      in if indent > max_line_len - 10 then 4 else indent)"

definition lines_for_msg :: "int \<Rightarrow> chat_message_t \<Rightarrow> int" where
  "lines_for_msg win_width m =
     (let max_line_len = win_width - 4; msg_len = int (length (full_msg m)) in
      if msg_len \<le> max_line_len then 1
      else
        (let indent = chat_indent max_line_len m;
             remaining_len = msg_len - max_line_len;
             subsequent_line_len =
               (if max_line_len - indent < 10 then 10 else max_line_len - indent)
         in if remaining_len > 0
            then 1 + c_div (remaining_len + subsequent_line_len - 1) subsequent_line_len else 1))"

text \<open>
  The search for the first message shown, from the newest backwards. The arguments are the number
  of messages not yet looked at, the lines counted and \<open>start_msg_index\<close>. The loop before it in
  the source only computes a total that nothing reads.
\<close>

fun start_msg_loop :: "int \<Rightarrow> int \<Rightarrow> chat_message_t list \<Rightarrow> nat \<Rightarrow> int \<Rightarrow> nat \<Rightarrow> nat" where
  "start_msg_loop win_width max_lines msgs 0 counted start = start"
| "start_msg_loop win_width max_lines msgs (Suc i) counted start =
     (let n = lines_for_msg win_width (msgs ! i) in
      if counted + n > max_lines then i + 1
      else start_msg_loop win_width max_lines msgs i (counted + n) i)"

definition start_msg_index :: "int \<Rightarrow> int \<Rightarrow> game_state_t \<Rightarrow> nat" where
  "start_msg_index win_height win_width gs =
     (let max_display_lines = (if win_height - 2 - 3 < 1 then 1 else win_height - 2 - 3)
      in start_msg_loop win_width max_display_lines (gs_chat_messages gs) (gs_chat_count gs) 0 0)"

text \<open>
  One line of a message that does not fit: what the buffer holds when it is printed. \<open>None\<close> is a
  byte of the indentation that the loop does not write.
\<close>

definition chat_line :: "int \<Rightarrow> chat_message_t \<Rightarrow> nat \<Rightarrow> char option list" where
  "chat_line max_line_len m pos =
     (let msg = full_msg m; msg_len = length msg;
          copy_len = (if int (msg_len - pos) > max_line_len then nat max_line_len else msg_len - pos);
          body = map Some (take copy_len (drop pos msg))
      in if pos = 0 then body
         else
           (let indent = chat_indent max_line_len m;
                blanks = min (nat indent) (nat (max_line_len - int copy_len))
            in replicate blanks (Some (CHR '' '')) @ replicate (nat indent - blanks) None @ body))"

section \<open>Player information\<close>

definition two_digits :: "int \<Rightarrow> string" where
  "two_digits n = (if 0 \<le> n \<and> n < 10 then CHR ''0'' # c_dec n else c_dec n)"

definition timer_str :: "int \<Rightarrow> string" where
  "timer_str t = c_trunc 16 (two_digits (c_div t 60) @ '':'' @ two_digits (c_mod t 60))"

definition display_name :: "string \<Rightarrow> bool \<Rightarrow> team_t \<Rightarrow> string" where
  "display_name player_name is_me t =
     (let team_text = (if t = TEAM_WHITE then ''[WHITE]'' else ''[BLACK]'')
      in c_trunc 64 (if is_me then team_text @ '' '' @ player_name @ '' (ME)''
                     else team_text @ '' '' @ player_name))"

section \<open>The matching screen\<close>

definition update_animation_frame :: "timeval \<Rightarrow> int \<times> timeval \<Rightarrow> int \<times> timeval" where
  "update_animation_frame current_time a =
     (let (animation_frame, last_animation_time) = a in
      if time_diff_ms last_animation_time current_time \<ge> 300
      then (c_mod (animation_frame + 1) 4, current_time) else a)"

definition matching_message :: "int \<Rightarrow> string" where
  "matching_message animation_frame =
     c_trunc 32 (''Finding opponent'' @ ['''', ''.'', ''..'', ''...''] ! nat animation_frame)"

definition wait_time :: "int \<Rightarrow> client_t \<Rightarrow> string" where
  "wait_time current_time c =
     (let elapsed = to_int32 (current_time - cl_match_start_time c)
      in two_digits (c_div elapsed 60) @ '':'' @ two_digits (c_mod elapsed 60))"

definition update_match_timer :: "client_env \<Rightarrow> client_t \<Rightarrow> client_t" where
  "update_match_timer env c =
     (if cl_current_screen c = SCREEN_MATCHING \<and> ce_time env 0 - cl_match_start_time c \<ge> 30
      then (add_chat_message_safe (ce_time env 1) ''System'' ''Matchmaking timeout'' c)
             \<lparr>cl_current_screen := SCREEN_MAIN\<rparr>
      else c)"

section \<open>Dialogs\<close>

definition show_resign_dialog :: "client_t \<Rightarrow> client_t" where
  "show_resign_dialog c = c\<lparr>cl_resign_dialog_active := True\<rparr>"

definition handle_resign_dialog_input :: "client_env \<Rightarrow> key \<Rightarrow> client_t \<Rightarrow> bool \<times> client_t" where
  "handle_resign_dialog_input env ch c =
     (if ch = Key 121 \<or> ch = Key 89 then
        (let c1 = c\<lparr>cl_resign_dialog_active := False\<rparr>; (r, c2) = send_resign_request env c1
         in (True, add_chat_message_safe (ce_time env 1) ''System''
               (if r = 0 then ''Resignation request sent.''
                else ''Failed to send resignation request.'') c2))
      else if ch = Key 110 \<or> ch = Key 78 \<or> ch = Key 27
      then (True, c\<lparr>cl_resign_dialog_active := False\<rparr>)
      else (False, c))"

text \<open>
  \<open>get_username_dialog\<close>: \<open>typed\<close> is the line that \<open>mvwgetnstr\<close> reads, of which it stores at most
  30 bytes.
\<close>

definition get_username_dialog :: "string \<Rightarrow> client_t \<Rightarrow> bool \<times> client_t" where
  "get_username_dialog typed c =
     (let input = take 30 typed in
      if length input > 0 then (True, c\<lparr>cl_username := c_trunc 32 input\<rparr>) else (False, c))"

text \<open>\<open>handle_terminal_resize\<close>: a terminal that is too small raises a dialog.\<close>

definition handle_terminal_resize :: "int \<Rightarrow> int \<Rightarrow> client_t \<Rightarrow> client_t" where
  "handle_terminal_resize rows cols c =
     (if rows < 30 \<or> cols < 100 then show_dialog c else draw_current_screen c)"

end
