(* ===== verification/Client_Main.thy ===== *)
theory Client_Main
  imports Client_UI
begin

text \<open>
  \<open>client/main.c\<close> (the arguments, the key dispatch, the dialogs and one turn of the main loop) and
  \<open>client/ui/replay_menu.c\<close>. Signals and the set-up of the
  terminal are in \<open>Terminal\<close>; what is drawn is in \<open>Client_Screen\<close>.
  Between two steps of the main loop the network thread may run; one turn is given as its
  parts, each of which the source runs under \<open>screen_mutex\<close> or alone in the main thread.
\<close>

section \<open>Arguments\<close>

datatype args_result =
  Args_Error
| Args_Help
| Args_Run string int

text \<open>The loop over the arguments; without a value where \<open>atoi\<close> overflows.\<close>

fun parse_args :: "string \<Rightarrow> int \<Rightarrow> string list \<Rightarrow> args_result option" where
  "parse_args server_host server_port [] = Some (Args_Run server_host server_port)"
| "parse_args server_host server_port [a] =
     (if a = ''-h'' \<or> a = ''--host'' \<or> a = ''-p'' \<or> a = ''--port'' then Some Args_Error
      else if a = ''--help'' then Some Args_Help
      else Some Args_Error)"
| "parse_args server_host server_port (a # v # rest) =
     (if a = ''-h'' \<or> a = ''--host'' then parse_args (c_trunc 256 v) server_port rest
      else if a = ''-p'' \<or> a = ''--port'' then
        (case c_atoi v of
           None \<Rightarrow> None
         | Some port \<Rightarrow>
             if port \<le> 0 \<or> port > 65535 then Some Args_Error
             else parse_args server_host port rest)
      else if a = ''--help'' then Some Args_Help
      else Some Args_Error)"

text \<open>The start of \<open>main\<close> up to the state with which the loop begins.\<close>

definition client_main_args :: "string list \<Rightarrow> args_result option" where
  "client_main_args args = parse_args SERVER_DEFAULT_HOST SERVER_DEFAULT_PORT args"

definition client_start :: "string \<Rightarrow> int \<Rightarrow> client_t \<Rightarrow> client_t" where
  "client_start server_host server_port c =
     (init_client_state c)\<lparr>cl_server_host := server_host, cl_server_port := server_port\<rparr>"

section \<open>The replay menu\<close>

text \<open>\<open>strstr(s, ".pgn")\<close> finds an occurrence.\<close>

definition has_pgn :: "string \<Rightarrow> bool" where
  "has_pgn s = list_ex (\<lambda>i. take 4 (drop i s) = ''.pgn'') [0..<length s]"

definition replay_path :: "string \<Rightarrow> string" where
  "replay_path filename =
     (if has_pgn filename then c_trunc 512 (''replays/'' @ filename)
      else c_trunc 512 (''replays/'' @ filename @ ''.pgn''))"

datatype menu_result = Menu_Cancelled | Menu_List | Menu_Play string

text \<open>
  The loop over the keys of \<open>replay_menu\<close>, with the text typed so far and the keys not yet read;
  no value while the loop waits for a key.
\<close>

fun filename_loop ::
  "(string \<Rightarrow> string option) \<Rightarrow> string \<Rightarrow> key list \<Rightarrow> (menu_result \<times> key list) option" where
  "filename_loop files filename [] = None"
| "filename_loop files filename (ch # chs) =
     (if ch = Key 27 then Some (Menu_Cancelled, chs)
      else if ch = Key 10 then
        (if filename = [] then Some (Menu_List, chs)
         else if files (replay_path filename) \<noteq> None
         then Some (Menu_Play (replay_path filename), chs)
         else filename_loop files filename chs)
      else if ch = KEY_BACKSPACE \<or> ch = Key 127 \<or> ch = Key 8 then
        filename_loop files (if length filename > 0 then butlast filename else filename) chs
      else
        (case ch of
           Key n \<Rightarrow>
             if n \<ge> 32 \<and> n \<le> 126 \<and> length filename < 40
             then filename_loop files (filename @ [c_char n]) chs
             else filename_loop files filename chs
         | _ \<Rightarrow> filename_loop files filename chs))"

text \<open>\<open>show_replay_files\<close>: the first 100 entries of the directory with the suffix.\<close>

definition replay_files :: "string list \<Rightarrow> string list" where
  "replay_files entries = map (c_trunc 256) (take 100 (filter has_pgn entries))"

definition menu_up :: "int \<Rightarrow> int \<Rightarrow> int" where
  "menu_up count highlight = c_mod (highlight + count - 1) count"

definition menu_down :: "int \<Rightarrow> int \<Rightarrow> int" where
  "menu_down count highlight = c_mod (highlight + 1) count"

fun files_loop :: "string list \<Rightarrow> int \<Rightarrow> key list \<Rightarrow> menu_result option" where
  "files_loop names highlight [] = None"
| "files_loop names highlight (ch # chs) =
     (if ch = KEY_UP then files_loop names (menu_up (int (length names)) highlight) chs
      else if ch = KEY_DOWN then files_loop names (menu_down (int (length names)) highlight) chs
      else if ch = Key 10
      then Some (Menu_Play (c_trunc 512 (''replays/'' @ names ! nat highlight)))
      else if ch = Key 27 then Some Menu_Cancelled
      else files_loop names highlight chs)"

definition show_replay_files :: "string list option \<Rightarrow> key list \<Rightarrow> menu_result option" where
  "show_replay_files dir chs =
     (case dir of
        None \<Rightarrow> Some Menu_Cancelled
      | Some entries \<Rightarrow>
          (let names = replay_files entries
           in if names = [] then Some Menu_Cancelled else files_loop names 0 chs))"

text \<open>
  What the menu meets: the files by path, the entries of the directory, the keys pressed in the
  menu, and the events of the replay. The result is the game of the client, which the replay
  overwrites; no value while the menu waits for a key.
\<close>

record replay_input =
  ri_mkdir_ok :: bool
  ri_files :: "string \<Rightarrow> string option"
  ri_dir :: "string list option"
  ri_keys :: "key list"
  ri_events :: "replay_event list"

definition replay_menu :: "replay_input \<Rightarrow> game_t \<Rightarrow> game_t option" where
  "replay_menu ri G =
     (if \<not> ri_mkdir_ok ri then Some G
      else
        (case filename_loop (ri_files ri) [] (ri_keys ri) of
           None \<Rightarrow> None
         | Some (Menu_Cancelled, _) \<Rightarrow> Some G
         | Some (Menu_Play path, _) \<Rightarrow> Some (start_replay (ri_files ri path) (ri_events ri) G)
         | Some (Menu_List, chs) \<Rightarrow>
             (case show_replay_files (ri_dir ri) chs of
                None \<Rightarrow> None
              | Some (Menu_Play path) \<Rightarrow> Some (start_replay (ri_files ri path) (ri_events ri) G)
              | Some _ \<Rightarrow> Some G)))"

section \<open>Keys\<close>

text \<open>
  What a turn of the main loop gets from the user: a mouse event (\<open>None\<close> if \<open>getmouse\<close> fails) or a
  key, together with what the dialogs that it may open read.
\<close>

datatype user_input = Mouse "(int \<times> int \<times> bool) option" | Press key

record dialog_input =
  di_username :: string
  di_replay :: replay_input

text \<open>The result of a key: the program goes on, or it ends.\<close>

datatype key_result = Go_On client_t | Quit client_t

definition key_main :: "client_env \<Rightarrow> dialog_input \<Rightarrow> int \<Rightarrow> client_t \<Rightarrow> key_result option" where
  "key_main env di ch c =
     (if ch = 49 then
        (let (ok, c1) = get_username_dialog (di_username di) c
         in Some (Go_On (if ok then start_matching env c1 else c1)))
      else if ch = 50 then
        map_option (\<lambda>G. Go_On (on_gs (\<lambda>gs. gs\<lparr>gs_game := G\<rparr>) c))
          (replay_menu (di_replay di) (gs_game (cl_gs c)))
      else if ch = 51 \<or> ch = 113 \<or> ch = 81 then Some (Quit (cleanup_network c))
      else Some (Go_On c))"

definition key_matching :: "client_env \<Rightarrow> int \<Rightarrow> client_t \<Rightarrow> client_t" where
  "key_matching env ch c =
     (if ch = 27 \<or> ch = 99 \<or> ch = 67 then cancel_matching env c else c)"

text \<open>The inner switch of the game screen.\<close>

definition key_game_menu :: "client_env \<Rightarrow> key \<Rightarrow> client_t \<Rightarrow> client_t" where
  "key_game_menu env ch c =
     (if ch = Key 49 then (if \<not> cl_resign_dialog_active c then show_resign_dialog c else c)
      else if ch = Key 50 then add_chat_message_safe (ce_time env 0) (cl_username c) ''offers a draw.'' c
      else if ch = Key 51 then save_game env 0 c
      else if ch = Key 52 \<or> ch = Key 113 \<or> ch = Key 81 then c\<lparr>cl_current_screen := SCREEN_MAIN\<rparr>
      else if ch = Key 27 then (if cl_chat_input_mode c then disable_chat_input c else c)
      else if ch = Key 10 \<or> ch = Key 13 then
        (if cl_chat_input_mode c then handle_chat_input env ch c
         else if is_cursor_mode c then c
         else enable_chat_input c)
      else if cl_chat_input_mode c then handle_chat_input env ch c
      else c)"

definition key_game :: "client_env \<Rightarrow> key \<Rightarrow> client_t \<Rightarrow> client_t" where
  "key_game env ch c =
     (if cl_resign_dialog_active c then snd (handle_resign_dialog_input env ch c)
      else if cl_chat_input_mode c then key_game_menu env ch c
      else
        (let (handled, c1) = handle_keyboard_board_input env ch c
         in if handled then c1 else key_game_menu env ch c1))"

definition key_code :: "key \<Rightarrow> int" where
  "key_code ch = (case ch of Key n \<Rightarrow> n | _ \<Rightarrow> - 1)"

text \<open>The branch for input without a dialog. No value while a dialog of its own waits for a key.\<close>

definition handle_input :: "client_env \<Rightarrow> dialog_input \<Rightarrow> user_input \<Rightarrow> client_t \<Rightarrow> key_result option" where
  "handle_input env di inp c =
     (case inp of
        Mouse None \<Rightarrow> Some (Go_On c)
      | Mouse (Some event) \<Rightarrow> Some (Go_On (handle_mouse_input env event c))
      | Press ch \<Rightarrow>
          (case cl_current_screen c of
             SCREEN_MAIN \<Rightarrow> key_main env di (key_code ch) c
           | SCREEN_MATCHING \<Rightarrow> Some (Go_On (key_matching env (key_code ch) c))
           | SCREEN_GAME \<Rightarrow> Some (Go_On (key_game env ch c))))"

section \<open>Dialogs\<close>

text \<open>The branch for input while a dialog is shown.\<close>

definition acknowledge_dialog :: "user_input \<Rightarrow> client_t \<Rightarrow> client_t" where
  "acknowledge_dialog inp c =
     (if inp = Press (Key 10) \<or> inp = Press (Key 13) \<or> inp = Press (Key 32) then
        (let c1 = c\<lparr>cl_dialog_active := False\<rparr> in
         if cl_connection_lost c1
         then c1\<lparr>cl_connection_lost := False, cl_current_screen := SCREEN_MAIN\<rparr>
         else if gs_opponent_disconnected (cl_gs c1)
         then (on_gs (\<lambda>gs. gs\<lparr>gs_opponent_disconnected := False\<rparr>) c1)\<lparr>cl_current_screen := SCREEN_MAIN\<rparr>
         else c1\<lparr>cl_current_screen := SCREEN_MAIN\<rparr>)
      else c)"

text \<open>
  The chain after the input: the dialog that is put up, if any. The second result is its title
  and text.
\<close>

definition raise_dialog :: "client_t \<Rightarrow> client_t \<times> (string \<times> string) option" where
  "raise_dialog c =
     (if cl_connection_lost c \<and> \<not> cl_dialog_active c
      then (c\<lparr>cl_dialog_active := True\<rparr>, Some (''Connection Lost'', cl_disconnect_message c))
      else if cl_resign_result_dialog_pending c \<and> \<not> cl_dialog_active c
      then (c\<lparr>cl_dialog_active := True, cl_resign_result_dialog_pending := False\<rparr>,
            Some (cl_resign_result_title c, cl_resign_result_message c))
      else if gs_opponent_disconnected (cl_gs c) \<and> \<not> cl_dialog_active c
      then (c\<lparr>cl_dialog_active := True\<rparr>,
            Some (''Opponent Disconnected'', gs_opponent_disconnect_message (cl_gs c)))
      else if cl_game_end_dialog_pending c \<and> \<not> cl_dialog_active c
      then (draw_current_screen (c\<lparr>cl_dialog_active := True, cl_game_end_dialog_pending := False\<rparr>),
            Some (''Game Over'', cl_game_end_message c))
      else (c, None))"

section \<open>One turn of the main loop\<close>

text \<open>
  The readings of the clock: \<open>me_now\<close> is \<open>current_time\<close> of the loop, \<open>me_now_timer\<close> the reading in
  \<open>update_game_timer\<close>. \<open>me_input\<close> is what \<open>getch\<close> returns.
\<close>

record main_event =
  me_env :: client_env
  me_resize :: "(int \<times> int) option"
  me_input :: "user_input option"
  me_dialog :: dialog_input
  me_shutdown :: bool
  me_now :: int
  me_now_timer :: int

text \<open>
  The state of the loop: the client, the variable \<open>prev_screen\<close> and the static
  \<open>last_update_time\<close>.
\<close>

record main_state =
  ms_client :: client_t
  ms_prev_screen :: screen_state_t
  ms_last_update :: int

text \<open>
  The part before the input: the resize, the screen of this turn, the request of the network
  thread, and the drawing when the game screen comes up. The results are the client, the screen
  and \<open>need_screen_update\<close>.
\<close>

definition turn_start :: "main_event \<Rightarrow> screen_state_t \<Rightarrow> client_t \<Rightarrow> client_t \<times> screen_state_t \<times> bool" where
  "turn_start ev prev c =
     (let c1 = (case me_resize ev of None \<Rightarrow> c | Some (rows, cols) \<Rightarrow> handle_terminal_resize rows cols c);
          screen = cl_current_screen c1;
          requested = cl_screen_update_requested c1;
          c2 = c1\<lparr>cl_screen_update_requested := False\<rparr>;
          c3 = (if screen \<noteq> prev \<and> screen = SCREEN_GAME \<and> \<not> cl_dialog_active c2
                then draw_current_screen c2 else c2)
      in (c3, screen, me_resize ev \<noteq> None \<or> screen \<noteq> prev \<or> requested))"

text \<open>The input and what it does; no value while a menu waits for a key.\<close>

definition turn_input :: "main_event \<Rightarrow> client_t \<Rightarrow> key_result option" where
  "turn_input ev c =
     (case me_input ev of
        None \<Rightarrow> Some (Go_On c)
      | Some inp \<Rightarrow>
          if cl_dialog_active c then Some (Go_On (acknowledge_dialog inp c))
          else handle_input (me_env ev) (me_dialog ev) inp c)"

text \<open>
  \<open>prev_screen\<close> after the input: the code sets it where it changes the screen itself, that is
  after an acknowledged dialog, after the start of a matching, and on the way back to the main
  screen. \<open>c\<close> and \<open>c'\<close> are the client before and after the input.
\<close>

definition prev_after_input :: "main_event \<Rightarrow> screen_state_t \<Rightarrow> client_t \<Rightarrow> client_t \<Rightarrow> screen_state_t" where
  "prev_after_input ev screen c c' =
     (case me_input ev of
        None \<Rightarrow> screen
      | Some inp \<Rightarrow>
          if cl_dialog_active c then
            (if inp = Press (Key 10) \<or> inp = Press (Key 13) \<or> inp = Press (Key 32)
             then SCREEN_MAIN else screen)
          else
            (case inp of
               Mouse _ \<Rightarrow> screen
             | Press ch \<Rightarrow>
                 (case cl_current_screen c of
                    SCREEN_MAIN \<Rightarrow>
                      if ch = Key 49 \<and> fst (get_username_dialog (di_username (me_dialog ev)) c)
                      then SCREEN_MATCHING else screen
                  | SCREEN_MATCHING \<Rightarrow>
                      if ch = Key 27 \<or> ch = Key 99 \<or> ch = Key 67 then SCREEN_MAIN else screen
                  | SCREEN_GAME \<Rightarrow>
                      if cl_current_screen c' = SCREEN_MAIN then SCREEN_MAIN else screen)))"

text \<open>
  The part after the dialogs: the clocks of a running game, then the drawing. \<open>screen\<close> is the
  screen read at the start of the turn.
\<close>

definition turn_end :: "main_event \<Rightarrow> screen_state_t \<Rightarrow> bool \<Rightarrow> main_state \<Rightarrow> main_state" where
  "turn_end ev screen need_screen_update s =
     (let c = ms_client s;
          periodic_update_needed =
            ((screen = SCREEN_MATCHING \<or> screen = SCREEN_GAME) \<and> me_now ev - ms_last_update s \<ge> 1);
          c1 = (if screen = SCREEN_GAME \<and> periodic_update_needed
                then on_gs (update_game_timer (me_now_timer ev)) c else c)
      in if need_screen_update \<or> periodic_update_needed
         then s\<lparr>ms_client := (if cl_dialog_active c1 then c1 else draw_current_screen c1),
                ms_last_update := (if periodic_update_needed then me_now ev else ms_last_update s)\<rparr>
         else if cl_screen_update_requested c1
         then (let c2 = c1\<lparr>cl_screen_update_requested := False\<rparr>
               in s\<lparr>ms_client := (if cl_dialog_active c2 then c2 else draw_current_screen c2)\<rparr>)
         else s\<lparr>ms_client := c1\<rparr>)"

text \<open>The second result tells whether the program goes on.\<close>

definition main_turn :: "main_event \<Rightarrow> main_state \<Rightarrow> (main_state \<times> bool) option" where
  "main_turn ev s =
     (if me_shutdown ev then Some (s\<lparr>ms_client := cleanup_network (ms_client s)\<rparr>, False)
      else
        (let (c1, screen, need) = turn_start ev (ms_prev_screen s) (ms_client s) in
         case turn_input ev c1 of
           None \<Rightarrow> None
         | Some (Quit c2) \<Rightarrow> Some (s\<lparr>ms_client := c2\<rparr>, False)
         | Some (Go_On c2) \<Rightarrow>
             (let s1 = s\<lparr>ms_prev_screen := prev_after_input ev screen c1 c2\<rparr>;
                  need1 = (need \<or> me_input ev \<noteq> None \<and> \<not> cl_dialog_active c1)
              in case raise_dialog c2 of
                   (c3, Some _) \<Rightarrow> Some (s1\<lparr>ms_client := c3\<rparr>, True)
                 | (c3, None) \<Rightarrow> Some (turn_end ev screen need1 (s1\<lparr>ms_client := c3\<rparr>), True))))"

end
