(* ===== verification/Client_Inv.thy ===== *)
theory Client_Inv
  imports Client_Main
begin

text \<open>
  Facts on the state of the client: the chat array as a log that keeps the newest entries, the
  invariant of the game state and of the client, and one preservation lemma per operation.
\<close>

named_theorems client_pres "operations that preserve the invariant of the client"

section \<open>The chat array\<close>

definition newest :: "nat \<Rightarrow> 'a list \<Rightarrow> 'a list" where
  "newest n xs = drop (length xs - n) xs"

lemma newest_short: "length xs \<le> n \<Longrightarrow> newest n xs = xs"
  by (simp add: newest_def)

lemma newest_newest: "newest n (newest n xs @ ys) = newest n (xs @ ys)"
  by (cases "length xs \<le> n") (simp_all add: newest_def drop_drop add.commute)

lemma length_newest: "length (newest n xs) \<le> n"
  by (simp add: newest_def)

text \<open>A log with a bound: \<open>view\<close> is the entries it holds, oldest first.\<close>

locale bounded_log =
  fixes ok :: "'s \<Rightarrow> bool"
    and view :: "'s \<Rightarrow> 'a list"
    and add :: "'e \<Rightarrow> 's \<Rightarrow> 's"
    and entry :: "'e \<Rightarrow> 'a"
    and cap :: nat
  assumes ok_add: "ok s \<Longrightarrow> ok (add e s)"
    and view_add: "ok s \<Longrightarrow> view (add e s) = newest cap (view s @ [entry e])"
    and view_bound: "ok s \<Longrightarrow> length (view s) \<le> cap"
begin

lemma ok_fold: "ok s \<Longrightarrow> ok (fold add es s)"
  by (induction es arbitrary: s) (simp_all add: ok_add)

lemma view_fold: "ok s \<Longrightarrow> view (fold add es s) = newest cap (view s @ map entry es)"
proof (induction es arbitrary: s)
  case Nil
  then show ?case by (simp add: newest_short view_bound)
next
  case (Cons e es)
  then show ?case by (simp add: ok_add view_add newest_newest)
qed

lemma view_all: "ok s \<Longrightarrow> view s = [] \<Longrightarrow> length es \<le> cap \<Longrightarrow> view (fold add es s) = map entry es"
  by (simp add: view_fold newest_short)

end

lemma shift_left_append: "shift_left xs (is @ js) = shift_left (shift_left xs is) js"
  by (induction xs "is" rule: shift_left.induct) simp_all

lemma length_shift_left [simp]: "length (shift_left xs is) = length xs"
  by (induction xs "is" rule: shift_left.induct) simp_all

lemma shift_left_prefix:
  "k \<le> length ys \<Longrightarrow> shift_left (a # ys) [1..<Suc k] = take k ys @ drop k (a # ys)"
proof (induction k)
  case (Suc k)
  then have "k < length ys" by simp
  then have "drop k (a # ys) = (a # ys) ! k # drop k ys" "drop k ys = ys ! k # drop (Suc k) ys"
    by (metis Cons_nth_drop_Suc drop_Suc_Cons length_Cons less_SucI)
      (simp add: \<open>k < length ys\<close> Cons_nth_drop_Suc)
  with Suc \<open>k < length ys\<close> show ?case
    by (simp add: shift_left_append nth_append list_update_append take_Suc_conv_app_nth)
qed simp

lemma shift_left_all:
  assumes "length xs = Suc n"
  shows "shift_left xs [1..<Suc n] = tl xs @ [last xs]"
proof (cases xs)
  case (Cons a ys)
  with assms have "length ys = n" by simp
  moreover have "drop n (a # ys) = [last (a # ys)]"
    using \<open>length ys = n\<close> by (metis append_butlast_last_id append_eq_conv_conj length_butlast
        length_Cons diff_Suc_1 list.distinct(1))
  ultimately show ?thesis using shift_left_prefix [of n ys a] Cons by simp
qed (use assms in simp)

definition chat_ok :: "game_state_t \<Rightarrow> bool" where
  "chat_ok gs \<longleftrightarrow> length (gs_chat_messages gs) = MAX_CHAT_MESSAGES
     \<and> gs_chat_count gs \<le> MAX_CHAT_MESSAGES"

text \<open>The messages that the array holds, oldest first.\<close>

definition chat_view :: "game_state_t \<Rightarrow> chat_message_t list" where
  "chat_view gs = take (gs_chat_count gs) (gs_chat_messages gs)"

definition chat_entry :: "int \<times> string \<times> string \<Rightarrow> chat_message_t" where
  "chat_entry e =
     (case e of (now, sender, message) \<Rightarrow>
        \<lparr>cm_sender = take 31 sender, cm_message = take 255 message, cm_timestamp = now\<rparr>)"

definition chat_add :: "int \<times> string \<times> string \<Rightarrow> game_state_t \<Rightarrow> game_state_t" where
  "chat_add e gs = (case e of (now, sender, message) \<Rightarrow> add_chat_message now sender message gs)"

lemmas chat_consts = MAX_CHAT_MESSAGES_def MAX_PLAYER_NAME_LENGTH_def MAX_MESSAGE_LENGTH_def
  c_trunc_def

lemma chat_ok_add: "chat_ok gs \<Longrightarrow> chat_ok (add_chat_message now s m gs)"
  by (simp add: chat_ok_def add_chat_message_def Let_def MAX_CHAT_MESSAGES_def)

lemma take_Suc_update: "n < length xs \<Longrightarrow> take (Suc n) (xs[n := x]) = take n xs @ [x]"
  by (simp add: take_Suc_conv_app_nth)

lemma chat_view_add:
  assumes "chat_ok gs"
  shows "chat_view (add_chat_message now s m gs) =
         newest MAX_CHAT_MESSAGES (chat_view gs @ [chat_entry (now, s, m)])"
proof (cases "gs_chat_count gs \<ge> MAX_CHAT_MESSAGES")
  case True
  then have n: "gs_chat_count gs = 50" "length (gs_chat_messages gs) = 50"
    using assms by (simp_all add: chat_ok_def MAX_CHAT_MESSAGES_def)
  obtain x xs where xs: "gs_chat_messages gs = x # xs"
    using n(2) by (cases "gs_chat_messages gs") auto
  have "shift_left (gs_chat_messages gs) [1..<50] = xs @ [last (x # xs)]"
    using shift_left_all [of "gs_chat_messages gs" 49] n xs by simp
  with True n xs show ?thesis
    by (simp add: chat_view_def add_chat_message_def chat_consts chat_entry_def newest_def
        list_update_append)
next
  case False
  with assms show ?thesis
    by (simp add: chat_view_def add_chat_message_def Let_def chat_entry_def chat_ok_def
        take_Suc_update newest_short chat_consts)
qed

lemma chat_view_bound: "chat_ok gs \<Longrightarrow> length (chat_view gs) \<le> MAX_CHAT_MESSAGES"
  by (simp add: chat_view_def chat_ok_def)

interpretation chat: bounded_log chat_ok chat_view chat_add chat_entry MAX_CHAT_MESSAGES
  by unfold_locales
    (simp_all add: chat_add_def chat_ok_add chat_view_add chat_view_bound split: prod.splits)

section \<open>The invariant\<close>

text \<open>A recorded move is the names of two squares.\<close>

definition is_move_name :: "string \<Rightarrow> bool" where
  "is_move_name m \<longleftrightarrow> length m = 4 \<and> parse_chess_coordinate_client (take 2 m) \<noteq> None
     \<and> parse_chess_coordinate_client (drop 2 m) \<noteq> None"

definition pgn_ok :: "game_state_t \<Rightarrow> bool" where
  "pgn_ok gs \<longleftrightarrow> length (gs_pgn_moves gs) = MAX_PGN_MOVES \<and> gs_pgn_move_count gs \<le> MAX_PGN_MOVES
     \<and> list_all is_move_name (take (gs_pgn_move_count gs) (gs_pgn_moves gs))"

definition gs_ok :: "game_state_t \<Rightarrow> bool" where
  "gs_ok gs \<longleftrightarrow> chat_ok gs \<and> pgn_ok gs
     \<and> length (gs_local_player gs) < 32 \<and> length (gs_opponent_player gs) < 32
     \<and> length (gs_pgn_result gs) < 8 \<and> length (gs_opponent_disconnect_message gs) < 256"

text \<open>A request that the client may put on the wire.\<close>

definition request_ok :: "ClientMessage \<Rightarrow> bool" where
  "request_ok m =
     (case m of
        CM_PING s \<Rightarrow> True
      | CM_MATCH_GAME (Some r) \<Rightarrow> length (mgq_player_id r) < 32
      | CM_CANCEL_MATCH (Some n) \<Rightarrow> length n < 32
      | CM_RESIGN (Some n) \<Rightarrow> length n < 32
      | CM_CHAT s \<Rightarrow> s \<noteq> [] \<and> length s < 256
      | CM_MOVE (Some r) \<Rightarrow> parse_chess_coordinate_network (mvq_from r) \<noteq> None
                            \<and> parse_chess_coordinate_network (mvq_to r) \<noteq> None
      | _ \<Rightarrow> False)"

text \<open>The keys that the menu of the game screen takes before the chat line sees them.\<close>

definition menu_keys :: string where
  "menu_keys = ''1234qQ''"

definition client_ok :: "client_t \<Rightarrow> bool" where
  "client_ok c \<longleftrightarrow> gs_ok (cl_gs c)
     \<and> length (cl_username c) < 32
     \<and> length (cl_chat_input c) < 256 \<and> set (cl_chat_input c) \<inter> set menu_keys = {}
     \<and> (cl_piece_selected c \<longrightarrow> in_board (cl_selected_x c) (cl_selected_y c))
     \<and> in_board (cl_cursor_x c) (cl_cursor_y c)
     \<and> (cl_connected c \<longrightarrow> cl_socket_fd c \<ge> 0)
     \<and> list_all (\<lambda>(fd, m). fd \<ge> 0 \<and> request_ok m) (cl_sent c)"

section \<open>Operations on the game state\<close>

lemma apply_move_from_server_parse:
  "apply_move_from_server G from to =
     (case (parse_chess_coordinate_client from, parse_chess_coordinate_client to) of
        (Some (fx, fy), Some (tx, ty)) \<Rightarrow> (True, apply_move G fx fy tx ty)
      | _ \<Rightarrow> (False, G))"
  by (auto simp: apply_move_from_server_def parse_chess_coordinate_client_def Let_def)

lemma add_chat_message_fields [simp]:
  "gs_pgn_moves (add_chat_message n s m gs) = gs_pgn_moves gs"
  "gs_pgn_move_count (add_chat_message n s m gs) = gs_pgn_move_count gs"
  "gs_local_player (add_chat_message n s m gs) = gs_local_player gs"
  "gs_opponent_player (add_chat_message n s m gs) = gs_opponent_player gs"
  "gs_pgn_result (add_chat_message n s m gs) = gs_pgn_result gs"
  "gs_opponent_disconnect_message (add_chat_message n s m gs) = gs_opponent_disconnect_message gs"
  "gs_game (add_chat_message n s m gs) = gs_game gs"
  "gs_local_team (add_chat_message n s m gs) = gs_local_team gs"
  "gs_opponent_disconnected (add_chat_message n s m gs) = gs_opponent_disconnected gs"
  by (simp_all add: add_chat_message_def Let_def)

lemma gs_ok_chat [client_pres]: "gs_ok gs \<Longrightarrow> gs_ok (add_chat_message n s m gs)"
  by (simp add: gs_ok_def pgn_ok_def chat_ok_add)

text \<open>Writes to fields that the invariant does not mention.\<close>

lemma gs_ok_other [simp]:
  "gs_ok (gs\<lparr>gs_game := G\<rparr>) = gs_ok gs"
  "gs_ok (gs\<lparr>gs_game_in_progress := b\<rparr>) = gs_ok gs"
  "gs_ok (gs\<lparr>gs_opponent_disconnected := b\<rparr>) = gs_ok gs"
  "gs_ok (gs\<lparr>gs_white_in_check := b\<rparr>) = gs_ok gs"
  "gs_ok (gs\<lparr>gs_black_in_check := b\<rparr>) = gs_ok gs"
  "gs_ok (gs\<lparr>gs_white_time := t\<rparr>) = gs_ok gs"
  "gs_ok (gs\<lparr>gs_black_time := t\<rparr>) = gs_ok gs"
  "gs_ok (gs\<lparr>gs_last_timer_update := t\<rparr>) = gs_ok gs"
  "gs_ok (gs\<lparr>gs_game_start_time := t\<rparr>) = gs_ok gs"
  "gs_ok (gs\<lparr>gs_white_time_at_last_sync := t\<rparr>) = gs_ok gs"
  "gs_ok (gs\<lparr>gs_black_time_at_last_sync := t\<rparr>) = gs_ok gs"
  "gs_ok (gs\<lparr>gs_local_team := tm\<rparr>) = gs_ok gs"
  "gs_ok (gs\<lparr>gs_possible_moves := f\<rparr>) = gs_ok gs"
  "gs_ok (gs\<lparr>gs_capture_moves := f\<rparr>) = gs_ok gs"
  by (simp_all add: gs_ok_def chat_ok_def pgn_ok_def)

lemma gs_ok_timer [client_pres]: "gs_ok gs \<Longrightarrow> gs_ok (update_game_timer t gs)"
  by (simp add: update_game_timer_def Let_def)

lemma gs_ok_sync [client_pres]: "gs_ok gs \<Longrightarrow> gs_ok (sync_from_broadcast env b gs)"
  by (simp add: sync_from_broadcast_def sync_timer_from_server_def)

lemma gs_ok_flags [client_pres]: "gs_ok gs \<Longrightarrow> gs_ok (set_check_flags b gs)"
  by (simp add: set_check_flags_def)

lemma gs_ok_result [client_pres]: "gs_ok gs \<Longrightarrow> length r < 8 \<Longrightarrow> gs_ok (gs\<lparr>gs_pgn_result := r\<rparr>)"
  by (simp add: gs_ok_def chat_ok_def pgn_ok_def)

lemma gs_ok_init: "gs_ok (init_game_state gs)"
  by (simp add: gs_ok_def chat_ok_def pgn_ok_def init_game_state_def)

lemma gs_ok_start [client_pres]: "gs_ok gs \<Longrightarrow> gs_ok (client_start_game env u r gs)"
  by (simp add: gs_ok_def chat_ok_def pgn_ok_def client_start_game_def Let_def
      MAX_PLAYER_NAME_LENGTH_def length_c_trunc)

lemma length_game_result: "length (game_result gs) < 8"
  by (simp add: game_result_def)

lemma gs_ok_save [client_pres]:
  "gs_ok gs \<Longrightarrow> gs_ok (fst (save_current_game env t1 t2 gs))"
  by (simp add: save_current_game_def write_pgn_def Let_def gs_ok_result length_game_result)

lemma gs_ok_marks [client_pres]: "gs_ok gs \<Longrightarrow> gs_ok (calculate_possible_moves x y b gs)"
proof -
  have mark: "gs_ok (mark_move sx sy dy dx g) = gs_ok g" for sx sy dy dx g
    by (simp add: mark_move_def Let_def)
  have row: "gs_ok (fold (mark_move sx sy dy) xs g) = gs_ok g" for sx sy dy xs g
    by (induction xs arbitrary: g) (simp_all add: mark)
  have all: "gs_ok (fold (\<lambda>dy. fold (mark_move sx sy dy) xs) ys g) = gs_ok g" for sx sy xs ys g
    by (induction ys arbitrary: g) (simp_all add: row)
  show "gs_ok gs \<Longrightarrow> gs_ok (calculate_possible_moves x y b gs)"
    by (simp add: calculate_possible_moves_def Let_def all)
qed

lemma move_name_parse:
  assumes "parse_chess_coordinate_client from \<noteq> None" "parse_chess_coordinate_client to \<noteq> None"
  shows "is_move_name (from @ to)" "c_trunc MAX_COORD_STR (from @ to) = from @ to"
proof -
  have "length from = 2" "length to = 2"
    using assms by (auto simp: parse_chess_coordinate_client_def split: if_splits)
  with assms show "is_move_name (from @ to)" "c_trunc MAX_COORD_STR (from @ to) = from @ to"
    by (simp_all add: is_move_name_def c_trunc_def MAX_COORD_STR_def)
qed

lemma gs_ok_record [client_pres]:
  assumes "gs_ok gs" "parse_chess_coordinate_client from \<noteq> None"
    "parse_chess_coordinate_client to \<noteq> None"
  shows "gs_ok (record_move from to gs)"
proof (cases "gs_pgn_move_count gs < MAX_PGN_MOVES")
  case True
  then show ?thesis
    using assms(1) move_name_parse [OF assms(2,3)]
    by (simp add: gs_ok_def chat_ok_def pgn_ok_def record_move_def Let_def take_Suc_update)
qed (simp add: assms(1) record_move_def)

section \<open>Operations on the client\<close>

lemma client_ok_gs [client_pres]: "client_ok c \<Longrightarrow> gs_ok gs \<Longrightarrow> client_ok (c\<lparr>cl_gs := gs\<rparr>)"
  by (simp add: client_ok_def)

lemma client_ok_on_gs [client_pres]:
  "client_ok c \<Longrightarrow> (gs_ok (cl_gs c) \<Longrightarrow> gs_ok (f (cl_gs c))) \<Longrightarrow> client_ok (on_gs f c)"
  by (simp add: client_ok_def on_gs_def)

lemma client_ok_gs_ok: "client_ok c \<Longrightarrow> gs_ok (cl_gs c)"
  by (simp add: client_ok_def)

text \<open>Writes to fields that the invariant does not mention.\<close>

lemma client_ok_other [simp]:
  "client_ok (c\<lparr>cl_current_screen := s\<rparr>) = client_ok c"
  "client_ok (c\<lparr>cl_match_start_time := t\<rparr>) = client_ok c"
  "client_ok (c\<lparr>cl_chat_input_mode := b\<rparr>) = client_ok c"
  "client_ok (c\<lparr>cl_reconnecting := b\<rparr>) = client_ok c"
  "client_ok (c\<lparr>cl_last_reconnect_attempt := t\<rparr>) = client_ok c"
  "client_ok (c\<lparr>cl_dialog_active := b\<rparr>) = client_ok c"
  "client_ok (c\<lparr>cl_resign_dialog_active := b\<rparr>) = client_ok c"
  "client_ok (c\<lparr>cl_resign_result_dialog_pending := b\<rparr>) = client_ok c"
  "client_ok (c\<lparr>cl_resign_result_title := m\<rparr>) = client_ok c"
  "client_ok (c\<lparr>cl_resign_result_message := m\<rparr>) = client_ok c"
  "client_ok (c\<lparr>cl_game_end_dialog_pending := b\<rparr>) = client_ok c"
  "client_ok (c\<lparr>cl_game_end_message := m\<rparr>) = client_ok c"
  "client_ok (c\<lparr>cl_connection_lost := b\<rparr>) = client_ok c"
  "client_ok (c\<lparr>cl_disconnect_message := m\<rparr>) = client_ok c"
  "client_ok (c\<lparr>cl_server_host := m\<rparr>) = client_ok c"
  "client_ok (c\<lparr>cl_server_port := t\<rparr>) = client_ok c"
  "client_ok (c\<lparr>cl_screen_update_requested := b\<rparr>) = client_ok c"
  "client_ok (c\<lparr>cl_cursor_mode := b\<rparr>) = client_ok c"
  "client_ok (c\<lparr>cl_first_connect := b\<rparr>) = client_ok c"
  "client_ok (c\<lparr>cl_files := fs\<rparr>) = client_ok c"
  by (simp_all add: client_ok_def)

lemma client_ok_deselect [client_pres]: "client_ok c \<Longrightarrow> client_ok (c\<lparr>cl_piece_selected := False\<rparr>)"
  by (simp add: client_ok_def)

lemma client_ok_chat [client_pres]: "client_ok c \<Longrightarrow> client_ok (add_chat_message_safe n s m c)"
  by (simp add: add_chat_message_safe_def client_ok_on_gs gs_ok_chat)

lemma client_ok_update [client_pres]: "client_ok c \<Longrightarrow> client_ok (request_update c)"
  by (simp add: request_update_def)

lemma client_ok_draw [client_pres]: "client_ok c \<Longrightarrow> client_ok (draw_current_screen c)"
  by (simp add: draw_current_screen_def draw_game_screen_def client_ok_on_gs gs_ok_marks
      split: screen_state_t.split)

lemma client_ok_dialog [client_pres]: "client_ok c \<Longrightarrow> client_ok (show_dialog c)"
  by (simp add: show_dialog_def client_ok_draw)

lemma client_ok_save [client_pres]: "client_ok c \<Longrightarrow> client_ok (save_game env k c)"
  using gs_ok_save [of "cl_gs c" env "ce_time env k" "ce_time env (k + 1)"]
  by (auto simp: save_game_def client_ok_gs client_ok_gs_ok split: prod.splits option.splits)

lemma request_update_send: "client_ok c \<Longrightarrow> cl_connected c \<Longrightarrow> request_ok m \<Longrightarrow>
    client_ok (snd (send_client env m c))"
  by (simp add: send_client_def client_ok_def)

section \<open>Handlers\<close>

lemma client_ok_board [client_pres]:
  assumes "client_ok c"
  shows "client_ok (broadcast_board env b c)"
proof (cases "fst (apply_move_from_server (gs_game (cl_gs c)) (mvb_from b) (mvb_to b))")
  case True
  then have "parse_chess_coordinate_client (mvb_from b) \<noteq> None"
    "parse_chess_coordinate_client (mvb_to b) \<noteq> None"
    by (auto simp: apply_move_from_server_parse split: option.splits)
  with True show ?thesis
    using assms
    by (auto simp: broadcast_board_def split: prod.splits intro!: client_pres)
next
  case False
  then show ?thesis
    using assms by (auto simp: broadcast_board_def split: prod.splits intro!: client_pres)
qed

lemma client_ok_end [client_pres]: "client_ok c \<Longrightarrow> client_ok (broadcast_end env b c)"
  by (simp add: broadcast_end_def Let_def client_pres)

lemma gs_ok_disconnect [client_pres]:
  "gs_ok gs \<Longrightarrow> length m < 256 \<Longrightarrow>
   gs_ok (gs\<lparr>gs_opponent_disconnect_message := m, gs_opponent_disconnected := b\<rparr>)"
  by (simp add: gs_ok_def chat_ok_def pgn_ok_def)

lemma client_ok_dispatch:
  assumes "client_ok c"
  shows "client_ok (snd (dispatch_server_message env msg c))"
proof (cases msg)
  case (SM_RESIGN_BROADCAST b)
  have "client_ok (save_game env k (on_gs (\<lambda>gs. gs\<lparr>gs_pgn_result := (if p then (if gs_local_team gs = TEAM_WHITE
      then ''0-1'' else ''1-0'') else (if gs_local_team gs = TEAM_WHITE then ''1-0'' else ''0-1''))\<rparr>)
      (add_chat_message_safe t s m c)))" for k p t s m
    using assms by (intro client_pres) auto
  then show ?thesis
    by (simp add: SM_RESIGN_BROADCAST dispatch_server_message_def handle_resign_broadcast_def Let_def
        client_ok_update client_ok_on_gs)
next
  case (SM_GAME_END b)
  have "client_ok (request_update (on_gs (add_chat_message t s m)
      (on_gs (\<lambda>gs. gs\<lparr>gs_opponent_disconnect_message := c_trunc 256 x,
        gs_opponent_disconnected := True\<rparr>) c)))" for t s m x
    by (intro client_ok_update client_ok_on_gs gs_ok_chat gs_ok_disconnect assms)
      (simp_all add: length_c_trunc)
  then show ?thesis
    by (simp add: SM_GAME_END dispatch_server_message_def handle_game_end_broadcast_def Let_def)
qed (use assms in \<open>simp_all add: dispatch_server_message_def client_pres Let_def
      handle_ping_response_def handle_echo_response_def handle_chat_broadcast_def
      handle_error_response_def handle_cancel_match_response_def handle_check_broadcast_def
      handle_resign_response_def handle_match_game_response_def handle_move_response_def
      handle_move_broadcast_def\<close>)

section \<open>The network\<close>

lemma client_ok_send [client_pres]:
  "client_ok c \<Longrightarrow> cl_connected c \<Longrightarrow> request_ok m \<Longrightarrow> send_client env m c = (r, c') \<Longrightarrow> client_ok c'"
  using request_update_send by (metis snd_conv)

lemma client_ok_send_chat [client_pres]:
  "client_ok c \<Longrightarrow> length m < 256 \<Longrightarrow> client_ok (send_chat_message env m c)"
  by (simp add: send_chat_message_def client_ok_chat request_update_send request_ok_def)

lemma client_ok_send_move:
  assumes "client_ok c" shows "client_ok (snd (send_move_request env from to c))"
proof (cases "\<not> cl_connected c \<or> parse_chess_coordinate_network from = None
              \<or> parse_chess_coordinate_network to = None")
  case True
  then show ?thesis by (auto simp: send_move_request_def client_ok_chat assms)
next
  case False
  then have "client_ok (snd (send_client env (CM_MOVE (Some \<lparr>mvq_from = from, mvq_to = to\<rparr>)) c))"
    by (intro request_update_send assms) (simp_all add: request_ok_def)
  with False show ?thesis
    by (auto simp: send_move_request_def client_ok_chat split: prod.splits)
qed

lemma client_ok_send_move' [client_pres]:
  "client_ok c \<Longrightarrow> send_move_request env from to c = (r, c') \<Longrightarrow> client_ok c'"
  by (metis client_ok_send_move snd_conv)

lemma client_ok_send_resign:
  assumes "client_ok c" shows "client_ok (snd (send_resign_request env c))"
proof (cases "cl_connected c")
  case True
  have "length (cl_username c) < 32" using assms by (simp add: client_ok_def)
  with True have "client_ok (snd (send_client env (CM_RESIGN (Some (cl_username c))) c))"
    by (intro request_update_send assms) (simp_all add: request_ok_def)
  with True show ?thesis
    by (auto simp: send_resign_request_def client_ok_chat split: prod.splits)
qed (simp add: send_resign_request_def assms)

lemma client_ok_start_matching [client_pres]:
  assumes "client_ok c" shows "client_ok (start_matching env c)"
proof -
  have "length (cl_username c) < 32" using assms by (simp add: client_ok_def)
  then have "cl_connected c \<Longrightarrow> client_ok (snd (send_client env (CM_MATCH_GAME (Some
      \<lparr>mgq_player_id = cl_username c, mgq_desired_game_id = []\<rparr>))
      (c\<lparr>cl_current_screen := SCREEN_MATCHING, cl_match_start_time := ce_time env 0\<rparr>)))"
    by (intro request_update_send) (simp_all add: request_ok_def assms)
  then show ?thesis
    by (auto simp: start_matching_def Let_def assms split: prod.splits)
qed

lemma client_ok_cancel_matching [client_pres]:
  assumes "client_ok c" shows "client_ok (cancel_matching env c)"
proof -
  have "length (cl_username c) < 32" using assms by (simp add: client_ok_def)
  then have "cl_connected c \<Longrightarrow>
      client_ok (snd (send_client env (CM_CANCEL_MATCH (Some (cl_username c))) c))"
    by (intro request_update_send assms) (simp_all add: request_ok_def)
  then show ?thesis by (simp add: cancel_matching_def Let_def assms)
qed

lemma client_ok_down [client_pres]: "client_ok c \<Longrightarrow> client_ok (connection_down c)"
  by (simp add: connection_down_def Let_def client_ok_def request_update_def)

lemma client_ok_cleanup [client_pres]: "client_ok c \<Longrightarrow> client_ok (cleanup_network c)"
  by (simp add: cleanup_network_def Let_def client_ok_def)

lemma client_ok_reconnect [client_pres]:
  assumes "client_ok c" "\<not> cl_connected c"
  shows "client_ok (start_reconnect env now addrs c)"
proof -
  define c1 where "c1 = c\<lparr>cl_reconnecting := True, cl_last_reconnect_attempt := now,
                 cl_first_connect := False, cl_socket_fd := connect_to_server addrs\<rparr>"
  have c1: "client_ok c1" using assms by (simp add: c1_def client_ok_def)
  have c2: "client_ok (c1\<lparr>cl_connected := True, cl_reconnecting := False\<rparr>)" if "\<not> cl_socket_fd c1 < 0"
    using c1 that by (simp add: client_ok_def)
  have c3: "client_ok c' \<Longrightarrow> client_ok (c'\<lparr>cl_connected := False, cl_socket_fd := - 1\<rparr>)" for c'
    by (simp add: client_ok_def)
  have "client_ok (c1\<lparr>cl_connected := False, cl_reconnecting := False\<rparr>)"
    using c1 by (simp add: client_ok_def)
  moreover have "client_ok c'" if "\<not> cl_socket_fd c1 < 0" and
      "send_client env (CM_PING g) (c1\<lparr>cl_connected := True, cl_reconnecting := False\<rparr>) = (r, c')"
    for g r c'
    by (rule client_ok_send [OF c2 [OF that(1)] _ _ that(2)]) (simp_all add: request_ok_def)
  ultimately show ?thesis
    by (auto simp: start_reconnect_def c1_def [symmetric] Let_def intro: c3 split: prod.splits)
qed

lemma client_ok_network_turn [client_pres]:
  assumes "client_ok c" shows "client_ok (network_turn ev c)"
proof -
  have "client_ok c1 \<Longrightarrow> client_ok (case ne_received ev of None \<Rightarrow> connection_down c1
      | Some msg \<Rightarrow> snd (dispatch_server_message (later 2 (ne_env ev)) msg c1))" for c1
    by (simp add: client_ok_down client_ok_dispatch split: option.split)
  then show ?thesis
    using assms by (simp add: network_turn_def Let_def client_ok_reconnect)
qed

section \<open>The user interface\<close>

lemma client_ok_click [client_pres]:
  assumes "client_ok c" "in_board x y"
  shows "client_ok (handle_board_click env x y c)"
proof (cases "cl_piece_selected c")
  case True
  then show ?thesis using assms
    by (simp add: handle_board_click_def click_move_def Let_def case_prod_beta client_ok_chat
        client_ok_deselect client_ok_send_move)
next
  case False
  have "client_ok (c\<lparr>cl_selected_x := x, cl_selected_y := y, cl_piece_selected := True\<rparr>)"
    using assms by (simp add: client_ok_def)
  with False show ?thesis
    by (simp add: handle_board_click_def click_select_def Let_def client_ok_chat assms(1))
qed

lemma coord_in_board: "coord_to_board_pos t sx sy = Some (x, y) \<Longrightarrow> in_board x y"
  by (auto simp: coord_to_board_pos_def Let_def in_board_def split: if_splits prod.splits)

lemma client_ok_mouse [client_pres]: "client_ok c \<Longrightarrow> client_ok (handle_mouse_input env e c)"
  by (auto simp: handle_mouse_input_def split: prod.split option.split
      intro: client_ok_click dest: coord_in_board)

lemma client_ok_cursor:
  "client_ok c \<Longrightarrow> in_board x y \<Longrightarrow> client_ok (c\<lparr>cl_cursor_x := x, cl_cursor_y := y\<rparr>)"
  "client_ok c \<Longrightarrow> in_board x (cl_cursor_y c) \<Longrightarrow> client_ok (c\<lparr>cl_cursor_x := x\<rparr>)"
  "client_ok c \<Longrightarrow> in_board (cl_cursor_x c) y \<Longrightarrow> client_ok (c\<lparr>cl_cursor_y := y\<rparr>)"
  by (simp_all add: client_ok_def)

lemma cursor_on_board: "client_ok c \<Longrightarrow> in_board (cl_cursor_x c) (cl_cursor_y c)"
  by (simp add: client_ok_def)

lemma client_ok_wake [client_pres]: "client_ok c \<Longrightarrow> client_ok (wake_cursor c)"
  by (simp add: wake_cursor_def enable_cursor_mode_def client_ok_def in_board_def)

lemma client_ok_keyboard:
  assumes "client_ok c" shows "client_ok (snd (handle_keyboard_board_input env ch c))"
proof -
  note w = client_ok_wake [OF assms]
  have b: "in_board (cl_cursor_x (wake_cursor c)) (cl_cursor_y (wake_cursor c))"
    by (rule cursor_on_board [OF w])
  have "in_board (7 - cl_cursor_x c) (cl_cursor_y c)" "in_board (cl_cursor_x c) (7 - cl_cursor_y c)"
    using cursor_on_board [OF assms] by (auto simp: in_board_def)
  with w b assms show ?thesis
    by (auto simp: handle_keyboard_board_input_def Let_def BOARD_SIZE_def disable_cursor_mode_def
        in_board_def client_ok_deselect intro!: client_ok_cursor client_ok_click split: key.split prod.split)
qed

lemma client_ok_notation:
  assumes "client_ok c" shows "client_ok (snd (handle_chess_notation env s c))"
  using assms
  by (simp add: handle_chess_notation_def Let_def case_prod_beta client_ok_chat client_ok_send_move)

lemma client_ok_submit [client_pres]: "client_ok c \<Longrightarrow> client_ok (chat_submit env c)"
  by (simp add: chat_submit_def client_ok_notation client_ok_send_chat client_ok_def [of c])

lemma client_ok_disable [client_pres]: "client_ok c \<Longrightarrow> client_ok (disable_chat_input c)"
  by (simp add: disable_chat_input_def client_ok_def)

lemma client_ok_enable [client_pres]: "client_ok c \<Longrightarrow> client_ok (enable_chat_input c)"
  by (simp add: enable_chat_input_def client_ok_def)

lemma set_butlast_disjoint: "set xs \<inter> A = {} \<Longrightarrow> set (butlast xs) \<inter> A = {}"
  using in_set_butlastD by fastforce

lemma menu_key_codes:
  assumes "32 \<le> n" "n \<le> 126" "n \<noteq> 49" "n \<noteq> 50" "n \<noteq> 51" "n \<noteq> 52" "n \<noteq> 113" "n \<noteq> 81"
  shows "c_char n \<notin> set menu_keys"
proof
  assume "c_char n \<in> set menu_keys"
  then have "code (c_char n) \<in> code ` set menu_keys" by (rule imageI)
  moreover have "code (c_char n) = n" using assms by (simp add: code_c_char)
  ultimately show False using assms by (simp add: menu_keys_def code_def)
qed

lemma client_ok_type:
  assumes "client_ok c"
    "ch \<noteq> Key 49" "ch \<noteq> Key 50" "ch \<noteq> Key 51" "ch \<noteq> Key 52" "ch \<noteq> Key 113" "ch \<noteq> Key 81"
  shows "client_ok (handle_chat_input env ch c)"
proof -
  have erased: "client_ok (c\<lparr>cl_chat_input := butlast (cl_chat_input c)\<rparr>)"
    using assms(1) by (auto simp: client_ok_def set_butlast_disjoint)
  have typed: "client_ok (c\<lparr>cl_chat_input := cl_chat_input c @ [c_char n]\<rparr>)"
    if "ch = Key n" "32 \<le> n" "n \<le> 126" "length (cl_chat_input c) < 255" for n
  proof -
    have "c_char n \<notin> set menu_keys" using that assms by (intro menu_key_codes) auto
    with that assms(1) show ?thesis by (auto simp: client_ok_def)
  qed
  show ?thesis
    using erased typed assms(1)
    by (cases ch) (auto simp: handle_chat_input_def client_ok_disable client_ok_submit client_ok_draw)
qed

lemma client_ok_game_menu [client_pres]: "client_ok c \<Longrightarrow> client_ok (key_game_menu env ch c)"
  by (simp add: key_game_menu_def show_resign_dialog_def client_ok_chat client_ok_save
      client_ok_disable client_ok_enable client_ok_type)

lemma client_ok_resign_input:
  assumes "client_ok c" shows "client_ok (snd (handle_resign_dialog_input env ch c))"
  using assms client_ok_send_resign [of "c\<lparr>cl_resign_dialog_active := False\<rparr>" env]
  by (simp add: handle_resign_dialog_input_def Let_def case_prod_beta client_ok_chat)

lemma client_ok_key_game [client_pres]: "client_ok c \<Longrightarrow> client_ok (key_game env ch c)"
  by (simp add: key_game_def Let_def case_prod_beta client_ok_resign_input client_ok_game_menu
      client_ok_keyboard)

lemma client_ok_username:
  "client_ok c \<Longrightarrow> client_ok (snd (get_username_dialog typed c))"
  by (simp add: get_username_dialog_def Let_def client_ok_def length_c_trunc)

text \<open>The client that a key leaves behind, whether the program goes on or not.\<close>

definition result_client :: "key_result \<Rightarrow> client_t" where
  "result_client r = (case r of Go_On c \<Rightarrow> c | Quit c \<Rightarrow> c)"

lemma client_ok_key_main:
  "client_ok c \<Longrightarrow> key_main env di ch c = Some r \<Longrightarrow> client_ok (result_client r)"
  by (auto simp: key_main_def result_client_def case_prod_beta client_ok_username
      client_ok_start_matching client_ok_cleanup client_ok_on_gs split: if_splits)

lemma client_ok_input:
  assumes "client_ok c" "handle_input env di inp c = Some r"
  shows "client_ok (result_client r)"
  using assms client_ok_key_main [OF assms(1)]
  by (auto simp: handle_input_def key_matching_def result_client_def client_ok_mouse
      client_ok_cancel_matching client_ok_key_game
      split: user_input.splits option.splits screen_state_t.splits)

lemma client_ok_acknowledge [client_pres]:
  assumes "client_ok c" shows "client_ok (acknowledge_dialog inp c)"
proof -
  have "client_ok (on_gs (\<lambda>gs. gs\<lparr>gs_opponent_disconnected := False\<rparr>) (c\<lparr>cl_dialog_active := False\<rparr>))"
    by (rule client_ok_on_gs) (simp_all add: assms)
  with assms show ?thesis by (simp add: acknowledge_dialog_def Let_def)
qed

lemma client_ok_raise [client_pres]: "client_ok c \<Longrightarrow> client_ok (fst (raise_dialog c))"
  by (simp add: raise_dialog_def client_ok_draw)

lemma client_ok_resize [client_pres]: "client_ok c \<Longrightarrow> client_ok (handle_terminal_resize r k c)"
  by (simp add: handle_terminal_resize_def client_ok_dialog client_ok_draw)

lemma client_ok_turn_start: "client_ok c \<Longrightarrow> client_ok (fst (turn_start ev prev c))"
  by (simp add: turn_start_def Let_def client_ok_resize client_ok_draw split: option.split)

lemma client_ok_turn_input:
  assumes "client_ok c" "turn_input ev c = Some r" shows "client_ok (result_client r)"
  using assms client_ok_input [OF assms(1)]
  by (auto simp: turn_input_def result_client_def client_ok_acknowledge split: option.splits if_splits)

lemma client_ok_turn_end:
  "client_ok (ms_client s) \<Longrightarrow> client_ok (ms_client (turn_end ev screen need s))"
  by (simp add: turn_end_def Let_def client_ok_draw client_ok_on_gs gs_ok_timer)

lemma client_ok_main_turn:
  assumes "client_ok (ms_client s)" "main_turn ev s = Some (s', go)"
  shows "client_ok (ms_client s')"
proof (cases "me_shutdown ev")
  case True
  with assms show ?thesis by (auto simp: main_turn_def client_ok_cleanup)
next
  case False
  obtain c1 screen need where ts: "turn_start ev (ms_prev_screen s) (ms_client s) = (c1, screen, need)"
    by (cases "turn_start ev (ms_prev_screen s) (ms_client s)") auto
  then have c1: "client_ok c1" using client_ok_turn_start [OF assms(1)] by (metis fst_conv)
  obtain r where r: "turn_input ev c1 = Some r"
    using assms(2) False ts by (cases "turn_input ev c1") (auto simp: main_turn_def)
  note ok = client_ok_turn_input [OF c1 r]
  show ?thesis
  proof (cases r)
    case (Quit c2)
    with assms(2) False ts r ok show ?thesis by (auto simp: main_turn_def result_client_def)
  next
    case (Go_On c2)
    obtain c3 d where d: "raise_dialog c2 = (c3, d)" by (cases "raise_dialog c2") auto
    with Go_On ok have "client_ok c3" using client_ok_raise [of c2] by (simp add: result_client_def)
    with assms(2) False ts r Go_On d show ?thesis
      by (cases d) (auto simp: main_turn_def Let_def intro: client_ok_turn_end)
  qed
qed

section \<open>Reachable clients\<close>

lemma client_ok_start: "in_board (cl_cursor_x c) (cl_cursor_y c) \<Longrightarrow> cl_sent c = [] \<Longrightarrow>
    client_ok (client_start host port c)"
  by (simp add: client_start_def init_client_state_def client_ok_def gs_ok_init)

text \<open>
  The two threads of the client: each turn of the network thread and of the main loop is one step.
  The state starts as \<open>main\<close> leaves it before the loop.
\<close>

definition client_boot :: "string \<Rightarrow> int \<Rightarrow> main_state" where
  "client_boot host port =
     \<lparr>ms_client = client_start host port static_client, ms_prev_screen = SCREEN_MAIN,
      ms_last_update = 0\<rparr>"

inductive client_step :: "main_state \<Rightarrow> main_state \<Rightarrow> bool" where
  Net: "client_step s (s\<lparr>ms_client := network_turn ev (ms_client s)\<rparr>)"
| Main: "main_turn ev s = Some (s', go) \<Longrightarrow> client_step s s'"

inductive client_reachable :: "main_state \<Rightarrow> bool" where
  Boot: "client_reachable (client_boot host port)"
| Step: "client_reachable s \<Longrightarrow> client_step s s' \<Longrightarrow> client_reachable s'"

inductive_cases client_stepE: "client_step s s'"

lemma client_ok_reachable: "client_reachable s \<Longrightarrow> client_ok (ms_client s)"
proof (induction rule: client_reachable.induct)
  case (Boot host port)
  show ?case by (simp add: client_boot_def client_ok_start static_client_def in_board_def)
next
  case (Step s s')
  from Step.hyps(2) show ?case
    by (cases rule: client_stepE)
      (auto simp: Step.IH client_ok_network_turn intro: client_ok_main_turn [OF Step.IH])
qed

end
