(* ===== verification/Client_Replay.thy ===== *)
theory Client_Replay
  imports Client_Inv Same_Position
begin

text \<open>
  Facts on replay files and replays: a saved file is read back as the moves recorded, and the
  position of a replay is the fold of the moves before it.
\<close>

section \<open>Header lines\<close>

lemma fgets_line:
  assumes "CHR 0x0A \<notin> set l" "length l < n"
  shows "c_fgets n (l @ CHR 0x0A # r) = (l @ [CHR 0x0A], r)"
  using assms
proof (induction l arbitrary: n)
  case Nil
  then show ?case by (cases n) simp_all
next
  case (Cons ch l)
  then obtain k where "n = Suc k" "length l < k" by (cases n) auto
  with Cons show ?case by auto
qed

lemma skip_header_line:
  assumes "CHR 0x0A \<notin> set l" "length l < 511" "l \<noteq> []"
  shows "skip_header (l @ CHR 0x0A # r) = skip_header r"
proof -
  have "char_at (l @ [CHR 0x0A]) 0 \<noteq> CHR 0x0A"
    using assms(1,3) by (cases l) (auto simp: char_at_def)
  with assms show ?thesis by (subst skip_header.simps) (simp add: fgets_line)
qed

lemma skip_header_end: "skip_header (CHR 0x0A # r) = r"
  using fgets_line [of "[]" 511 r] by (subst skip_header.simps) (simp add: char_at_def)

lemma skip_tag:
  assumes "CHR 0x0A \<notin> set name" "CHR 0x0A \<notin> set v" "length name + length v < 500"
  shows "skip_header (pgn_tag name v @ r) = skip_header r"
proof -
  let ?l = "''['' @ name @ '' '' @ [CHR 0x22] @ v @ [CHR 0x22] @ '']''"
  have "skip_header (?l @ CHR 0x0A # r) = skip_header r"
    using assms by (intro skip_header_line) auto
  then show ?thesis by (simp add: pgn_tag_def nl_def)
qed

text \<open>What a name or a date has to satisfy for the header to be read over: no line feed.\<close>

definition one_line :: "string \<Rightarrow> bool" where
  "one_line s \<longleftrightarrow> CHR 0x0A \<notin> set s \<and> length s < 256"

lemma skip_pgn_header:
  assumes "one_line date" "one_line (gs_local_player gs)" "one_line (gs_opponent_player gs)"
    "one_line (gs_pgn_result gs)"
  shows "skip_header (pgn_header date gs @ r) = r"
  using assms by (simp add: pgn_header_def one_line_def skip_tag skip_header_end nl_def)

section \<open>Tokens\<close>

lemma scan_space: "c_isspace ch \<Longrightarrow> scan_tokens (ch # r) = scan_tokens r"
  by (subst scan_tokens.simps) (simp add: scan_tokens.simps [of r])

lemma scan_nil [simp]: "scan_tokens [] = []"
  by (simp add: scan_tokens.simps)

lemma scan_word:
  assumes "w \<noteq> []" "\<forall>x \<in> set w. \<not> c_isspace x" "length w \<le> 31" "r = [] \<or> c_isspace (hd r)"
  shows "scan_tokens (w @ r) = w # scan_tokens r"
proof -
  obtain a v where w: "w = a # v" using assms(1) by (cases w) auto
  have dw: "dropWhile c_isspace (a # v @ r) = a # v @ r" using assms(2) w by simp
  have tw: "takeWhile (\<lambda>x. \<not> c_isspace x) (take 31 (a # v @ r)) = a # v"
  proof -
    have "take 31 (a # v @ r) = (a # v) @ take (31 - length w) r"
      using assms(3) w take_append [of 31 w r] by simp
    moreover have "takeWhile (\<lambda>x. \<not> c_isspace x) (take k r) = []" for k
      using assms(4) by (cases r; cases k) auto
    ultimately show ?thesis using assms(2) w by (simp only: takeWhile_append2) simp
  qed
  show ?thesis
    by (subst scan_tokens.simps) (simp only: w append_Cons dw tw list.case Let_def, simp)
qed

lemma is_move_name_shape:
  assumes "is_move_name m"
  obtains x y x' y' where "in_board x y" "in_board x' y'" "m = square_name x y @ square_name x' y'"
proof -
  from assms obtain p q where "parse_chess_coordinate_client (take 2 m) = Some p"
    "parse_chess_coordinate_client (drop 2 m) = Some q"
    by (auto simp: is_move_name_def)
  then have "in_board (fst p) (snd p) \<and> take 2 m = square_name (fst p) (snd p)"
    "in_board (fst q) (snd q) \<and> drop 2 m = square_name (fst q) (snd q)"
    by (metis client_coord.parse_sound surjective_pairing)+
  with that show ?thesis by (metis append_take_drop_id)
qed

lemma square_name_chars:
  assumes "in_board x y" "c \<in> set (square_name x y)"
  shows "49 \<le> code c \<and> code c \<le> 104"
proof -
  have "0 \<le> x" "x < 8" "0 \<le> y" "y < 8" using assms(1) by (auto simp: in_board_def)
  with assms show ?thesis
    by (auto simp: square_name_codes code_def)
qed

lemma move_name_word:
  assumes "is_move_name m"
  shows "m \<noteq> []" "\<forall>x \<in> set m. \<not> c_isspace x" "length m \<le> 31" "CHR ''.'' \<notin> set (c_str m)"
    "c_trunc MAX_SAN (c_str m) = m"
proof -
  have len: "length m = 4" using assms by (simp add: is_move_name_def)
  from assms obtain x y x' y' where sq: "in_board x y" "in_board x' y'"
    "m = square_name x y @ square_name x' y'" by (rule is_move_name_shape)
  then have chars: "49 \<le> code c" if "c \<in> set m" for c
    using that square_name_chars by auto
  from len show "m \<noteq> []" "length m \<le> 31" by auto
  show "\<forall>x \<in> set m. \<not> c_isspace x" using chars by (fastforce simp: c_isspace_def)
  have "NUL \<notin> set m" using chars [of NUL] by (auto simp: NUL_def code_def)
  then have "c_str m = m" by (simp add: c_str_def takeWhile_eq_all_conv) (metis)
  moreover have "CHR ''.'' \<notin> set m" using chars [of "CHR ''.''"] by (auto simp: code_def)
  ultimately show "CHR ''.'' \<notin> set (c_str m)" "c_trunc MAX_SAN (c_str m) = m"
    using len by (simp_all add: c_trunc_def MAX_SAN_def)
qed

lemma number_word:
  assumes "i < 1024"
  shows "\<forall>x \<in> set (c_dec (int i + 1) @ ''.''). \<not> c_isspace x"
    "length (c_dec (int i + 1) @ ''.'') \<le> 31" "CHR ''.'' \<in> set (c_str (c_dec (int i + 1) @ ''.''))"
proof -
  have d: "c_dec (int i + 1) = dec_digits (i + 1)" by (simp add: c_dec_def nat_add_distrib)
  have digits: "48 \<le> code c \<and> code c \<le> 57" if "c \<in> set (dec_digits (i + 1))" for c
    using that by (rule dec_digits_chars)
  show "\<forall>x \<in> set (c_dec (int i + 1) @ ''.''). \<not> c_isspace x"
    using digits by (fastforce simp: d c_isspace_def code_def)
  show "length (c_dec (int i + 1) @ ''.'') \<le> 31"
    using length_dec_digits [of "i + 1" 4] assms by (simp add: d)
  have "code NUL = 0" "code (CHR ''.'') = 46" by (simp_all add: NUL_def code_def)
  then have "NUL \<notin> set (dec_digits (i + 1) @ ''.'')"
    using digits [of NUL] by auto
  then have "c_str (dec_digits (i + 1) @ ''.'') = dec_digits (i + 1) @ ''.''"
    by (simp add: c_str_def takeWhile_eq_all_conv) (metis)
  then show "CHR ''.'' \<in> set (c_str (c_dec (int i + 1) @ ''.''))" by (simp add: d)
qed

section \<open>The moves of a file\<close>

text \<open>The text from the move number \<open>i\<close> on, and the tokens it gives.\<close>

definition body_from :: "nat \<Rightarrow> nat \<Rightarrow> string list \<Rightarrow> string" where
  "body_from i n mvs =
     concat (map (\<lambda>j. pgn_move_text j (mvs ! j)) [i..<n]) @ (if n mod 2 \<noteq> 0 then nl else [])"

lemma body_from_step:
  "i < n \<Longrightarrow> body_from i n mvs = pgn_move_text i (mvs ! i) @ body_from (Suc i) n mvs"
  by (simp add: body_from_def upt_conv_Cons)

lemma load_body:
  assumes "\<forall>j < n. is_move_name (mvs ! j)" "i \<le> n" "n \<le> 512" "length acc = i" "n \<le> length mvs"
  shows "load_loop acc (scan_tokens (body_from i n mvs)) = acc @ drop i (take n mvs)"
  using assms(2,4)
proof (induction "n - i" arbitrary: i acc)
  case 0
  then have "i = n" by simp
  then have "scan_tokens (body_from i n mvs) = []"
    by (simp add: body_from_def nl_def scan_space c_isspace_def code_def)
  with 0 assms(5) show ?case by simp
next
  case (Suc d)
  then have "i < n" by simp
  let ?r = "body_from (Suc i) n mvs"
  have m: "is_move_name (mvs ! i)" using assms(1) \<open>i < n\<close> by blast
  have nth: "drop i (take n mvs) = mvs ! i # drop (Suc i) (take n mvs)"
    using \<open>i < n\<close> assms(5) Cons_nth_drop_Suc [of i "take n mvs"] by simp
  have IH: "load_loop (acc @ [mvs ! i]) (scan_tokens ?r) = (acc @ [mvs ! i]) @ drop (Suc i) (take n mvs)"
    using Suc.hyps(2) \<open>i < n\<close> Suc.prems(2) by (intro Suc.hyps(1)) auto
  have lt: "length acc < MAX_MOVES" using \<open>i < n\<close> assms(3) Suc.prems(2) by (simp add: MAX_MOVES_def)
  have step: "load_loop acc (mvs ! i # scan_tokens ?r) = acc @ drop i (take n mvs)"
    using IH lt move_name_word [OF m] nth by simp
  show ?case
  proof (cases "i mod 2 = 0")
    case True
    have "?r = [] \<or> c_isspace (hd ?r)"
    proof (cases "Suc i < n")
      case True
      then have "?r = pgn_move_text (Suc i) (mvs ! Suc i) @ body_from (Suc (Suc i)) n mvs"
        by (rule body_from_step)
      moreover have "Suc i mod 2 \<noteq> 0" using \<open>i mod 2 = 0\<close> by presburger
      ultimately show ?thesis by (simp add: pgn_move_text_def c_isspace_def code_def)
    next
      case False
      with \<open>i < n\<close> have "n = Suc i" by simp
      then show ?thesis by (auto simp: body_from_def nl_def c_isspace_def code_def)
    qed
    then have w: "scan_tokens (mvs ! i @ ?r) = mvs ! i # scan_tokens ?r"
      using move_name_word [OF m] by (intro scan_word) auto
    let ?num = "c_dec (int (i div 2) + 1) @ ''.''"
    have "i div 2 < 1024" using \<open>i < n\<close> assms(3) by linarith
    note num = number_word [OF this]
    have "scan_tokens (?num @ CHR '' '' # mvs ! i @ ?r) = ?num # scan_tokens (CHR '' '' # mvs ! i @ ?r)"
      using num by (intro scan_word) (auto simp: c_isspace_def code_def)
    then have "scan_tokens (body_from i n mvs) = ?num # mvs ! i # scan_tokens ?r"
      using True by (simp add: body_from_step [OF \<open>i < n\<close>] pgn_move_text_def w scan_space
          c_isspace_def code_def)
    then show ?thesis using step num lt by simp
  next
    case False
    have "scan_tokens (mvs ! i @ nl @ ?r) = mvs ! i # scan_tokens (nl @ ?r)"
      using move_name_word [OF m] by (intro scan_word) (auto simp: nl_def c_isspace_def code_def)
    then have "scan_tokens (body_from i n mvs) = mvs ! i # scan_tokens ?r"
      using False by (simp add: body_from_step [OF \<open>i < n\<close>] pgn_move_text_def scan_space nl_def
          c_isspace_def code_def)
    then show ?thesis using step by simp
  qed
qed

lemma load_saved:
  assumes "one_line date" "one_line (gs_local_player gs)" "one_line (gs_opponent_player gs)"
    "one_line (gs_pgn_result gs)" "pgn_ok gs"
  shows "load_moves (Some (pgn_header date gs @ pgn_body (gs_pgn_move_count gs) (gs_pgn_moves gs))) =
         take (gs_pgn_move_count gs) (gs_pgn_moves gs)"
proof -
  let ?n = "gs_pgn_move_count gs" and ?m = "gs_pgn_moves gs"
  have n: "?n \<le> 512" "length ?m = 512" using assms(5) by (simp_all add: pgn_ok_def MAX_PGN_MOVES_def)
  have "\<forall>j < ?n. is_move_name (?m ! j)"
    using assms(5) n by (auto simp: pgn_ok_def list_all_length)
  from load_body [OF this _ n(1), of 0 "[]"] n
  show ?thesis
    using skip_pgn_header [OF assms(1-4)] by (simp add: load_moves_def pgn_body_def body_from_def)
qed

section \<open>Replays\<close>

lemma replay_move_name:
  assumes "parse_chess_coordinate_client from = Some (fx, fy)"
    "parse_chess_coordinate_client to = Some (tx, ty)"
  shows "replay_move (from @ to) G = apply_move G fx fy tx ty"
proof -
  obtain a b a' b' where "from = [a, b]" "to = [a', b']"
    using assms by (auto simp: parse_chess_coordinate_client_def numeral_2_eq_2 length_Suc_conv
        split: if_splits)
  with assms show ?thesis
    by (simp add: replay_move_def char_at_def numeral_eq_Suc apply_move_from_server_parse)
qed

section \<open>The start of a game\<close>

lemma reset_startpos:
  "reset_game_to_starting_position G = startpos G" "reset_game_for_player G t = startpos G"
  by (simp_all add: reset_game_to_starting_position_def reset_game_for_player_def fen_parse_start)

text \<open>What \<open>init_game\<close> sets up.\<close>

definition new_game_t :: game_t where
  "new_game_t = (startpos zero_game)\<lparr>fullmove_number := 1\<rparr>"

lemma init_game_eq: "init_game G = new_game_t"
  by (simp add: init_game_def reset_startpos new_game_t_def startpos_def clear_board_def)

lemma started_game: "(startpos new_game_t)\<lparr>side_to_move := TEAM_WHITE\<rparr> = new_game_t"
  by (simp add: new_game_t_def startpos_def)

lemma new_game_same: "same_position (startpos G) new_game_t"
proof -
  have "new_game_t = set_extra (1, False, False, False) (startpos zero_game)"
    by (simp add: new_game_t_def set_extra_def startpos_def zero_game_def)
  then have "same_position (startpos zero_game) new_game_t"
    unfolding same_position_def by blast
  then show ?thesis using same_startpos same_position_trans by blast
qed

lemma new_game_open: "\<not> is_checkmate new_game_t" "\<not> is_stalemate new_game_t"
proof -
  have "has_legal_move (startpos zero_game)"
    using e4_legal has_legal_move_iff by blast
  then have "has_legal_move new_game_t"
    using same_position_rules(3) [OF new_game_same] by simp
  then show "\<not> is_checkmate new_game_t" "\<not> is_stalemate new_game_t"
    by (simp_all add: is_checkmate_def is_stalemate_def)
qed

lemma startpos_new_game_t: "startpos new_game_t = new_game_t"
  by (simp add: new_game_t_def startpos_def)

lemma startpos_new_game: "extra G = extra new_game_t \<Longrightarrow> startpos G = new_game_t"
  using startpos_eqI [of G new_game_t] started_game startpos_new_game_t by simp

lemma match_response_fields:
  assumes "mgr_success r" "mgr_assigned_team r \<noteq> TEAM__TEAM_UNSPECIFIED"
  shows "cl_gs (snd (handle_match_game_response env (SM_MATCH_GAME_RES r) c)) =
           client_start_game env (cl_username c) r
             (add_chat_message (ce_time env 0) ''System'' ''Match found! Game starting...'' (cl_gs c))"
  using assms
  by (simp add: handle_match_game_response_def Let_def on_gs_def add_chat_message_safe_def
      request_update_def)

lemma start_game_fields [simp]:
  "gs_game (client_start_game env u r gs) = new_game_t"
  "gs_pgn_move_count (client_start_game env u r gs) = 0"
  "gs_pgn_moves (client_start_game env u r gs) = gs_pgn_moves gs"
  by (simp_all add: client_start_game_def Let_def init_game_eq reset_startpos started_game)

section \<open>The effect of a move broadcast\<close>

lemma save_game_fields [simp]:
  "gs_game (cl_gs (save_game env k c)) = gs_game (cl_gs c)"
  "gs_pgn_moves (cl_gs (save_game env k c)) = gs_pgn_moves (cl_gs c)"
  "gs_pgn_move_count (cl_gs (save_game env k c)) = gs_pgn_move_count (cl_gs c)"
  "gs_local_team (cl_gs (save_game env k c)) = gs_local_team (cl_gs c)"
  by (auto simp: save_game_def save_current_game_def write_pgn_def Let_def split: prod.split option.split)

lemma broadcast_end_fields [simp]:
  "gs_game (cl_gs (broadcast_end env b c)) = gs_game (cl_gs c)"
  "gs_pgn_moves (cl_gs (broadcast_end env b c)) = gs_pgn_moves (cl_gs c)"
  "gs_pgn_move_count (cl_gs (broadcast_end env b c)) = gs_pgn_move_count (cl_gs c)"
  by (simp_all add: broadcast_end_def Let_def request_update_def on_gs_def add_chat_message_safe_def)

lemma sync_fields [simp]:
  "gs_game (sync_from_broadcast env b gs) = gs_game gs"
  "gs_pgn_moves (sync_from_broadcast env b gs) = gs_pgn_moves gs"
  "gs_pgn_move_count (sync_from_broadcast env b gs) = gs_pgn_move_count gs"
  "gs_game (set_check_flags b gs) = gs_game gs"
  "gs_pgn_moves (set_check_flags b gs) = gs_pgn_moves gs"
  "gs_pgn_move_count (set_check_flags b gs) = gs_pgn_move_count gs"
  "gs_game (record_move from to gs) = gs_game gs"
  by (simp_all add: sync_from_broadcast_def sync_timer_from_server_def set_check_flags_def
      record_move_def Let_def)

text \<open>The moves recorded so far.\<close>

definition pgn_view :: "game_state_t \<Rightarrow> string list" where
  "pgn_view gs = take (gs_pgn_move_count gs) (gs_pgn_moves gs)"

lemma pgn_view_eqI:
  "gs_pgn_moves gs = gs_pgn_moves gs' \<Longrightarrow> gs_pgn_move_count gs = gs_pgn_move_count gs' \<Longrightarrow>
   pgn_view gs = pgn_view gs'"
  by (simp add: pgn_view_def)

definition on_broadcast :: "client_env \<Rightarrow> MoveBroadcast \<Rightarrow> client_t \<Rightarrow> client_t" where
  "on_broadcast env b c = snd (handle_move_broadcast env (SM_MOVE_BROADCAST b) c)"

lemma broadcast_game:
  "gs_game (cl_gs (on_broadcast env b c)) =
     snd (apply_move_from_server (gs_game (cl_gs c)) (mvb_from b) (mvb_to b))"
  by (simp add: on_broadcast_def handle_move_broadcast_def broadcast_board_def Let_def
      case_prod_beta request_update_def on_gs_def add_chat_message_safe_def)

lemma broadcast_game_parse:
  assumes "parse_chess_coordinate_client (mvb_from b) = Some (fx, fy)"
    "parse_chess_coordinate_client (mvb_to b) = Some (tx, ty)"
  shows "gs_game (cl_gs (on_broadcast env b c)) = apply_move (gs_game (cl_gs c)) fx fy tx ty"
  using assms by (simp add: broadcast_game apply_move_from_server_parse)

lemma broadcast_pgn:
  assumes "parse_chess_coordinate_client (mvb_from b) \<noteq> None"
    "parse_chess_coordinate_client (mvb_to b) \<noteq> None"
    "pgn_ok (cl_gs c)" "length (pgn_view (cl_gs c)) < 512"
    "pgn_view (cl_gs c) = [] \<or> last (pgn_view (cl_gs c)) \<noteq> mvb_from b @ mvb_to b"
  shows "pgn_view (cl_gs (on_broadcast env b c)) = pgn_view (cl_gs c) @ [mvb_from b @ mvb_to b]"
    and "pgn_ok (cl_gs (on_broadcast env b c))"
proof -
  let ?gs = "cl_gs c" and ?m = "mvb_from b @ mvb_to b"
  have n: "gs_pgn_move_count ?gs < 512" "length (gs_pgn_moves ?gs) = 512"
    using assms(3,4) by (simp_all add: pgn_ok_def pgn_view_def MAX_PGN_MOVES_def)
  have new: "\<not> (0 < gs_pgn_move_count ?gs \<and> gs_pgn_moves ?gs ! (gs_pgn_move_count ?gs - 1) = ?m)"
  proof
    assume a: "0 < gs_pgn_move_count ?gs \<and> gs_pgn_moves ?gs ! (gs_pgn_move_count ?gs - 1) = ?m"
    then have "pgn_view ?gs \<noteq> []" using n by (auto simp: pgn_view_def)
    then have "last (pgn_view ?gs) = ?m" using a n by (simp add: pgn_view_def last_conv_nth)
    with assms(5) \<open>pgn_view ?gs \<noteq> []\<close> show False by simp
  qed
  have ok: "fst (apply_move_from_server (gs_game ?gs) (mvb_from b) (mvb_to b))"
    using assms(1,2) by (auto simp: apply_move_from_server_parse)
  note name = move_name_parse [OF assms(1,2)]
  have eq: "gs_pgn_move_count (cl_gs (on_broadcast env b c)) = Suc (gs_pgn_move_count ?gs)"
    "gs_pgn_moves (cl_gs (on_broadcast env b c)) = (gs_pgn_moves ?gs)[gs_pgn_move_count ?gs := ?m]"
    using ok new n(1)
    by (simp_all add: on_broadcast_def handle_move_broadcast_def broadcast_board_def Let_def
        case_prod_beta request_update_def on_gs_def add_chat_message_safe_def record_move_def
        name(2) MAX_PGN_MOVES_def) auto
  with n show view: "pgn_view (cl_gs (on_broadcast env b c)) = pgn_view ?gs @ [?m]"
    by (simp add: pgn_view_def take_Suc_update)
  have "list_all is_move_name (pgn_view ?gs @ [?m])"
    using assms(3) name(1) by (simp add: pgn_ok_def pgn_view_def)
  with view eq n show "pgn_ok (cl_gs (on_broadcast env b c))"
    by (simp add: pgn_ok_def pgn_view_def MAX_PGN_MOVES_def)
qed

text \<open>A list of broadcasts whose squares are named properly.\<close>

definition named_move :: "MoveBroadcast \<Rightarrow> bool" where
  "named_move b \<longleftrightarrow> parse_chess_coordinate_client (mvb_from b) \<noteq> None
     \<and> parse_chess_coordinate_client (mvb_to b) \<noteq> None"

abbreviation move_text :: "MoveBroadcast \<Rightarrow> string" where
  "move_text b \<equiv> mvb_from b @ mvb_to b"

lemma replay_named:
  "named_move b \<Longrightarrow>
   replay_move (move_text b) G = snd (apply_move_from_server G (mvb_from b) (mvb_to b))"
  by (auto simp: named_move_def replay_move_name apply_move_from_server_parse)

lemma broadcasts_replay:
  assumes "list_all named_move bs" "pgn_ok (cl_gs c)" "length (pgn_view (cl_gs c)) + length bs \<le> 512"
    "distinct_adj (pgn_view (cl_gs c) @ map move_text bs)"
  shows "pgn_view (cl_gs (fold (on_broadcast env) bs c)) = pgn_view (cl_gs c) @ map move_text bs
       \<and> gs_game (cl_gs (fold (on_broadcast env) bs c)) =
           fold replay_move (map move_text bs) (gs_game (cl_gs c))
       \<and> pgn_ok (cl_gs (fold (on_broadcast env) bs c))"
  using assms
proof (induction bs arbitrary: c)
  case (Cons b bs)
  let ?c = "on_broadcast env b c"
  have b: "named_move b" using Cons.prems(1) by simp
  have last: "pgn_view (cl_gs c) = [] \<or> last (pgn_view (cl_gs c)) \<noteq> move_text b"
    using Cons.prems(4) by (auto simp: distinct_adj_append_iff)
  have v: "pgn_view (cl_gs ?c) = pgn_view (cl_gs c) @ [move_text b]" "pgn_ok (cl_gs ?c)"
    using broadcast_pgn [of b c env] b last Cons.prems(2,3) by (auto simp: named_move_def)
  have g: "gs_game (cl_gs ?c) = replay_move (move_text b) (gs_game (cl_gs c))"
    by (simp add: broadcast_game replay_named b)
  from Cons.IH [of ?c] v g Cons.prems show ?case by simp
qed simp

lemma extra_replay: "extra (fold replay_move ms G) = extra G"
proof -
  have "extra (replay_move m H) = extra H" for m H
    by (auto simp: replay_move_def apply_move_from_server_parse extra_apply_move
        split: option.splits)
  then show ?thesis by (induction ms arbitrary: G) simp_all
qed

end
