(* ===== verification/Client_Game.thy ===== *)
theory Client_Game
  imports Client_Replay
begin

text \<open>
  The game that a client holds is written in three places only: by the start of a match, by a move
  broadcast and by the replay menu. Everything else that the two threads do leaves it alone.
\<close>

abbreviation game_of :: "client_t \<Rightarrow> game_t" where
  "game_of c \<equiv> gs_game (cl_gs c)"

named_theorems same_game "operations that leave the game of the client alone"

section \<open>Parts of the state\<close>

lemma game_on_gs: "gs_game (f (cl_gs c)) = game_of c \<Longrightarrow> game_of (on_gs f c) = game_of c"
  by (simp add: on_gs_def)

lemma gs_game_chat [same_game]: "gs_game (add_chat_message t s m gs) = gs_game gs"
  by (simp add: add_chat_message_def Let_def)

lemma game_chat [same_game]: "game_of (add_chat_message_safe t s m c) = game_of c"
  by (simp add: add_chat_message_safe_def on_gs_def same_game)

lemma game_update [same_game]: "game_of (request_update c) = game_of c"
  by (simp add: request_update_def)

lemma gs_game_timer [same_game]: "gs_game (update_game_timer now gs) = gs_game gs"
  by (simp add: update_game_timer_def Let_def)

lemma gs_game_mark: "gs_game (mark_move sx sy dy dx gs) = gs_game gs"
  by (simp add: mark_move_def Let_def)

lemma gs_game_fold: "(\<And>x gs. gs_game (f x gs) = gs_game gs) \<Longrightarrow> gs_game (fold f xs gs) = gs_game gs"
  by (induction xs arbitrary: gs) simp_all

lemma gs_game_marks [same_game]: "gs_game (calculate_possible_moves sx sy sel gs) = gs_game gs"
  by (simp add: calculate_possible_moves_def Let_def gs_game_fold gs_game_mark)

lemma game_draw [same_game]: "game_of (draw_current_screen c) = game_of c"
  by (simp add: draw_current_screen_def draw_game_screen_def on_gs_def same_game split: screen_state_t.split)

lemma game_dialog [same_game]: "game_of (show_dialog c) = game_of c"
  by (simp add: show_dialog_def same_game)

section \<open>Requests and the network\<close>

lemma game_send [same_game]: "game_of (snd (send_client env m c)) = game_of c"
  by (simp add: send_client_def)

lemma game_send_chat [same_game]: "game_of (send_chat_message env m c) = game_of c"
  by (simp add: send_chat_message_def same_game)

lemma game_send_move [same_game]: "game_of (snd (send_move_request env from to c)) = game_of c"
  by (simp add: send_move_request_def Let_def case_prod_beta same_game)

lemma game_send_resign [same_game]: "game_of (snd (send_resign_request env c)) = game_of c"
  by (simp add: send_resign_request_def Let_def case_prod_beta same_game)

lemma game_matching [same_game]:
  "game_of (start_matching env c) = game_of c" "game_of (cancel_matching env c) = game_of c"
  by (simp_all add: start_matching_def cancel_matching_def Let_def case_prod_beta same_game)

lemma game_cleanup [same_game]:
  "game_of (cleanup_network c) = game_of c" "game_of (connection_down c) = game_of c"
  by (simp_all add: cleanup_network_def connection_down_def Let_def same_game)

section \<open>Messages of the server\<close>

text \<open>What a message does to the game that a client holds.\<close>

definition see :: "ServerMessage \<Rightarrow> game_t \<Rightarrow> game_t" where
  "see msg G =
     (case msg of
        SM_MATCH_GAME_RES r \<Rightarrow>
          if mgr_success r \<and> mgr_assigned_team r \<noteq> TEAM__TEAM_UNSPECIFIED then new_game_t else G
      | SM_MOVE_BROADCAST b \<Rightarrow> snd (apply_move_from_server G (mvb_from b) (mvb_to b))
      | _ \<Rightarrow> G)"

lemma dispatch_sees: "game_of (snd (dispatch_server_message env msg c)) = see msg (game_of c)"
proof (cases msg)
  case (SM_MATCH_GAME_RES r)
  then show ?thesis
    using match_response_fields [of r env c]
    by (auto simp: dispatch_server_message_def see_def handle_match_game_response_def same_game)
next
  case (SM_MOVE_BROADCAST b)
  then show ?thesis
    using broadcast_game [of env b c] by (simp add: dispatch_server_message_def see_def on_broadcast_def)
next
  case (SM_RESIGN_BROADCAST b)
  then show ?thesis
    by (simp add: dispatch_server_message_def see_def handle_resign_broadcast_def Let_def
        same_game) (simp add: on_gs_def same_game)
next
  case (SM_GAME_END b)
  then show ?thesis
    by (simp add: dispatch_server_message_def see_def handle_game_end_broadcast_def Let_def on_gs_def same_game)
next
  case (SM_CHECK_BROADCAST b)
  then show ?thesis
    by (simp add: dispatch_server_message_def see_def handle_check_broadcast_def Let_def on_gs_def same_game)
qed (simp_all add: dispatch_server_message_def see_def handle_ping_response_def handle_echo_response_def
    handle_chat_broadcast_def handle_error_response_def handle_cancel_match_response_def
    handle_resign_response_def handle_move_response_def same_game)

section \<open>The user\<close>

lemma game_select: "game_of (click_select env x y c) = game_of c"
  unfolding click_select_def Let_def if_distrib [of game_of] by (simp add: same_game)

lemma game_target: "game_of (click_move env x y c) = game_of c"
  unfolding click_move_def Let_def case_prod_beta if_distrib [of game_of] by (simp add: same_game)

lemma game_click [same_game]: "game_of (handle_board_click env x y c) = game_of c"
  by (simp add: handle_board_click_def game_select game_target)

lemma game_mouse [same_game]: "game_of (handle_mouse_input env e c) = game_of c"
  by (simp add: handle_mouse_input_def same_game split: prod.split option.split)

lemma game_cursor [same_game]:
  "game_of (wake_cursor c) = game_of c" "game_of (disable_cursor_mode c) = game_of c"
  by (simp_all add: wake_cursor_def enable_cursor_mode_def disable_cursor_mode_def)

lemma game_keyboard [same_game]: "game_of (snd (handle_keyboard_board_input env ch c)) = game_of c"
  by (simp add: handle_keyboard_board_input_def Let_def same_game split: key.split prod.split)

lemma game_notation [same_game]: "game_of (snd (handle_chess_notation env s c)) = game_of c"
  by (simp add: handle_chess_notation_def Let_def case_prod_beta same_game)

lemma game_chat_line [same_game]:
  "game_of (enable_chat_input c) = game_of c" "game_of (disable_chat_input c) = game_of c"
  "game_of (chat_submit env c) = game_of c"
  by (simp_all add: enable_chat_input_def disable_chat_input_def chat_submit_def same_game)

lemma game_chat_key [same_game]: "game_of (handle_chat_input env ch c) = game_of c"
  by (simp add: handle_chat_input_def same_game split: key.split)

lemma game_menu [same_game]: "game_of (key_game_menu env ch c) = game_of c"
  by (simp add: key_game_menu_def show_resign_dialog_def same_game)

lemma game_resign_key [same_game]: "game_of (snd (handle_resign_dialog_input env ch c)) = game_of c"
  by (simp add: handle_resign_dialog_input_def Let_def case_prod_beta same_game)

lemma game_key_game [same_game]: "game_of (key_game env ch c) = game_of c"
  by (simp add: key_game_def Let_def case_prod_beta same_game)

lemma game_username [same_game]: "game_of (snd (get_username_dialog typed c)) = game_of c"
  by (simp add: get_username_dialog_def Let_def)

text \<open>The key that opens the replay menu, on the screen where it does.\<close>

definition opens_replay :: "main_event \<Rightarrow> client_t \<Rightarrow> bool" where
  "opens_replay ev c \<longleftrightarrow> me_input ev = Some (Press (Key 50)) \<and> cl_current_screen c = SCREEN_MAIN"

lemma game_key_main:
  "key_main env di ch c = Some r \<Longrightarrow> ch \<noteq> 50 \<Longrightarrow> game_of (result_client r) = game_of c"
  by (auto simp: key_main_def result_client_def case_prod_beta same_game split: if_splits)

lemma game_input:
  assumes "handle_input env di inp c = Some r" "\<not> (inp = Press (Key 50) \<and> cl_current_screen c = SCREEN_MAIN)"
  shows "game_of (result_client r) = game_of c"
  using assms game_key_main [of env di _ c]
  by (auto simp: handle_input_def result_client_def key_matching_def key_code_def same_game
      split: user_input.splits option.splits screen_state_t.splits key.splits)

lemma screen_draw [simp]: "cl_current_screen (draw_current_screen c) = cl_current_screen c"
  by (simp add: draw_current_screen_def draw_game_screen_def on_gs_def split: screen_state_t.split)

lemma game_turn_start:
  "game_of (fst (turn_start ev prev c)) = game_of c"
  "cl_current_screen (fst (turn_start ev prev c)) = cl_current_screen c"
  by (simp_all add: turn_start_def Let_def handle_terminal_resize_def show_dialog_def same_game
      split: option.split prod.split)

lemma game_turn_end [same_game]: "game_of (ms_client (turn_end ev screen need s)) = game_of (ms_client s)"
  by (simp add: turn_end_def Let_def same_game on_gs_def)

lemma game_acknowledge [same_game]: "game_of (acknowledge_dialog inp c) = game_of c"
  by (simp add: acknowledge_dialog_def Let_def on_gs_def)

lemma game_raise [same_game]: "game_of (fst (raise_dialog c)) = game_of c"
  by (simp add: raise_dialog_def same_game)

lemma game_main_turn:
  assumes "main_turn ev s = Some (s', go)" "\<not> opens_replay ev (ms_client s)"
  shows "game_of (ms_client s') = game_of (ms_client s)"
proof (cases "me_shutdown ev")
  case True
  with assms show ?thesis by (auto simp: main_turn_def same_game)
next
  case False
  obtain c1 screen need where ts: "turn_start ev (ms_prev_screen s) (ms_client s) = (c1, screen, need)"
    by (cases "turn_start ev (ms_prev_screen s) (ms_client s)") auto
  then have c1: "game_of c1 = game_of (ms_client s)" "cl_current_screen c1 = cl_current_screen (ms_client s)"
    using game_turn_start [of ev "ms_prev_screen s" "ms_client s"] by simp_all
  obtain r where r: "turn_input ev c1 = Some r"
    using assms(1) False ts by (cases "turn_input ev c1") (auto simp: main_turn_def)
  have g: "game_of (result_client r) = game_of (ms_client s)"
    using r assms(2) c1 game_input [of "me_env ev" "me_dialog ev" _ c1 r]
    by (auto simp: turn_input_def opens_replay_def result_client_def same_game
        split: option.splits if_splits)
  show ?thesis
  proof (cases r)
    case (Quit c2)
    with assms(1) False ts r g show ?thesis by (auto simp: main_turn_def result_client_def)
  next
    case (Go_On c2)
    obtain c3 d where d: "raise_dialog c2 = (c3, d)" by (cases "raise_dialog c2") auto
    with Go_On g game_raise [of c2] have "game_of c3 = game_of (ms_client s)"
      by (simp add: result_client_def)
    with assms(1) False ts r Go_On d show ?thesis
      by (cases d) (auto simp: main_turn_def Let_def same_game)
  qed
qed

section \<open>Marked squares\<close>

definition enemy_on :: "game_t \<Rightarrow> int \<Rightarrow> int \<Rightarrow> int \<Rightarrow> int \<Rightarrow> bool" where
  "enemy_on G sx sy x y \<longleftrightarrow> piece (board G y x) \<noteq> None \<and> \<not> is_dead (board G y x)
     \<and> team (board G y x) \<noteq> team (board G sy sx)"

lemma mark_move_enemy:
  "mark_move sx sy dy dx g =
     (if (sx \<noteq> dx \<or> sy \<noteq> dy) \<and> is_move_legal (gs_game g) sx sy dx dy
      then (if enemy_on (gs_game g) sx sy dx dy
            then g\<lparr>gs_capture_moves := (gs_capture_moves g)(dy := (gs_capture_moves g dy)(dx := True))\<rparr>
            else g\<lparr>gs_possible_moves := (gs_possible_moves g)(dy := (gs_possible_moves g dy)(dx := True))\<rparr>)
      else g)"
  by (simp add: mark_move_def enemy_on_def Let_def)

lemma mark_one:
  "gs_game (mark_move sx sy dy dx g) = gs_game g"
  "gs_capture_moves (mark_move sx sy dy dx g) y x \<longleftrightarrow>
     gs_capture_moves g y x \<or> (y = dy \<and> x = dx \<and> (sx \<noteq> x \<or> sy \<noteq> y)
       \<and> is_move_legal (gs_game g) sx sy x y \<and> enemy_on (gs_game g) sx sy x y)"
  "gs_possible_moves (mark_move sx sy dy dx g) y x \<longleftrightarrow>
     gs_possible_moves g y x \<or> (y = dy \<and> x = dx \<and> (sx \<noteq> x \<or> sy \<noteq> y)
       \<and> is_move_legal (gs_game g) sx sy x y \<and> \<not> enemy_on (gs_game g) sx sy x y)"
  by (simp_all add: mark_move_enemy)

lemma mark_row:
  "gs_game (fold (mark_move sx sy dy) xs g) = gs_game g"
  "gs_capture_moves (fold (mark_move sx sy dy) xs g) y x \<longleftrightarrow>
     gs_capture_moves g y x \<or> (y = dy \<and> x \<in> set xs \<and> (sx \<noteq> x \<or> sy \<noteq> y)
       \<and> is_move_legal (gs_game g) sx sy x y \<and> enemy_on (gs_game g) sx sy x y)"
  "gs_possible_moves (fold (mark_move sx sy dy) xs g) y x \<longleftrightarrow>
     gs_possible_moves g y x \<or> (y = dy \<and> x \<in> set xs \<and> (sx \<noteq> x \<or> sy \<noteq> y)
       \<and> is_move_legal (gs_game g) sx sy x y \<and> \<not> enemy_on (gs_game g) sx sy x y)"
  by (induction xs arbitrary: g) (simp_all add: mark_one, blast+)

lemma mark_rows:
  "gs_capture_moves (fold (\<lambda>dy. fold (mark_move sx sy dy) xs) ys g) y x \<longleftrightarrow>
     gs_capture_moves g y x \<or> (y \<in> set ys \<and> x \<in> set xs \<and> (sx \<noteq> x \<or> sy \<noteq> y)
       \<and> is_move_legal (gs_game g) sx sy x y \<and> enemy_on (gs_game g) sx sy x y)"
  "gs_possible_moves (fold (\<lambda>dy. fold (mark_move sx sy dy) xs) ys g) y x \<longleftrightarrow>
     gs_possible_moves g y x \<or> (y \<in> set ys \<and> x \<in> set xs \<and> (sx \<noteq> x \<or> sy \<noteq> y)
       \<and> is_move_legal (gs_game g) sx sy x y \<and> \<not> enemy_on (gs_game g) sx sy x y)"
  by (induction ys arbitrary: g) (simp_all add: mark_row, blast+)

lemma legal_move_source:
  assumes "is_move_legal G sx sy x y"
  shows "piece (board G sy sx) \<noteq> None" "\<not> is_dead (board G sy sx)"
    "team (board G sy sx) = side_to_move G" "in_board x y" "sx \<noteq> x \<or> sy \<noteq> y"
    "piece (board G y x) = None \<or> is_dead (board G y x) \<or>
     team (board G y x) \<noteq> team (board G sy sx)"
  using assms by (auto simp: is_move_legal_def Let_def split: if_splits option.splits)

lemma marks_legal:
  "gs_capture_moves (calculate_possible_moves sx sy b gs) y x =
     (b \<and> is_move_legal (gs_game gs) sx sy x y
        \<and> piece (board (gs_game gs) y x) \<noteq> None \<and> \<not> is_dead (board (gs_game gs) y x))
   \<and> gs_possible_moves (calculate_possible_moves sx sy b gs) y x =
     (b \<and> is_move_legal (gs_game gs) sx sy x y
        \<and> (piece (board (gs_game gs) y x) = None \<or> is_dead (board (gs_game gs) y x)))"
proof -
  have range: "z \<in> set [0..7] \<longleftrightarrow> 0 \<le> z \<and> z < 8" for z :: int by auto
  show ?thesis
  proof (cases "is_move_legal (gs_game gs) sx sy x y")
    case True
    note src = legal_move_source [OF True]
    from src(1) obtain p where "piece (board (gs_game gs) sy sx) = Some p" by blast
    with src(2-) True show ?thesis
      by (cases "piece (board (gs_game gs) y x)")
        (auto simp: calculate_possible_moves_def Let_def mark_rows range in_board_def
          enemy_on_def simp del: set_upto)
  next
    case False
    then show ?thesis by (simp add: calculate_possible_moves_def Let_def mark_rows)
  qed
qed

end
