(* ===== verification/Joint.thy ===== *)
theory Joint
  imports Session Client_Game
begin

text \<open>
  The server and its clients together. The messages that the server sends wait in one queue for each
  connection; a client takes them in order in its network thread, while its main loop goes on. The
  requests are arbitrary (not only those of well-behaved clients), and sends may fail. Then the
  position that a client has read from its queue is the position of the server, unless the client has
  gone astray: a history variable that says when the program itself gives up the agreement.
\<close>

section \<open>The state and its steps\<close>

text \<open>
  A client goes astray when it asks for a match while it waits or plays (the server does not refuse
  that and starts a second game), when it opens a replay during its game (which is shown on the board
  of the game), when a send to it fails, or when any send fails while a request of it or of
  somebody who shares a game with it is answered. It stays so until its descriptor is connected again,
  and even then if the server still has a game for that descriptor.
\<close>

record joint_t =
  jn_server :: server_t
  jn_client :: "int \<Rightarrow> client_t"
  jn_inbox :: "int \<Rightarrow> ServerMessage list"
  jn_astray :: "int \<Rightarrow> bool"

definition asks_twice :: "int \<Rightarrow> ClientMessage \<Rightarrow> server_t \<Rightarrow> bool" where
  "asks_twice f msg S \<longleftrightarrow>
     (case msg of CM_MATCH_GAME q \<Rightarrow> in_game f S \<or> waits f S | _ \<Rightarrow> False)"

definition strays :: "net_t \<Rightarrow> int \<Rightarrow> ClientMessage \<Rightarrow> server_t \<Rightarrow> server_t \<Rightarrow> int \<Rightarrow> bool" where
  "strays net f msg S S' h \<longleftrightarrow>
     h = f \<and> asks_twice f msg S \<or> failed net S S' h \<or> (\<exists>k. failed net S S' k) \<and> touched f S S' h"

definition after :: "(int \<Rightarrow> bool) \<Rightarrow> server_t \<Rightarrow> joint_t \<Rightarrow> joint_t" where
  "after B S' Z = Z\<lparr>jn_server := S', jn_inbox := (\<lambda>f. jn_inbox Z f @ mail (jn_server Z) S' f),
     jn_astray := (\<lambda>f. jn_astray Z f \<or> B f)\<rparr>"

text \<open>
  The steps; in the last one the clients that are astray do anything, and others may be given up.
\<close>

inductive joint_step :: "net_t \<Rightarrow> joint_t \<Rightarrow> joint_t \<Rightarrow> bool" for net :: net_t where
  request: "0 \<le> f \<Longrightarrow>
    handle_client_message net mclk vclk f (Some msg) (jn_server Z) = Some (closed, S') \<Longrightarrow>
    joint_step net Z (after (strays net f msg (jn_server Z) S') S' Z)"
| hangup: "handle_client_message net mclk vclk f None (jn_server Z) = Some (closed, S') \<Longrightarrow>
    joint_step net Z (after (failed net (jn_server Z) S') S' Z)"
| tick: "no_clock_jump now (jn_server Z) \<Longrightarrow> S' = check_game_timeouts net now (jn_server Z) \<Longrightarrow>
    joint_step net Z (after (failed net (jn_server Z) S') S' Z)"
| connect: "joint_step net Z (Z\<lparr>jn_client := (jn_client Z)(f := c), jn_inbox := (jn_inbox Z)(f := []),
    jn_astray := (jn_astray Z)(f := in_game f (jn_server Z))\<rparr>)"
| receive: "jn_inbox Z f = msg # rest \<Longrightarrow> cl_connected (jn_client Z f) \<Longrightarrow> ne_received ev = Some msg \<Longrightarrow>
    joint_step net Z (Z\<lparr>jn_client := (jn_client Z)(f := network_turn ev (jn_client Z f)),
                        jn_inbox := (jn_inbox Z)(f := rest)\<rparr>)"
| user: "main_turn ev s = Some (s', go) \<Longrightarrow> ms_client s = jn_client Z f \<Longrightarrow>
    joint_step net Z (Z\<lparr>jn_client := (jn_client Z)(f := ms_client s'),
      jn_astray := (jn_astray Z)(f := jn_astray Z f
        \<or> opens_replay ev (jn_client Z f) \<and> in_game f (jn_server Z))\<rparr>)"
| loose: "jn_server Z' = jn_server Z \<Longrightarrow>
    (\<And>h. \<not> jn_astray Z' h \<Longrightarrow>
      \<not> jn_astray Z h \<and> jn_client Z' h = jn_client Z h \<and> jn_inbox Z' h = jn_inbox Z h) \<Longrightarrow>
    joint_step net Z Z'"

inductive_cases joint_stepE: "joint_step net Z Z'"

inductive joint_reachable :: "net_t \<Rightarrow> joint_t \<Rightarrow> bool" for net :: net_t where
  start: "jn_server Z = boot \<Longrightarrow> joint_reachable net Z"
| step: "joint_reachable net Z \<Longrightarrow> joint_step net Z Z' \<Longrightarrow> joint_reachable net Z'"

section \<open>The simulation\<close>

text \<open>The position a client has when it has read its queue.\<close>

definition seen :: "joint_t \<Rightarrow> int \<Rightarrow> game_t" where
  "seen Z f = fold see (jn_inbox Z f) (game_of (jn_client Z f))"

definition joint_ok :: "joint_t \<Rightarrow> bool" where
  "joint_ok Z \<longleftrightarrow>
     server_ok (jn_server Z) \<and> players_ok (jn_astray Z) (jn_server Z)
     \<and> (\<forall>g \<in> set (active_games (jn_server Z)). \<forall>f. plays f g \<and> \<not> jn_astray Z f \<longrightarrow>
          same_position (game_state g) (seen Z f))"

lemma joint_okD:
  assumes "joint_ok Z"
  shows "server_ok (jn_server Z)" "players_ok (jn_astray Z) (jn_server Z)" "length (active_games (jn_server Z)) = 50"
    and "i < 50 \<Longrightarrow> plays f (active_games (jn_server Z) ! i) \<Longrightarrow> \<not> jn_astray Z f \<Longrightarrow>
      same_position (game_state (active_games (jn_server Z) ! i)) (seen Z f)"
  using assms server_okD(5) by (auto simp: joint_ok_def)

lemma joint_okI:
  assumes "server_ok (jn_server Z)" "players_ok (jn_astray Z) (jn_server Z)"
    and "\<And>i f. i < 50 \<Longrightarrow> plays f (active_games (jn_server Z) ! i) \<Longrightarrow> \<not> jn_astray Z f \<Longrightarrow>
      same_position (game_state (active_games (jn_server Z) ! i)) (seen Z f)"
  shows "joint_ok Z"
  using assms server_okD(5) [OF assms(1)] by (auto simp: joint_ok_def in_set_conv_nth)

lemma after_fields [simp]:
  "jn_server (after B S' Z) = S'" "jn_astray (after B S' Z) = (\<lambda>f. jn_astray Z f \<or> B f)"
  by (simp_all add: after_def)

lemma seen_after: "seen (after B S' Z) f = fold see (mail (jn_server Z) S' f) (seen Z f)"
  by (simp add: seen_def after_def)

text \<open>What is to be shown for a step of the server.\<close>

lemma joint_after:
  assumes "joint_ok Z" "server_ok S'"
    and "\<And>A. players_ok A (jn_server Z) \<Longrightarrow> (\<And>h. A h \<longleftrightarrow> jn_astray Z h \<or> B h) \<Longrightarrow> players_ok A S'"
    and "\<And>i f. i < 50 \<Longrightarrow> plays f (active_games S' ! i) \<Longrightarrow> \<not> jn_astray Z f \<Longrightarrow> \<not> B f \<Longrightarrow>
      same_position (game_state (active_games S' ! i)) (fold see (mail (jn_server Z) S' f) (seen Z f))"
  shows "joint_ok (after B S' Z)"
proof (rule joint_okI)
  let ?A = "\<lambda>f. jn_astray Z f \<or> B f"
  have "players_ok ?A (jn_server Z)"
    using players_ok_mono [OF joint_okD(2) [OF assms(1)], of ?A] by blast
  from assms(3) [OF this refl] show "players_ok (jn_astray (after B S' Z)) (jn_server (after B S' Z))"
    by simp
  show "server_ok (jn_server (after B S' Z))" using assms(2) by simp
  fix i f assume "i < 50" "plays f (active_games (jn_server (after B S' Z)) ! i)"
    "\<not> jn_astray (after B S' Z) f"
  with assms(4) [of i f]
  show "same_position (game_state (active_games (jn_server (after B S' Z)) ! i)) (seen (after B S' Z) f)"
    by (simp add: seen_after)
qed

lemma see_quiet: "\<not> board_message m \<Longrightarrow> see m G = G"
  by (auto simp: see_def board_message_def split: ServerMessage.splits)

lemma see_start: "start_message m \<Longrightarrow> see m G = new_game_t"
  by (auto simp: see_def start_message_def split: ServerMessage.splits)

lemma fold_see_quiet: "(\<And>m. m \<in> set ms \<Longrightarrow> \<not> board_message m) \<Longrightarrow> fold see ms G = G"
  by (induction ms) (simp_all add: see_quiet)

lemma joint_quiet:
  assumes "joint_ok Z" "quiet (jn_server Z) S'" "server_ok S'"
  shows "joint_ok (after B S' Z)"
proof (rule joint_after [OF assms(1,3)])
  note ok = joint_okD [OF assms(1)]
  show "players_ok A S'" if "players_ok A (jn_server Z)" for A
    using quiet_players [OF assms(2) that] .
  fix i f assume i: "i < 50" and p: "plays f (active_games S' ! i)" and a: "\<not> jn_astray Z f"
  with quiet_nth [OF assms(2), of i] server_okD(5) [OF assms(3)] carries_plays
  have "plays f (active_games (jn_server Z) ! i)"
    "game_state (active_games S' ! i) = game_state (active_games (jn_server Z) ! i)" by simp_all
  moreover have "fold see (mail (jn_server Z) S' f) (seen Z f) = seen Z f"
    using quiet_mail [OF assms(2)] by (simp add: fold_see_quiet)
  ultimately show "same_position (game_state (active_games S' ! i)) (fold see (mail (jn_server Z) S' f) (seen Z f))"
    using ok(4) i a by simp
qed

text \<open>A request whose answer was not sent: only those within its reach are lost.\<close>

lemma joint_within:
  assumes "joint_ok Z" "within f (jn_server Z) S'" "server_ok S'" "0 \<le> f"
    and B: "\<And>h. touched f (jn_server Z) S' h \<Longrightarrow> B h"
  shows "joint_ok (after B S' Z)"
proof (rule joint_after [OF assms(1,3)])
  note ok = joint_okD [OF assms(1)] and len = server_okD(5) [OF assms(3)]
  let ?S = "jn_server Z"
  from assms(2) obtain ms where ms: "outbox S' = outbox ?S @ ms"
    "\<And>p. p \<in> set ms \<Longrightarrow> board_message (snd p) \<Longrightarrow> touched f ?S S' (fst p)" by (auto simp: within_def)
  have far: "carries (active_games ?S ! i) (active_games S' ! i)"
    if "\<not> B h" "i < 50" "plays h (active_games S' ! i)" for h i
  proof -
    have "active_games S' ! i \<in> set (active_games S')" using that(2) len by simp
    then have "\<not> plays f (active_games S' ! i)" using B [of h] that(1,3) by (auto simp: touched_def)
    then show ?thesis using assms(2) that(2) ok(3) by (auto simp: within_def)
  qed
  show "players_ok A S'" if "players_ok A ?S" "\<And>h. A h \<longleftrightarrow> jn_astray Z h \<or> B h" for A
  proof (rule kept_players [OF that(1)])
    fix h assume "waits h S'"
    then have "waits h ?S \<or> h = f" using assms(2) by (auto simp: within_def)
    moreover have "B f" using B by (simp add: touched_def)
    ultimately show "0 \<le> h \<and> (A h \<or> waits h ?S)"
      using players_okD(3) [OF that(1)] assms(4) that(2) by blast
  qed (use far that(2) len ok(3) in auto)
  fix i h assume h: "i < 50" "plays h (active_games S' ! i)" "\<not> jn_astray Z h" "\<not> B h"
  have "\<not> board_message m" if "m \<in> set (mail ?S S' h)" for m
    using that ms(2) B h(4) by (auto simp: mail_append [OF ms(1)])
  then have "fold see (mail ?S S' h) (seen Z h) = seen Z h" by (simp add: fold_see_quiet)
  with far [OF h(4,1,2)] carries_plays h ok(4) [OF h(1), of h]
  show "same_position (game_state (active_games S' ! i)) (fold see (mail ?S S' h) (seen Z h))" by simp
qed

lemma joint_queued:
  assumes "joint_ok Z" "queued f (jn_server Z) S'" "server_ok S'" "0 \<le> f"
    and "in_game f (jn_server Z) \<Longrightarrow> B f"
  shows "joint_ok (after B S' Z)"
proof (rule joint_after [OF assms(1,3)])
  note ok = joint_okD [OF assms(1)]
  show "players_ok A S'" if "players_ok A (jn_server Z)" "\<And>h. A h \<longleftrightarrow> jn_astray Z h \<or> B h" for A
    using queued_players [OF assms(2) that(1) assms(4)] assms(5) that(2) by blast
  from assms(2) obtain m where m: "outbox S' = outbox (jn_server Z) @ [(f, m)]" "\<not> board_message m"
    "active_games S' = active_games (jn_server Z)" by (auto simp: queued_def)
  then have "fold see (mail (jn_server Z) S' h) (seen Z h) = seen Z h" for h
    by (simp add: mail_append see_quiet)
  with ok(4) show "same_position (game_state (active_games S' ! i)) (fold see (mail (jn_server Z) S' h) (seen Z h))"
    if "i < 50" "plays h (active_games S' ! i)" "\<not> jn_astray Z h" for i h
    using that m(3) by simp
qed

lemma joint_started:
  assumes "joint_ok Z" "started f w j (jn_server Z) S'" "server_ok S'"
    and "in_game f (jn_server Z) \<or> waits f (jn_server Z) \<Longrightarrow> B f"
  shows "joint_ok (after B S' Z)"
proof (rule joint_after [OF assms(1,3)])
  let ?S = "jn_server Z" let ?gs = "active_games ?S"
  note ok = joint_okD [OF assms(1)]
  from assms(2) obtain g G m m' where g: "active_games S' = ?gs[j := g]" "is_active g" "game_state g = startpos G"
    "{white_player_fd g, black_player_fd g} = {f, w}" "j < 50" "waits w ?S"
    and m: "outbox S' = outbox ?S @ [(f, m), (w, m')]" "start_message m" "start_message m'"
    by (auto simp: started_def begun_def ok(3))
  show "players_ok A S'" if "players_ok A ?S" "\<And>h. A h \<longleftrightarrow> jn_astray Z h \<or> B h" for A
    using started_players [OF assms(2) that(1)] assms(4) that(2) g(6) by blast
  have seen': "fold see (mail ?S S' h) (seen Z h) = (if h = f \<or> h = w then new_game_t else seen Z h)" for h
    using m(2,3) by (auto simp: mail_append [OF m(1)] see_start)
  have new: "plays h g \<longleftrightarrow> h = f \<or> h = w" for h using g(2,4) by (auto simp: plays_def doubleton_eq_iff)
  fix i h assume i: "i < 50" and p: "plays h (active_games S' ! i)" and a: "\<not> jn_astray Z h" "\<not> B h"
  show "same_position (game_state (active_games S' ! i)) (fold see (mail ?S S' h) (seen Z h))"
  proof (cases "i = j")
    case True
    with p g(1,3,5) ok(3) new seen' show ?thesis by (simp add: new_game_same)
  next
    case False
    with p g(1) have p: "plays h (?gs ! i)" by simp
    then have "in_game h ?S" using in_gameI i ok(3) by simp
    with assms(4) a players_okD(4) [OF ok(2) g(6)] have "\<not> (h = f \<or> h = w)" by auto
    with False g(1) seen' ok(4) [OF i p a(1)] show ?thesis by simp
  qed
qed

lemma joint_moved:
  assumes "joint_ok Z" "moved f q k sq (jn_server Z) S'" "server_ok S'"
  shows "joint_ok (after B S' Z)"
proof (rule joint_after [OF assms(1,3)])
  let ?S = "jn_server Z" let ?gs = "active_games ?S" let ?g = "?gs ! k"
  note ok = joint_okD [OF assms(1)]
  show "players_ok A S'" if "players_ok A ?S" for A using moved_players [OF assms(2) that] .
  obtain fx fy tx ty where sq: "sq = (fx, fy, tx, ty)" by (cases sq) auto
  from assms(2) obtain g ack b b' ofd where g: "active_games S' = ?gs[k := g]"
      "game_state g = apply_move (game_state ?g) fx fy tx ty"
      "white_player_fd g = white_player_fd ?g" "black_player_fd g = black_player_fd ?g"
    and k: "k < 50" "plays f ?g" "parse_chess_coordinate (mvq_from q) = Some (fx, fy)"
      "parse_chess_coordinate (mvq_to q) = Some (tx, ty)"
    and m: "outbox S' = outbox ?S @ [(f, ack), (ofd, SM_MOVE_BROADCAST b), (f, SM_MOVE_BROADCAST b')]"
      "\<not> board_message ack" "mvb_from b = mvq_from q" "mvb_to b = mvq_to q"
      "mvb_from b' = mvq_from q" "mvb_to b' = mvq_to q"
    and ofd: "ofd = (if white_player_fd ?g = f then black_player_fd ?g else white_player_fd ?g)"
    by (auto simp: moved_def sq ok(3))
  have act: "is_active ?g" "?g \<in> set ?gs" "plays ofd ?g" using k ok(3) ofd by (simp_all add: plays_def)
  have see: "see (SM_MOVE_BROADCAST b) H = apply_move H fx fy tx ty"
    "see (SM_MOVE_BROADCAST b') H = apply_move H fx fy tx ty" for H
    using k(3,4) m(3-6) by (simp_all add: see_def apply_move_from_server_parse parse_client_copy)
  fix i h assume i: "i < 50" and p: "plays h (active_games S' ! i)" and a: "\<not> jn_astray Z h"
  show "same_position (game_state (active_games S' ! i)) (fold see (mail ?S S' h) (seen Z h))"
  proof (cases "i = k")
    case True
    with p g k(1) ok(3) act(1) have h: "plays h ?g" by (auto simp: plays_def)
    have "white_player_fd ?g \<noteq> black_player_fd ?g" using players_okD(2) [OF ok(2) a act(2) h] .
    then have "ofd \<noteq> f" "h = f \<or> h = ofd" using k(2) ofd h by (auto simp: plays_def)
    then have "fold see (mail ?S S' h) (seen Z h) = apply_move (seen Z h) fx fy tx ty"
      using m(2) by (auto simp: mail_append [OF m(1)] see see_quiet)
    moreover have "same_position (apply_move (game_state ?g) fx fy tx ty) (apply_move (seen Z h) fx fy tx ty)"
      using ok(4) [OF k(1) h a] apply_move_same_position by blast
    ultimately show ?thesis using True g k(1) ok(3) by simp
  next
    case False
    with p g(1) have p: "plays h (?gs ! i)" by simp
    with False players_okD(1) [OF ok(2) a, of i k] i k(1) ok(3) have "\<not> plays h ?g" by auto
    then have "h \<noteq> f" "h \<noteq> ofd" using k(2) act(3) by auto
    then have "mail ?S S' h = []" by (simp add: mail_append [OF m(1)])
    with False g(1) ok(4) [OF i p a] show ?thesis by simp
  qed
qed

lemma joint_client:
  assumes "joint_ok Z" "jn_server Z' = jn_server Z"
    and "\<And>h. \<not> jn_astray Z' h \<Longrightarrow> jn_astray Z h \<Longrightarrow> \<not> in_game h (jn_server Z)"
    and "\<And>h. in_game h (jn_server Z) \<Longrightarrow> \<not> jn_astray Z' h \<Longrightarrow> seen Z' h = seen Z h"
  shows "joint_ok Z'"
proof (rule joint_okI)
  note ok = joint_okD [OF assms(1)]
  show "players_ok (jn_astray Z') (jn_server Z')"
  proof (rule players_okI)
    fix f i j assume "\<not> jn_astray Z' f" "i < length (active_games (jn_server Z'))"
      "j < length (active_games (jn_server Z'))" "plays f (active_games (jn_server Z') ! i)"
      "plays f (active_games (jn_server Z') ! j)"
    with assms(2,3) in_gameI [of i "jn_server Z" f] players_okD(1) [OF ok(2), of f i j] show "i = j" by auto
  next
    fix f g assume g: "\<not> jn_astray Z' f" "g \<in> set (active_games (jn_server Z'))" "plays f g"
    then have "in_game f (jn_server Z)" using assms(2) by (auto simp: in_game_def list_ex_iff)
    with g assms(2,3) players_okD(2) [OF ok(2), of f g] show "white_player_fd g \<noteq> black_player_fd g" by auto
  qed (use assms(2,3) players_okD(3,4) [OF ok(2)] in auto)
  fix i f assume i: "i < 50" "plays f (active_games (jn_server Z') ! i)" "\<not> jn_astray Z' f"
  then have "in_game f (jn_server Z)" using in_gameI assms(2) ok(3) by simp
  with i assms(2-4) ok(4) [of i f] show "same_position (game_state (active_games (jn_server Z') ! i)) (seen Z' f)"
    by auto
qed (use joint_okD [OF assms(1)] assms(2) in simp_all)

lemma joint_step_ok:
  assumes "joint_step net Z Z'" "joint_ok Z"
  shows "joint_ok Z'"
  using assms(1)
proof (cases rule: joint_step.cases)
  case (request f mclk vclk msg closed S')
  note ok = joint_okD [OF assms(2)]
  let ?B = "strays net f msg (jn_server Z) S'"
  have ok': "server_ok S'" using handle_client_message_ok [OF ok(1) request(3)] .
  have twice: "?B f" if "msg = CM_MATCH_GAME q" "in_game f (jn_server Z) \<or> waits f (jn_server Z)" for q
    using that by (simp add: strays_def asks_twice_def)
  from request_steps [OF ok(1) players_okD(3) [OF ok(2)] request(3)]
  consider "quiet (jn_server Z) S'" | q where "queued f (jn_server Z) S'" "msg = CM_MATCH_GAME q"
    | w j q where "started f w j (jn_server Z) S'" "msg = CM_MATCH_GAME q"
    | q k sq where "moved f q k sq (jn_server Z) S'"
    | h where "within f (jn_server Z) S'" "failed net (jn_server Z) S' h"
    by blast
  then have "joint_ok (after ?B S' Z)"
  proof cases
    case 1
    then show ?thesis by (rule joint_quiet [OF assms(2) _ ok'])
  next
    case 2
    then show ?thesis using joint_queued [OF assms(2) _ ok' request(2), of ?B] twice by blast
  next
    case 3
    then show ?thesis using joint_started [OF assms(2) 3(1) ok', of ?B] twice by blast
  next
    case 4
    then show ?thesis by (rule joint_moved [OF assms(2) _ ok'])
  next
    case 5
    then have "?B k" if "touched f (jn_server Z) S' k" for k using that by (auto simp: strays_def)
    then show ?thesis using joint_within [OF assms(2) 5(1) ok' request(2)] by blast
  qed
  then show ?thesis using request(1) by simp
next
  case (hangup mclk vclk f closed S')
  note ok = joint_okD [OF assms(2)]
  have "server_ok S'" using handle_client_message_ok [OF ok(1) hangup(2)] .
  moreover have "quiet (jn_server Z) S'"
    using hangup(2) quiet_disconnect by (auto simp: handle_client_message_def)
  ultimately show ?thesis using joint_quiet [OF assms(2)] hangup(1) by simp
next
  case (tick now S')
  note ok = joint_okD [OF assms(2)]
  show ?thesis
    using joint_quiet [OF assms(2) quiet_timer [OF ok(3)] check_game_timeouts_ok [OF ok(1) tick(2)]] tick(1,3)
    by simp
next
  case (connect f c)
  then show ?thesis by (intro joint_client [OF assms(2)]) (auto simp: seen_def split: if_splits)
next
  case (receive f msg rest ev)
  have "game_of (network_turn ev (jn_client Z f)) = see msg (game_of (jn_client Z f))"
    using receive(3,4) by (simp add: network_turn_def Let_def dispatch_sees)
  then have "seen Z' h = seen Z h" for h using receive(1,2) by (simp add: seen_def)
  then show ?thesis using receive(1) by (intro joint_client [OF assms(2)]) simp_all
next
  case (user ev s s' go f)
  have "seen Z' h = seen Z h" if "in_game h (jn_server Z)" "\<not> jn_astray Z' h" for h
    using user(1,3) that game_main_turn [OF user(2)] by (cases "h = f") (simp_all add: seen_def)
  then show ?thesis using user(1) by (intro joint_client [OF assms(2)]) (auto split: if_splits)
next
  case loose
  then show ?thesis by (intro joint_client [OF assms(2)]) (auto simp: seen_def)
qed

lemma players_boot: "players_ok A boot"
  by (auto simp: players_ok_def boot_fields plays_def zero_active_game_def waits_def zero_waiting_def
      list_ex_iff)

lemma joint_reachable_ok: "joint_reachable net Z \<Longrightarrow> joint_ok Z"
proof (induction rule: joint_reachable.induct)
  case (start Z)
  have "\<not> plays f (active_games boot ! i)" if "i < 50" for f i
    using that by (simp add: boot_fields plays_def zero_active_game_def)
  then show ?case using start by (intro joint_okI) (simp_all add: boot_ok players_boot)
qed (blast intro: joint_step_ok)

end
