(* ===== verification/Client_Thms.thy ===== *)
theory Client_Thms
  imports Client_Game
begin

text \<open>
  The properties of the client: its invariant, the chat log, replay files, the marked squares, the
  geometry of the screen, the clocks, the connection, and the requests it sends.
\<close>

section \<open>Marked squares\<close>

text \<open>
  The squares that the game screen marks for a selected piece are exactly the squares it may
  legally move to: a capture square is one with a living piece on it, a move square one without.
  Without a selected piece nothing is marked.
\<close>

lemma marked_squares_legal:
  "gs_capture_moves (calculate_possible_moves sx sy b gs) y x =
     (b \<and> is_move_legal (gs_game gs) sx sy x y
        \<and> piece (board (gs_game gs) y x) \<noteq> None \<and> \<not> is_dead (board (gs_game gs) y x))
   \<and> gs_possible_moves (calculate_possible_moves sx sy b gs) y x =
     (b \<and> is_move_legal (gs_game gs) sx sy x y
        \<and> (piece (board (gs_game gs) y x) = None \<or> is_dead (board (gs_game gs) y x)))"
  by (rule marks_legal)

section \<open>The geometry of the screen\<close>

lemma cell_div:
  assumes "0 \<le> k" "0 \<le> d" "d < w"
  shows "c_div (k * w + d) w = (k::int)"
proof -
  have "0 < w" using assms by simp
  moreover have "0 \<le> k * w + d" using assms \<open>0 < w\<close> by simp
  ultimately show ?thesis using assms by (simp add: c_div_nonneg)
qed

lemma cell_click:
  assumes "in_board col row" "0 \<le> dx" "dx < SQUARE_W" "0 \<le> dy" "dy < SQUARE_H"
  shows "coord_to_board_pos t (fst (display_corner row col) + dx) (snd (display_corner row col) + dy)
        = Some (display_square t row col)"
proof -
  have "c_div (col * 7 + dx) 7 = col" "c_div (row * 3 + dy) 3 = row"
    using assms by (simp_all add: cell_div in_board_def screen_consts)
  with assms show ?thesis
    by (auto simp: coord_to_board_pos_def display_corner_def display_square_def screen_consts
        in_board_def Let_def)
qed

text \<open>
  A click anywhere in the cell drawn for a row and column of the display, for either player, is
  the board square that the cell shows; and a click that gives a square lies in such a cell.
\<close>

lemma clicks_hit_squares:
  "(\<forall>row col dx dy. in_board col row \<longrightarrow> 0 \<le> dx \<longrightarrow> dx < SQUARE_W \<longrightarrow> 0 \<le> dy \<longrightarrow> dy < SQUARE_H \<longrightarrow>
      coord_to_board_pos t (fst (display_corner row col) + dx) (snd (display_corner row col) + dy)
        = Some (display_square t row col))
   \<and> (\<forall>x y p. coord_to_board_pos t x y = Some p \<longrightarrow>
        (\<exists>row col dx dy. in_board col row \<and> 0 \<le> dx \<and> dx < SQUARE_W \<and> 0 \<le> dy \<and> dy < SQUARE_H
           \<and> x = fst (display_corner row col) + dx \<and> y = snd (display_corner row col) + dy
           \<and> p = display_square t row col \<and> in_board (fst p) (snd p)))"
proof (intro conjI allI impI)
  fix row col dx dy
  assume "in_board col row" "0 \<le> dx" "dx < SQUARE_W" "0 \<le> dy" "dy < SQUARE_H"
  then show "coord_to_board_pos t (fst (display_corner row col) + dx) (snd (display_corner row col) + dy)
        = Some (display_square t row col)" by (rule cell_click)
next
  fix x y p
  assume a: "coord_to_board_pos t x y = Some p"
  define col where "col = (x - 6) div 7"
  define row where "row = (y - 4) div 3"
  have b: "0 \<le> x - 6" "x - 6 < 56" "0 \<le> y - 4" "y - 4 < 24"
    using a by (auto simp: coord_to_board_pos_def screen_consts Let_def split: if_splits)
  then have "c_div (x - 6) 7 = col" "c_div (y - 4) 3 = row"
    by (simp_all add: c_div_nonneg col_def row_def)
  with a have "p = display_square t row col"
    by (auto simp: coord_to_board_pos_def display_square_def screen_consts Let_def algebra_simps
        split: if_splits)
  moreover have "in_board col row" using b by (auto simp: in_board_def col_def row_def)
  moreover have "x - 6 = col * 7 + (x - 6) mod 7" "y - 4 = row * 3 + (y - 4) mod 3"
    by (simp_all add: col_def row_def)
  moreover have "0 \<le> (x - 6) mod 7" "(x - 6) mod 7 < 7" "0 \<le> (y - 4) mod 3" "(y - 4) mod 3 < 3"
    by simp_all
  moreover have "in_board (fst p) (snd p)"
    using a coord_in_board by (metis prod.collapse)
  ultimately show "\<exists>row col dx dy. in_board col row \<and> 0 \<le> dx \<and> dx < SQUARE_W \<and> 0 \<le> dy \<and> dy < SQUARE_H
           \<and> x = fst (display_corner row col) + dx \<and> y = snd (display_corner row col) + dy
           \<and> p = display_square t row col \<and> in_board (fst p) (snd p)"
    by (intro exI [of _ row] exI [of _ col] exI [of _ "(x - 6) mod 7"] exI [of _ "(y - 4) mod 3"])
      (simp add: display_corner_def screen_consts)
qed

lemma clicks_hit_squares_witness:
  "coord_to_board_pos TEAM_BLACK (fst (display_corner 2 5) + 3) (snd (display_corner 2 5) + 1)
     = Some (display_square TEAM_BLACK 2 5)"
  using clicks_hit_squares [of TEAM_BLACK] by (simp add: in_board_def screen_consts)

section \<open>The invariant of the client\<close>

text \<open>
  C13: in every state that the network thread and the main loop can reach, whatever the server
  sends and the user types: the chat array and the move record are within their bounds, every
  recorded move is the names of two squares, the strings fit their arrays, the cursor and the
  selection are on the board, a connected client has a descriptor, every request sent is well
  formed and went to a descriptor, and the chat line holds none of the menu keys.
\<close>

lemma client_invariant: "client_reachable s \<Longrightarrow> client_ok (ms_client s)"
  by (rule client_ok_reachable)

lemma client_invariant_witness: "client_ok (ms_client (client_boot ''localhost'' 9090))"
  by (rule client_invariant [OF client_reachable.Boot])

section \<open>The chat log\<close>

text \<open>
  C19: the chat array refines the list of all messages: after any sequence of additions it holds,
  in order, the newest 50 of the messages it held and the messages added, each cut to the size of
  its fields.
\<close>

lemma chat_keeps_newest:
  assumes "chat_ok gs"
  shows "chat_view (fold (\<lambda>(now, sender, message). add_chat_message now sender message) msgs gs) =
         newest 50 (chat_view gs @
           map (\<lambda>(now, sender, message). \<lparr>cm_sender = take 31 sender, cm_message = take 255 message,
                  cm_timestamp = now\<rparr>) msgs)"
proof -
  have "(\<lambda>(now, sender, message). add_chat_message now sender message) = chat_add"
    by (simp add: fun_eq_iff chat_add_def)
  moreover have "(\<lambda>(now, sender, message). \<lparr>cm_sender = take 31 sender, cm_message = take 255 message,
                  cm_timestamp = now\<rparr>) = chat_entry"
    by (simp add: fun_eq_iff chat_entry_def)
  ultimately show ?thesis
    using chat.view_fold [OF assms, of msgs] by (simp add: MAX_CHAT_MESSAGES_def)
qed

lemma chat_ok_init: "chat_ok (init_game_state gs)" "chat_view (init_game_state gs) = []"
  by (simp_all add: chat_ok_def chat_view_def init_game_state_def)

lemma chat_keeps_newest_witness:
  "chat_view (fold (\<lambda>(now, sender, message). add_chat_message now sender message)
      (replicate 60 (7, ''ann'', ''hi'')) (init_game_state (cl_gs static_client))) =
   replicate 50 \<lparr>cm_sender = ''ann'', cm_message = ''hi'', cm_timestamp = 7\<rparr>"
  using chat_keeps_newest [OF chat_ok_init(1) [of "cl_gs static_client"], of "replicate 60 (7, ''ann'', ''hi'')"]
  by (simp add: chat_ok_init(2) newest_def)

section \<open>Clocks\<close>

text \<open>
  The clocks that the client shows. While a game runs and a second or more has passed since the
  last update, only the clock of the side to move loses the elapsed seconds, and no clock that was
  not negative becomes negative; otherwise the clocks stay as they are.
\<close>

lemma client_timer:
  assumes "now - gs_last_timer_update gs < 2147483648"
  shows "(let gs' = update_game_timer now gs;
              runs = (gs_game_in_progress gs \<and> gs_last_timer_update gs \<noteq> 0
                      \<and> now - gs_last_timer_update gs \<ge> 1);
              left = (\<lambda>t. max 0 (t - (now - gs_last_timer_update gs)))
          in gs_white_time gs' = (if runs \<and> side_to_move (gs_game gs) = TEAM_WHITE
                                  then left (gs_white_time gs) else gs_white_time gs)
           \<and> gs_black_time gs' = (if runs \<and> side_to_move (gs_game gs) = TEAM_BLACK
                                  then left (gs_black_time gs) else gs_black_time gs)
           \<and> gs_last_timer_update gs' =
               (if runs \<or> gs_game_in_progress gs \<and> gs_last_timer_update gs = 0 then now
                else gs_last_timer_update gs)
           \<and> gs_game gs' = gs_game gs)"
  using assms
  by (cases "side_to_move (gs_game gs)")
    (auto simp: update_game_timer_def Let_def to_int32_id)

lemma client_timer_witness:
  "gs_white_time (update_game_timer 107 ((init_game_state (cl_gs static_client))
     \<lparr>gs_game_in_progress := True, gs_last_timer_update := 100\<rparr>)) = 593"
  using client_timer [of 107 "(init_game_state (cl_gs static_client))
     \<lparr>gs_game_in_progress := True, gs_last_timer_update := 100\<rparr>"]
  by (simp add: Let_def init_game_state_def init_game_def)

section \<open>The connection\<close>

text \<open>
  A reconnection attempt. It is tried at once only when none runs and five seconds have passed.
  Whatever happens, no attempt is left running, its time is noted, and the client is connected
  exactly if some address accepted it and the ping was sent; then the descriptor is that of the
  first address that accepts. The only request sent is the ping, and its text is always that of a
  reconnection, also the first time.
\<close>

lemma reconnect_outcome:
  assumes "should_attempt_reconnect now0 c"
  shows "(let c' = start_reconnect env now addrs c; fd = connect_to_server addrs in
          \<not> cl_reconnecting c \<and> now0 - cl_last_reconnect_attempt c \<ge> 5
        \<and> \<not> cl_reconnecting c' \<and> cl_last_reconnect_attempt c' = now
        \<and> (cl_connected c' \<longleftrightarrow> fd \<ge> 0 \<and> ce_send env fd (CM_PING ''Reconnection ping'') (cl_sent c) \<ge> 0)
        \<and> cl_socket_fd c' = (if cl_connected c' then fd else - 1)
        \<and> cl_sent c' = cl_sent c @ (if fd \<ge> 0 then [(fd, CM_PING ''Reconnection ping'')] else []))"
proof -
  have neg: "connect_to_server addrs < 0 \<Longrightarrow> connect_to_server addrs = - 1"
    by (auto simp: connect_to_server_def Let_def split: option.splits if_splits)
  show ?thesis
    using assms neg
    by (auto simp: should_attempt_reconnect_def start_reconnect_def send_client_def Let_def
        RECONNECT_INTERVAL_def split: if_splits)
qed

lemma connect_loop_first:
  "\<forall>(fd, ok) \<in> set as. fd < 0 \<or> \<not> ok \<Longrightarrow> fd \<ge> 0 \<Longrightarrow>
   connect_loop k (as @ (fd, True) # bs) = fd"
  by (induction k as rule: connect_loop.induct) auto

lemma reconnect_outcome_witness:
  "(let c' = start_reconnect \<lparr>ce_time = \<lambda>_. 9, ce_date = \<lambda>_. [], ce_replay_name = \<lambda>_. [],
                 ce_mkdir_ok = True, ce_fopen_ok = True, ce_send = \<lambda>_ _ _. 0\<rparr>
               9 (Some [(- 1, True), (4, False), (6, True)]) static_client
    in cl_connected c' \<and> cl_socket_fd c' = 6 \<and> cl_sent c' = [(6, CM_PING ''Reconnection ping'')])"
  using reconnect_outcome [of 9 static_client "\<lparr>ce_time = \<lambda>_. 9, ce_date = \<lambda>_. [], ce_replay_name = \<lambda>_. [],
                 ce_mkdir_ok = True, ce_fopen_ok = True, ce_send = \<lambda>_ _ _. 0\<rparr>"
      9 "Some [(- 1, True), (4, False), (6, True)]"]
  by (simp add: should_attempt_reconnect_def static_client_def RECONNECT_INTERVAL_def Let_def
      connect_to_server_def)

section \<open>Moves from the board and from the chat line\<close>

lemma send_client_fields [simp]:
  "cl_sent (snd (send_client env m c)) = cl_sent c @ [(cl_socket_fd c, m)]"
  "fst (send_client env m c) = ce_send env (cl_socket_fd c) m (cl_sent c)"
  "cl_piece_selected (snd (send_client env m c)) = cl_piece_selected c"
  by (simp_all add: send_client_def)

lemma chat_safe_fields [simp]:
  "cl_sent (add_chat_message_safe n s m c) = cl_sent c"
  "cl_piece_selected (add_chat_message_safe n s m c) = cl_piece_selected c"
  "cl_selected_x (add_chat_message_safe n s m c) = cl_selected_x c"
  "cl_selected_y (add_chat_message_safe n s m c) = cl_selected_y c"
  "gs_game (cl_gs (add_chat_message_safe n s m c)) = gs_game (cl_gs c)"
  by (simp_all add: add_chat_message_safe_def on_gs_def)

lemma square_letters:
  "in_board x y \<Longrightarrow> [c_char (97 + x), c_char (49 + y)] = square_name x y"
  using client_coord.format_name by (simp add: format_chess_coordinate_client_def)

lemma send_move_sent:
  "cl_sent (snd (send_move_request env from to c)) =
     cl_sent c @ (if cl_connected c \<and> parse_chess_coordinate_network from \<noteq> None
                     \<and> parse_chess_coordinate_network to \<noteq> None
                  then [(cl_socket_fd c, CM_MOVE (Some \<lparr>mvq_from = from, mvq_to = to\<rparr>))] else [])"
  by (simp add: send_move_request_def case_prod_beta)

lemma send_move_fields [simp]:
  "cl_piece_selected (snd (send_move_request env from to c)) = cl_piece_selected c"
  by (simp add: send_move_request_def case_prod_beta send_client_def)

text \<open>
  Clicks on the board. The first click selects the square exactly if a living piece of the
  player stands there and the player is to move; no request is sent. The second click, on another
  square, sends exactly the move from the selected square to the clicked one, under the names the
  server reads back as these squares; on the same square it only cancels the selection.
\<close>

lemma board_click_outcome:
  assumes "client_ok c" "in_board x y" "cl_connected c"
  shows "(let c' = handle_board_click env x y c; G = gs_game (cl_gs c); tm = gs_local_team (cl_gs c);
              sx = cl_selected_x c; sy = cl_selected_y c in
     if \<not> cl_piece_selected c then
       cl_sent c' = cl_sent c
       \<and> (cl_piece_selected c' \<longleftrightarrow> piece (board G y x) \<noteq> None \<and> \<not> is_dead (board G y x)
             \<and> team (board G y x) = tm \<and> side_to_move G = tm)
       \<and> (cl_piece_selected c' \<longrightarrow> cl_selected_x c' = x \<and> cl_selected_y c' = y)
     else if x = sx \<and> y = sy then cl_sent c' = cl_sent c \<and> \<not> cl_piece_selected c'
     else cl_sent c' = cl_sent c @ [(cl_socket_fd c, CM_MOVE (Some
             \<lparr>mvq_from = square_name sx sy, mvq_to = square_name x y\<rparr>))]
          \<and> parse_chess_coordinate (square_name sx sy) = Some (sx, sy)
          \<and> parse_chess_coordinate (square_name x y) = Some (x, y)
          \<and> (cl_piece_selected c' \<longleftrightarrow>
               ce_send env (cl_socket_fd c) (CM_MOVE (Some \<lparr>mvq_from = square_name sx sy,
                 mvq_to = square_name x y\<rparr>)) (cl_sent c) < 0))"
proof (cases "cl_piece_selected c")
  case False
  then show ?thesis
    by (auto simp: handle_board_click_def click_select_def Let_def)
next
  case True
  let ?sx = "cl_selected_x c" and ?sy = "cl_selected_y c"
  have sel: "in_board ?sx ?sy" using True assms(1) by (simp add: client_ok_def)
  then have range: "\<not> (?sx < 0 \<or> ?sx \<ge> 8 \<or> ?sy < 0 \<or> ?sy \<ge> 8)" by (auto simp: in_board_def)
  note names = server_coord.parse_name [OF sel] server_coord.parse_name [OF assms(2)]
    network_coord.parse_name [OF sel] network_coord.parse_name [OF assms(2)]
  show ?thesis
  proof (cases "x = ?sx \<and> y = ?sy")
    case False
    with True range show ?thesis
      by (auto simp: handle_board_click_def click_move_def Let_def case_prod_beta names
          send_move_sent assms(3) square_letters sel assms(2) send_move_request_def)
  qed (use True in \<open>simp add: handle_board_click_def click_move_def Let_def\<close>)
qed

text \<open>A connected client in a game that has just started, playing White.\<close>

definition demo_env :: client_env where
  "demo_env = \<lparr>ce_time = \<lambda>n. 1000 + int n, ce_date = \<lambda>_. ''2025.06.01'',
     ce_replay_name = \<lambda>_. ''replays/game.pgn'', ce_mkdir_ok = True, ce_fopen_ok = True,
     ce_send = \<lambda>_ _ _. 0\<rparr>"

definition demo_match :: MatchGameResponse where
  "demo_match = \<lparr>mgr_game_id = ''g'', mgr_success = True, mgr_message = [],
     mgr_assigned_team = TEAM__TEAM_WHITE, mgr_opponent_name = ''bob'',
     mgr_time_limit_per_player = 600, mgr_game_start_time = Some 1000,
     mgr_white_time_remaining = 600, mgr_black_time_remaining = 600\<rparr>"

definition demo_client :: client_t where
  "demo_client = (ms_client (client_boot ''localhost'' 9090))
     \<lparr>cl_connected := True, cl_socket_fd := 5, cl_username := ''ann''\<rparr>"

definition demo_player :: client_t where
  "demo_player = snd (handle_match_game_response demo_env (SM_MATCH_GAME_RES demo_match) demo_client)"

lemma demo_client_ok: "client_ok demo_client"
  using client_ok_reachable [OF client_reachable.Boot, of "''localhost''" 9090]
  by (simp add: demo_client_def client_ok_def client_boot_def client_start_def init_client_state_def
      static_client_def)

lemma demo_player_ok: "client_ok demo_player"
  using client_ok_dispatch [OF demo_client_ok, of demo_env "SM_MATCH_GAME_RES demo_match"]
  by (simp add: demo_player_def dispatch_server_message_def)

lemma demo_player_fields:
  "gs_game (cl_gs demo_player) = new_game_t" "gs_local_team (cl_gs demo_player) = TEAM_WHITE"
  "cl_connected demo_player" "\<not> cl_piece_selected demo_player" "cl_socket_fd demo_player = 5"
  by (simp_all add: demo_player_def match_response_fields demo_match_def)
    (simp_all add: client_start_game_def handle_match_game_response_def Let_def on_gs_def
      request_update_def add_chat_message_safe_def demo_client_def client_boot_def client_start_def
      init_client_state_def)

lemma board_click_outcome_witness:
  "cl_piece_selected (handle_board_click demo_env 4 1 demo_player)
   \<and> \<not> cl_piece_selected (handle_board_click demo_env 4 6 demo_player)"
  using board_click_outcome [OF demo_player_ok _ demo_player_fields(3), of 4 1 demo_env]
    board_click_outcome [OF demo_player_ok _ demo_player_fields(3), of 4 6 demo_env]
  by (simp add: demo_player_fields in_board_def Let_def new_game_t_def startpos_def start_board_def
      new_piece_def)

lemma notation_sent:
  "cl_sent (snd (handle_chess_notation env s c)) = cl_sent c
   \<or> cl_sent (snd (handle_chess_notation env s c)) =
       cl_sent (snd (send_move_request env [char_at s 0, char_at s 1] [char_at s 2, char_at s 3] c))
     \<and> length s = 4"
  by (simp add: handle_chess_notation_def Let_def case_prod_beta)

lemma rank_not_typed:
  assumes "c \<notin> set menu_keys" "parse_chess_coordinate_network [a, c] = Some (x, y)"
  shows "y \<ge> 4"
proof -
  have y: "y = code c - 49" "0 \<le> y"
    using assms(2) by (auto simp: parse_chess_coordinate_network_def char_at_def Let_def split: if_splits)
  have "code c \<noteq> 49" "code c \<noteq> 50" "code c \<noteq> 51" "code c \<noteq> 52"
    using assms(1) code_inj [of c "CHR ''1''"] code_inj [of c "CHR ''2''"] code_inj [of c "CHR ''3''"]
      code_inj [of c "CHR ''4''"]
    by (auto simp: menu_keys_def) (simp_all add: code_def)
  with y show ?thesis by linarith
qed

text \<open>
  C20: a move typed in the chat line after \<open>move:\<close> that reaches the server starts and ends on the
  ranks 5 to 8, because the digits 1 to 4 are taken by the menu of the game screen before the chat
  line sees them. So White can never type a first move.
\<close>

lemma typed_moves_limited:
  assumes "client_ok c" "cl_sent (chat_submit env c) = cl_sent c @ [(fd, CM_MOVE (Some r))]"
  shows "\<exists>x y x' y'. parse_chess_coordinate (mvq_from r) = Some (x, y)
     \<and> parse_chess_coordinate (mvq_to r) = Some (x', y') \<and> y \<ge> 4 \<and> y' \<ge> 4"
proof (cases "take 5 (cl_chat_input c) = ''move:''")
  case True
  define s where "s = dropWhile (\<lambda>ch. ch = CHR '' '') (drop 5 (cl_chat_input c))"
  have "set s \<subseteq> set (cl_chat_input c)"
    unfolding s_def by (meson set_drop_subset set_dropWhileD subset_eq)
  then have free: "ch \<notin> set menu_keys" if "ch \<in> set s" for ch
    using that assms(1) by (auto simp: client_ok_def)
  let ?from = "[char_at s 0, char_at s 1]" and ?to = "[char_at s 2, char_at s 3]"
  have sent: "cl_sent (snd (handle_chess_notation env s c)) = cl_sent c @ [(fd, CM_MOVE (Some r))]"
    using assms(2) True by (simp add: chat_submit_def s_def)
  with notation_sent [of env s c] have len: "length s = 4"
    and "cl_sent (snd (send_move_request env ?from ?to c)) = cl_sent c @ [(fd, CM_MOVE (Some r))]"
    by auto
  then have r: "mvq_from r = ?from" "mvq_to r = ?to"
    and p: "parse_chess_coordinate_network ?from \<noteq> None" "parse_chess_coordinate_network ?to \<noteq> None"
    by (auto simp: send_move_sent split: if_splits)
  have mem: "char_at s 1 \<notin> set menu_keys" "char_at s 3 \<notin> set menu_keys"
    using len by (auto simp: char_at_def intro!: free nth_mem)
  from p obtain x y x' y' where q: "parse_chess_coordinate_network ?from = Some (x, y)"
    "parse_chess_coordinate_network ?to = Some (x', y')" by auto
  with rank_not_typed [OF mem(1) q(1)] rank_not_typed [OF mem(2) q(2)] show ?thesis
    by (auto simp: r parse_network_copy)
next
  case False
  with assms(2) show ?thesis
    by (simp add: chat_submit_def send_chat_message_def split: if_splits)
qed

definition typed_client :: client_t where
  "typed_client = demo_player\<lparr>cl_chat_input := ''move:e7e5'',
     cl_gs := (cl_gs demo_player)\<lparr>gs_local_team := TEAM_BLACK,
       gs_game := new_game_t\<lparr>side_to_move := TEAM_BLACK\<rparr>\<rparr>\<rparr>"

lemma typed_client_ok: "client_ok typed_client"
  using demo_player_ok
  by (auto simp: typed_client_def client_ok_def gs_ok_def chat_ok_def pgn_ok_def menu_keys_def)

lemma typed_client_sends:
  "cl_sent (chat_submit demo_env typed_client) = cl_sent typed_client @
     [(5, CM_MOVE (Some \<lparr>mvq_from = ''e7'', mvq_to = ''e5''\<rparr>))]"
proof -
  have "cl_current_screen demo_player = SCREEN_GAME"
    by (simp add: demo_player_def demo_match_def handle_match_game_response_def Let_def on_gs_def
        request_update_def)
  moreover have "parse_chess_coordinate_network ''e7'' = Some (4, 6)"
    "parse_chess_coordinate_network ''e5'' = Some (4, 4)"
    by (simp_all add: parse_chess_coordinate_network_def char_at_def code_def)
  ultimately show ?thesis
    by (simp add: chat_submit_def typed_client_def handle_chess_notation_def Let_def case_prod_beta
        char_at_def code_def new_game_t_def startpos_def start_board_def new_piece_def in_board_def
        send_move_sent demo_player_fields demo_env_def send_move_request_def)
qed

lemma typed_moves_limited_witness:
  "\<exists>x y x' y'. parse_chess_coordinate ''e7'' = Some (x, y)
     \<and> parse_chess_coordinate ''e5'' = Some (x', y') \<and> y \<ge> 4 \<and> y' \<ge> 4"
  using typed_moves_limited [OF typed_client_ok typed_client_sends] by simp

section \<open>The start and the end of a game\<close>

text \<open>
  The answer that a match is found. The client shows the game screen with the start position,
  White to move, the colour assigned, the clocks of the server (or ten minutes each), an empty move
  record and the result \<open>*\<close>. The check marks, the selected square and the flag of an ended game
  are those of the game before.
\<close>

lemma match_start_client:
  assumes "mgr_success r" "mgr_assigned_team r \<noteq> TEAM__TEAM_UNSPECIFIED"
  shows "(let c' = snd (handle_match_game_response env (SM_MATCH_GAME_RES r) c);
              gs = cl_gs c; gs' = cl_gs c'; timed = (mgr_time_limit_per_player r > 0) in
     cl_current_screen c' = SCREEN_GAME \<and> gs_game_in_progress gs'
     \<and> same_position (init_startpos zero_game) (gs_game gs')
     \<and> gs_local_team gs' = proto_to_team (mgr_assigned_team r)
     \<and> gs_opponent_player gs' = take 31 (mgr_opponent_name r)
     \<and> gs_white_time gs' = (if timed then mgr_white_time_remaining r else 600)
     \<and> gs_black_time gs' = (if timed then mgr_black_time_remaining r else 600)
     \<and> gs_pgn_move_count gs' = 0 \<and> gs_pgn_result gs' = ''*''
     \<and> gs_white_in_check gs' = gs_white_in_check gs \<and> gs_black_in_check gs' = gs_black_in_check gs
     \<and> gs_opponent_disconnected gs' = gs_opponent_disconnected gs
     \<and> cl_piece_selected c' = cl_piece_selected c)"
proof -
  have "same_position (init_startpos zero_game) new_game_t"
    by (simp add: init_startpos_eq new_game_same)
  then show ?thesis
    using assms
    by (cases "mgr_assigned_team r")
      (simp_all add: Let_def match_response_fields,
       simp_all add: handle_match_game_response_def client_start_game_def Let_def on_gs_def
         add_chat_message_safe_def add_chat_message_def request_update_def c_trunc_def
         MAX_PLAYER_NAME_LENGTH_def)
qed

lemma match_start_client_witness:
  "gs_white_time (cl_gs (snd (handle_match_game_response demo_env (SM_MATCH_GAME_RES demo_match)
     demo_client))) = 600"
  using match_start_client [of demo_match demo_env demo_client]
  by (simp add: demo_match_def Let_def)

text \<open>
  A resignation. The handler first notes the winner and then saves the game, and saving writes
  the result again from the position: unless the board shows a mate or a stalemate or an end of
  the game was announced before, the saved result is \<open>*\<close>, whoever resigned.
\<close>

lemma resign_result_lost:
  assumes "gs_pgn_move_count (cl_gs c) > 0" "ce_mkdir_ok env"
    "\<not> is_checkmate (gs_game (cl_gs c))" "\<not> is_stalemate (gs_game (cl_gs c))"
    "\<not> gs_opponent_disconnected (cl_gs c)"
  shows "(let c' = snd (handle_resign_broadcast env (SM_RESIGN_BROADCAST b) c) in
     gs_pgn_result (cl_gs c') = ''*'' \<and> \<not> gs_game_in_progress (cl_gs c')
     \<and> cl_resign_result_dialog_pending c'
     \<and> cl_resign_result_title c' =
         (if rsb_player_id b = cl_username c then ''Game Over - Resignation''
          else ''Game Over - Victory''))"
proof -
  have saved: "gs_pgn_result (cl_gs (save_game env k c')) = ''*''"
    if "gs_pgn_move_count (cl_gs c') = gs_pgn_move_count (cl_gs c)"
      "gs_game (cl_gs c') = gs_game (cl_gs c)"
      "gs_opponent_disconnected (cl_gs c') = gs_opponent_disconnected (cl_gs c)" for k c'
    using that assms
    by (auto simp: save_game_def save_current_game_def write_pgn_def Let_def game_result_def
        split: prod.split option.split)
  show ?thesis
    by (simp add: handle_resign_broadcast_def Let_def request_update_def on_gs_def saved
        add_chat_message_safe_def)
qed

definition demo_resign :: ResignBroadcast where
  "demo_resign = \<lparr>rsb_game_id = ''g'', rsb_player_id = ''bob'', rsb_winner_team = TEAM__TEAM_WHITE\<rparr>"

lemma resign_result_lost_witness:
  "gs_pgn_result (cl_gs (snd (handle_resign_broadcast demo_env (SM_RESIGN_BROADCAST demo_resign)
     (demo_player\<lparr>cl_gs := (cl_gs demo_player)\<lparr>gs_pgn_move_count := 1\<rparr>\<rparr>)))) = ''*''"
proof -
  have "\<not> gs_opponent_disconnected (cl_gs demo_player)"
    using match_start_client [of demo_match demo_env demo_client]
    by (simp add: demo_player_def demo_match_def Let_def demo_client_def client_boot_def
        client_start_def init_client_state_def init_game_state_def)
  then show ?thesis
    using resign_result_lost [of "demo_player\<lparr>cl_gs := (cl_gs demo_player)\<lparr>gs_pgn_move_count := 1\<rparr>\<rparr>"
        demo_env demo_resign]
    by (simp add: demo_player_fields new_game_open demo_env_def Let_def)
qed

section \<open>Replay files\<close>

text \<open>
  C16: a game that is saved is read back from its file as exactly the moves recorded, in their
  order, when the names in the header are single lines; and the result tag is that of the position.
\<close>

lemma saved_game_roundtrip:
  assumes "pgn_ok gs" "one_line (gs_local_player gs)" "one_line (gs_opponent_player gs)"
    "one_line (ce_date env t_date)"
    "save_current_game env t_name t_date gs = (gs', Some (name, content))"
  shows "load_moves (Some content) = take (gs_pgn_move_count gs) (gs_pgn_moves gs)
     \<and> name = ce_replay_name env t_name \<and> gs_pgn_result gs' = game_result gs
     \<and> gs_pgn_move_count gs > 0"
proof -
  let ?gs1 = "gs\<lparr>gs_pgn_result := game_result gs\<rparr>"
  have "one_line (game_result gs)" by (simp add: one_line_def game_result_def)
  moreover have "pgn_ok ?gs1" using assms(1) by (simp add: pgn_ok_def)
  ultimately have "load_moves (Some (pgn_header (ce_date env t_date) ?gs1
      @ pgn_body (gs_pgn_move_count gs) (gs_pgn_moves gs))) = take (gs_pgn_move_count gs) (gs_pgn_moves gs)"
    using load_saved [of "ce_date env t_date" ?gs1] assms(2-4) by simp
  with assms(5) show ?thesis
    by (auto simp: save_current_game_def write_pgn_def Let_def split: if_splits)
qed

text \<open>
  C14: a recorded game can be replayed. After a match starts and at most 512 well-formed moves
  arrive, no two in a row the same, the record holds exactly these moves; and the replay of the
  record up to its last move shows the very position of the client.
\<close>

lemma recorded_game_replays:
  assumes "mgr_success r" "mgr_assigned_team r \<noteq> TEAM__TEAM_UNSPECIFIED" "pgn_ok (cl_gs c)"
    "list_all named_move bs" "length bs \<le> 512" "distinct_adj (map move_text bs)"
  shows "(let gs = cl_gs (fold (\<lambda>b c. snd (handle_move_broadcast env (SM_MOVE_BROADCAST b) c)) bs
                           (snd (handle_match_game_response env0 (SM_MATCH_GAME_RES r) c)))
          in take (gs_pgn_move_count gs) (gs_pgn_moves gs) = map move_text bs
           \<and> replay_to_move \<lparr>rp_moves = map move_text bs, rp_current_move = - 1, rp_auto_play = False,
               rp_last_auto_play_time = t\<rparr> (int (length bs) - 1) (gs_game gs) = gs_game gs)"
proof -
  let ?c = "snd (handle_match_game_response env0 (SM_MATCH_GAME_RES r) c)"
  let ?gs = "cl_gs (fold (on_broadcast env) bs ?c)"
  have eta: "(\<lambda>b c. snd (handle_move_broadcast env (SM_MOVE_BROADCAST b) c)) = on_broadcast env"
    by (simp add: fun_eq_iff on_broadcast_def)
  have start: "gs_game (cl_gs ?c) = new_game_t" "pgn_view (cl_gs ?c) = []" "pgn_ok (cl_gs ?c)"
    using assms(3) by (simp_all add: match_response_fields assms(1,2) pgn_view_def pgn_ok_def)
  have b: "pgn_view ?gs = map move_text bs"
    "gs_game ?gs = fold replay_move (map move_text bs) new_game_t"
    using broadcasts_replay [OF assms(4) start(3)] assms(5,6) start by simp_all
  then have "extra (gs_game ?gs) = extra new_game_t" by (simp add: extra_replay)
  then have "startpos (gs_game ?gs) = new_game_t" by (rule startpos_new_game)
  with b show ?thesis
    by (simp add: eta replay_to_move_def reset_startpos pgn_view_def)
qed

definition demo_moves :: "MoveBroadcast list" where
  "demo_moves = map (\<lambda>(from, to).
     \<lparr>mvb_game_id = ''g'', mvb_player_id = ''ann'', mvb_from = from, mvb_to = to,
      mvb_promotion = PIECE_TYPE__PT_NONE, mvb_game_ends = False,
      mvb_winner_team = TEAM__TEAM_UNSPECIFIED, mvb_end_type = GAME_END_UNKNOWN,
      mvb_is_check = False, mvb_checked_team = TEAM__TEAM_UNSPECIFIED,
      mvb_white_time_remaining = 600, mvb_black_time_remaining = 600,
      mvb_move_timestamp = Some 1010\<rparr>) [(''e2'', ''e4''), (''e7'', ''e5'')]"

lemma demo_moves_ok: "list_all named_move demo_moves" "distinct_adj (map move_text demo_moves)"
    "map move_text demo_moves = [''e2e4'', ''e7e5'']" "length demo_moves = 2"
  by (simp_all add: demo_moves_def named_move_def parse_chess_coordinate_client_def char_at_def code_def)

lemma recorded_game_replays_witness:
  "(let gs = cl_gs (fold (\<lambda>b c. snd (handle_move_broadcast demo_env (SM_MOVE_BROADCAST b) c)) demo_moves
                 (snd (handle_match_game_response demo_env (SM_MATCH_GAME_RES demo_match) demo_client)))
    in take (gs_pgn_move_count gs) (gs_pgn_moves gs) = [''e2e4'', ''e7e5''])"
proof -
  have "pgn_ok (cl_gs demo_client)"
    using demo_client_ok by (simp add: client_ok_def gs_ok_def)
  from recorded_game_replays [OF _ _ this demo_moves_ok(1) _ demo_moves_ok(2), of demo_match demo_env demo_env]
  show ?thesis by (simp add: demo_match_def demo_moves_ok Let_def)
qed

lemma saved_game_roundtrip_witness:
  "(case save_current_game demo_env 1 2 ((init_game_state (cl_gs static_client))
          \<lparr>gs_pgn_moves := ''e2e4'' # ''e7e5'' # replicate 510 [], gs_pgn_move_count := 2\<rparr>) of
      (gs', Some (name, content)) \<Rightarrow> load_moves (Some content) = [''e2e4'', ''e7e5'']
    | _ \<Rightarrow> False)"
proof -
  let ?gs = "(init_game_state (cl_gs static_client))
          \<lparr>gs_pgn_moves := ''e2e4'' # ''e7e5'' # replicate 510 [], gs_pgn_move_count := 2\<rparr>"
  obtain gs' name content where s: "save_current_game demo_env 1 2 ?gs = (gs', Some (name, content))"
    by (simp add: save_current_game_def write_pgn_def demo_env_def Let_def)
  have ok: "pgn_ok ?gs"
    by (simp add: pgn_ok_def MAX_PGN_MOVES_def is_move_name_def parse_chess_coordinate_client_def
        char_at_def code_def)
  have "one_line (gs_local_player ?gs)" "one_line (gs_opponent_player ?gs)"
    "one_line (ce_date demo_env 2)"
    by (simp_all add: one_line_def init_game_state_def demo_env_def)
  from saved_game_roundtrip [OF ok this s] s show ?thesis by simp
qed

section \<open>The replay and the game\<close>















end
