(* ===== verification/Joint_Thms.thy ===== *)
theory Joint_Thms
  imports Joint Server_System Client_Thms
begin

text \<open>
  What spans the components, on the queues: the clients that are not astray hold the server's position,
  and what they mark is what the server accepts. \<open>Wire\<close> takes it to the bytes of the connections.
\<close>

section \<open>Clients follow the server\<close>

text \<open>
  Whatever the clients send and whenever their threads run: the position that a client that is not
  astray has when it has read its messages is the position of the game on the server. Once its queue
  is empty its board shows the same pieces on every square, the same side to move and the same legal
  moves.
\<close>

theorem clients_follow_server:
  assumes "joint_reachable net Z"
    and "g \<in> set (active_games (jn_server Z))" "plays f g" "\<not> jn_astray Z f"
  shows "same_position (game_state g) (fold see (jn_inbox Z f) (gs_game (cl_gs (jn_client Z f))))
    \<and> (jn_inbox Z f = [] \<longrightarrow>
        board (gs_game (cl_gs (jn_client Z f))) = board (game_state g)
        \<and> side_to_move (gs_game (cl_gs (jn_client Z f))) = side_to_move (game_state g)
        \<and> (\<forall>sx sy x y. is_move_legal (gs_game (cl_gs (jn_client Z f))) sx sy x y \<longleftrightarrow>
                        is_move_legal (game_state g) sx sy x y))"
proof -
  have same: "same_position (game_state g) (seen Z f)"
    using joint_reachable_ok [OF assms(1)] assms(2-4) by (auto simp: joint_ok_def)
  moreover have "seen Z f = gs_game (cl_gs (jn_client Z f))" if "jn_inbox Z f = []"
    using that by (simp add: seen_def)
  ultimately show ?thesis
    using same_position_fields [OF same] same_position_rules(1) [OF same] by (auto simp: seen_def)
qed

section \<open>Reading a message\<close>

lemma connected_parts:
  "cl_connected (on_gs f c) = cl_connected c" "cl_connected (add_chat_message_safe t s m c) = cl_connected c"
  "cl_connected (request_update c) = cl_connected c" "cl_connected (show_dialog c) = cl_connected c"
  by (simp_all add: on_gs_def add_chat_message_safe_def request_update_def show_dialog_def
      draw_current_screen_def draw_game_screen_def split: screen_state_t.split)

lemma connected_save: "cl_connected (save_game env k c) = cl_connected c"
  by (auto simp: save_game_def Let_def split: prod.split option.split)

lemma connected_end: "cl_connected (broadcast_end env b c) = cl_connected c"
  by (simp add: broadcast_end_def Let_def connected_parts connected_save)

lemma connected_board: "cl_connected (broadcast_board env b c) = cl_connected c"
  by (simp add: broadcast_board_def case_prod_beta Let_def connected_parts)

text \<open>No message of the server closes the connection.\<close>

lemma dispatch_connected [simp]:
  "cl_connected (snd (dispatch_server_message env msg c)) = cl_connected c"
  by (cases msg) (simp_all add: dispatch_server_message_def handle_ping_response_def handle_echo_response_def
      handle_chat_broadcast_def handle_error_response_def handle_cancel_match_response_def
      handle_resign_response_def handle_move_response_def handle_match_game_response_def
      handle_move_broadcast_def handle_game_end_broadcast_def handle_check_broadcast_def
      handle_resign_broadcast_def Let_def connected_parts connected_save connected_end connected_board)

definition take_one :: "client_env \<Rightarrow> ServerMessage \<Rightarrow> net_event" where
  "take_one env msg = \<lparr>ne_env = env, ne_addrs = None, ne_received = Some msg\<rparr>"

section \<open>Marks and moves\<close>

abbreviation move_request :: "int \<Rightarrow> int \<Rightarrow> int \<Rightarrow> int \<Rightarrow> MoveRequest" where
  "move_request fx fy tx ty \<equiv>
     \<lparr>mvq_from = format_chess_coordinate fx fy, mvq_to = format_chess_coordinate tx ty\<rparr>"

definition marked :: "int \<Rightarrow> int \<Rightarrow> game_state_t \<Rightarrow> bool" where
  "marked x y gs \<longleftrightarrow> gs_possible_moves gs y x \<or> gs_capture_moves gs y x"

lemma found_slot:
  assumes "server_ok S" "players_ok A S" "\<not> A f" "i < 50" "plays f (active_games S ! i)"
  shows "find_game_by_player_fd f S = Some i"
proof -
  have len: "length (active_games S) = 50" using server_okD(5) [OF assms(1)] .
  obtain k where k: "find_game_by_player_fd f S = Some k"
    using found_game [of i S f] assms(4,5) len by auto
  then have "plays f (active_games S ! k)" "k < 50"
    using find_game_SomeD [OF assms(1) k] by (auto simp: plays_def)
  with players_okD(1) [OF assms(2,3), of i k] assms(4,5) len k show ?thesis by simp
qed

text \<open>The game after a request is the game after the move, if the server plays it.\<close>

lemma request_effect:
  assumes "server_ok S" "find_game_by_player_fd f S = Some i" "in_board fx fy" "in_board tx ty"
    and "side_to_move (game_state (active_games S ! i)) =
           (if white_player_fd (active_games S ! i) = f then TEAM_WHITE else TEAM_BLACK)"
    and "handle_move_message net clk f (CM_MOVE (Some (move_request fx fy tx ty))) S = Some (r, S')"
  shows "game_state (active_games S' ! i) =
    (if is_move_legal (game_state (active_games S ! i)) fx fy tx ty
     then apply_move (game_state (active_games S ! i)) fx fy tx ty
     else game_state (active_games S ! i))"
proof -
  let ?q = "move_request fx fy tx ty" and ?g = "active_games S ! i"
  have names: "parse_chess_coordinate (mvq_from ?q) = Some (fx, fy)" "parse_chess_coordinate (mvq_to ?q) = Some (tx, ty)"
    using assms(3,4) by (simp_all add: server_coord.parse_format)
  show ?thesis
  proof (cases "is_move_legal (game_state ?g) fx fy tx ty")
    case True
    with assms(2,5) names have p: "playable S f ?q i fx fy tx ty" by (simp add: playable_def)
    define h where "h = moved_game clk ?g fx fy tx ty"
    note ok = playable_set_ok(1) [OF assms(1) p, where clk = clk, folded h_def] playable_set_ok(2,3) [OF assms(1) p]
    have len: "length (active_games S) = 50" using server_okD(5) [OF assms(1)] .
    have h: "is_active h" "game_state h = apply_move (game_state ?g) fx fy tx ty" using ok(3) by (simp_all add: h_def)
    have act: "is_active (active_games (game_set i h S) ! i)" using ok(2) len h by simp
    show ?thesis
      using assms(6) handle_move_playable [OF assms(1) p, of net clk] True ok(2) len h(2)
      by (auto simp: Let_def h_def [symmetric] finish_move_eq [OF ok(1,2) act] game_drop_def split: if_splits)
  next
    case False
    with assms(2) names have "\<not> playable S f ?q k a b c d" for k a b c d by (auto simp: playable_def)
    from handle_move_refused [OF this, of net clk] assms(6) obtain gid pid msg where
      "(r, S') = send_move_error net f gid pid msg S" by (metis option.inject)
    with False show ?thesis by (simp add: send_move_error_def send_out)
  qed
qed

text \<open>
  Once a client that is not astray has read its messages and it is its player's turn, the squares that
  its screen marks for a piece are those to which the server lets it move.
\<close>

lemma joint_marks:
  assumes "joint_reachable sending_net Z" "\<not> jn_astray Z f" "jn_inbox Z f = []"
    and "i < 50" "plays f (active_games (jn_server Z) ! i)"
    and "side_to_move (game_state (active_games (jn_server Z) ! i)) =
           (if white_player_fd (active_games (jn_server Z) ! i) = f then TEAM_WHITE else TEAM_BLACK)"
    and "in_board fx fy" "in_board tx ty"
    and "handle_move_message net clk f (CM_MOVE (Some (move_request fx fy tx ty))) (jn_server Z) = Some (r, S')"
  shows "game_state (active_games S' ! i) =
    (if marked tx ty (calculate_possible_moves fx fy True (cl_gs (jn_client Z f)))
     then apply_move (game_state (active_games (jn_server Z) ! i)) fx fy tx ty
     else game_state (active_games (jn_server Z) ! i))"
proof -
  note ok = joint_okD [OF joint_reachable_ok [OF assms(1)]]
  have "seen Z f = game_of (jn_client Z f)" using assms(3) by (simp add: seen_def)
  with same_position_rules(1) [OF ok(4) [OF assms(4,5,2)]] have
    "is_move_legal (game_of (jn_client Z f)) fx fy tx ty \<longleftrightarrow>
       is_move_legal (game_state (active_games (jn_server Z) ! i)) fx fy tx ty" by simp
  then show ?thesis
    using request_effect [OF ok(1) found_slot [OF ok(1,2) assms(2,4,5)] assms(7,8,6,9)]
    by (auto simp: marked_def marks_legal)
qed

end
