(* ===== verification/Lobby_Thms.thy ===== *)
theory Lobby_Thms
  imports Lobby_Refine Joint_Thms
begin

text \<open>
  The properties of the server as a lobby, and of the clients that follow it: every game is a line of
  legal moves from the start position, on the server and on the screens of its players.
\<close>

section \<open>The server\<close>

text \<open>
  C3: the server refines a lobby. It starts empty; what a client sends, or that its connection is
  lost, is one action of that client in the lobby or none at all (it waits, meets the player who waits
  in a new game, leaves, makes a legal move when it is on move, decides its game by it, or gives up);
  accepting connections changes nothing; and a pass of the timer takes time from the clocks of the
  sides to move and ends exactly the games whose time is up.
\<close>

theorem server_refines_lobby:
  assumes "reachable net Y"
  shows "lobby_of (srv boot_system) = empty_lobby
    \<and> (\<forall>fd readable received mclk vclk Y'.
        process_event net (READY_CLIENT fd readable received mclk vclk) Y = Some Y' \<longrightarrow>
        lobby_of (srv Y') = lobby_of (srv Y) \<or> lobby_act fd (lobby_of (srv Y)) (lobby_of (srv Y')))
    \<and> (\<forall>evs Y'. process_event net (READY_LISTENER evs) Y = Some Y' \<longrightarrow> lobby_of (srv Y') = lobby_of (srv Y))
    \<and> (\<forall>now. no_clock_jump now (srv Y) \<longrightarrow>
        lobby_tick (lobby_of (srv Y)) (lobby_of (srv (timer_pass net now Y))))"
proof -
  note ok = reachable_ok [OF assms]
  have "lobby_of (srv Y') = lobby_of (srv Y)" if "process_event net (READY_LISTENER evs) Y = Some Y'" for evs Y'
    using that by (auto simp: process_event_def)
  then show ?thesis
    using acts_event [OF ok] timer_ticks [OF ok] boot_lobby
    by (auto simp: acts_def boot_system_def timer_pass_def)
qed

theorem server_refines_lobby_witness:
  "\<exists>Y Y'. reachable fine Y \<and> process_event fine (ask 7 ''ann'') Y = Some Y'
     \<and> lobby_act 7 (lobby_of (srv Y)) (lobby_of (srv Y'))"
proof -
  obtain S1 S2 where
    r: "handle_client_message fine demo_clock zero_clock 5 (Some (ask_msg ''bob'')) boot = Some (False, S1)"
    "handle_client_message fine demo_clock zero_clock 7 (Some (ask_msg ''ann'')) S1 = Some (False, S2)"
    and games: "active_games S1 = active_games boot" "is_active (active_games S2 ! 0)" by (rule two_requests)
  let ?Y = "\<lparr>srv = S1, connections = []\<rparr>" and ?Y' = "\<lparr>srv = S2, connections = []\<rparr>"
  from r have "process_event fine (ask 5 ''bob'') boot_system = Some ?Y"
    and 2: "process_event fine (ask 7 ''ann'') ?Y = Some ?Y'"
    by (simp_all add: process_event_def ask_def boot_system_def)
  then have reach: "reachable fine ?Y" "reachable fine ?Y'"
    by (blast intro: reachable.intros server_step.event)+
  have "lb_matches (lobby_of S2) (game_id (active_games S2 ! 0)) \<noteq> None"
    using matches_active [OF reachable_ok [OF reach(2)], of 0] games(2) by simp
  moreover have "lb_matches (lobby_of S1) = lb_matches (lobby_of boot)" by (simp add: games(1))
  ultimately have "lobby_of S2 \<noteq> lobby_of S1" by (auto simp: boot_lobby empty_lobby_def simp del: lobby_of_fields)
  moreover have "lobby_of (srv ?Y') = lobby_of (srv ?Y) \<or> lobby_act 7 (lobby_of (srv ?Y)) (lobby_of (srv ?Y'))"
    using server_refines_lobby [OF reach(1)] 2 unfolding ask_def by blast
  ultimately have "lobby_act 7 (lobby_of S1) (lobby_of S2)" by simp
  with reach(1) 2 show ?thesis by force
qed

text \<open>
  C10: in every state that the server can reach, the position of a running game was reached from the
  start position by a sequence of legal moves.
\<close>

theorem games_are_played:
  assumes "reachable net Y" "g \<in> set (active_games (srv Y))" "is_active g"
  shows "\<exists>G0 ms. play (init_startpos G0) ms = Some (game_state g)"
  using game_played [OF assms] by (simp add: played_def init_startpos_eq)

theorem games_are_played_witness:
  "\<exists>Y. reachable fine Y \<and> is_active (active_games (srv Y) ! 0)
     \<and> (\<exists>G0 ms. play (init_startpos G0) ms = Some (game_state (active_games (srv Y) ! 0)))"
proof -
  obtain Y where Y: "reachable fine Y" "is_active (active_games (srv Y) ! 0)" "length (active_games (srv Y)) = 50"
    using two_players_meet by metis
  from games_are_played [OF Y(1) _ Y(2)] Y show ?thesis by force
qed

section \<open>The server among its clients\<close>

definition server_of :: "joint_t \<Rightarrow> system_t" where
  "server_of Z = \<lparr>srv = jn_server Z, connections = []\<rparr>"

lemma boot_lobby_system: "jn_server Z = boot \<Longrightarrow> server_of Z = boot_system"
  by (simp add: server_of_def boot_system_def)

lemma server_of_event:
  assumes "handle_client_message net mclk vclk f received (jn_server Z) = Some (closed, S')"
  shows "server_step net (server_of Z) \<lparr>srv = S', connections = []\<rparr>"
proof (rule server_step.event)
  show "process_event net (READY_CLIENT f True received mclk vclk) (server_of Z) = Some \<lparr>srv = S', connections = []\<rparr>"
    using assms by (simp add: process_event_def server_of_def)
qed

lemma joint_server_step:
  assumes "joint_step net Z Z'"
  shows "(server_step net)\<^sup>*\<^sup>* (server_of Z) (server_of Z')"
  using assms
proof (cases rule: joint_step.cases)
  case (request f mclk vclk msg closed S')
  with server_of_event [OF request(3)] show ?thesis by (auto simp: server_of_def)
next
  case (hangup mclk vclk f closed S')
  with server_of_event [OF hangup(2)] show ?thesis by (auto simp: server_of_def)
next
  case (tick now S')
  with server_step.tick [of now "server_of Z" net] show ?thesis by (auto simp: server_of_def timer_pass_def)
qed (auto simp: server_of_def)

interpretation joint: simulation "\<lambda>Z. jn_server Z = boot" "joint_step net" "joint_reachable net"
    server_of "\<lambda>Y. Y = boot_system" "server_step net" "reachable net" for net
proof unfold_locales
  fix Z P
  assume "joint_reachable net Z" "\<And>Z. jn_server Z = boot \<Longrightarrow> P Z"
    "\<And>Z Z'. joint_reachable net Z \<Longrightarrow> P Z \<Longrightarrow> joint_step net Z Z' \<Longrightarrow> P Z'"
  then show "P Z" by (induction rule: joint_reachable.induct) blast+
qed (auto intro: joint_reachable.intros joint_server_step simp: boot_lobby_system)

text \<open>
  What the players see is a game of chess: the board of a player who is not astray and has read all
  messages shows a position that is reached from the start position by a sequence of legal moves, with
  the same side to move.
\<close>

theorem clients_see_played_games:
  assumes "joint_reachable net Z" "\<not> jn_astray Z f"
    and "g \<in> set (active_games (jn_server Z))" "plays f g" "jn_inbox Z f = []"
  shows "\<exists>G0 ms G. play (init_startpos G0) ms = Some G
    \<and> board (gs_game (cl_gs (jn_client Z f))) = board G
    \<and> side_to_move (gs_game (cl_gs (jn_client Z f))) = side_to_move G"
proof -
  have "same_position (game_state g) (seen Z f)"
    using joint_reachable_ok [OF assms(1)] assms(2-4) by (auto simp: joint_ok_def)
  then have same: "same_position (game_state g) (gs_game (cl_gs (jn_client Z f)))"
    using assms(5) by (simp add: seen_def)
  have "reachable net (server_of Z)" by (rule joint.reach_abs [OF assms(1)])
  then have "played (game_state g)" using game_played assms(3,4) by (simp add: server_of_def plays_def)
  with same_position_fields [OF same] show ?thesis by (metis played_def init_startpos_eq)
qed

end
