(* ===== verification/Network.thy ===== *)
theory Network
  imports Prelude
begin

text \<open>
  \<open>common/network.c\<close>: sending and receiving whole buffers over a stream socket, and the frames
  of the protocol, a 32-bit big-endian length and the packed message.

  A system call takes its outcome from a schedule, a list with one entry per call: how many bytes
  the kernel is willing to move, an interruption by a signal, an error, the end of the stream. A
  schedule that has run out is a call that has not returned, so the value \<open>None\<close> of an operation
  means that it still blocks. Packing and unpacking of messages is the protobuf library's and a
  parameter; so is the success of \<open>malloc\<close>.
\<close>

type_synonym byte = "8 word"

section \<open>System calls\<close>

datatype send_event = SEND_MOVES nat | SEND_EINTR | SEND_FAILS
datatype recv_event = RECV_MOVES nat | RECV_EINTR | RECV_FAILS | RECV_EOF

text \<open>The stream holds the bytes the peer has sent and that were not read yet.\<close>

type_synonym incoming = "recv_event list \<times> byte list"

section \<open>Whole buffers\<close>

text \<open>
  \<open>send_all\<close>: the result is the return value, the bytes handed to the kernel and the rest of the
  schedule. A call that moves no byte is an error, as in the code.
\<close>

fun send_all :: "send_event list \<Rightarrow> byte list \<Rightarrow> byte list \<Rightarrow> int option \<times> byte list \<times> send_event list" where
  "send_all evs done [] = (Some (int (length done)), done, evs)"
| "send_all [] done (b # bs) = (None, done, [])"
| "send_all (SEND_EINTR # evs) done (b # bs) = send_all evs done (b # bs)"
| "send_all (SEND_FAILS # evs) done (b # bs) = (Some (- 1), done, evs)"
| "send_all (SEND_MOVES k # evs) done (b # bs) =
     (let sent = take k (b # bs) in
      if sent = [] then (Some (- 1), done, evs)
      else send_all evs (done @ sent) (drop k (b # bs)))"

text \<open>\<open>recv_all\<close>: the return value, the filled part of the buffer and what is left to read.\<close>

fun recv_all :: "incoming \<Rightarrow> byte list \<Rightarrow> nat \<Rightarrow> int option \<times> byte list \<times> incoming" where
  "recv_all ([], stream) buf len =
     (if length buf < len then (None, buf, ([], stream))
      else (Some (int (length buf)), buf, ([], stream)))"
| "recv_all (ev # evs, stream) buf len =
     (if length buf < len then
        (case ev of
           RECV_EINTR \<Rightarrow> recv_all (evs, stream) buf len
         | RECV_FAILS \<Rightarrow> (Some (- 1), buf, (evs, stream))
         | RECV_EOF \<Rightarrow> (Some 0, buf, (evs, stream))
         | RECV_MOVES k \<Rightarrow>
             (let n = min k (len - length buf); recvd = take n stream in
              if recvd = [] then (Some 0, buf, (evs, stream))
              else recv_all (evs, drop n stream) (buf @ recvd) len))
      else (Some (int (length buf)), buf, (ev # evs, stream)))"

section \<open>Frames\<close>

text \<open>The four bytes of \<open>htonl(plen)\<close>; the conversion of \<open>plen\<close> to \<open>uint32_t\<close> wraps.\<close>

definition htonl_bytes :: "nat \<Rightarrow> byte list" where
  "htonl_bytes plen =
     (let w = plen mod 4294967296 in
      [word_of_nat (w div 16777216), word_of_nat (w div 65536), word_of_nat (w div 256),
       word_of_nat w])"

definition ntohl_bytes :: "byte list \<Rightarrow> nat" where
  "ntohl_bytes bs =
     unat (bs ! 0) * 16777216 + unat (bs ! 1) * 65536 + unat (bs ! 2) * 256 + unat (bs ! 3)"

definition send_client_message ::
  "(nat \<Rightarrow> bool) \<Rightarrow> ('c \<Rightarrow> byte list) \<Rightarrow> send_event list \<Rightarrow> 'c \<Rightarrow> int option \<times> byte list \<times> send_event list" where
  "send_client_message malloc_ok pack evs msg =
     (let plen = length (pack msg) in
      if \<not> malloc_ok (4 + plen) then (Some (- 1), [], evs)
      else
        (let (r, out, evs') = send_all evs [] (htonl_bytes plen @ pack msg)
         in (map_option to_int32 r, out, evs')))"

definition send_server_message ::
  "(nat \<Rightarrow> bool) \<Rightarrow> ('s \<Rightarrow> byte list) \<Rightarrow> send_event list \<Rightarrow> 's \<Rightarrow> int option \<times> byte list \<times> send_event list" where
  "send_server_message malloc_ok pack evs msg =
     (let plen = length (pack msg) in
      if \<not> malloc_ok (4 + plen) then (Some (- 1), [], evs)
      else
        (let (r, out, evs') = send_all evs [] (htonl_bytes plen @ pack msg)
         in (map_option to_int32 r, out, evs')))"

text \<open>The outer \<open>None\<close>: still blocked. The inner \<open>None\<close>: the NULL the caller takes as the end.\<close>

definition receive_client_message ::
  "(nat \<Rightarrow> bool) \<Rightarrow> (byte list \<Rightarrow> 'c option) \<Rightarrow> incoming \<Rightarrow> 'c option option \<times> incoming" where
  "receive_client_message malloc_ok unpack inc =
     (case recv_all inc [] 4 of
        (None, _, inc1) \<Rightarrow> (None, inc1)
      | (Some r, lenbuf, inc1) \<Rightarrow>
          if r \<le> 0 then (Some None, inc1)
          else
            (let msg_len = ntohl_bytes lenbuf in
             if \<not> malloc_ok msg_len then (Some None, inc1)
             else
               (case recv_all inc1 [] msg_len of
                  (None, _, inc2) \<Rightarrow> (None, inc2)
                | (Some r2, buf, inc2) \<Rightarrow>
                    if r2 \<le> 0 then (Some None, inc2) else (Some (unpack buf), inc2))))"

definition receive_server_message ::
  "(nat \<Rightarrow> bool) \<Rightarrow> (byte list \<Rightarrow> 's option) \<Rightarrow> incoming \<Rightarrow> 's option option \<times> incoming" where
  "receive_server_message malloc_ok unpack inc =
     (case recv_all inc [] 4 of
        (None, _, inc1) \<Rightarrow> (None, inc1)
      | (Some r, lenbuf, inc1) \<Rightarrow>
          if r \<le> 0 then (Some None, inc1)
          else
            (let msg_len = ntohl_bytes lenbuf in
             if msg_len > 1024 * 1024 then (Some None, inc1)
             else if \<not> malloc_ok msg_len then (Some None, inc1)
             else
               (case recv_all inc1 [] msg_len of
                  (None, _, inc2) \<Rightarrow> (None, inc2)
                | (Some r2, buf, inc2) \<Rightarrow>
                    if r2 \<le> 0 then (Some None, inc2) else (Some (unpack buf), inc2))))"

section \<open>The buffer operations\<close>

text \<open>What reached the kernel is a prefix of the buffer, and all of it on success.\<close>

lemma send_all_prefix:
  "send_all evs done bs = (r, out, evs') \<Longrightarrow> \<exists>rest. done @ bs = out @ rest"
  by (induction evs "done" bs arbitrary: r out evs' rule: send_all.induct)
    (auto simp: Let_def split: if_splits)

lemma send_all_ok:
  "send_all evs done bs = (Some n, out, evs') \<Longrightarrow> n \<noteq> - 1 \<Longrightarrow>
     out = done @ bs \<and> n = int (length (done @ bs))"
proof (induction evs "done" bs rule: send_all.induct)
  case (5 k evs "done" b bs)
  then have "take k (b # bs) \<noteq> []"
    and "send_all evs (done @ take k (b # bs)) (drop k (b # bs)) = (Some n, out, evs')"
    by (auto simp: Let_def split: if_splits)
  from 5(1) [OF refl this 5(3)] show ?case
    by (metis append_assoc append_take_drop_id)
qed (auto split: if_splits)

text \<open>Schedules on which every call makes progress or is only interrupted.\<close>

fun send_progress :: "send_event list \<Rightarrow> bool" where
  "send_progress [] = True"
| "send_progress (SEND_MOVES k # evs) = (0 < k \<and> send_progress evs)"
| "send_progress (SEND_EINTR # evs) = send_progress evs"
| "send_progress (SEND_FAILS # evs) = False"

fun is_send_moves :: "send_event \<Rightarrow> bool" where
  "is_send_moves (SEND_MOVES k) = True"
| "is_send_moves _ = False"

lemma send_all_completes:
  "send_progress evs \<Longrightarrow> length bs \<le> length (filter is_send_moves evs) \<Longrightarrow>
     \<exists>evs'. send_all evs done bs = (Some (int (length done + length bs)), done @ bs, evs')"
  by (induction evs "done" bs rule: send_all.induct)
    (force simp: Let_def)+

fun recv_progress :: "recv_event list \<Rightarrow> bool" where
  "recv_progress [] = True"
| "recv_progress (RECV_MOVES k # evs) = (0 < k \<and> recv_progress evs)"
| "recv_progress (RECV_EINTR # evs) = recv_progress evs"
| "recv_progress (_ # evs) = False"

fun is_recv_moves :: "recv_event \<Rightarrow> bool" where
  "is_recv_moves (RECV_MOVES k) = True"
| "is_recv_moves _ = False"

lemma progress_replicate [simp]:
  "0 < k \<Longrightarrow> send_progress (replicate n (SEND_MOVES k))"
  "0 < k \<Longrightarrow> recv_progress (replicate n (RECV_MOVES k))"
  by (induction n) auto

text \<open>The bytes read are the next ones of the stream, in order, each once.\<close>

lemma recv_all_stream:
  "recv_all (evs, stream) buf len = (r, buf', (evs', stream')) \<Longrightarrow>
     buf @ stream = buf' @ stream'"
proof (induction evs arbitrary: stream buf)
  case Nil
  then show ?case by (auto split: if_splits)
next
  case (Cons ev evs)
  then show ?case
    by (cases ev) (auto simp: Let_def split: if_splits, metis append_assoc append_take_drop_id)
qed

lemma recv_all_full:
  "recv_all (evs, stream) buf len = (Some r, buf', inc') \<Longrightarrow> length buf \<le> len \<Longrightarrow> 0 < r \<Longrightarrow>
     length buf' = len \<and> r = int len"
proof (induction evs arbitrary: stream buf)
  case Nil
  then show ?case by (auto split: if_splits)
next
  case (Cons ev evs)
  from Cons.prems show ?case
    by (cases ev) (auto simp: Let_def min_def intro: Cons.IH split: if_splits dest!: Cons.IH)
qed

lemma recv_all_completes:
  "recv_progress evs \<Longrightarrow> length buf \<le> len \<Longrightarrow> len - length buf \<le> length stream \<Longrightarrow>
     len - length buf \<le> length (filter is_recv_moves evs) \<Longrightarrow>
     \<exists>evs'. recv_all (evs, stream) buf len =
       (Some (int len), buf @ take (len - length buf) stream, (evs', drop (len - length buf) stream))
       \<and> recv_progress evs'
       \<and> length (filter is_recv_moves evs) \<le> length (filter is_recv_moves evs') + (len - length buf)"
proof (induction evs arbitrary: stream buf)
  case Nil
  then show ?case by simp
next
  case (Cons ev evs)
  show ?case
  proof (cases "length buf = len \<or> ev = RECV_EINTR")
    case True
    with Cons show ?thesis by (cases ev) auto
  next
    case False
    with Cons.prems obtain k where ev: "ev = RECV_MOVES k" "0 < k" by (cases ev) auto
    define n where "n = min k (len - length buf)"
    have n: "0 < n" "n \<le> len - length buf" "n \<le> length stream" "take n stream \<noteq> []"
      using False Cons.prems ev by (auto simp: n_def)
    have step: "recv_all (ev # evs, stream) buf len = recv_all (evs, drop n stream) (buf @ take n stream) len"
      using False Cons.prems ev n by (simp add: n_def [symmetric])
    have rest: "len - length (buf @ take n stream) = (len - length buf) - n" using n by simp
    have "\<exists>evs'. recv_all (evs, drop n stream) (buf @ take n stream) len =
        (Some (int len), (buf @ take n stream) @ take (len - length buf - n) (drop n stream),
          (evs', drop (len - length buf - n) (drop n stream)))
        \<and> recv_progress evs'
        \<and> length (filter is_recv_moves evs)
            \<le> length (filter is_recv_moves evs') + (len - length buf - n)"
      using Cons.IH [of "buf @ take n stream" "drop n stream"] Cons.prems ev n
      unfolding rest by simp
    moreover have "take n stream @ take (len - length buf - n) (drop n stream) = take (len - length buf) stream"
      using n take_add [of n "len - length buf - n" stream] by simp
    ultimately show ?thesis
      using n ev unfolding step by auto
  qed
qed

section \<open>Frames\<close>

lemma length_htonl_bytes [simp]: "length (htonl_bytes n) = 4"
  by (simp add: htonl_bytes_def Let_def)

lemma base_256:
  fixes u :: nat
  assumes "u < 4294967296"
  shows "u div 16777216 mod 256 * 16777216 + u div 65536 mod 256 * 65536 + u div 256 mod 256 * 256
    + u mod 256 = u"
proof -
  define a b c where "a = u div 256" and "b = a div 256" and "c = b div 256"
  define p q r where "p = u mod 256" and "q = a mod 256" and "r = b mod 256"
  have "u = a * 256 + p" "a = b * 256 + q" "b = c * 256 + r"
    by (simp_all add: a_def b_def c_def p_def q_def r_def)
  then have sum: "c * 16777216 + r * 65536 + q * 256 + p = u" by simp
  have bc: "u div 65536 = b" "u div 16777216 = c"
    by (simp_all add: a_def b_def c_def div_mult2_eq [symmetric])
  have "c < 256" using less_mult_imp_div_less [of u 256 16777216] assms bc(2) by simp
  then show ?thesis using sum unfolding bc by (simp add: a_def [symmetric] p_def q_def r_def)
qed

lemma unat_byte: "unat (word_of_nat n :: byte) = n mod 256"
  by (simp add: unat_of_nat)

lemma ntohl_htonl: "n < 4294967296 \<Longrightarrow> ntohl_bytes (htonl_bytes n) = n"
  using base_256 [of n]
  by (simp add: ntohl_bytes_def htonl_bytes_def Let_def unat_byte
      del: unsigned_of_nat of_nat_take_bit)

text \<open>What a successful send put on the wire.\<close>

lemma frame_sent:
  assumes "send_progress evs" "4 + length bs \<le> length (filter is_send_moves evs)"
    and "length bs \<le> 1024 * 1024"
  shows "\<exists>evs'. send_all evs [] (htonl_bytes (length bs) @ bs) =
      (Some (int (4 + length bs)), htonl_bytes (length bs) @ bs, evs')
      \<and> to_int32 (int (4 + length bs)) = int (4 + length bs)"
  using send_all_completes [OF assms(1), of "htonl_bytes (length bs) @ bs" "[]"] assms(2,3)
  by (auto intro!: to_int32_id)

text \<open>Both halves of a frame are read, whatever the sizes of the pieces it arrives in.\<close>

lemma frame_received:
  assumes "recv_progress evs" "4 + length bs \<le> length (filter is_recv_moves evs)"
    and "length bs < 4294967296"
  obtains evs1 evs2 where
    "recv_all (evs, htonl_bytes (length bs) @ bs @ later) [] 4 =
       (Some 4, htonl_bytes (length bs), (evs1, bs @ later))"
    "recv_all (evs1, bs @ later) [] (length bs) = (Some (int (length bs)), bs, (evs2, later))"
    "ntohl_bytes (htonl_bytes (length bs)) = length bs"
proof -
  let ?h = "htonl_bytes (length bs)"
  obtain evs1 where 1: "recv_all (evs, ?h @ bs @ later) [] 4 = (Some 4, ?h, (evs1, bs @ later))"
    and p1: "recv_progress evs1"
    and m1: "length (filter is_recv_moves evs) \<le> length (filter is_recv_moves evs1) + 4"
    using recv_all_completes [OF assms(1), of "[]" 4 "?h @ bs @ later"] assms(2) by auto
  obtain evs2 where
    "recv_all (evs1, bs @ later) [] (length bs) = (Some (int (length bs)), bs, (evs2, later))"
    using recv_all_completes [OF p1, of "[]" "length bs" "bs @ later"] m1 assms(2) by auto
  with 1 that ntohl_htonl [OF assms(3)] show thesis by blast
qed

text \<open>A message is delivered only from a complete frame at the head of the stream.\<close>

definition frame_at :: "byte list \<Rightarrow> byte list \<Rightarrow> byte list \<Rightarrow> bool" where
  "frame_at stream body rest \<longleftrightarrow>
     (\<exists>hdr. length hdr = 4 \<and> stream = hdr @ body @ rest \<and> ntohl_bytes hdr = length body)"

lemma frame_read:
  assumes "recv_all (evs, stream) [] 4 = (Some r, hdr, (evs1, stream1))" "0 < r"
    and "recv_all (evs1, stream1) [] (ntohl_bytes hdr) = (Some r2, body, (evs2, stream2))" "0 < r2"
  shows "frame_at stream body stream2"
  using recv_all_stream [OF assms(1)] recv_all_stream [OF assms(3)]
    recv_all_full [OF assms(1)] recv_all_full [OF assms(3)] assms(2,4)
  by (auto simp: frame_at_def)

section \<open>Properties\<close>

text \<open>
  C30: a server message sent with \<open>send_server_message\<close> is received by
  \<open>receive_server_message\<close> as the same message, with the bytes behind it untouched, for every
  splitting of the stream into partial sends and receives and any number of interruptions, as long
  as the packed message is not empty and not over the 1 MB limit.
\<close>

theorem server_message_roundtrip:
  assumes codec: "unpack (pack m) = Some m"
    and size: "0 < length (pack m)" "length (pack m) \<le> 1024 * 1024"
    and mem: "malloc_ok (4 + length (pack m))" "malloc_ok (length (pack m))"
    and snd: "send_progress sevs" "4 + length (pack m) \<le> length (filter is_send_moves sevs)"
    and rcv: "recv_progress revs" "4 + length (pack m) \<le> length (filter is_recv_moves revs)"
  shows "\<exists>out sevs' revs'.
     send_server_message malloc_ok pack sevs m = (Some (int (4 + length (pack m))), out, sevs')
     \<and> receive_server_message malloc_ok unpack (revs, out @ later) = (Some (Some m), (revs', later))"
proof -
  obtain evs1 evs2 where
    "recv_all (revs, htonl_bytes (length (pack m)) @ pack m @ later) [] 4 =
       (Some 4, htonl_bytes (length (pack m)), (evs1, pack m @ later))"
    "recv_all (evs1, pack m @ later) [] (length (pack m)) =
       (Some (int (length (pack m))), pack m, (evs2, later))"
    "ntohl_bytes (htonl_bytes (length (pack m))) = length (pack m)"
    using frame_received [OF rcv, of later] size(2) by auto
  then show ?thesis
    using frame_sent [OF snd size(2)] codec size mem
    by (auto simp: send_server_message_def receive_server_message_def Let_def)
qed

theorem server_message_roundtrip_witness:
  "\<exists>out sevs' revs'.
     send_server_message (\<lambda>n. True) (\<lambda>m::byte list. m) (replicate 7 (SEND_MOVES 3)) [1, 2, 3] =
       (Some 7, out, sevs')
     \<and> receive_server_message (\<lambda>n. True) Some (RECV_EINTR # replicate 7 (RECV_MOVES 2), out @ [9]) =
       (Some (Some [1, 2, 3]), (revs', [9]))"
  using server_message_roundtrip [where pack = "\<lambda>m::byte list. m" and unpack = Some and m = "[1, 2, 3]"
      and malloc_ok = "\<lambda>n. True" and sevs = "replicate 7 (SEND_MOVES 3)"
      and revs = "RECV_EINTR # replicate 7 (RECV_MOVES 2)" and later = "[9]"]
  by simp

text \<open>
  The server takes a client message only from a complete frame at the head of the stream: the
  bytes it consumed are a four-byte length and exactly that many bytes, which unpack to the
  message. A connection that ends inside a frame never yields a message.
\<close>

theorem receive_client_message_sound:
  assumes "receive_client_message malloc_ok unpack (evs, stream) = (Some (Some m), (evs', stream'))"
  shows "\<exists>body. frame_at stream body stream' \<and> unpack body = Some m \<and> body \<noteq> []"
proof -
  obtain r hdr inc1 where 1: "recv_all (evs, stream) [] 4 = (Some r, hdr, inc1)" "0 < r"
    using assms by (auto simp: receive_client_message_def Let_def split: prod.splits option.splits if_splits)
  then obtain evs1 stream1 where inc1: "inc1 = (evs1, stream1)" by (cases inc1)
  obtain r2 body where 2: "recv_all (evs1, stream1) [] (ntohl_bytes hdr) = (Some r2, body, (evs', stream'))"
    "0 < r2" "unpack body = Some m"
    using assms 1 inc1
    by (auto simp: receive_client_message_def Let_def split: prod.splits option.splits if_splits)
  from recv_all_full [OF 2(1)] 2(2) have "body \<noteq> []" by auto
  with frame_read [OF 1(1) [unfolded inc1] 1(2) 2(1,2)] 2(3) show ?thesis by blast
qed

theorem receive_client_message_sound_witness:
  "\<exists>body. frame_at [0, 0, 0, 2, 7, 8, 5] body [5 :: byte] \<and> Some body = Some [7, 8] \<and> body \<noteq> []"
  by (rule receive_client_message_sound [where malloc_ok = "\<lambda>n. True" and unpack = Some
        and evs = "[RECV_MOVES 3, RECV_EINTR, RECV_MOVES 9, RECV_MOVES 1, RECV_MOVES 1]" and evs' = "[]"])
    (simp add: receive_client_message_def ntohl_bytes_def)

text \<open>
  A frame of length zero, though well formed, ends the connection: both receivers return NULL
  for it (the read of an empty body returns 0, the value of a closed stream).
\<close>

theorem empty_frame_disconnects:
  assumes "recv_progress evs" "4 \<le> length (filter is_recv_moves evs)"
  shows "(\<exists>inc. receive_client_message malloc_ok unpack (evs, htonl_bytes 0 @ later) = (Some None, inc))
    \<and> (\<exists>inc. receive_server_message malloc_ok unpack' (evs, htonl_bytes 0 @ later) = (Some None, inc))"
proof -
  obtain evs1 evs2 where
    "recv_all (evs, htonl_bytes 0 @ later) [] 4 = (Some 4, htonl_bytes 0, (evs1, later))"
    "recv_all (evs1, later) [] 0 = (Some 0, [], (evs2, later))"
    "ntohl_bytes (htonl_bytes 0) = 0"
    using frame_received [OF assms(1), of "[]" later] assms(2) by auto
  then show ?thesis
    by (auto simp: receive_client_message_def receive_server_message_def Let_def)
qed

theorem empty_frame_disconnects_witness:
  "(\<exists>inc. receive_client_message (\<lambda>n. True) Some (replicate 4 (RECV_MOVES 1), htonl_bytes 0 @ [1]) = (Some None, inc))
    \<and> (\<exists>inc. receive_server_message (\<lambda>n. True) Some (replicate 4 (RECV_MOVES 1), htonl_bytes 0 @ [1]) = (Some None, inc))"
  by (rule empty_frame_disconnects) simp_all

end
