(* ===== verification/Wire.thy ===== *)
theory Wire
  imports Lobby_Thms Network
begin

text \<open>
  The joint system on the bytes of its connections. The server and its clients exchange frames over two
  streams for each connection, with the senders and receivers of \<open>common/network.c\<close> and any outcome of
  their system calls: a send may fail after a part of a frame. What a client writes is arbitrary: any
  bytes at all. The system of queues in \<open>Joint\<close> is the abstraction, the queue of a client that is not
  astray being the messages framed in the bytes it has not read.
\<close>

section \<open>Frames on a stream\<close>

text \<open>The functions of the protobuf library that pack and unpack the two kinds of messages.\<close>

record codec_t =
  pack_server :: "ServerMessage \<Rightarrow> byte list"
  unpack_server :: "byte list \<Rightarrow> ServerMessage option"
  unpack_client :: "byte list \<Rightarrow> ClientMessage option"

definition framed :: "codec_t \<Rightarrow> ServerMessage \<Rightarrow> byte list" where
  "framed cd m = htonl_bytes (length (pack_server cd m)) @ pack_server cd m"

text \<open>
  A message that a client can take from the stream: the library unpacks what it packed, to a message
  that is not empty and not over the limit of the receiver.
\<close>

definition carried :: "codec_t \<Rightarrow> ServerMessage \<Rightarrow> bool" where
  "carried cd m \<longleftrightarrow> unpack_server cd (pack_server cd m) = Some m
     \<and> 0 < length (pack_server cd m) \<and> length (pack_server cd m) \<le> 1024 * 1024"

definition stream_of :: "codec_t \<Rightarrow> ServerMessage list \<Rightarrow> byte list" where
  "stream_of cd ms = concat (map (framed cd) ms)"

lemma stream_of_simps [simp]:
  "stream_of cd [] = []" "stream_of cd (m # ms) = framed cd m @ stream_of cd ms"
  "stream_of cd (ms @ ns) = stream_of cd ms @ stream_of cd ns"
  by (simp_all add: stream_of_def)

text \<open>A successful \<open>send_server_message\<close> puts exactly the frame on the stream.\<close>

lemma framed_sent:
  assumes "send_server_message malloc_ok (pack_server cd) evs m = (Some r, out, evs')" "r \<noteq> - 1"
    and "carried cd m"
  shows "out = framed cd m"
proof -
  let ?b = "htonl_bytes (length (pack_server cd m)) @ pack_server cd m"
  from assms(1,2) obtain n where n: "send_all evs [] ?b = (Some n, out, evs')" "r = to_int32 n"
    by (auto simp: send_server_message_def Let_def split: if_splits prod.splits)
  have "n \<noteq> - 1" using assms(2) n(2) by (auto simp: to_int32_id)
  from send_all_ok [OF n(1) this] show ?thesis by (simp add: framed_def)
qed

text \<open>The messages framed in a stream.\<close>

function unframe :: "(byte list \<Rightarrow> ServerMessage option) \<Rightarrow> byte list \<Rightarrow> ServerMessage list" where
  "unframe u bs =
     (if length bs < 4 then []
      else if length (drop 4 bs) < ntohl_bytes (take 4 bs) then []
      else case u (take (ntohl_bytes (take 4 bs)) (drop 4 bs)) of
             None \<Rightarrow> []
           | Some m \<Rightarrow> m # unframe u (drop (ntohl_bytes (take 4 bs)) (drop 4 bs)))"
  by auto
termination by (relation "measure (\<lambda>(u, bs). length bs)") auto

declare unframe.simps [simp del]

lemma unframe_framed:
  "carried cd m \<Longrightarrow> unframe (unpack_server cd) (framed cd m @ bs) = m # unframe (unpack_server cd) bs"
  by (subst unframe.simps) (simp add: framed_def carried_def ntohl_htonl)

lemma unframe_stream:
  "(\<And>m. m \<in> set ms \<Longrightarrow> carried cd m) \<Longrightarrow> unframe (unpack_server cd) (stream_of cd ms) = ms"
proof (induction ms)
  case Nil
  then show ?case by (simp add: unframe.simps)
qed (simp add: unframe_framed)

text \<open>
  Whatever the schedule, a receiver that returns a message returns the first one of the stream and
  leaves the others.
\<close>

lemma receive_stream:
  assumes "receive_server_message malloc_ok (unpack_server cd) (evs, stream_of cd ms) =
      (Some (Some msg), (evs', rest))"
    and "\<And>m. m \<in> set ms \<Longrightarrow> carried cd m"
  shows "ms \<noteq> [] \<and> msg = hd ms \<and> rest = stream_of cd (tl ms)"
proof -
  from assms(1) obtain r hdr evs1 s1 r2 body where
    1: "recv_all (evs, stream_of cd ms) [] 4 = (Some r, hdr, (evs1, s1))" "0 < r"
    and 2: "recv_all (evs1, s1) [] (ntohl_bytes hdr) = (Some r2, body, (evs', rest))" "0 < r2"
    and u: "unpack_server cd body = Some msg"
    by (auto simp: receive_server_message_def Let_def split: prod.splits option.splits if_splits)
  from frame_read [OF 1 2] obtain h where h: "length h = 4" "stream_of cd ms = h @ body @ rest"
    "ntohl_bytes h = length body" by (auto simp: frame_at_def)
  show ?thesis
  proof (cases ms)
    case Nil
    with h show ?thesis by simp
  next
    case (Cons m ns)
    then have c: "carried cd m" using assms(2) by simp
    let ?p = "pack_server cd m"
    have eq: "htonl_bytes (length ?p) @ (?p @ stream_of cd ns) = h @ (body @ rest)"
      using h(2) Cons by (simp add: framed_def)
    then have 1: "htonl_bytes (length ?p) = h" and 2: "?p @ stream_of cd ns = body @ rest"
      using append_eq_append_conv [of "htonl_bytes (length ?p)" h] h(1) by auto
    have "ntohl_bytes (htonl_bytes (length ?p)) = length ?p"
      using c by (intro ntohl_htonl) (simp add: carried_def)
    with 1 h(3) have "length ?p = length body" by simp
    with 2 have "?p = body" "stream_of cd ns = rest" by simp_all
    with c u Cons show ?thesis by (simp add: carried_def)
  qed
qed

section \<open>The bytes of a step\<close>

text \<open>
  A send of the server: \<open>send_server_message\<close> on the outcomes that a schedule gives for this receiver
  and message after the sends before it. The handlers see the value it returns.
\<close>

type_synonym schedule = "int \<Rightarrow> ServerMessage \<Rightarrow> (int \<times> ServerMessage) list \<Rightarrow> send_event list"

definition sending ::
  "codec_t \<Rightarrow> (nat \<Rightarrow> bool) \<Rightarrow> schedule \<Rightarrow> int \<Rightarrow> ServerMessage \<Rightarrow> (int \<times> ServerMessage) list \<Rightarrow>
   int option \<times> byte list \<times> send_event list" where
  "sending cd malloc_ok sched f m q = send_server_message malloc_ok (pack_server cd) (sched f m q) m"

definition wire_net :: "codec_t \<Rightarrow> (nat \<Rightarrow> bool) \<Rightarrow> schedule \<Rightarrow> net_t" where
  "wire_net cd malloc_ok sched f m q =
     (case fst (sending cd malloc_ok sched f m q) of None \<Rightarrow> - 1 | Some r \<Rightarrow> r)"

text \<open>The bytes that the sends \<open>ms\<close> after \<open>q\<close> put on the stream of \<open>f\<close>, and that all of them have returned.\<close>

fun written ::
  "codec_t \<Rightarrow> (nat \<Rightarrow> bool) \<Rightarrow> schedule \<Rightarrow> (int \<times> ServerMessage) list \<Rightarrow> (int \<times> ServerMessage) list \<Rightarrow>
   int \<Rightarrow> byte list" where
  "written cd malloc_ok sched q [] f = []"
| "written cd malloc_ok sched q ((h, m) # ms) f =
     (if h = f then fst (snd (sending cd malloc_ok sched h m q)) else [])
     @ written cd malloc_ok sched (q @ [(h, m)]) ms f"

fun returned ::
  "codec_t \<Rightarrow> (nat \<Rightarrow> bool) \<Rightarrow> schedule \<Rightarrow> (int \<times> ServerMessage) list \<Rightarrow> (int \<times> ServerMessage) list \<Rightarrow> bool" where
  "returned cd malloc_ok sched q [] = True"
| "returned cd malloc_ok sched q ((h, m) # ms) =
     (fst (sending cd malloc_ok sched h m q) \<noteq> None \<and> returned cd malloc_ok sched (q @ [(h, m)]) ms)"

abbreviation sent_before :: "server_t \<Rightarrow> server_t \<Rightarrow> (int \<times> ServerMessage) list" where
  "sent_before S S' \<equiv> take (length (outbox S)) (outbox S')"

abbreviation sent_now :: "server_t \<Rightarrow> server_t \<Rightarrow> (int \<times> ServerMessage) list" where
  "sent_now S S' \<equiv> drop (length (outbox S)) (outbox S')"

lemma written_frames:
  assumes "\<And>k. k < length ms \<Longrightarrow> fst (ms ! k) = f \<Longrightarrow>
      0 \<le> wire_net cd malloc_ok sched f (snd (ms ! k)) (q @ take k ms) \<and> carried cd (snd (ms ! k))"
  shows "written cd malloc_ok sched q ms f = stream_of cd (map snd (filter (\<lambda>p. fst p = f) ms))"
  using assms
proof (induction ms arbitrary: q)
  case (Cons p ms)
  obtain h m where p: "p = (h, m)" by (cases p) auto
  have "written cd malloc_ok sched (q @ [p]) ms f = stream_of cd (map snd (filter (\<lambda>p. fst p = f) ms))"
    using Cons.prems [of "Suc _"] by (intro Cons.IH) simp
  moreover have "fst (snd (sending cd malloc_ok sched f m q)) = framed cd m" if "h = f"
  proof -
    from Cons.prems [of 0] that p have 0: "0 \<le> wire_net cd malloc_ok sched f m q" and c: "carried cd m" by simp_all
    then obtain r out evs where "send_server_message malloc_ok (pack_server cd) (sched f m q) m = (Some r, out, evs)"
      "r \<noteq> - 1"
      by (cases "sending cd malloc_ok sched f m q") (auto simp: wire_net_def sending_def split: option.splits)
    with framed_sent [OF _ _ c] show ?thesis by (auto simp: sending_def)
  qed
  ultimately show ?case by (simp add: p)
qed simp

lemma written_mail:
  assumes "\<not> failed (wire_net cd malloc_ok sched) S S' f" "\<And>m. m \<in> set (mail S S' f) \<Longrightarrow> carried cd m"
  shows "written cd malloc_ok sched (sent_before S S') (sent_now S S') f = stream_of cd (mail S S' f)"
proof -
  let ?n = "length (outbox S)"
  have "0 \<le> wire_net cd malloc_ok sched f (snd (sent_now S S' ! k)) (sent_before S S' @ take k (sent_now S S'))
      \<and> carried cd (snd (sent_now S S' ! k))"
    if k: "k < length (sent_now S S')" "fst (sent_now S S' ! k) = f" for k
  proof -
    have "snd (sent_now S S' ! k) \<in> set (mail S S' f)"
      unfolding mail_def using k nth_mem [OF k(1)] by force
    moreover have "take (?n + k) (outbox S') = sent_before S S' @ take k (sent_now S S')" by (rule take_add)
    ultimately show ?thesis
      using assms k unfolding failed_def by (auto simp: not_le dest!: spec [of _ "?n + k"])
  qed
  from written_frames [OF this] show ?thesis by (simp add: mail_def)
qed

section \<open>The system on bytes\<close>

text \<open>
  The clients that are astray are those of \<open>Joint\<close>, and more: a client to which a message was sent that
  the library cannot carry, one whose receiver has failed, and one that opens a replay while a request
  of it may still be on its way.
\<close>

record wire_t =
  wr_server :: server_t
  wr_client :: "int \<Rightarrow> client_t"
  wr_down :: "int \<Rightarrow> byte list"
  wr_up :: "int \<Rightarrow> byte list"
  wr_astray :: "int \<Rightarrow> bool"

definition posted :: "codec_t \<Rightarrow> (nat \<Rightarrow> bool) \<Rightarrow> schedule \<Rightarrow> (int \<Rightarrow> bool) \<Rightarrow> server_t \<Rightarrow> wire_t \<Rightarrow> wire_t" where
  "posted cd malloc_ok sched B S' W =
     (let S = wr_server W in
      W\<lparr>wr_server := S',
        wr_down := (\<lambda>f. wr_down W f @ written cd malloc_ok sched (sent_before S S') (sent_now S S') f),
        wr_astray := (\<lambda>f. wr_astray W f \<or> B f \<or> (\<exists>m \<in> set (mail S S' f). \<not> carried cd m))\<rparr>)"

lemma posted_up: "(posted cd malloc_ok sched B S' W)\<lparr>wr_up := wr_up W\<rparr> = posted cd malloc_ok sched B S' W"
  by (simp add: posted_def Let_def)

definition busy :: "int \<Rightarrow> wire_t \<Rightarrow> bool" where
  "busy f W \<longleftrightarrow> in_game f (wr_server W) \<or> waits f (wr_server W) \<or> wr_up W f \<noteq> []"

inductive wire_step :: "codec_t \<Rightarrow> (nat \<Rightarrow> bool) \<Rightarrow> schedule \<Rightarrow> wire_t \<Rightarrow> wire_t \<Rightarrow> bool"
  for cd :: codec_t and malloc_ok :: "nat \<Rightarrow> bool" and sched :: schedule where
  writes: "wire_step cd malloc_ok sched W (W\<lparr>wr_up := (wr_up W)(f := wr_up W f @ bs)\<rparr>)"
| request: "receive_client_message malloc_ok (unpack_client cd) (evs, wr_up W f) =
      (Some (Some msg), (evs', rest)) \<Longrightarrow> 0 \<le> f \<Longrightarrow>
    handle_client_message (wire_net cd malloc_ok sched) mclk vclk f (Some msg) (wr_server W) = Some (closed, S') \<Longrightarrow>
    returned cd malloc_ok sched (sent_before (wr_server W) S') (sent_now (wr_server W) S') \<Longrightarrow>
    wire_step cd malloc_ok sched W
      ((posted cd malloc_ok sched (strays (wire_net cd malloc_ok sched) f msg (wr_server W) S') S' W)
         \<lparr>wr_up := (wr_up W)(f := rest)\<rparr>)"
| hangup: "receive_client_message malloc_ok (unpack_client cd) (evs, wr_up W f) =
      (Some None, (evs', rest)) \<Longrightarrow>
    handle_client_message (wire_net cd malloc_ok sched) mclk vclk f None (wr_server W) = Some (closed, S') \<Longrightarrow>
    returned cd malloc_ok sched (sent_before (wr_server W) S') (sent_now (wr_server W) S') \<Longrightarrow>
    wire_step cd malloc_ok sched W
      ((posted cd malloc_ok sched (failed (wire_net cd malloc_ok sched) (wr_server W) S') S' W)
         \<lparr>wr_up := (wr_up W)(f := rest)\<rparr>)"
| tick: "no_clock_jump now (wr_server W) \<Longrightarrow>
    S' = check_game_timeouts (wire_net cd malloc_ok sched) now (wr_server W) \<Longrightarrow>
    returned cd malloc_ok sched (sent_before (wr_server W) S') (sent_now (wr_server W) S') \<Longrightarrow>
    wire_step cd malloc_ok sched W
      (posted cd malloc_ok sched (failed (wire_net cd malloc_ok sched) (wr_server W) S') S' W)"
| connect: "wire_step cd malloc_ok sched W (W\<lparr>wr_client := (wr_client W)(f := c), wr_down := (wr_down W)(f := []),
      wr_up := (wr_up W)(f := []), wr_astray := (wr_astray W)(f := in_game f (wr_server W))\<rparr>)"
| receive: "receive_server_message malloc_ok (unpack_server cd) (evs, wr_down W f) =
      (Some received, (evs', rest)) \<Longrightarrow> cl_connected (wr_client W f) \<Longrightarrow> ne_received ev = received \<Longrightarrow>
    wire_step cd malloc_ok sched W (W\<lparr>wr_client := (wr_client W)(f := network_turn ev (wr_client W f)),
      wr_down := (wr_down W)(f := rest), wr_astray := (wr_astray W)(f := wr_astray W f \<or> received = None)\<rparr>)"
| user: "main_turn ev s = Some (s', go) \<Longrightarrow> ms_client s = wr_client W f \<Longrightarrow>
    wire_step cd malloc_ok sched W (W\<lparr>wr_client := (wr_client W)(f := ms_client s'),
      wr_astray := (wr_astray W)(f := wr_astray W f \<or> opens_replay ev (wr_client W f) \<and> busy f W)\<rparr>)"

definition wire_start :: "wire_t \<Rightarrow> bool" where
  "wire_start W \<longleftrightarrow> wr_server W = boot \<and> wr_down W = (\<lambda>f. []) \<and> wr_astray W = (\<lambda>f. False)"

inductive wire_reachable :: "codec_t \<Rightarrow> (nat \<Rightarrow> bool) \<Rightarrow> schedule \<Rightarrow> wire_t \<Rightarrow> bool"
  for cd :: codec_t and malloc_ok :: "nat \<Rightarrow> bool" and sched :: schedule where
  start: "wire_start W \<Longrightarrow> wire_reachable cd malloc_ok sched W"
| step: "wire_reachable cd malloc_ok sched W \<Longrightarrow> wire_step cd malloc_ok sched W W' \<Longrightarrow>
    wire_reachable cd malloc_ok sched W'"

section \<open>The streams hold whole frames\<close>

definition whole_frames :: "codec_t \<Rightarrow> wire_t \<Rightarrow> bool" where
  "whole_frames cd W \<longleftrightarrow>
     (\<forall>f. \<not> wr_astray W f \<longrightarrow> (\<exists>ms. wr_down W f = stream_of cd ms \<and> (\<forall>m \<in> set ms. carried cd m)))"

lemma whole_framesE:
  assumes "whole_frames cd W" "\<not> wr_astray W f"
  obtains ms where "wr_down W f = stream_of cd ms" "\<forall>m \<in> set ms. carried cd m"
    "unframe (unpack_server cd) (wr_down W f) = ms"
proof -
  from assms obtain ms where "wr_down W f = stream_of cd ms" "\<forall>m \<in> set ms. carried cd m"
    by (auto simp: whole_frames_def)
  with that unframe_stream [of ms cd] show thesis by simp
qed

text \<open>What a step of the server adds to the stream of a client that is not astray after it.\<close>

lemma posted_down:
  assumes "\<And>h. failed (wire_net cd malloc_ok sched) (wr_server W) S' h \<Longrightarrow> B h"
    and "\<not> wr_astray (posted cd malloc_ok sched B S' W) f"
  shows "\<not> wr_astray W f" "\<not> B f" "\<forall>m \<in> set (mail (wr_server W) S' f). carried cd m"
    "wr_down (posted cd malloc_ok sched B S' W) f = wr_down W f @ stream_of cd (mail (wr_server W) S' f)"
proof -
  show a: "\<not> wr_astray W f" "\<not> B f" "\<forall>m \<in> set (mail (wr_server W) S' f). carried cd m"
    using assms(2) by (auto simp: posted_def Let_def)
  then have "\<not> failed (wire_net cd malloc_ok sched) (wr_server W) S' f" using assms(1) by blast
  from written_mail [OF this] a(3)
  show "wr_down (posted cd malloc_ok sched B S' W) f = wr_down W f @ stream_of cd (mail (wr_server W) S' f)"
    by (simp add: posted_def Let_def)
qed

lemma whole_posted:
  assumes "whole_frames cd W" "\<And>h. failed (wire_net cd malloc_ok sched) (wr_server W) S' h \<Longrightarrow> B h"
  shows "whole_frames cd ((posted cd malloc_ok sched B S' W)\<lparr>wr_up := u\<rparr>)"
proof -
  have "\<exists>ms. wr_down (posted cd malloc_ok sched B S' W) f = stream_of cd ms \<and> (\<forall>m \<in> set ms. carried cd m)"
    if "\<not> wr_astray (posted cd malloc_ok sched B S' W) f" for f
  proof -
    note p = posted_down [OF assms(2) that]
    from whole_framesE [OF assms(1) p(1)] obtain ms where "wr_down W f = stream_of cd ms" "\<forall>m \<in> set ms. carried cd m" .
    with p(3,4) show ?thesis by (intro exI [of _ "ms @ mail (wr_server W) S' f"]) auto
  qed
  then show ?thesis by (simp add: whole_frames_def)
qed

lemma whole_down:
  assumes "whole_frames cd W" "\<And>h. h \<noteq> f \<Longrightarrow> wr_down W' h = wr_down W h \<and> wr_astray W' h = wr_astray W h"
    and "\<not> wr_astray W' f \<Longrightarrow> \<exists>ms. wr_down W' f = stream_of cd ms \<and> (\<forall>m \<in> set ms. carried cd m)"
  shows "whole_frames cd W'"
  unfolding whole_frames_def
proof (intro allI impI)
  fix h assume "\<not> wr_astray W' h"
  with assms show "\<exists>ms. wr_down W' h = stream_of cd ms \<and> (\<forall>m \<in> set ms. carried cd m)"
    by (cases "h = f") (auto simp: whole_frames_def)
qed

text \<open>A client that is not astray reads the first message of its stream.\<close>

lemma received_whole:
  assumes "whole_frames cd W" "\<not> wr_astray W f"
    and "receive_server_message malloc_ok (unpack_server cd) (evs, wr_down W f) = (Some (Some msg), (evs', rest))"
  obtains ms where "wr_down W f = stream_of cd (msg # ms)" "rest = stream_of cd ms" "\<forall>m \<in> set (msg # ms). carried cd m"
proof -
  from whole_framesE [OF assms(1,2)] obtain ms where ms: "wr_down W f = stream_of cd ms" "\<forall>m \<in> set ms. carried cd m" .
  with receive_stream [of malloc_ok cd evs ms msg evs' rest] assms(3)
  have "ms = msg # tl ms" "rest = stream_of cd (tl ms)" by simp_all
  with that [of "tl ms"] ms show thesis by simp
qed

lemma whole_step:
  assumes "wire_step cd malloc_ok sched W W'" "whole_frames cd W" shows "whole_frames cd W'"
  using assms(1)
proof cases
  case writes
  then show ?thesis using assms(2) by (simp add: whole_frames_def)
next
  case request
  then show ?thesis using whole_posted [OF assms(2)] by (simp add: strays_def)
next
  case hangup
  then show ?thesis using whole_posted [OF assms(2)] by simp
next
  case (tick now S')
  then show ?thesis
    using whole_posted [OF assms(2), of malloc_ok sched S' "failed (wire_net cd malloc_ok sched) (wr_server W) S'" "wr_up W"]
    by (simp add: posted_up)
next
  case (connect f c)
  then show ?thesis by (intro whole_down [OF assms(2), of f]) (auto intro: exI [of _ "[]"])
next
  case (receive evs f received evs' rest ev)
  show ?thesis
  proof (rule whole_down [OF assms(2), of f])
    assume "\<not> wr_astray W' f"
    with receive(1) obtain msg where "received = Some msg" "\<not> wr_astray W f" by auto
    with received_whole [OF assms(2), of f malloc_ok evs msg evs' rest] receive(2)
    obtain ms where "rest = stream_of cd ms" "\<forall>m \<in> set (msg # ms). carried cd m" by metis
    with receive(1) show "\<exists>ms. wr_down W' f = stream_of cd ms \<and> (\<forall>m \<in> set ms. carried cd m)"
      by (intro exI [of _ ms]) simp
  qed (use receive(1) in simp_all)
next
  case user
  then show ?thesis
    using assms(2) by (auto simp: whole_frames_def)
qed

lemma whole_reachable: "wire_reachable cd malloc_ok sched W \<Longrightarrow> whole_frames cd W"
proof (induction rule: wire_reachable.induct)
  case (start W)
  then show ?case by (auto simp: wire_start_def whole_frames_def intro: exI [of _ "[]"])
qed (blast intro: whole_step)

section \<open>The queues are the abstraction of the streams\<close>

definition joint_of :: "codec_t \<Rightarrow> wire_t \<Rightarrow> joint_t" where
  "joint_of cd W = \<lparr>jn_server = wr_server W, jn_client = wr_client W,
     jn_inbox = (\<lambda>f. unframe (unpack_server cd) (wr_down W f)), jn_astray = wr_astray W\<rparr>"

lemma joint_of_fields [simp]:
  "jn_server (joint_of cd W) = wr_server W" "jn_client (joint_of cd W) = wr_client W"
  "jn_inbox (joint_of cd W) f = unframe (unpack_server cd) (wr_down W f)"
  "jn_astray (joint_of cd W) = wr_astray W"
  by (simp_all add: joint_of_def)

text \<open>A step of the queues, after which some clients are given up, or only that.\<close>

lemma loosened:
  assumes "joint_step net Z Z1" "jn_server Z2 = jn_server Z1"
    and "\<And>h. \<not> jn_astray Z2 h \<Longrightarrow>
      \<not> jn_astray Z1 h \<and> jn_client Z2 h = jn_client Z1 h \<and> jn_inbox Z2 h = jn_inbox Z1 h"
  shows "(joint_step net)\<^sup>*\<^sup>* Z Z2"
proof -
  have "joint_step net Z1 Z2" using assms(2,3) by (rule joint_step.loose)
  with assms(1) show ?thesis by (meson r_into_rtranclp rtranclp.rtrancl_into_rtrancl)
qed

lemma wire_posted:
  assumes "whole_frames cd W" "\<And>h. failed (wire_net cd malloc_ok sched) (wr_server W) S' h \<Longrightarrow> B h"
    and "joint_step net (joint_of cd W) (after B S' (joint_of cd W))"
  shows "(joint_step net)\<^sup>*\<^sup>* (joint_of cd W) (joint_of cd ((posted cd malloc_ok sched B S' W)\<lparr>wr_up := u\<rparr>))"
proof (rule loosened [OF assms(3)])
  let ?W = "posted cd malloc_ok sched B S' W"
  show "jn_server (joint_of cd (?W\<lparr>wr_up := u\<rparr>)) = jn_server (after B S' (joint_of cd W))"
    by (simp add: posted_def Let_def)
  fix h assume "\<not> jn_astray (joint_of cd (?W\<lparr>wr_up := u\<rparr>)) h"
  then have h: "\<not> wr_astray ?W h" by simp
  note p = posted_down [OF assms(2) this]
  from whole_framesE [OF assms(1) p(1)] obtain ms where ms: "wr_down W h = stream_of cd ms" "\<forall>m \<in> set ms. carried cd m" .
  have "unframe (unpack_server cd) (stream_of cd (ms @ mail (wr_server W) S' h)) = ms @ mail (wr_server W) S' h"
    using ms(2) p(3) by (intro unframe_stream) auto
  with ms unframe_stream [of ms cd] p(4)
  have "unframe (unpack_server cd) (wr_down ?W h) = unframe (unpack_server cd) (wr_down W h) @ mail (wr_server W) S' h"
    by simp
  then show "\<not> jn_astray (after B S' (joint_of cd W)) h
      \<and> jn_client (joint_of cd (?W\<lparr>wr_up := u\<rparr>)) h = jn_client (after B S' (joint_of cd W)) h
      \<and> jn_inbox (joint_of cd (?W\<lparr>wr_up := u\<rparr>)) h = jn_inbox (after B S' (joint_of cd W)) h"
    using p(1,2) by (simp add: after_def posted_def Let_def)
qed

lemma wire_step_joint:
  assumes "whole_frames cd W" "wire_step cd malloc_ok sched W W'"
  shows "(joint_step (wire_net cd malloc_ok sched))\<^sup>*\<^sup>* (joint_of cd W) (joint_of cd W')"
  using assms(2)
proof cases
  case writes
  then show ?thesis by (simp add: joint_of_def)
next
  case (request evs f msg evs' rest mclk vclk closed S')
  have "joint_step (wire_net cd malloc_ok sched) (joint_of cd W)
      (after (strays (wire_net cd malloc_ok sched) f msg (wr_server W) S') S' (joint_of cd W))"
    using joint_step.request [of f _ _ _ _ "joint_of cd W"] request(3,4) by simp
  from wire_posted [OF assms(1) _ this] request(1) show ?thesis by (simp add: strays_def)
next
  case (hangup evs f evs' rest mclk vclk closed S')
  have "joint_step (wire_net cd malloc_ok sched) (joint_of cd W)
      (after (failed (wire_net cd malloc_ok sched) (wr_server W) S') S' (joint_of cd W))"
    using joint_step.hangup [of _ _ _ _ "joint_of cd W"] hangup(3) by simp
  from wire_posted [OF assms(1) _ this] hangup(1) show ?thesis by simp
next
  case (tick now S')
  have "joint_step (wire_net cd malloc_ok sched) (joint_of cd W)
      (after (failed (wire_net cd malloc_ok sched) (wr_server W) S') S' (joint_of cd W))"
    using joint_step.tick [of now "joint_of cd W"] tick(2,3) by simp
  from wire_posted [OF assms(1) _ this, where u = "wr_up W"] tick(1) show ?thesis by (simp add: posted_up)
next
  case (connect f c)
  have eq: "joint_of cd W' = (joint_of cd W)\<lparr>jn_client := (jn_client (joint_of cd W))(f := c),
      jn_inbox := (jn_inbox (joint_of cd W))(f := []),
      jn_astray := (jn_astray (joint_of cd W))(f := in_game f (jn_server (joint_of cd W)))\<rparr>"
    using connect(1) by (auto simp: joint_of_def unframe.simps fun_eq_iff)
  show ?thesis unfolding eq by (intro r_into_rtranclp joint_step.connect)
next
  case (receive evs f received evs' rest ev)
  show ?thesis
  proof (cases "wr_astray W f \<or> received = None")
    case True
    then have "joint_step (wire_net cd malloc_ok sched) (joint_of cd W) (joint_of cd W')"
      using receive(1) by (intro joint_step.loose) (auto split: if_splits)
    then show ?thesis by simp
  next
    case False
    then obtain msg where msg: "received = Some msg" "\<not> wr_astray W f" by auto
    with received_whole [OF assms(1), of f malloc_ok evs msg evs' rest] receive(2)
    obtain ms where ms: "wr_down W f = stream_of cd (msg # ms)" "rest = stream_of cd ms"
      "\<forall>m \<in> set (msg # ms). carried cd m" by metis
    have "unframe (unpack_server cd) (wr_down W f) = msg # ms"
      unfolding ms(1) by (rule unframe_stream) (use ms(3) in blast)
    moreover have "unframe (unpack_server cd) rest = ms"
      unfolding ms(2) by (rule unframe_stream) (use ms(3) in simp)
    moreover note ms
    ultimately have "joint_of cd W' = (joint_of cd W)\<lparr>
        jn_client := (jn_client (joint_of cd W))(f := network_turn ev (jn_client (joint_of cd W) f)),
        jn_inbox := (jn_inbox (joint_of cd W))(f := ms)\<rparr>"
      and "jn_inbox (joint_of cd W) f = msg # ms"
      using receive(1) msg by (auto simp: joint_of_def fun_eq_iff)
    with joint_step.receive [of "joint_of cd W" f msg ms ev "wire_net cd malloc_ok sched"] receive(3,4) msg
    show ?thesis by (simp add: r_into_rtranclp)
  qed
next
  case (user ev s s' go f)
  show ?thesis
  proof (rule loosened)
    show "joint_step (wire_net cd malloc_ok sched) (joint_of cd W)
        ((joint_of cd W)\<lparr>jn_client := (jn_client (joint_of cd W))(f := ms_client s'),
           jn_astray := (jn_astray (joint_of cd W))(f := jn_astray (joint_of cd W) f
             \<or> opens_replay ev (jn_client (joint_of cd W) f) \<and> in_game f (jn_server (joint_of cd W)))\<rparr>)"
      using user(2,3) by (intro joint_step.user) simp_all
  qed (use user(1) in \<open>auto simp: busy_def split: if_splits\<close>)
qed

interpretation wire: simulation wire_start "wire_step cd malloc_ok sched" "wire_reachable cd malloc_ok sched"
    "joint_of cd" "\<lambda>Z. jn_server Z = boot" "joint_step (wire_net cd malloc_ok sched)"
    "joint_reachable (wire_net cd malloc_ok sched)" for cd malloc_ok sched
proof unfold_locales
  fix W P
  assume "wire_reachable cd malloc_ok sched W" "\<And>W. wire_start W \<Longrightarrow> P W"
    "\<And>W W'. wire_reachable cd malloc_ok sched W \<Longrightarrow> P W \<Longrightarrow> wire_step cd malloc_ok sched W W' \<Longrightarrow> P W'"
  then show "P W" by (induction rule: wire_reachable.induct) blast+
qed (auto intro: wire_reachable.intros joint_reachable.intros wire_step_joint whole_reachable simp: wire_start_def)

lemma joint_reached: "wire_reachable cd malloc_ok sched W \<Longrightarrow> joint_reachable (wire_net cd malloc_ok sched) (joint_of cd W)"
  by (rule wire.reach_abs)

lemma stream_read:
  assumes "wire_reachable cd malloc_ok sched W" "\<not> wr_astray W f"
  obtains ms where "wr_down W f = stream_of cd ms" "\<forall>m \<in> set ms. carried cd m"
    "unframe (unpack_server cd) (wr_down W f) = ms"
  using whole_framesE [OF whole_reachable [OF assms(1)] assms(2)] that by metis

section \<open>Reading a stream to its end\<close>

lemma receive_framed:
  assumes "carried cd m" "\<forall>n \<le> 1024 * 1024. malloc_ok n"
  shows "\<exists>evs'. receive_server_message malloc_ok (unpack_server cd)
      (replicate (4 + length (pack_server cd m)) (RECV_MOVES 1), framed cd m @ tail) = (Some (Some m), (evs', tail))"
proof -
  let ?b = "pack_server cd m" let ?evs = "replicate (4 + length ?b) (RECV_MOVES 1)"
  have "length ?b < 4294967296" using assms(1) by (simp add: carried_def)
  then obtain evs1 evs2 where
    "recv_all (?evs, htonl_bytes (length ?b) @ ?b @ tail) [] 4 = (Some 4, htonl_bytes (length ?b), (evs1, ?b @ tail))"
    "recv_all (evs1, ?b @ tail) [] (length ?b) = (Some (int (length ?b)), ?b, (evs2, tail))"
    "ntohl_bytes (htonl_bytes (length ?b)) = length ?b"
    by (rule frame_received [of ?evs ?b tail, rotated 2]) simp_all
  then show ?thesis using assms by (auto simp: receive_server_message_def framed_def carried_def Let_def)
qed

lemma wire_drain:
  assumes "\<forall>n \<le> 1024 * 1024. malloc_ok n" "\<forall>m \<in> set ms. carried cd m" "wr_down W f = stream_of cd ms"
    and "cl_connected (wr_client W f)" "\<not> wr_astray W f"
  shows "\<exists>W'. (wire_step cd malloc_ok sched)\<^sup>*\<^sup>* W W' \<and> wr_server W' = wr_server W \<and> wr_down W' f = []
    \<and> \<not> wr_astray W' f \<and> game_of (wr_client W' f) = fold see ms (game_of (wr_client W f))"
  using assms(2-)
proof (induction ms arbitrary: W)
  case Nil
  then show ?case by (intro exI [of _ W]) simp
next
  case (Cons msg rest)
  let ?ev = "take_one undefined msg"
  let ?W = "W\<lparr>wr_client := (wr_client W)(f := network_turn ?ev (wr_client W f)),
    wr_down := (wr_down W)(f := stream_of cd rest), wr_astray := (wr_astray W)(f := wr_astray W f \<or> Some msg = None)\<rparr>"
  have turn: "network_turn ?ev (wr_client W f) = snd (dispatch_server_message (later 2 undefined) msg (wr_client W f))"
    using Cons.prems(3) by (simp add: network_turn_def take_one_def Let_def)
  obtain evs evs' where "receive_server_message malloc_ok (unpack_server cd) (evs, wr_down W f) =
      (Some (Some msg), (evs', stream_of cd rest))"
    using receive_framed [of cd msg malloc_ok "stream_of cd rest"] Cons.prems(1,2) assms(1) by auto
  then have "wire_step cd malloc_ok sched W ?W"
    using Cons.prems(3) by (intro wire_step.receive) (simp_all add: take_one_def)
  moreover obtain W' where "(wire_step cd malloc_ok sched)\<^sup>*\<^sup>* ?W W'" "wr_server W' = wr_server ?W"
    "wr_down W' f = []" "\<not> wr_astray W' f" "game_of (wr_client W' f) = fold see rest (game_of (wr_client ?W f))"
    using Cons.IH [of ?W] Cons.prems by (auto simp: turn)
  ultimately show ?case
    by (intro exI [of _ W']) (auto simp: turn dispatch_sees intro: converse_rtranclp_into_rtranclp)
qed

section \<open>Two players over the wire\<close>

text \<open>
  A codec for a given list of messages: a message is packed as many bytes as its place in the list. The
  kernel takes one byte in each call.
\<close>

definition place :: "ServerMessage list \<Rightarrow> ServerMessage \<Rightarrow> nat" where
  "place ms m = length (takeWhile (\<lambda>x. x \<noteq> m) ms)"

definition demo_codec :: "ServerMessage list \<Rightarrow> codec_t" where
  "demo_codec ms = \<lparr>pack_server = (\<lambda>m. replicate (Suc (place ms m)) 0),
     unpack_server = (\<lambda>bs. if length bs \<le> length ms then Some (ms ! (length bs - 1)) else None),
     unpack_client = (\<lambda>bs. Some (ask_msg (if bs = [1] then ''bob'' else ''ann'')))\<rparr>"

definition demo_sched :: "ServerMessage list \<Rightarrow> schedule" where
  "demo_sched ms f m q = replicate (4 + length (pack_server (demo_codec ms) m)) (SEND_MOVES 1)"

abbreviation demo_reachable :: "ServerMessage list \<Rightarrow> wire_t \<Rightarrow> bool" where
  "demo_reachable ms \<equiv> wire_reachable (demo_codec ms) (\<lambda>n. True) (demo_sched ms)"

abbreviation demo_net :: "ServerMessage list \<Rightarrow> net_t" where
  "demo_net ms \<equiv> wire_net (demo_codec ms) (\<lambda>n. True) (demo_sched ms)"

lemma demo_carried: "m \<in> set ms \<Longrightarrow> length ms \<le> 3 \<Longrightarrow> carried (demo_codec ms) m"
proof -
  assume m: "m \<in> set ms" "length ms \<le> 3"
  have "place ms m < length ms"
  proof -
    from m(1) obtain xs ys where "ms = xs @ m # ys" "m \<notin> set xs" by (meson split_list_first)
    then show ?thesis by (simp add: place_def takeWhile_append)
  qed
  moreover from this have "ms ! place ms m = m" using nth_length_takeWhile [of "\<lambda>x. x \<noteq> m" ms]
    by (simp add: place_def)
  ultimately show ?thesis using m(2) by (simp add: carried_def demo_codec_def)
qed

lemma demo_sending:
  assumes "length ms \<le> 3"
  shows "fst (sending (demo_codec ms) (\<lambda>n. True) (demo_sched ms) f m q) = Some (int (5 + place ms m))"
proof -
  let ?b = "pack_server (demo_codec ms) m"
  have b: "length ?b = Suc (place ms m)" by (simp add: demo_codec_def)
  have "place ms m \<le> length ms" by (simp add: place_def length_takeWhile_le)
  then have "\<exists>evs'. send_all (demo_sched ms f m q) [] (htonl_bytes (length ?b) @ ?b) =
      (Some (int (4 + length ?b)), htonl_bytes (length ?b) @ ?b, evs')
      \<and> to_int32 (int (4 + length ?b)) = int (4 + length ?b)"
    using assms by (intro frame_sent) (simp_all add: demo_sched_def b)
  then show ?thesis by (auto simp: sending_def send_server_message_def Let_def b)
qed

lemma demo_net: "length ms \<le> 3 \<Longrightarrow> 0 < demo_net ms f m q"
  by (simp add: wire_net_def demo_sending)

lemma demo_not_failed: "length ms \<le> 3 \<Longrightarrow> \<not> failed (demo_net ms) S S' h"
  using demo_net [of ms] by (auto simp: failed_def not_less less_imp_le)

lemma demo_returned: "length ms \<le> 3 \<Longrightarrow> returned (demo_codec ms) (\<lambda>n. True) (demo_sched ms) q xs"
  by (induction xs arbitrary: q) (auto simp: demo_sending)

text \<open>Where every send works, its value does not matter to a request for a match.\<close>

lemma match_request_net:
  assumes "\<And>h m q. 0 < net h m q"
  shows "handle_client_message net mclk vclk f (Some (CM_MATCH_GAME x)) S =
    handle_client_message fine mclk vclk f (Some (CM_MATCH_GAME x)) S"
proof -
  have "\<not> net h m q < 0" "0 \<le> net h m q" for h m q using assms [of h m q] by simp_all
  then show ?thesis
    by (simp add: handle_client_message_def dispatch_client_message_def handle_match_game_message_def
        send_error_response_def send_out Let_def fine_def split: option.split MatchStatus.split)
qed

lemma demo_request:
  "\<exists>evs'. receive_client_message (\<lambda>n. True) (unpack_client (demo_codec ms))
      (replicate 5 (RECV_MOVES 1), htonl_bytes 1 @ [b]) =
    (Some (Some (ask_msg (if b = 1 then ''bob'' else ''ann''))), (evs', []))"
proof -
  obtain evs1 evs2 where
    "recv_all (replicate 5 (RECV_MOVES 1), htonl_bytes (length [b]) @ [b] @ []) [] 4 =
      (Some 4, htonl_bytes (length [b]), (evs1, [b] @ []))"
    "recv_all (evs1, [b] @ []) [] (length [b]) = (Some (int (length [b])), [b], (evs2, []))"
    "ntohl_bytes (htonl_bytes (length [b])) = length [b]"
    by (rule frame_received [of "replicate 5 (RECV_MOVES 1)" "[b]" "[]", rotated 3]) simp_all
  then show ?thesis by (auto simp: receive_client_message_def Let_def demo_codec_def)
qed

definition wire_meeting :: wire_t where
  "wire_meeting = \<lparr>wr_server = boot, wr_client = (\<lambda>f. static_client\<lparr>cl_connected := True\<rparr>),
     wr_down = (\<lambda>f. []), wr_up = (\<lambda>f. []), wr_astray = (\<lambda>f. False)\<rparr>"

lemma wire_asks:
  fixes b :: byte
  assumes "demo_reachable ms W" "0 \<le> f" "wr_up W f = []" "length ms \<le> 3" "\<And>h. \<not> wr_astray W h"
    and "\<not> in_game f (wr_server W)" "\<not> waits f (wr_server W)"
    and "handle_client_message fine demo_clock zero_clock f
      (Some (ask_msg (if b = 1 then ''bob'' else ''ann''))) (wr_server W) = Some (False, S')"
    and "\<And>h. set (mail (wr_server W) S' h) \<subseteq> set ms"
  shows "\<exists>W'. demo_reachable ms W' \<and> wr_server W' = S' \<and> wr_client W' = wr_client W
    \<and> (\<forall>h. \<not> wr_astray W' h) \<and> (\<forall>h. wr_up W h = [] \<longrightarrow> wr_up W' h = [])"
proof -
  let ?W = "W\<lparr>wr_up := (wr_up W)(f := wr_up W f @ (htonl_bytes 1 @ [b]))\<rparr>"
  let ?msg = "ask_msg (if b = 1 then ''bob'' else ''ann'')"
  let ?B = "strays (demo_net ms) f ?msg (wr_server ?W) S'"
  let ?W' = "(posted (demo_codec ms) (\<lambda>n. True) (demo_sched ms) ?B S' ?W)\<lparr>wr_up := (wr_up ?W)(f := [])\<rparr>"
  have 1: "demo_reachable ms ?W"
    by (rule wire_reachable.step [OF assms(1) wire_step.writes])
  obtain evs' where "receive_client_message (\<lambda>n. True) (unpack_client (demo_codec ms))
      (replicate 5 (RECV_MOVES 1), wr_up ?W f) = (Some (Some ?msg), (evs', []))"
    using demo_request [of ms b] assms(3) by auto
  moreover have "handle_client_message (demo_net ms) demo_clock zero_clock f (Some ?msg) (wr_server ?W) = Some (False, S')"
    using assms(8) match_request_net [of "demo_net ms", OF demo_net [OF assms(4)]] by simp
  ultimately have "wire_step (demo_codec ms) (\<lambda>n. True) (demo_sched ms) ?W ?W'"
    using demo_returned [OF assms(4)] by (intro wire_step.request [OF _ assms(2)])
  with 1 have "demo_reachable ms ?W'" by (rule wire_reachable.step)
  moreover have "\<not> wr_astray ?W' h" for h
    using assms(5-7,9) demo_carried [OF _ assms(4)] demo_not_failed [OF assms(4)]
    by (auto simp: posted_def Let_def strays_def asks_twice_def)
  ultimately show ?thesis by (intro exI [of _ ?W']) (simp add: posted_def Let_def)
qed

lemma wire_meet:
  obtains ms W where "demo_reachable ms W" "length ms \<le> 3" "\<not> wr_astray W 7"
    "active_games (wr_server W) ! 0 \<in> set (active_games (wr_server W))"
    "plays 7 (active_games (wr_server W) ! 0)" "cl_connected (wr_client W 7)"
    "white_player_fd (active_games (wr_server W) ! 0) = 7"
    "game_state (active_games (wr_server W) ! 0) = startpos zero_game"
proof -
  obtain S1 S2 where r: "handle_client_message fine demo_clock zero_clock 5 (Some (ask_msg ''bob'')) boot = Some (False, S1)"
    "handle_client_message fine demo_clock zero_clock 7 (Some (ask_msg ''ann'')) S1 = Some (False, S2)"
    and s1: "active_games S1 = active_games boot"
    "\<forall>p \<in> set (waiting_players S1). wp_is_active p \<longrightarrow> wp_fd p = 5"
    and s2: "is_active (active_games S2 ! 0)" "white_player_fd (active_games S2 ! 0) = 7" "length (active_games S2) = 50"
      "game_state (active_games S2 ! 0) = startpos zero_game" "length (outbox S2) \<le> 3"
    and sub: "set (outbox S1) \<subseteq> set (outbox S2)"
    by (rule two_requests)
  have out: "\<not> in_game f boot" "\<not> waits f boot" "\<not> in_game f S1" for f
    by (simp_all add: in_game_def waits_def s1(1) boot_fields plays_def zero_active_game_def zero_waiting_def
        list_ex_iff)
  have w: "\<not> waits 7 S1" using s1(2) by (auto simp: waits_def list_ex_iff)
  define ms where "ms = map snd (outbox S2)"
  have len: "length ms \<le> 3" using s2(5) by (simp add: ms_def)
  have d: "set (mail boot S1 h) \<subseteq> set ms" "set (mail S1 S2 h) \<subseteq> set ms" for h
    using sub by (force simp: mail_def ms_def dest!: in_set_dropD)+
  have "demo_reachable ms wire_meeting"
    by (rule wire_reachable.start) (simp add: wire_start_def wire_meeting_def)
  from wire_asks [OF this, of 5 1 S1] r(1) out d(1) len obtain W1 where
    W1: "demo_reachable ms W1" "wr_server W1 = S1" "wr_up W1 7 = []"
      "wr_client W1 = wr_client wire_meeting" "\<And>h. \<not> wr_astray W1 h"
    by (auto simp: wire_meeting_def)
  from wire_asks [OF W1(1), of 7 2 S2] r(2) out(3) w d(2) len W1(2,3,5) obtain W2 where
    "demo_reachable ms W2" "wr_server W2 = S2" "wr_client W2 = wr_client W1" "\<And>h. \<not> wr_astray W2 h"
    by auto
  with that [of ms W2] s2 W1(4) len show thesis by (simp add: plays_def wire_meeting_def)
qed

text \<open>The two players who have met, after White has read its messages.\<close>

lemma wire_read:
  obtains ms W where "demo_reachable ms W" "length ms \<le> 3" "wr_down W 7 = []" "\<not> wr_astray W 7"
    "active_games (wr_server W) ! 0 \<in> set (active_games (wr_server W))"
    "plays 7 (active_games (wr_server W) ! 0)" "white_player_fd (active_games (wr_server W) ! 0) = 7"
    "game_state (active_games (wr_server W) ! 0) = startpos zero_game"
proof -
  obtain ms W0 where W0: "demo_reachable ms W0" "length ms \<le> 3" "\<not> wr_astray W0 7"
    "active_games (wr_server W0) ! 0 \<in> set (active_games (wr_server W0))"
    "plays 7 (active_games (wr_server W0) ! 0)" "cl_connected (wr_client W0 7)"
    "white_player_fd (active_games (wr_server W0) ! 0) = 7"
    "game_state (active_games (wr_server W0) ! 0) = startpos zero_game" by (rule wire_meet)
  obtain xs where "wr_down W0 7 = stream_of (demo_codec ms) xs" "\<forall>m \<in> set xs. carried (demo_codec ms) m"
    by (rule stream_read [OF W0(1,3)])
  from wire_drain [where malloc_ok = "\<lambda>n. True" and sched = "demo_sched ms", OF _ this(2,1) W0(6) W0(3)] obtain W where
    W: "(wire_step (demo_codec ms) (\<lambda>n. True) (demo_sched ms))\<^sup>*\<^sup>* W0 W" "wr_server W = wr_server W0"
    "wr_down W 7 = []" "\<not> wr_astray W 7" by blast
  have "demo_reachable ms W" by (rule wire.reach_steps [OF W(1) W0(1)])
  with that [of ms W] W0 W show thesis by simp
qed

section \<open>Properties\<close>

text \<open>
  C4: over the wire the clients follow the server, whatever bytes the clients write, whatever the
  outcomes of the system calls of both sides, and whenever the threads run. For a client that is not
  astray the bytes that it has not read are whole frames, and the position it has when it has read
  them is the position of its game on the server. A receiver that returns a message returns the next
  one. Once everything is read the board shows the same pieces, the same side to move and the same
  legal moves. A client is astray, until its descriptor is connected again outside any game, only
  after one of these: it asked for a match while it waited or played; it opened a replay while it
  played, waited or had written bytes that were not read; a send to it failed, or any send in the
  answer to a request of it or of its opponent; it was sent a message that the library does not
  carry; or its own receiver failed.
\<close>

theorem wire_follows_server:
  assumes "wire_reachable cd malloc_ok sched W" "\<not> wr_astray W f"
    and "g \<in> set (active_games (wr_server W))" "plays f g"
  shows "\<exists>ms. wr_down W f = stream_of cd ms
    \<and> same_position (game_state g) (fold see ms (gs_game (cl_gs (wr_client W f))))
    \<and> (\<forall>evs msg evs' rest. receive_server_message malloc_ok (unpack_server cd) (evs, wr_down W f) =
         (Some (Some msg), (evs', rest)) \<longrightarrow> ms \<noteq> [] \<and> msg = hd ms \<and> rest = stream_of cd (tl ms))
    \<and> (wr_down W f = [] \<longrightarrow>
        board (gs_game (cl_gs (wr_client W f))) = board (game_state g)
        \<and> side_to_move (gs_game (cl_gs (wr_client W f))) = side_to_move (game_state g)
        \<and> (\<forall>sx sy x y. is_move_legal (gs_game (cl_gs (wr_client W f))) sx sy x y \<longleftrightarrow>
                        is_move_legal (game_state g) sx sy x y))"
proof -
  obtain ms where ms: "wr_down W f = stream_of cd ms" "\<forall>m \<in> set ms. carried cd m"
    "unframe (unpack_server cd) (wr_down W f) = ms" by (rule stream_read [OF assms(1,2)])
  from clients_follow_server [OF joint_reached [OF assms(1)], of g f] assms(2-4) ms(3)
  have follow: "same_position (game_state g) (fold see ms (gs_game (cl_gs (wr_client W f))))"
    "ms = [] \<Longrightarrow> board (gs_game (cl_gs (wr_client W f))) = board (game_state g)
        \<and> side_to_move (gs_game (cl_gs (wr_client W f))) = side_to_move (game_state g)
        \<and> (\<forall>sx sy x y. is_move_legal (gs_game (cl_gs (wr_client W f))) sx sy x y \<longleftrightarrow>
                        is_move_legal (game_state g) sx sy x y)"
    by simp_all
  have "ms = []" if "wr_down W f = []" using ms(3) that by (simp add: unframe.simps)
  with follow ms(1) receive_stream [of malloc_ok cd _ ms] ms(2) show ?thesis
    by (intro exI [of _ ms]) simp
qed

theorem wire_follows_server_witness:
  "\<exists>xs W ms. demo_reachable xs W \<and> \<not> wr_astray W 7 \<and> plays 7 (active_games (wr_server W) ! 0)
    \<and> wr_down W 7 = stream_of (demo_codec xs) ms
    \<and> same_position (game_state (active_games (wr_server W) ! 0)) (fold see ms (gs_game (cl_gs (wr_client W 7))))"
proof -
  obtain xs W where W: "demo_reachable xs W" "\<not> wr_astray W 7"
    "active_games (wr_server W) ! 0 \<in> set (active_games (wr_server W))"
    "plays 7 (active_games (wr_server W) ! 0)" by (rule wire_meet)
  from wire_follows_server [OF this] W show ?thesis by blast
qed

text \<open>
  C5: what the players see is a game of chess: whatever bytes the clients write, the board of a player
  who is not astray (see C4) and has read all that the server sent shows a position that is reached from
  the start position by a sequence of legal moves, with the same side to move.
\<close>

theorem wire_shows_played_games:
  assumes "wire_reachable cd malloc_ok sched W" "\<not> wr_astray W f"
    and "g \<in> set (active_games (wr_server W))" "plays f g" "wr_down W f = []"
  shows "\<exists>G0 ms G. play (init_startpos G0) ms = Some G
    \<and> board (gs_game (cl_gs (wr_client W f))) = board G
    \<and> side_to_move (gs_game (cl_gs (wr_client W f))) = side_to_move G"
  using clients_see_played_games [OF joint_reached [OF assms(1)], of f g] assms(2-5)
  by (simp add: unframe.simps)

theorem wire_shows_played_games_witness:
  "\<exists>xs W G0 ms G. demo_reachable xs W \<and> \<not> wr_astray W 7 \<and> plays 7 (active_games (wr_server W) ! 0)
    \<and> play (init_startpos G0) ms = Some G \<and> board (gs_game (cl_gs (wr_client W 7))) = board G"
proof -
  obtain xs W where W: "demo_reachable xs W" "wr_down W 7 = []" "\<not> wr_astray W 7"
    "active_games (wr_server W) ! 0 \<in> set (active_games (wr_server W))"
    "plays 7 (active_games (wr_server W) ! 0)" by (rule wire_read)
  from wire_shows_played_games [OF W(1,3,4,5,2)] W show ?thesis by blast
qed

text \<open>
  C6: what a player sees is what the server does. Once a client that is not astray (see C4) has read its
  stream and it is its player's turn, the squares that its screen marks for a piece are exactly those
  to which the server lets it move: a request for a marked square makes that move on the server, any
  other request between squares of the board leaves the game as it is.
\<close>

theorem marks_are_accepted:
  assumes "wire_reachable cd malloc_ok sched W" "\<not> wr_astray W f" "wr_down W f = []"
    and "i < 50" "plays f (active_games (wr_server W) ! i)"
    and "side_to_move (game_state (active_games (wr_server W) ! i)) =
           (if white_player_fd (active_games (wr_server W) ! i) = f then TEAM_WHITE else TEAM_BLACK)"
    and "in_board fx fy" "in_board tx ty"
    and "handle_move_message net clk f (CM_MOVE (Some (move_request fx fy tx ty))) (wr_server W) = Some (r, S')"
  shows "game_state (active_games S' ! i) =
    (if marked tx ty (calculate_possible_moves fx fy True (cl_gs (wr_client W f)))
     then apply_move (game_state (active_games (wr_server W) ! i)) fx fy tx ty
     else game_state (active_games (wr_server W) ! i))"
  using joint_marks [OF joint_reached [OF assms(1)], of f i fx fy tx ty net clk r S'] assms(2-9)
  by (simp add: unframe.simps)

theorem marks_are_accepted_witness:
  "\<exists>xs W r S'. demo_reachable xs W \<and> \<not> wr_astray W 7 \<and> wr_down W 7 = []
     \<and> handle_move_message fine zero_clock 7 (CM_MOVE (Some (move_request 4 1 4 3))) (wr_server W) = Some (r, S')
     \<and> marked 4 3 (calculate_possible_moves 4 1 True (cl_gs (wr_client W 7)))
     \<and> game_state (active_games S' ! 0) = apply_move (startpos zero_game) 4 1 4 3"
proof -
  obtain xs W where W: "demo_reachable xs W" "wr_down W 7 = []" "\<not> wr_astray W 7"
    "plays 7 (active_games (wr_server W) ! 0)" "white_player_fd (active_games (wr_server W) ! 0) = 7"
    "game_state (active_games (wr_server W) ! 0) = startpos zero_game" by (rule wire_read)
  obtain r S' where h: "handle_move_message fine zero_clock 7 (CM_MOVE (Some (move_request 4 1 4 3)))
      (wr_server W) = Some (r, S')"
    using move_defined [of fine zero_clock 7 "CM_MOVE (Some (move_request 4 1 4 3))" "wr_server W"] by auto
  have ok: "joint_ok (joint_of (demo_codec xs) W)" using joint_reachable_ok [OF joint_reached [OF W(1)]] .
  have "seen (joint_of (demo_codec xs) W) 7 = game_of (wr_client W 7)"
    using W(2) by (simp add: seen_def unframe.simps)
  then have "is_move_legal (game_of (wr_client W 7)) 4 1 4 3"
    using same_position_rules(1) [OF joint_okD(4) [OF ok, of 0 7]] W(3,4,6) e4_legal by simp
  then have m: "marked 4 3 (calculate_possible_moves 4 1 True (cl_gs (wr_client W 7)))"
    by (auto simp: marked_def marks_legal)
  have "game_state (active_games S' ! 0) = apply_move (startpos zero_game) 4 1 4 3"
    using marks_are_accepted [OF W(1,3,2), of 0 4 1 4 3 fine zero_clock r S'] h m W(4-6)
    by (simp add: in_board_def startpos_def)
  with W(1-3) h m show ?thesis by blast
qed

text \<open>
  C15: a connected client that is not astray (see C4) can always catch up, as long as its \<open>malloc\<close> gives
  it a buffer of up to 1 MiB: reading its stream leads, without any help of the server or the user, to a
  state in which everything is read and its board is the position on the server.
\<close>

theorem wire_catches_up:
  assumes "wire_reachable cd malloc_ok sched W" "\<not> wr_astray W f"
    and "g \<in> set (active_games (wr_server W))" "plays f g" "cl_connected (wr_client W f)"
    and "\<forall>n \<le> 1024 * 1024. malloc_ok n"
  shows "\<exists>W'. (wire_step cd malloc_ok sched)\<^sup>*\<^sup>* W W' \<and> wr_server W' = wr_server W \<and> wr_down W' f = []
    \<and> \<not> wr_astray W' f
    \<and> board (gs_game (cl_gs (wr_client W' f))) = board (game_state g)
    \<and> side_to_move (gs_game (cl_gs (wr_client W' f))) = side_to_move (game_state g)"
proof -
  obtain ms where ms: "wr_down W f = stream_of cd ms" "\<forall>m \<in> set ms. carried cd m"
    "unframe (unpack_server cd) (wr_down W f) = ms" by (rule stream_read [OF assms(1,2)])
  from clients_follow_server [OF joint_reached [OF assms(1)], of g f] assms(2-4) ms(3)
  have "same_position (game_state g) (fold see ms (gs_game (cl_gs (wr_client W f))))" by simp
  note same = same_position_fields [OF this]
  obtain W' where W': "(wire_step cd malloc_ok sched)\<^sup>*\<^sup>* W W'" "wr_server W' = wr_server W" "wr_down W' f = []"
    "\<not> wr_astray W' f" "game_of (wr_client W' f) = fold see ms (game_of (wr_client W f))"
    using wire_drain [where malloc_ok = malloc_ok and sched = sched, OF assms(6) ms(2,1) assms(5,2)] by (elim exE conjE)
  then show ?thesis using same by (intro exI [of _ W'] conjI) simp_all
qed

theorem wire_catches_up_witness:
  "\<exists>xs W W'. demo_reachable xs W \<and> \<not> wr_astray W 7
    \<and> (wire_step (demo_codec xs) (\<lambda>n. True) (demo_sched xs))\<^sup>*\<^sup>* W W' \<and> plays 7 (active_games (wr_server W') ! 0)
    \<and> board (gs_game (cl_gs (wr_client W' 7))) = board (game_state (active_games (wr_server W') ! 0))"
proof -
  obtain xs W where W: "demo_reachable xs W" "\<not> wr_astray W 7"
    "active_games (wr_server W) ! 0 \<in> set (active_games (wr_server W))"
    "plays 7 (active_games (wr_server W) ! 0)" "cl_connected (wr_client W 7)" by (rule wire_meet)
  have "\<forall>n \<le> 1024 * 1024. (\<lambda>n::nat. True) n" by simp
  from wire_catches_up [OF W this] obtain W' where W':
    "(wire_step (demo_codec xs) (\<lambda>n. True) (demo_sched xs))\<^sup>*\<^sup>* W W'" "wr_server W' = wr_server W"
    "board (gs_game (cl_gs (wr_client W' 7))) = board (game_state (active_games (wr_server W) ! 0))"
    by (elim exE conjE)
  show ?thesis
    by (intro exI [of _ xs] exI [of _ W] exI [of _ W'] conjI) (fact W W' | simp only: W W')+
qed

end
