(* ===== verification/Test_Client.thy ===== *)
theory Test_Client
  imports Wire
begin

text \<open>
  \<open>client/test-client.c\<close>, the console client that sends lines to the server and prints what comes back.
  Its \<open>send_all\<close> and \<open>recv_all\<close> are the functions of \<open>common/network.c\<close>, with \<open>perror\<close> in place of the log. A
  pass of its loop is a function of the input, the schedules of the two directions and the unread bytes
  of the connection; the library packs and unpacks, and \<open>pack_invalid\<close> stands for what it makes of a
  message whose case is 9999.
\<close>

section \<open>Arguments\<close>

datatype test_args = Test_Usage | Test_Bad_Port | Test_Connect string int

text \<open>The arguments behind the name of the program; without a value where \<open>atoi\<close> overflows.\<close>

definition test_arguments :: "string list \<Rightarrow> test_args option" where
  "test_arguments args =
     (if length args < 2 then Some Test_Usage
      else
        (case c_atoi (args ! 1) of
           None \<Rightarrow> None
         | Some port \<Rightarrow>
             if port \<le> 0 \<or> port > 65535 then Some Test_Bad_Port else Some (Test_Connect (args ! 0) port)))"

section \<open>Lines of input\<close>

text \<open>\<open>fgets\<close> of the standard input: NULL at its end.\<close>

definition BUFFER_SIZE :: nat where
  "BUFFER_SIZE = 1024"

definition read_input :: "string \<Rightarrow> (string \<times> string) option" where
  "read_input inp = (if inp = [] then None else Some (c_fgets (BUFFER_SIZE - 1) inp))"

definition strip_newline :: "string \<Rightarrow> string" where
  "strip_newline input = (if input \<noteq> [] \<and> last input = CHR 0x0A then butlast input else input)"

section \<open>One line\<close>

record tester =
  tc_input :: string
  tc_sends :: "send_event list"
  tc_incoming :: incoming
  tc_sent :: "byte list"
  tc_printed :: "string list"

datatype verdict = GOES_ON | BREAKS | BLOCKS

record test_codec =
  pack_echo :: "string \<Rightarrow> byte list"
  pack_invalid :: "byte list"
  unpack_reply :: "byte list \<Rightarrow> ServerMessage option"

text \<open>The number of the case that the default branch prints.\<close>

definition say :: "string \<Rightarrow> tester \<Rightarrow> tester" where
  "say line t = t\<lparr>tc_printed := tc_printed t @ [line]\<rparr>"

definition print_reply :: "(ServerMessage \<Rightarrow> string) \<Rightarrow> ServerMessage \<Rightarrow> tester \<Rightarrow> tester" where
  "print_reply case_number reply t =
     (case reply of
        SM_ECHO_RES m \<Rightarrow> say (''Echo response: '' @ m) t
      | SM_ERROR e \<Rightarrow> say (''Error response: '' @ err_message e) t
      | m \<Rightarrow> say (''Received unexpected message: msg_case='' @ case_number m) t)"

definition receive_reply ::
  "test_codec \<Rightarrow> (nat \<Rightarrow> bool) \<Rightarrow> (ServerMessage \<Rightarrow> string) \<Rightarrow> tester \<Rightarrow> verdict \<times> tester" where
  "receive_reply cd malloc_ok case_number t =
     (case recv_all (tc_incoming t) [] 4 of
        (None, _, inc) \<Rightarrow> (BLOCKS, t\<lparr>tc_incoming := inc\<rparr>)
      | (Some r, lenbuf, inc) \<Rightarrow>
          if r \<le> 0 then (BREAKS, say ''Connection closed by server.'' (t\<lparr>tc_incoming := inc\<rparr>))
          else
            (let resp_len = ntohl_bytes lenbuf in
             if \<not> malloc_ok resp_len then (BREAKS, t\<lparr>tc_incoming := inc\<rparr>)
             else
               (case recv_all inc [] resp_len of
                  (None, _, inc2) \<Rightarrow> (BLOCKS, t\<lparr>tc_incoming := inc2\<rparr>)
                | (Some r2, buf, inc2) \<Rightarrow>
                    if r2 \<le> 0 then (BREAKS, say ''Connection closed by server.'' (t\<lparr>tc_incoming := inc2\<rparr>))
                    else
                      (case unpack_reply cd buf of
                         None \<Rightarrow> (BREAKS, t\<lparr>tc_incoming := inc2\<rparr>)
                       | Some reply \<Rightarrow>
                           (GOES_ON, print_reply case_number reply (t\<lparr>tc_incoming := inc2\<rparr>))))))"

definition one_line ::
  "test_codec \<Rightarrow> (nat \<Rightarrow> bool) \<Rightarrow> (ServerMessage \<Rightarrow> string) \<Rightarrow> tester \<Rightarrow> verdict \<times> tester" where
  "one_line cd malloc_ok case_number t =
     (case read_input (tc_input t) of
        None \<Rightarrow> (BREAKS, t)
      | Some (raw, rest) \<Rightarrow>
          (let input = strip_newline raw; t1 = t\<lparr>tc_input := rest\<rparr> in
           if input = ''!quit'' then (BREAKS, say ''Goodbye!'' t1)
           else
             (let t2 = (if input = ''!error''
                        then say ''Sending invalid message type to test error response...'' t1 else t1);
                  packed = (if input = ''!error'' then pack_invalid cd else pack_echo cd input)
              in if \<not> malloc_ok (4 + length packed) then (BREAKS, t2)
                 else
                   (case send_all (tc_sends t2) [] (htonl_bytes (length packed) @ packed) of
                      (None, out, evs) \<Rightarrow> (BLOCKS, t2\<lparr>tc_sends := evs, tc_sent := tc_sent t2 @ out\<rparr>)
                    | (Some n, out, evs) \<Rightarrow>
                        (let t3 = t2\<lparr>tc_sends := evs, tc_sent := tc_sent t2 @ out\<rparr> in
                         if n < 0 then (BREAKS, t3) else receive_reply cd malloc_ok case_number t3)))))"

text \<open>The loop ends because every pass takes at least one character of the input.\<close>

lemma input_shorter: "read_input inp = Some (l, rest) \<Longrightarrow> length rest < length inp"
  using c_fgets_shorter [of inp 1022] by (auto simp: read_input_def BUFFER_SIZE_def split: if_splits)

lemma print_reply_input [simp]: "tc_input (print_reply cn reply t) = tc_input t"
  by (cases reply) (simp_all add: print_reply_def say_def)

lemma receive_reply_input: "receive_reply cd ok cn t = (v, t') \<Longrightarrow> tc_input t' = tc_input t"
  by (auto simp: receive_reply_def say_def Let_def split: prod.splits option.splits if_splits)

lemma one_line_input:
  "one_line cd ok cn t = (GOES_ON, t') \<Longrightarrow> length (tc_input t') < length (tc_input t)"
  by (auto simp: one_line_def say_def Let_def split: option.splits prod.splits if_splits
      dest!: input_shorter dest: receive_reply_input)

function test_loop ::
  "test_codec \<Rightarrow> (nat \<Rightarrow> bool) \<Rightarrow> (ServerMessage \<Rightarrow> string) \<Rightarrow> tester \<Rightarrow> verdict \<times> tester" where
  "test_loop cd malloc_ok case_number t =
     (case one_line cd malloc_ok case_number t of
        (GOES_ON, t') \<Rightarrow> test_loop cd malloc_ok case_number t'
      | (v, t') \<Rightarrow> (v, t'))"
  by pat_completeness auto
termination by (relation "measure (\<lambda>(cd, ok, cn, t). length (tc_input t))") (auto dest: one_line_input [OF sym])

declare test_loop.simps [simp del]

section \<open>A session\<close>

lemma send_all_rest:
  "send_progress evs \<Longrightarrow> length bs \<le> length (filter is_send_moves evs) \<Longrightarrow>
     \<exists>evs'. send_all evs done bs = (Some (int (length done + length bs)), done @ bs, evs')
       \<and> send_progress evs' \<and> length (filter is_send_moves evs) \<le> length (filter is_send_moves evs') + length bs"
proof (induction evs "done" bs rule: send_all.induct)
  case (5 k evs "done" b bs)
  obtain j where k: "k = Suc j" using 5(2) by (cases k) auto
  then have take: "take k (b # bs) \<noteq> []" by simp
  have "send_progress evs" and len: "length (drop k (b # bs)) \<le> length (filter is_send_moves evs)"
    using 5(2,3) k by simp_all
  from 5(1) [OF refl take this] obtain evs' where
    "send_all evs (done @ take k (b # bs)) (drop k (b # bs)) =
       (Some (int (length (done @ take k (b # bs)) + length (drop k (b # bs)))),
        (done @ take k (b # bs)) @ drop k (b # bs), evs')" "send_progress evs'"
    "length (filter is_send_moves evs) \<le> length (filter is_send_moves evs') + length (drop k (b # bs))"
    by blast
  moreover have "length (take k (b # bs)) + length (drop k (b # bs)) = length (b # bs)"
    by (metis append_take_drop_id length_append)
  moreover have "send_all (SEND_MOVES k # evs) done (b # bs) =
      send_all evs (done @ take k (b # bs)) (drop k (b # bs))"
    using take by (simp add: Let_def)
  ultimately show ?case
    using len k by (auto simp: algebra_simps simp del: take_Suc_Cons drop_Suc_Cons)
qed auto

text \<open>A line that is neither a command nor cut by the buffer.\<close>

definition plain_line :: "string \<Rightarrow> bool" where
  "plain_line l \<longleftrightarrow> CHR 0x0A \<notin> set l \<and> length l < 1023 \<and> l \<noteq> ''!quit'' \<and> l \<noteq> ''!error''"

lemma plain_read: "plain_line l \<Longrightarrow> read_input (l @ CHR 0x0A # rest) = Some (l @ [CHR 0x0A], rest)"
  using fgets_line [of l 1023 rest] by (simp add: read_input_def BUFFER_SIZE_def plain_line_def)

lemma frame_received_rest:
  assumes "recv_progress evs" "4 + length bs \<le> length (filter is_recv_moves evs)"
  obtains evs1 evs2 where
    "recv_all (evs, htonl_bytes (length bs) @ bs @ behind) [] 4 =
       (Some 4, htonl_bytes (length bs), (evs1, bs @ behind))"
    "recv_all (evs1, bs @ behind) [] (length bs) = (Some (int (length bs)), bs, (evs2, behind))"
    "recv_progress evs2" "length (filter is_recv_moves evs) \<le> length (filter is_recv_moves evs2) + (4 + length bs)"
proof -
  let ?h = "htonl_bytes (length bs)"
  obtain evs1 where 1: "recv_all (evs, ?h @ bs @ behind) [] 4 = (Some 4, ?h, (evs1, bs @ behind))"
    "recv_progress evs1" "length (filter is_recv_moves evs) \<le> length (filter is_recv_moves evs1) + 4"
    using recv_all_completes [OF assms(1), of "[]" 4 "?h @ bs @ behind"] assms(2) by auto
  obtain evs2 where
    "recv_all (evs1, bs @ behind) [] (length bs) = (Some (int (length bs)), bs, (evs2, behind))"
    "recv_progress evs2" "length (filter is_recv_moves evs1) \<le> length (filter is_recv_moves evs2) + length bs"
    using recv_all_completes [OF 1(2), of "[]" "length bs" "bs @ behind"] 1(3) assms(2) by auto
  with 1 that show thesis by force
qed

definition frame :: "byte list \<Rightarrow> byte list" where
  "frame bs = htonl_bytes (length bs) @ bs"

text \<open>The bytes of a packed echo of the server for a line.\<close>

definition echo_reply :: "test_codec \<Rightarrow> string \<Rightarrow> byte list \<Rightarrow> bool" where
  "echo_reply cd l bs \<longleftrightarrow> unpack_reply cd bs = Some (SM_ECHO_RES l) \<and> bs \<noteq> [] \<and> length bs < 4294967296"

lemma one_line_echoed:
  assumes "plain_line l" "tc_input t = l @ CHR 0x0A # inp"
    and snd: "send_progress (tc_sends t)" "4 + length (pack_echo cd l) \<le> length (filter is_send_moves (tc_sends t))"
    and rcv: "tc_incoming t = (evs, frame bs @ behind)" "recv_progress evs"
      "4 + length bs \<le> length (filter is_recv_moves evs)"
    and reply: "echo_reply cd l bs"
  obtains sevs revs where
    "one_line cd (\<lambda>n. True) cn t = (GOES_ON, t\<lparr>tc_input := inp, tc_sends := sevs, tc_incoming := (revs, behind),
       tc_sent := tc_sent t @ frame (pack_echo cd l), tc_printed := tc_printed t @ [''Echo response: '' @ l]\<rparr>)"
    "send_progress sevs"
    "length (filter is_send_moves (tc_sends t)) \<le> length (filter is_send_moves sevs) + (4 + length (pack_echo cd l))"
    "recv_progress revs" "length (filter is_recv_moves evs) \<le> length (filter is_recv_moves revs) + (4 + length bs)"
proof -
  obtain sevs where s: "send_all (tc_sends t) [] (frame (pack_echo cd l)) =
      (Some (int (length (frame (pack_echo cd l)))), frame (pack_echo cd l), sevs)" "send_progress sevs"
    "length (filter is_send_moves (tc_sends t)) \<le> length (filter is_send_moves sevs) + (4 + length (pack_echo cd l))"
    using send_all_rest [OF snd(1), of "frame (pack_echo cd l)" "[]"] snd(2) by (auto simp: frame_def)
  obtain evs1 revs where r: "recv_all (evs, frame bs @ behind) [] 4 = (Some 4, htonl_bytes (length bs), (evs1, bs @ behind))"
    "recv_all (evs1, bs @ behind) [] (length bs) = (Some (int (length bs)), bs, (revs, behind))"
    "recv_progress revs" "length (filter is_recv_moves evs) \<le> length (filter is_recv_moves revs) + (4 + length bs)"
    using frame_received_rest [OF rcv(2,3), of behind] by (auto simp: frame_def)
  have "receive_reply cd (\<lambda>n. True) cn (t\<lparr>tc_input := inp, tc_sends := sevs, tc_sent := tc_sent t @ frame (pack_echo cd l)\<rparr>) =
      (GOES_ON, t\<lparr>tc_input := inp, tc_sends := sevs, tc_incoming := (revs, behind),
       tc_sent := tc_sent t @ frame (pack_echo cd l), tc_printed := tc_printed t @ [''Echo response: '' @ l]\<rparr>)"
    using r(1,2) rcv(1) reply ntohl_htonl [of "length bs"]
    by (simp add: receive_reply_def echo_reply_def print_reply_def say_def Let_def)
  with s(1) plain_read [OF assms(1), of inp] assms(1,2)
  have "one_line cd (\<lambda>n. True) cn t = (GOES_ON, t\<lparr>tc_input := inp, tc_sends := sevs, tc_incoming := (revs, behind),
       tc_sent := tc_sent t @ frame (pack_echo cd l), tc_printed := tc_printed t @ [''Echo response: '' @ l]\<rparr>)"
    by (simp add: one_line_def strip_newline_def plain_line_def frame_def Let_def)
  with s r that show thesis by blast
qed

definition frames_length :: "byte list list \<Rightarrow> nat" where
  "frames_length bss = sum_list (map (\<lambda>bs. 4 + length bs) bss)"

lemma frames_length_simps [simp]:
  "frames_length [] = 0" "frames_length (bs # bss) = 4 + length bs + frames_length bss"
  by (simp_all add: frames_length_def)

section \<open>An echo session\<close>

text \<open>
  The console client echoes: when every line is short and no command, the replies on the connection are
  those of the server to the lines, and the connection moves every byte, whatever the sizes of the
  pieces and the interruptions, then the loop sends one frame for each line, prints each line as it
  came back, and ends with the input.
\<close>

theorem echo_session:
  assumes "\<And>l. l \<in> set ls \<Longrightarrow> plain_line l" "list_all2 (echo_reply cd) ls bss"
    and "tc_input t = concat (map (\<lambda>l. l @ [CHR 0x0A]) ls)"
    and "tc_incoming t = (evs, concat (map frame bss))"
    and "send_progress (tc_sends t)"
      "frames_length (map (pack_echo cd) ls) \<le> length (filter is_send_moves (tc_sends t))"
    and "recv_progress evs" "frames_length bss \<le> length (filter is_recv_moves evs)"
  shows "\<exists>t'. test_loop cd (\<lambda>n. True) cn t = (BREAKS, t') \<and> tc_input t' = []
    \<and> tc_sent t' = tc_sent t @ concat (map (\<lambda>l. frame (pack_echo cd l)) ls)
    \<and> tc_printed t' = tc_printed t @ map (\<lambda>l. ''Echo response: '' @ l) ls"
  using assms
proof (induction ls arbitrary: t bss evs)
  case Nil
  then show ?case by (subst test_loop.simps) (simp add: one_line_def read_input_def)
next
  case (Cons l ls)
  from Cons.prems(2) obtain bs bss' where bss: "bss = bs # bss'" "echo_reply cd l bs"
    "list_all2 (echo_reply cd) ls bss'" by (auto simp: list_all2_Cons1)
  let ?inp = "concat (map (\<lambda>l. l @ [CHR 0x0A]) ls)" and ?behind = "concat (map frame bss')"
  obtain sevs revs where
    1: "one_line cd (\<lambda>n. True) cn t = (GOES_ON, t\<lparr>tc_input := ?inp, tc_sends := sevs, tc_incoming := (revs, ?behind),
       tc_sent := tc_sent t @ frame (pack_echo cd l), tc_printed := tc_printed t @ [''Echo response: '' @ l]\<rparr>)"
    and 2: "send_progress sevs"
    "length (filter is_send_moves (tc_sends t)) \<le> length (filter is_send_moves sevs) + (4 + length (pack_echo cd l))"
    "recv_progress revs" "length (filter is_recv_moves evs) \<le> length (filter is_recv_moves revs) + (4 + length bs)"
    by (rule one_line_echoed [of l t ?inp cd evs bs ?behind]) (use Cons.prems bss in auto)
  let ?t = "t\<lparr>tc_input := ?inp, tc_sends := sevs, tc_incoming := (revs, ?behind),
       tc_sent := tc_sent t @ frame (pack_echo cd l), tc_printed := tc_printed t @ [''Echo response: '' @ l]\<rparr>"
  have "\<exists>t'. test_loop cd (\<lambda>n. True) cn ?t = (BREAKS, t') \<and> tc_input t' = []
    \<and> tc_sent t' = tc_sent ?t @ concat (map (\<lambda>l. frame (pack_echo cd l)) ls)
    \<and> tc_printed t' = tc_printed ?t @ map (\<lambda>l. ''Echo response: '' @ l) ls"
    using Cons.prems(1,6,8) bss 2 by (intro Cons.IH [of bss' ?t revs]) auto
  moreover have "test_loop cd (\<lambda>n. True) cn t = test_loop cd (\<lambda>n. True) cn ?t"
    using 1 by (subst test_loop.simps) (simp only: prod.case verdict.case)
  ultimately show ?case by simp
qed

theorem echo_session_witness:
  "\<exists>t'. test_loop \<lparr>pack_echo = (\<lambda>l. [1]), pack_invalid = [], unpack_reply = (\<lambda>bs. Some (SM_ECHO_RES ''hi''))\<rparr>
      (\<lambda>n. True) (\<lambda>m. []) \<lparr>tc_input = [CHR ''h'', CHR ''i'', CHR 0x0A], tc_sends = replicate 5 (SEND_MOVES 2),
        tc_incoming = (RECV_EINTR # replicate 5 (RECV_MOVES 1), [0, 0, 0, 1, 7]), tc_sent = [], tc_printed = []\<rparr> =
      (BREAKS, t') \<and> tc_sent t' = [0, 0, 0, 1, 1] \<and> tc_printed t' = [''Echo response: hi'']"
  using echo_session [of "[''hi'']" "\<lparr>pack_echo = (\<lambda>l. [1]), pack_invalid = [],
      unpack_reply = (\<lambda>bs. Some (SM_ECHO_RES ''hi''))\<rparr>" "[[7]]" "\<lparr>tc_input = [CHR ''h'', CHR ''i'', CHR 0x0A],
        tc_sends = replicate 5 (SEND_MOVES 2), tc_incoming = (RECV_EINTR # replicate 5 (RECV_MOVES 1), [0, 0, 0, 1, 7]),
        tc_sent = [], tc_printed = []\<rparr>" "RECV_EINTR # replicate 5 (RECV_MOVES 1)" "\<lambda>m. []"]
  by (auto simp: plain_line_def echo_reply_def frame_def htonl_bytes_def)

end
