(* ===== verification/Descriptor.thy ===== *)
theory Descriptor
  imports Prelude
begin

text \<open>
  The shapes of the code that \<open>protoc-gen-c\<close> writes (\<open>generated/message.pb-c.h\<close>,
  \<open>generated/message.pb-c.c\<close>, \<open>generated/google/protobuf/timestamp.pb-c.h\<close> and \<open>.c\<close>): the members of the
  structures, the initial values of messages, the descriptors with their lookup tables, and the six
  functions of a message type. The tables themselves are in \<open>Client_Tables\<close> and \<open>Server_Tables\<close>.

  A positional initialiser of C is the application of a constructor, in the same order; the
  reserved members at the end, all NULL, are left out. The address of a descriptor and the type of
  its structure are one identity, \<open>msg_t\<close>: the code has exactly one descriptor for each type. An
  offset is the member it is the offset of. The functions of the library that the generated code
  calls are a record of parameters.
\<close>

section \<open>Identities\<close>

text \<open>The structures of messages and the enumerations.\<close>

datatype msg_t =
  Timestamp_T | ClientMessage_T | PingRequest_T | EchoRequest_T | MatchGameRequest_T
| CancelMatchRequest_T | MoveRequest_T | ResignRequest_T | ChatRequest_T | ServerMessage_T
| PingResponse_T | EchoResponse_T | MatchGameResponse_T | CancelMatchResponse_T | ResignResponse_T
| MoveResponse_T | MoveBroadcast_T | CheckBroadcast_T | ResignBroadcast_T | GameEndBroadcast_T
| ChatBroadcast_T | ErrorResponse_T

datatype enum_t = ProtocolVersion_E | PieceType_E | Team_E | GameEndType_E

section \<open>Structures and messages\<close>

datatype c_type =
  CHAR_PTR | BOOLEAN | INT32 | INT64
| ENUM_OF enum_t
| MESSAGE_PTR msg_t
| CASE_OF msg_t

text \<open>A member of a structure behind its \<open>base\<close>: one variable or an anonymous union.\<close>

datatype member = Member string c_type | Union "(string \<times> c_type) list"

text \<open>
  A message: its \<open>base.descriptor\<close> and the values of the members. \<open>UNION_ZERO\<close> is the union whose
  first pointer is NULL.
\<close>

datatype pb_message = Message (base_descriptor: msg_t) (member_values: "pb_value list")
  and pb_value = Text string | Number int | NULL | Pointer pb_message | UNION_ZERO

abbreviation protobuf_c_empty_string :: pb_value where
  "protobuf_c_empty_string \<equiv> Text []"

section \<open>Descriptors\<close>

datatype label_t = PROTOBUF_C_LABEL_NONE

datatype type_t =
  PROTOBUF_C_TYPE_STRING | PROTOBUF_C_TYPE_BOOL | PROTOBUF_C_TYPE_INT32 | PROTOBUF_C_TYPE_INT64
| PROTOBUF_C_TYPE_ENUM | PROTOBUF_C_TYPE_MESSAGE

datatype flag_t = PROTOBUF_C_FIELD_FLAG_ONEOF

datatype descriptor_ref = ENUM_DESC enum_t | MESSAGE_DESC msg_t

datatype size_t = SIZEOF msg_t

datatype magic_t = PROTOBUF_C__MESSAGE_DESCRIPTOR_MAGIC | PROTOBUF_C__ENUM_DESCRIPTOR_MAGIC

text \<open>The structure and the member of an \<open>offsetof\<close>.\<close>

type_synonym offset_t = "msg_t \<times> string"

text \<open>The start of a run of numbers and the index of its first entry.\<close>

type_synonym int_range = "nat \<times> nat"

datatype field_descriptor = Field
  (fd_name: string) (fd_id: nat) (fd_label: label_t) (fd_type: type_t)
  (fd_quantifier_offset: "offset_t option") (fd_offset: offset_t)
  (fd_descriptor: "descriptor_ref option") (fd_default_value: "pb_value option") (fd_flags: "flag_t list")

datatype message_descriptor = MessageDescriptor
  (md_magic: magic_t) (md_name: string) (md_short_name: string) (md_c_name: string)
  (md_package_name: string) (md_sizeof_message: size_t) (md_n_fields: nat)
  (md_fields: "field_descriptor list") (md_fields_sorted_by_name: "nat list")
  (md_n_field_ranges: nat) (md_field_ranges: "int_range list") (md_message_init: pb_message)

datatype enum_value = EnumValue (ev_name: string) (ev_c_name: string) (ev_value: nat)

datatype enum_descriptor = EnumDescriptor
  (ed_magic: magic_t) (ed_name: string) (ed_short_name: string) (ed_c_name: string)
  (ed_package_name: string) (ed_n_values: nat) (ed_values: "enum_value list")
  (ed_n_value_names: nat) (ed_values_by_name: "(string \<times> nat) list")
  (ed_n_value_ranges: nat) (ed_value_ranges: "int_range list")

section \<open>The functions of a message type\<close>

text \<open>
  What the generated functions call. \<open>lib_pack\<close> is what the library writes to \<open>out\<close>; the buffer of
  \<open>pack_to_buffer\<close> is its content.
\<close>

record pb_library =
  lib_get_packed_size :: "pb_message \<Rightarrow> nat"
  lib_pack :: "pb_message \<Rightarrow> 8 word list"
  lib_pack_to_buffer :: "pb_message \<Rightarrow> 8 word list \<Rightarrow> 8 word list"
  lib_unpack :: "message_descriptor \<Rightarrow> 8 word list \<Rightarrow> pb_message option"

text \<open>An assertion that fails aborts the process.\<close>

datatype 'a call = Abort | Return 'a

definition asserting :: "msg_t \<Rightarrow> pb_message \<Rightarrow> 'a \<Rightarrow> 'a call" where
  "asserting d message result = (if base_descriptor message = d then Return result else Abort)"

text \<open>
  The six functions: \<open>api_init\<close> is the value that \<open>init\<close> stores; \<open>api_free_unpacked\<close> yields the message
  that it gives to the library to be freed, if any.
\<close>

record message_api =
  api_init :: pb_message
  api_get_packed_size :: "pb_message \<Rightarrow> nat call"
  api_pack :: "pb_message \<Rightarrow> 8 word list call"
  api_pack_to_buffer :: "pb_message \<Rightarrow> 8 word list \<Rightarrow> 8 word list call"
  api_unpack :: "8 word list \<Rightarrow> pb_message option"
  api_free_unpacked :: "pb_message option \<Rightarrow> pb_message option call"

definition generated_api ::
  "pb_library \<Rightarrow> msg_t \<Rightarrow> message_descriptor \<Rightarrow> pb_message \<Rightarrow> message_api" where
  "generated_api lib d descriptor init_value =
     \<lparr>api_init = init_value,
      api_get_packed_size = (\<lambda>message. asserting d message (lib_get_packed_size lib message)),
      api_pack = (\<lambda>message. asserting d message (lib_pack lib message)),
      api_pack_to_buffer = (\<lambda>message buffer. asserting d message (lib_pack_to_buffer lib message buffer)),
      api_unpack = (\<lambda>data. lib_unpack lib descriptor data),
      api_free_unpacked = (\<lambda>message. case message of None \<Rightarrow> Return None
        | Some m \<Rightarrow> asserting d m (Some m))\<rparr>"

section \<open>Runs of numbers\<close>

text \<open>
  A table of ranges ends with a sentinel that has the number of entries. Number \<open>n\<close> is in the run
  that starts at \<open>s\<close> with index \<open>k\<close> when it is one of the numbers from \<open>s\<close> on, as many as there are
  indexes up to that of the next range, and the index of its entry is as far from \<open>k\<close> as \<open>n\<close> from \<open>s\<close>.
\<close>

definition in_run :: "int_range list \<Rightarrow> nat \<Rightarrow> nat \<Rightarrow> bool" where
  "in_run rs n i \<longleftrightarrow>
     (\<exists>r. Suc r < length rs \<and> fst (rs ! r) \<le> n \<and> n < fst (rs ! r) + (snd (rs ! Suc r) - snd (rs ! r))
        \<and> i = snd (rs ! r) + (n - fst (rs ! r)))"

lemma in_run_Cons:
  "in_run ((s, k) # (s', j) # rs) n i \<longleftrightarrow>
     s \<le> n \<and> n < s + (j - k) \<and> i = k + (n - s) \<or> in_run ((s', j) # rs) n i"
  (is "?l \<longleftrightarrow> ?first \<or> ?later")
proof
  assume ?l
  then obtain r where "Suc r < length ((s, k) # (s', j) # rs)"
    "fst (((s, k) # (s', j) # rs) ! r) \<le> n" "n < fst (((s, k) # (s', j) # rs) ! r)
       + (snd (((s, k) # (s', j) # rs) ! Suc r) - snd (((s, k) # (s', j) # rs) ! r))"
    "i = snd (((s, k) # (s', j) # rs) ! r) + (n - fst (((s, k) # (s', j) # rs) ! r))"
    unfolding in_run_def by blast
  then show "?first \<or> ?later" by (cases r) (auto simp: in_run_def)
next
  assume "?first \<or> ?later"
  then show ?l
  proof
    assume ?first
    then show ?l unfolding in_run_def by (intro exI [of _ 0]) simp
  next
    assume ?later
    then obtain r where "Suc r < length ((s', j) # rs)" "fst (((s', j) # rs) ! r) \<le> n"
      "n < fst (((s', j) # rs) ! r) + (snd (((s', j) # rs) ! Suc r) - snd (((s', j) # rs) ! r))"
      "i = snd (((s', j) # rs) ! r) + (n - fst (((s', j) # rs) ! r))"
      unfolding in_run_def by blast
    then show ?l unfolding in_run_def by (intro exI [of _ "Suc r"]) simp
  qed
qed

lemma in_run_short: "\<not> in_run [] n i" "\<not> in_run [p] n i"
  by (simp_all add: in_run_def)

text \<open>The numbers that a table of ranges lists, and the check that its indexes are consecutive.\<close>

fun range_numbers :: "int_range list \<Rightarrow> nat list" where
  "range_numbers ((s, i) # (s', j) # rs) = [s..<s + (j - i)] @ range_numbers ((s', j) # rs)"
| "range_numbers _ = []"

fun indexed_from :: "nat \<Rightarrow> int_range list \<Rightarrow> bool" where
  "indexed_from k ((s, i) # (s', j) # rs) \<longleftrightarrow> i = k \<and> i \<le> j \<and> indexed_from j ((s', j) # rs)"
| "indexed_from k [(s, i)] \<longleftrightarrow> i = k"
| "indexed_from k [] \<longleftrightarrow> False"

lemma in_run_sound:
  "indexed_from k rs \<Longrightarrow> in_run rs n i \<Longrightarrow>
   k \<le> i \<and> i - k < length (range_numbers rs) \<and> range_numbers rs ! (i - k) = n"
proof (induction rs arbitrary: k rule: range_numbers.induct)
  case (1 s i' s' j rs)
  show ?case
  proof (cases "s \<le> n \<and> n < s + (j - i') \<and> i = i' + (n - s)")
    case True
    with 1(2) show ?thesis by (auto simp: nth_append)
  next
    case False
    with 1 have "j \<le> i" "i - j < length (range_numbers ((s', j) # rs))"
      "range_numbers ((s', j) # rs) ! (i - j) = n" by (auto simp: in_run_Cons)
    with 1(2) show ?thesis by (auto simp: nth_append)
  qed
qed (simp_all add: in_run_short)

lemma in_run_finds: "n \<in> set (range_numbers rs) \<Longrightarrow> \<exists>i. in_run rs n i"
proof (induction rs rule: range_numbers.induct)
  case (1 s i s' j rs)
  show ?case
  proof (cases "s \<le> n \<and> n < s + (j - i)")
    case True
    then have "in_run ((s, i) # (s', j) # rs) n (i + (n - s))" by (simp add: in_run_Cons)
    then show ?thesis ..
  next
    case False
    with 1 obtain x where "in_run ((s', j) # rs) n x" by auto
    then have "in_run ((s, i) # (s', j) # rs) n x" by (simp add: in_run_Cons)
    then show ?thesis ..
  qed
qed simp_all

text \<open>The contract of a table with numbers: its runs are exactly the entries that there are.\<close>

locale number_table =
  fixes numbers :: "nat list" and ranges :: "int_range list"
  assumes ascending: "sorted_wrt (<) numbers"
    and indexes: "indexed_from 0 ranges"
    and covers: "range_numbers ranges = numbers"
begin

lemma numbers_inj: "i < length numbers \<Longrightarrow> j < length numbers \<Longrightarrow> numbers ! i = numbers ! j \<Longrightarrow> i = j"
  using ascending strict_sorted_iff nth_eq_iff_index_eq by blast

lemma in_run_iff: "in_run ranges n i \<longleftrightarrow> i < length numbers \<and> numbers ! i = n"
proof
  assume "in_run ranges n i"
  from in_run_sound [OF indexes this] covers show "i < length numbers \<and> numbers ! i = n" by simp
next
  assume i: "i < length numbers \<and> numbers ! i = n"
  then have "n \<in> set (range_numbers ranges)" using covers by auto
  then obtain j where "in_run ranges n j" using in_run_finds by blast
  moreover from in_run_sound [OF indexes this] covers i have "j = i" by (auto intro: numbers_inj)
  ultimately show "in_run ranges n i" by simp
qed

end

section \<open>The order of names\<close>

text \<open>The order of \<open>strcmp\<close>.\<close>

fun strcmp_less :: "string \<Rightarrow> string \<Rightarrow> bool" where
  "strcmp_less [] [] \<longleftrightarrow> False"
| "strcmp_less [] (d # ds) \<longleftrightarrow> True"
| "strcmp_less (c # cs) [] \<longleftrightarrow> False"
| "strcmp_less (c # cs) (d # ds) \<longleftrightarrow> code c < code d \<or> c = d \<and> strcmp_less cs ds"

lemma strcmp_less_irrefl: "\<not> strcmp_less s s"
  by (induction s) auto

text \<open>
  The contract of an index by name: it lists every entry once, in the order of the names, as a
  search that compares names and halves the interval needs it.
\<close>

locale name_index =
  fixes names :: "string list" and index :: "nat list"
  assumes entries: "sort index = [0..<length names]"
    and by_name: "sorted_wrt strcmp_less (map (\<lambda>i. names ! i) index)"
begin

lemma index_set: "set index = {..<length names}"
  using entries by (metis lessThan_atLeast0 set_sort set_upt)

lemma index_length: "length index = length names"
  using entries by (metis diff_zero length_sort length_upt)

lemma index_less:
  "i < j \<Longrightarrow> j < length index \<Longrightarrow> strcmp_less (names ! (index ! i)) (names ! (index ! j))"
  using by_name by (simp add: sorted_wrt_iff_nth_less)

lemma name_found: "k < length names \<Longrightarrow> \<exists>!i. i < length index \<and> names ! (index ! i) = names ! k"
proof (rule ex_ex1I)
  assume "k < length names"
  then have "k \<in> set index" by (simp add: index_set)
  then show "\<exists>i. i < length index \<and> names ! (index ! i) = names ! k" by (auto simp: in_set_conv_nth)
next
  fix i j
  assume "i < length index \<and> names ! (index ! i) = names ! k" "j < length index \<and> names ! (index ! j) = names ! k"
  then show "i = j" using index_less [of i j] index_less [of j i] strcmp_less_irrefl
    by (metis linorder_neqE_nat)
qed

end

end
