(* ===== verification/Client_Tables.thy ===== *)
theory Client_Tables
  imports Descriptor
begin

text \<open>
  The generated code of the timestamps, the enumerations and the messages of the client:
  \<open>google/protobuf/timestamp.pb-c.h\<close> and \<open>.c\<close>, and the first half of \<open>message.pb-c.h\<close> and
  \<open>message.pb-c.c\<close>.
\<close>

section \<open>\<open>Google__Protobuf__Timestamp\<close>\<close>

definition google__protobuf__timestamp__members :: "member list" where
  "google__protobuf__timestamp__members =
    [Member ''seconds'' INT64,
     Member ''nanos'' INT32]"

definition GOOGLE__PROTOBUF__TIMESTAMP__INIT :: "pb_message" where
  "GOOGLE__PROTOBUF__TIMESTAMP__INIT =
    Message Timestamp_T
     [Number 0, Number 0]"

definition google__protobuf__timestamp__init :: "pb_message" where
  "google__protobuf__timestamp__init = GOOGLE__PROTOBUF__TIMESTAMP__INIT"

definition google__protobuf__timestamp__field_descriptors :: "field_descriptor list" where
  "google__protobuf__timestamp__field_descriptors =
    [Field ''seconds'' 1 PROTOBUF_C_LABEL_NONE PROTOBUF_C_TYPE_INT64
       None (Timestamp_T, ''seconds'') None None [],
     Field ''nanos'' 2 PROTOBUF_C_LABEL_NONE PROTOBUF_C_TYPE_INT32
       None (Timestamp_T, ''nanos'') None None []]"

definition google__protobuf__timestamp__field_indices_by_name :: "nat list" where
  "google__protobuf__timestamp__field_indices_by_name = [1, 0]"

definition google__protobuf__timestamp__number_ranges :: "int_range list" where
  "google__protobuf__timestamp__number_ranges = [(1, 0), (0, 2)]"

definition google__protobuf__timestamp__descriptor :: "message_descriptor" where
  "google__protobuf__timestamp__descriptor =
    MessageDescriptor PROTOBUF_C__MESSAGE_DESCRIPTOR_MAGIC
     ''google.protobuf.Timestamp'' ''Timestamp'' ''Google__Protobuf__Timestamp'' ''google.protobuf''
     (SIZEOF Timestamp_T) 2 google__protobuf__timestamp__field_descriptors
     google__protobuf__timestamp__field_indices_by_name 1 google__protobuf__timestamp__number_ranges
     google__protobuf__timestamp__init"

definition google__protobuf__timestamp__api :: "pb_library \<Rightarrow> message_api" where
  "google__protobuf__timestamp__api lib =
    generated_api lib Timestamp_T google__protobuf__timestamp__descriptor google__protobuf__timestamp__init"

section \<open>Enumeration \<open>ProtocolVersion\<close>\<close>

definition protocol_version__enum_values_by_number :: "enum_value list" where
  "protocol_version__enum_values_by_number =
    [EnumValue ''PV_UNKNOWN'' ''PROTOCOL_VERSION__PV_UNKNOWN'' 0,
     EnumValue ''PV_V1'' ''PROTOCOL_VERSION__PV_V1'' 1]"

definition protocol_version__value_ranges :: "int_range list" where
  "protocol_version__value_ranges = [(0, 0), (0, 2)]"

definition protocol_version__enum_values_by_name :: "(string \<times> nat) list" where
  "protocol_version__enum_values_by_name =
    [(''PV_UNKNOWN'', 0),
     (''PV_V1'', 1)]"

definition protocol_version__descriptor :: "enum_descriptor" where
  "protocol_version__descriptor =
    EnumDescriptor PROTOBUF_C__ENUM_DESCRIPTOR_MAGIC
     ''ProtocolVersion'' ''ProtocolVersion'' ''ProtocolVersion'' ''''
     2 protocol_version__enum_values_by_number
     2 protocol_version__enum_values_by_name 1 protocol_version__value_ranges"

section \<open>Enumeration \<open>PieceType\<close>\<close>

definition piece_type__enum_values_by_number :: "enum_value list" where
  "piece_type__enum_values_by_number =
    [EnumValue ''PT_NONE'' ''PIECE_TYPE__PT_NONE'' 0,
     EnumValue ''PT_PAWN'' ''PIECE_TYPE__PT_PAWN'' 1,
     EnumValue ''PT_KNIGHT'' ''PIECE_TYPE__PT_KNIGHT'' 2,
     EnumValue ''PT_BISHOP'' ''PIECE_TYPE__PT_BISHOP'' 3,
     EnumValue ''PT_ROOK'' ''PIECE_TYPE__PT_ROOK'' 4,
     EnumValue ''PT_QUEEN'' ''PIECE_TYPE__PT_QUEEN'' 5,
     EnumValue ''PT_KING'' ''PIECE_TYPE__PT_KING'' 6]"

definition piece_type__value_ranges :: "int_range list" where
  "piece_type__value_ranges = [(0, 0), (0, 7)]"

definition piece_type__enum_values_by_name :: "(string \<times> nat) list" where
  "piece_type__enum_values_by_name =
    [(''PT_BISHOP'', 3),
     (''PT_KING'', 6),
     (''PT_KNIGHT'', 2),
     (''PT_NONE'', 0),
     (''PT_PAWN'', 1),
     (''PT_QUEEN'', 5),
     (''PT_ROOK'', 4)]"

definition piece_type__descriptor :: "enum_descriptor" where
  "piece_type__descriptor =
    EnumDescriptor PROTOBUF_C__ENUM_DESCRIPTOR_MAGIC
     ''PieceType'' ''PieceType'' ''PieceType'' ''''
     7 piece_type__enum_values_by_number
     7 piece_type__enum_values_by_name 1 piece_type__value_ranges"

section \<open>Enumeration \<open>Team\<close>\<close>

definition team__enum_values_by_number :: "enum_value list" where
  "team__enum_values_by_number =
    [EnumValue ''TEAM_UNSPECIFIED'' ''TEAM__TEAM_UNSPECIFIED'' 0,
     EnumValue ''TEAM_WHITE'' ''TEAM__TEAM_WHITE'' 1,
     EnumValue ''TEAM_BLACK'' ''TEAM__TEAM_BLACK'' 2]"

definition team__value_ranges :: "int_range list" where
  "team__value_ranges = [(0, 0), (0, 3)]"

definition team__enum_values_by_name :: "(string \<times> nat) list" where
  "team__enum_values_by_name =
    [(''TEAM_BLACK'', 2),
     (''TEAM_UNSPECIFIED'', 0),
     (''TEAM_WHITE'', 1)]"

definition team__descriptor :: "enum_descriptor" where
  "team__descriptor =
    EnumDescriptor PROTOBUF_C__ENUM_DESCRIPTOR_MAGIC
     ''Team'' ''Team'' ''Team'' ''''
     3 team__enum_values_by_number
     3 team__enum_values_by_name 1 team__value_ranges"

section \<open>Enumeration \<open>GameEndType\<close>\<close>

definition game_end_type__enum_values_by_number :: "enum_value list" where
  "game_end_type__enum_values_by_number =
    [EnumValue ''GAME_END_UNKNOWN'' ''GAME_END_TYPE__GAME_END_UNKNOWN'' 0,
     EnumValue ''GAME_END_RESIGN'' ''GAME_END_TYPE__GAME_END_RESIGN'' 1,
     EnumValue ''GAME_END_DISCONNECT'' ''GAME_END_TYPE__GAME_END_DISCONNECT'' 2,
     EnumValue ''GAME_END_CHECKMATE'' ''GAME_END_TYPE__GAME_END_CHECKMATE'' 3,
     EnumValue ''GAME_END_STALEMATE'' ''GAME_END_TYPE__GAME_END_STALEMATE'' 4,
     EnumValue ''GAME_END_DRAW'' ''GAME_END_TYPE__GAME_END_DRAW'' 5,
     EnumValue ''GAME_END_TIMEOUT'' ''GAME_END_TYPE__GAME_END_TIMEOUT'' 6]"

definition game_end_type__value_ranges :: "int_range list" where
  "game_end_type__value_ranges = [(0, 0), (0, 7)]"

definition game_end_type__enum_values_by_name :: "(string \<times> nat) list" where
  "game_end_type__enum_values_by_name =
    [(''GAME_END_CHECKMATE'', 3),
     (''GAME_END_DISCONNECT'', 2),
     (''GAME_END_DRAW'', 5),
     (''GAME_END_RESIGN'', 1),
     (''GAME_END_STALEMATE'', 4),
     (''GAME_END_TIMEOUT'', 6),
     (''GAME_END_UNKNOWN'', 0)]"

definition game_end_type__descriptor :: "enum_descriptor" where
  "game_end_type__descriptor =
    EnumDescriptor PROTOBUF_C__ENUM_DESCRIPTOR_MAGIC
     ''GameEndType'' ''GameEndType'' ''GameEndType'' ''''
     7 game_end_type__enum_values_by_number
     7 game_end_type__enum_values_by_name 1 game_end_type__value_ranges"

section \<open>\<open>ClientMessage\<close>\<close>

text \<open>The enumerators of \<open>ClientMessage__MsgCase\<close>.\<close>

definition client_message__msg_cases :: "(string \<times> nat) list" where
  "client_message__msg_cases =
    [(''CLIENT_MESSAGE__MSG__NOT_SET'', 0),
     (''CLIENT_MESSAGE__MSG_PING'', 10),
     (''CLIENT_MESSAGE__MSG_ECHO'', 11),
     (''CLIENT_MESSAGE__MSG_MATCH_GAME'', 20),
     (''CLIENT_MESSAGE__MSG_CANCEL_MATCH'', 21),
     (''CLIENT_MESSAGE__MSG_MOVE'', 22),
     (''CLIENT_MESSAGE__MSG_RESIGN'', 23),
     (''CLIENT_MESSAGE__MSG_CHAT'', 24)]"

definition client_message__members :: "member list" where
  "client_message__members =
    [Member ''version'' (ENUM_OF ProtocolVersion_E),
     Member ''msg_case'' (CASE_OF ClientMessage_T),
     Union
      [(''ping'', (MESSAGE_PTR PingRequest_T)),
       (''echo'', (MESSAGE_PTR EchoRequest_T)),
       (''match_game'', (MESSAGE_PTR MatchGameRequest_T)),
       (''cancel_match'', (MESSAGE_PTR CancelMatchRequest_T)),
       (''move'', (MESSAGE_PTR MoveRequest_T)),
       (''resign'', (MESSAGE_PTR ResignRequest_T)),
       (''chat'', (MESSAGE_PTR ChatRequest_T))]]"

definition CLIENT_MESSAGE__INIT :: "pb_message" where
  "CLIENT_MESSAGE__INIT =
    Message ClientMessage_T
     [Number 0, Number 0, UNION_ZERO]"

definition client_message__init :: "pb_message" where
  "client_message__init = CLIENT_MESSAGE__INIT"

definition client_message__field_descriptors :: "field_descriptor list" where
  "client_message__field_descriptors =
    [Field ''version'' 1 PROTOBUF_C_LABEL_NONE PROTOBUF_C_TYPE_ENUM
       None (ClientMessage_T, ''version'') (Some (ENUM_DESC ProtocolVersion_E)) None [],
     Field ''ping'' 10 PROTOBUF_C_LABEL_NONE PROTOBUF_C_TYPE_MESSAGE
       (Some (ClientMessage_T, ''msg_case'')) (ClientMessage_T, ''ping'') (Some (MESSAGE_DESC PingRequest_T)) None [PROTOBUF_C_FIELD_FLAG_ONEOF],
     Field ''echo'' 11 PROTOBUF_C_LABEL_NONE PROTOBUF_C_TYPE_MESSAGE
       (Some (ClientMessage_T, ''msg_case'')) (ClientMessage_T, ''echo'') (Some (MESSAGE_DESC EchoRequest_T)) None [PROTOBUF_C_FIELD_FLAG_ONEOF],
     Field ''match_game'' 20 PROTOBUF_C_LABEL_NONE PROTOBUF_C_TYPE_MESSAGE
       (Some (ClientMessage_T, ''msg_case'')) (ClientMessage_T, ''match_game'') (Some (MESSAGE_DESC MatchGameRequest_T)) None [PROTOBUF_C_FIELD_FLAG_ONEOF],
     Field ''cancel_match'' 21 PROTOBUF_C_LABEL_NONE PROTOBUF_C_TYPE_MESSAGE
       (Some (ClientMessage_T, ''msg_case'')) (ClientMessage_T, ''cancel_match'') (Some (MESSAGE_DESC CancelMatchRequest_T)) None [PROTOBUF_C_FIELD_FLAG_ONEOF],
     Field ''move'' 22 PROTOBUF_C_LABEL_NONE PROTOBUF_C_TYPE_MESSAGE
       (Some (ClientMessage_T, ''msg_case'')) (ClientMessage_T, ''move'') (Some (MESSAGE_DESC MoveRequest_T)) None [PROTOBUF_C_FIELD_FLAG_ONEOF],
     Field ''resign'' 23 PROTOBUF_C_LABEL_NONE PROTOBUF_C_TYPE_MESSAGE
       (Some (ClientMessage_T, ''msg_case'')) (ClientMessage_T, ''resign'') (Some (MESSAGE_DESC ResignRequest_T)) None [PROTOBUF_C_FIELD_FLAG_ONEOF],
     Field ''chat'' 24 PROTOBUF_C_LABEL_NONE PROTOBUF_C_TYPE_MESSAGE
       (Some (ClientMessage_T, ''msg_case'')) (ClientMessage_T, ''chat'') (Some (MESSAGE_DESC ChatRequest_T)) None [PROTOBUF_C_FIELD_FLAG_ONEOF]]"

definition client_message__field_indices_by_name :: "nat list" where
  "client_message__field_indices_by_name = [4, 7, 2, 3, 5, 1, 6, 0]"

definition client_message__number_ranges :: "int_range list" where
  "client_message__number_ranges = [(1, 0), (10, 1), (20, 3), (0, 8)]"

definition client_message__descriptor :: "message_descriptor" where
  "client_message__descriptor =
    MessageDescriptor PROTOBUF_C__MESSAGE_DESCRIPTOR_MAGIC
     ''ClientMessage'' ''ClientMessage'' ''ClientMessage'' ''''
     (SIZEOF ClientMessage_T) 8 client_message__field_descriptors
     client_message__field_indices_by_name 3 client_message__number_ranges
     client_message__init"

definition client_message__api :: "pb_library \<Rightarrow> message_api" where
  "client_message__api lib =
    generated_api lib ClientMessage_T client_message__descriptor client_message__init"

section \<open>\<open>PingRequest\<close>\<close>

definition ping_request__members :: "member list" where
  "ping_request__members = [Member ''message'' CHAR_PTR]"

definition PING_REQUEST__INIT :: "pb_message" where
  "PING_REQUEST__INIT =
    Message PingRequest_T
     [protobuf_c_empty_string]"

definition ping_request__init :: "pb_message" where
  "ping_request__init = PING_REQUEST__INIT"

definition ping_request__field_descriptors :: "field_descriptor list" where
  "ping_request__field_descriptors =
    [Field ''message'' 1 PROTOBUF_C_LABEL_NONE PROTOBUF_C_TYPE_STRING
       None (PingRequest_T, ''message'') None (Some protobuf_c_empty_string) []]"

definition ping_request__field_indices_by_name :: "nat list" where
  "ping_request__field_indices_by_name = [0]"

definition ping_request__number_ranges :: "int_range list" where
  "ping_request__number_ranges = [(1, 0), (0, 1)]"

definition ping_request__descriptor :: "message_descriptor" where
  "ping_request__descriptor =
    MessageDescriptor PROTOBUF_C__MESSAGE_DESCRIPTOR_MAGIC
     ''PingRequest'' ''PingRequest'' ''PingRequest'' ''''
     (SIZEOF PingRequest_T) 1 ping_request__field_descriptors
     ping_request__field_indices_by_name 1 ping_request__number_ranges
     ping_request__init"

definition ping_request__api :: "pb_library \<Rightarrow> message_api" where
  "ping_request__api lib =
    generated_api lib PingRequest_T ping_request__descriptor ping_request__init"

section \<open>\<open>EchoRequest\<close>\<close>

definition echo_request__members :: "member list" where
  "echo_request__members = [Member ''message'' CHAR_PTR]"

definition ECHO_REQUEST__INIT :: "pb_message" where
  "ECHO_REQUEST__INIT =
    Message EchoRequest_T
     [protobuf_c_empty_string]"

definition echo_request__init :: "pb_message" where
  "echo_request__init = ECHO_REQUEST__INIT"

definition echo_request__field_descriptors :: "field_descriptor list" where
  "echo_request__field_descriptors =
    [Field ''message'' 1 PROTOBUF_C_LABEL_NONE PROTOBUF_C_TYPE_STRING
       None (EchoRequest_T, ''message'') None (Some protobuf_c_empty_string) []]"

definition echo_request__field_indices_by_name :: "nat list" where
  "echo_request__field_indices_by_name = [0]"

definition echo_request__number_ranges :: "int_range list" where
  "echo_request__number_ranges = [(1, 0), (0, 1)]"

definition echo_request__descriptor :: "message_descriptor" where
  "echo_request__descriptor =
    MessageDescriptor PROTOBUF_C__MESSAGE_DESCRIPTOR_MAGIC
     ''EchoRequest'' ''EchoRequest'' ''EchoRequest'' ''''
     (SIZEOF EchoRequest_T) 1 echo_request__field_descriptors
     echo_request__field_indices_by_name 1 echo_request__number_ranges
     echo_request__init"

definition echo_request__api :: "pb_library \<Rightarrow> message_api" where
  "echo_request__api lib =
    generated_api lib EchoRequest_T echo_request__descriptor echo_request__init"

section \<open>\<open>MatchGameRequest\<close>\<close>

definition match_game_request__members :: "member list" where
  "match_game_request__members =
    [Member ''player_id'' CHAR_PTR,
     Member ''desired_game_id'' CHAR_PTR]"

definition MATCH_GAME_REQUEST__INIT :: "pb_message" where
  "MATCH_GAME_REQUEST__INIT =
    Message MatchGameRequest_T
     [protobuf_c_empty_string, protobuf_c_empty_string]"

definition match_game_request__init :: "pb_message" where
  "match_game_request__init = MATCH_GAME_REQUEST__INIT"

definition match_game_request__field_descriptors :: "field_descriptor list" where
  "match_game_request__field_descriptors =
    [Field ''player_id'' 1 PROTOBUF_C_LABEL_NONE PROTOBUF_C_TYPE_STRING
       None (MatchGameRequest_T, ''player_id'') None (Some protobuf_c_empty_string) [],
     Field ''desired_game_id'' 2 PROTOBUF_C_LABEL_NONE PROTOBUF_C_TYPE_STRING
       None (MatchGameRequest_T, ''desired_game_id'') None (Some protobuf_c_empty_string) []]"

definition match_game_request__field_indices_by_name :: "nat list" where
  "match_game_request__field_indices_by_name = [1, 0]"

definition match_game_request__number_ranges :: "int_range list" where
  "match_game_request__number_ranges = [(1, 0), (0, 2)]"

definition match_game_request__descriptor :: "message_descriptor" where
  "match_game_request__descriptor =
    MessageDescriptor PROTOBUF_C__MESSAGE_DESCRIPTOR_MAGIC
     ''MatchGameRequest'' ''MatchGameRequest'' ''MatchGameRequest'' ''''
     (SIZEOF MatchGameRequest_T) 2 match_game_request__field_descriptors
     match_game_request__field_indices_by_name 1 match_game_request__number_ranges
     match_game_request__init"

definition match_game_request__api :: "pb_library \<Rightarrow> message_api" where
  "match_game_request__api lib =
    generated_api lib MatchGameRequest_T match_game_request__descriptor match_game_request__init"

section \<open>\<open>CancelMatchRequest\<close>\<close>

definition cancel_match_request__members :: "member list" where
  "cancel_match_request__members = [Member ''player_id'' CHAR_PTR]"

definition CANCEL_MATCH_REQUEST__INIT :: "pb_message" where
  "CANCEL_MATCH_REQUEST__INIT =
    Message CancelMatchRequest_T
     [protobuf_c_empty_string]"

definition cancel_match_request__init :: "pb_message" where
  "cancel_match_request__init = CANCEL_MATCH_REQUEST__INIT"

definition cancel_match_request__field_descriptors :: "field_descriptor list" where
  "cancel_match_request__field_descriptors =
    [Field ''player_id'' 1 PROTOBUF_C_LABEL_NONE PROTOBUF_C_TYPE_STRING
       None (CancelMatchRequest_T, ''player_id'') None (Some protobuf_c_empty_string) []]"

definition cancel_match_request__field_indices_by_name :: "nat list" where
  "cancel_match_request__field_indices_by_name = [0]"

definition cancel_match_request__number_ranges :: "int_range list" where
  "cancel_match_request__number_ranges = [(1, 0), (0, 1)]"

definition cancel_match_request__descriptor :: "message_descriptor" where
  "cancel_match_request__descriptor =
    MessageDescriptor PROTOBUF_C__MESSAGE_DESCRIPTOR_MAGIC
     ''CancelMatchRequest'' ''CancelMatchRequest'' ''CancelMatchRequest'' ''''
     (SIZEOF CancelMatchRequest_T) 1 cancel_match_request__field_descriptors
     cancel_match_request__field_indices_by_name 1 cancel_match_request__number_ranges
     cancel_match_request__init"

definition cancel_match_request__api :: "pb_library \<Rightarrow> message_api" where
  "cancel_match_request__api lib =
    generated_api lib CancelMatchRequest_T cancel_match_request__descriptor cancel_match_request__init"

section \<open>\<open>MoveRequest\<close>\<close>

definition move_request__members :: "member list" where
  "move_request__members =
    [Member ''from'' CHAR_PTR,
     Member ''to'' CHAR_PTR,
     Member ''timestamp'' (MESSAGE_PTR Timestamp_T)]"

definition MOVE_REQUEST__INIT :: "pb_message" where
  "MOVE_REQUEST__INIT =
    Message MoveRequest_T
     [protobuf_c_empty_string, protobuf_c_empty_string, NULL]"

definition move_request__init :: "pb_message" where
  "move_request__init = MOVE_REQUEST__INIT"

definition move_request__field_descriptors :: "field_descriptor list" where
  "move_request__field_descriptors =
    [Field ''from'' 1 PROTOBUF_C_LABEL_NONE PROTOBUF_C_TYPE_STRING
       None (MoveRequest_T, ''from'') None (Some protobuf_c_empty_string) [],
     Field ''to'' 2 PROTOBUF_C_LABEL_NONE PROTOBUF_C_TYPE_STRING
       None (MoveRequest_T, ''to'') None (Some protobuf_c_empty_string) [],
     Field ''timestamp'' 3 PROTOBUF_C_LABEL_NONE PROTOBUF_C_TYPE_MESSAGE
       None (MoveRequest_T, ''timestamp'') (Some (MESSAGE_DESC Timestamp_T)) None []]"

definition move_request__field_indices_by_name :: "nat list" where
  "move_request__field_indices_by_name = [0, 2, 1]"

definition move_request__number_ranges :: "int_range list" where
  "move_request__number_ranges = [(1, 0), (0, 3)]"

definition move_request__descriptor :: "message_descriptor" where
  "move_request__descriptor =
    MessageDescriptor PROTOBUF_C__MESSAGE_DESCRIPTOR_MAGIC
     ''MoveRequest'' ''MoveRequest'' ''MoveRequest'' ''''
     (SIZEOF MoveRequest_T) 3 move_request__field_descriptors
     move_request__field_indices_by_name 1 move_request__number_ranges
     move_request__init"

definition move_request__api :: "pb_library \<Rightarrow> message_api" where
  "move_request__api lib =
    generated_api lib MoveRequest_T move_request__descriptor move_request__init"

section \<open>\<open>ResignRequest\<close>\<close>

definition resign_request__members :: "member list" where
  "resign_request__members = [Member ''player_id'' CHAR_PTR]"

definition RESIGN_REQUEST__INIT :: "pb_message" where
  "RESIGN_REQUEST__INIT =
    Message ResignRequest_T
     [protobuf_c_empty_string]"

definition resign_request__init :: "pb_message" where
  "resign_request__init = RESIGN_REQUEST__INIT"

definition resign_request__field_descriptors :: "field_descriptor list" where
  "resign_request__field_descriptors =
    [Field ''player_id'' 1 PROTOBUF_C_LABEL_NONE PROTOBUF_C_TYPE_STRING
       None (ResignRequest_T, ''player_id'') None (Some protobuf_c_empty_string) []]"

definition resign_request__field_indices_by_name :: "nat list" where
  "resign_request__field_indices_by_name = [0]"

definition resign_request__number_ranges :: "int_range list" where
  "resign_request__number_ranges = [(1, 0), (0, 1)]"

definition resign_request__descriptor :: "message_descriptor" where
  "resign_request__descriptor =
    MessageDescriptor PROTOBUF_C__MESSAGE_DESCRIPTOR_MAGIC
     ''ResignRequest'' ''ResignRequest'' ''ResignRequest'' ''''
     (SIZEOF ResignRequest_T) 1 resign_request__field_descriptors
     resign_request__field_indices_by_name 1 resign_request__number_ranges
     resign_request__init"

definition resign_request__api :: "pb_library \<Rightarrow> message_api" where
  "resign_request__api lib =
    generated_api lib ResignRequest_T resign_request__descriptor resign_request__init"

section \<open>\<open>ChatRequest\<close>\<close>

definition chat_request__members :: "member list" where
  "chat_request__members =
    [Member ''message'' CHAR_PTR,
     Member ''timestamp'' (MESSAGE_PTR Timestamp_T)]"

definition CHAT_REQUEST__INIT :: "pb_message" where
  "CHAT_REQUEST__INIT =
    Message ChatRequest_T
     [protobuf_c_empty_string, NULL]"

definition chat_request__init :: "pb_message" where
  "chat_request__init = CHAT_REQUEST__INIT"

definition chat_request__field_descriptors :: "field_descriptor list" where
  "chat_request__field_descriptors =
    [Field ''message'' 1 PROTOBUF_C_LABEL_NONE PROTOBUF_C_TYPE_STRING
       None (ChatRequest_T, ''message'') None (Some protobuf_c_empty_string) [],
     Field ''timestamp'' 2 PROTOBUF_C_LABEL_NONE PROTOBUF_C_TYPE_MESSAGE
       None (ChatRequest_T, ''timestamp'') (Some (MESSAGE_DESC Timestamp_T)) None []]"

definition chat_request__field_indices_by_name :: "nat list" where
  "chat_request__field_indices_by_name = [0, 1]"

definition chat_request__number_ranges :: "int_range list" where
  "chat_request__number_ranges = [(1, 0), (0, 2)]"

definition chat_request__descriptor :: "message_descriptor" where
  "chat_request__descriptor =
    MessageDescriptor PROTOBUF_C__MESSAGE_DESCRIPTOR_MAGIC
     ''ChatRequest'' ''ChatRequest'' ''ChatRequest'' ''''
     (SIZEOF ChatRequest_T) 2 chat_request__field_descriptors
     chat_request__field_indices_by_name 1 chat_request__number_ranges
     chat_request__init"

definition chat_request__api :: "pb_library \<Rightarrow> message_api" where
  "chat_request__api lib =
    generated_api lib ChatRequest_T chat_request__descriptor chat_request__init"

end
