(* ===== verification/Server_Tables.thy ===== *)
theory Server_Tables
  imports Descriptor Client_Tables
begin

text \<open>
  The generated code of the messages of the server, the second half of \<open>message.pb-c.h\<close> and
  \<open>message.pb-c.c\<close>, and the identities of all descriptors.
\<close>

section \<open>\<open>ServerMessage\<close>\<close>

text \<open>The enumerators of \<open>ServerMessage__MsgCase\<close>.\<close>

definition server_message__msg_cases :: "(string \<times> nat) list" where
  "server_message__msg_cases =
    [(''SERVER_MESSAGE__MSG__NOT_SET'', 0),
     (''SERVER_MESSAGE__MSG_PING_RES'', 10),
     (''SERVER_MESSAGE__MSG_ECHO_RES'', 11),
     (''SERVER_MESSAGE__MSG_MATCH_GAME_RES'', 20),
     (''SERVER_MESSAGE__MSG_CANCEL_MATCH_RES'', 21),
     (''SERVER_MESSAGE__MSG_MOVE_RES'', 22),
     (''SERVER_MESSAGE__MSG_MOVE_BROADCAST'', 23),
     (''SERVER_MESSAGE__MSG_CHECK_BROADCAST'', 24),
     (''SERVER_MESSAGE__MSG_GAME_END'', 25),
     (''SERVER_MESSAGE__MSG_CHAT_BROADCAST'', 26),
     (''SERVER_MESSAGE__MSG_RESIGN_RES'', 27),
     (''SERVER_MESSAGE__MSG_RESIGN_BROADCAST'', 28),
     (''SERVER_MESSAGE__MSG_ERROR'', 99)]"

definition server_message__members :: "member list" where
  "server_message__members =
    [Member ''version'' (ENUM_OF ProtocolVersion_E),
     Member ''msg_case'' (CASE_OF ServerMessage_T),
     Union
      [(''ping_res'', (MESSAGE_PTR PingResponse_T)),
       (''echo_res'', (MESSAGE_PTR EchoResponse_T)),
       (''match_game_res'', (MESSAGE_PTR MatchGameResponse_T)),
       (''cancel_match_res'', (MESSAGE_PTR CancelMatchResponse_T)),
       (''move_res'', (MESSAGE_PTR MoveResponse_T)),
       (''move_broadcast'', (MESSAGE_PTR MoveBroadcast_T)),
       (''check_broadcast'', (MESSAGE_PTR CheckBroadcast_T)),
       (''game_end'', (MESSAGE_PTR GameEndBroadcast_T)),
       (''chat_broadcast'', (MESSAGE_PTR ChatBroadcast_T)),
       (''resign_res'', (MESSAGE_PTR ResignResponse_T)),
       (''resign_broadcast'', (MESSAGE_PTR ResignBroadcast_T)),
       (''error'', (MESSAGE_PTR ErrorResponse_T))]]"

definition SERVER_MESSAGE__INIT :: "pb_message" where
  "SERVER_MESSAGE__INIT =
    Message ServerMessage_T
     [Number 0, Number 0, UNION_ZERO]"

definition server_message__init :: "pb_message" where
  "server_message__init = SERVER_MESSAGE__INIT"

definition server_message__field_descriptors :: "field_descriptor list" where
  "server_message__field_descriptors =
    [Field ''version'' 1 PROTOBUF_C_LABEL_NONE PROTOBUF_C_TYPE_ENUM
       None (ServerMessage_T, ''version'') (Some (ENUM_DESC ProtocolVersion_E)) None [],
     Field ''ping_res'' 10 PROTOBUF_C_LABEL_NONE PROTOBUF_C_TYPE_MESSAGE
       (Some (ServerMessage_T, ''msg_case'')) (ServerMessage_T, ''ping_res'') (Some (MESSAGE_DESC PingResponse_T)) None [PROTOBUF_C_FIELD_FLAG_ONEOF],
     Field ''echo_res'' 11 PROTOBUF_C_LABEL_NONE PROTOBUF_C_TYPE_MESSAGE
       (Some (ServerMessage_T, ''msg_case'')) (ServerMessage_T, ''echo_res'') (Some (MESSAGE_DESC EchoResponse_T)) None [PROTOBUF_C_FIELD_FLAG_ONEOF],
     Field ''match_game_res'' 20 PROTOBUF_C_LABEL_NONE PROTOBUF_C_TYPE_MESSAGE
       (Some (ServerMessage_T, ''msg_case'')) (ServerMessage_T, ''match_game_res'') (Some (MESSAGE_DESC MatchGameResponse_T)) None [PROTOBUF_C_FIELD_FLAG_ONEOF],
     Field ''cancel_match_res'' 21 PROTOBUF_C_LABEL_NONE PROTOBUF_C_TYPE_MESSAGE
       (Some (ServerMessage_T, ''msg_case'')) (ServerMessage_T, ''cancel_match_res'') (Some (MESSAGE_DESC CancelMatchResponse_T)) None [PROTOBUF_C_FIELD_FLAG_ONEOF],
     Field ''move_res'' 22 PROTOBUF_C_LABEL_NONE PROTOBUF_C_TYPE_MESSAGE
       (Some (ServerMessage_T, ''msg_case'')) (ServerMessage_T, ''move_res'') (Some (MESSAGE_DESC MoveResponse_T)) None [PROTOBUF_C_FIELD_FLAG_ONEOF],
     Field ''move_broadcast'' 23 PROTOBUF_C_LABEL_NONE PROTOBUF_C_TYPE_MESSAGE
       (Some (ServerMessage_T, ''msg_case'')) (ServerMessage_T, ''move_broadcast'') (Some (MESSAGE_DESC MoveBroadcast_T)) None [PROTOBUF_C_FIELD_FLAG_ONEOF],
     Field ''check_broadcast'' 24 PROTOBUF_C_LABEL_NONE PROTOBUF_C_TYPE_MESSAGE
       (Some (ServerMessage_T, ''msg_case'')) (ServerMessage_T, ''check_broadcast'') (Some (MESSAGE_DESC CheckBroadcast_T)) None [PROTOBUF_C_FIELD_FLAG_ONEOF],
     Field ''game_end'' 25 PROTOBUF_C_LABEL_NONE PROTOBUF_C_TYPE_MESSAGE
       (Some (ServerMessage_T, ''msg_case'')) (ServerMessage_T, ''game_end'') (Some (MESSAGE_DESC GameEndBroadcast_T)) None [PROTOBUF_C_FIELD_FLAG_ONEOF],
     Field ''chat_broadcast'' 26 PROTOBUF_C_LABEL_NONE PROTOBUF_C_TYPE_MESSAGE
       (Some (ServerMessage_T, ''msg_case'')) (ServerMessage_T, ''chat_broadcast'') (Some (MESSAGE_DESC ChatBroadcast_T)) None [PROTOBUF_C_FIELD_FLAG_ONEOF],
     Field ''resign_res'' 27 PROTOBUF_C_LABEL_NONE PROTOBUF_C_TYPE_MESSAGE
       (Some (ServerMessage_T, ''msg_case'')) (ServerMessage_T, ''resign_res'') (Some (MESSAGE_DESC ResignResponse_T)) None [PROTOBUF_C_FIELD_FLAG_ONEOF],
     Field ''resign_broadcast'' 28 PROTOBUF_C_LABEL_NONE PROTOBUF_C_TYPE_MESSAGE
       (Some (ServerMessage_T, ''msg_case'')) (ServerMessage_T, ''resign_broadcast'') (Some (MESSAGE_DESC ResignBroadcast_T)) None [PROTOBUF_C_FIELD_FLAG_ONEOF],
     Field ''error'' 99 PROTOBUF_C_LABEL_NONE PROTOBUF_C_TYPE_MESSAGE
       (Some (ServerMessage_T, ''msg_case'')) (ServerMessage_T, ''error'') (Some (MESSAGE_DESC ErrorResponse_T)) None [PROTOBUF_C_FIELD_FLAG_ONEOF]]"

definition server_message__field_indices_by_name :: "nat list" where
  "server_message__field_indices_by_name = [4, 9, 7, 2, 12, 8, 3, 6, 5, 1, 11, 10, 0]"

definition server_message__number_ranges :: "int_range list" where
  "server_message__number_ranges = [(1, 0), (10, 1), (20, 3), (99, 12), (0, 13)]"

definition server_message__descriptor :: "message_descriptor" where
  "server_message__descriptor =
    MessageDescriptor PROTOBUF_C__MESSAGE_DESCRIPTOR_MAGIC
     ''ServerMessage'' ''ServerMessage'' ''ServerMessage'' ''''
     (SIZEOF ServerMessage_T) 13 server_message__field_descriptors
     server_message__field_indices_by_name 4 server_message__number_ranges
     server_message__init"

definition server_message__api :: "pb_library \<Rightarrow> message_api" where
  "server_message__api lib =
    generated_api lib ServerMessage_T server_message__descriptor server_message__init"

section \<open>\<open>PingResponse\<close>\<close>

definition ping_response__members :: "member list" where
  "ping_response__members = [Member ''message'' CHAR_PTR]"

definition PING_RESPONSE__INIT :: "pb_message" where
  "PING_RESPONSE__INIT =
    Message PingResponse_T
     [protobuf_c_empty_string]"

definition ping_response__init :: "pb_message" where
  "ping_response__init = PING_RESPONSE__INIT"

definition ping_response__field_descriptors :: "field_descriptor list" where
  "ping_response__field_descriptors =
    [Field ''message'' 1 PROTOBUF_C_LABEL_NONE PROTOBUF_C_TYPE_STRING
       None (PingResponse_T, ''message'') None (Some protobuf_c_empty_string) []]"

definition ping_response__field_indices_by_name :: "nat list" where
  "ping_response__field_indices_by_name = [0]"

definition ping_response__number_ranges :: "int_range list" where
  "ping_response__number_ranges = [(1, 0), (0, 1)]"

definition ping_response__descriptor :: "message_descriptor" where
  "ping_response__descriptor =
    MessageDescriptor PROTOBUF_C__MESSAGE_DESCRIPTOR_MAGIC
     ''PingResponse'' ''PingResponse'' ''PingResponse'' ''''
     (SIZEOF PingResponse_T) 1 ping_response__field_descriptors
     ping_response__field_indices_by_name 1 ping_response__number_ranges
     ping_response__init"

definition ping_response__api :: "pb_library \<Rightarrow> message_api" where
  "ping_response__api lib =
    generated_api lib PingResponse_T ping_response__descriptor ping_response__init"

section \<open>\<open>EchoResponse\<close>\<close>

definition echo_response__members :: "member list" where
  "echo_response__members = [Member ''message'' CHAR_PTR]"

definition ECHO_RESPONSE__INIT :: "pb_message" where
  "ECHO_RESPONSE__INIT =
    Message EchoResponse_T
     [protobuf_c_empty_string]"

definition echo_response__init :: "pb_message" where
  "echo_response__init = ECHO_RESPONSE__INIT"

definition echo_response__field_descriptors :: "field_descriptor list" where
  "echo_response__field_descriptors =
    [Field ''message'' 1 PROTOBUF_C_LABEL_NONE PROTOBUF_C_TYPE_STRING
       None (EchoResponse_T, ''message'') None (Some protobuf_c_empty_string) []]"

definition echo_response__field_indices_by_name :: "nat list" where
  "echo_response__field_indices_by_name = [0]"

definition echo_response__number_ranges :: "int_range list" where
  "echo_response__number_ranges = [(1, 0), (0, 1)]"

definition echo_response__descriptor :: "message_descriptor" where
  "echo_response__descriptor =
    MessageDescriptor PROTOBUF_C__MESSAGE_DESCRIPTOR_MAGIC
     ''EchoResponse'' ''EchoResponse'' ''EchoResponse'' ''''
     (SIZEOF EchoResponse_T) 1 echo_response__field_descriptors
     echo_response__field_indices_by_name 1 echo_response__number_ranges
     echo_response__init"

definition echo_response__api :: "pb_library \<Rightarrow> message_api" where
  "echo_response__api lib =
    generated_api lib EchoResponse_T echo_response__descriptor echo_response__init"

section \<open>\<open>MatchGameResponse\<close>\<close>

definition match_game_response__members :: "member list" where
  "match_game_response__members =
    [Member ''game_id'' CHAR_PTR,
     Member ''success'' BOOLEAN,
     Member ''message'' CHAR_PTR,
     Member ''assigned_team'' (ENUM_OF Team_E),
     Member ''opponent_name'' CHAR_PTR,
     Member ''time_limit_per_player'' INT32,
     Member ''game_start_time'' (MESSAGE_PTR Timestamp_T),
     Member ''white_time_remaining'' INT32,
     Member ''black_time_remaining'' INT32]"

definition MATCH_GAME_RESPONSE__INIT :: "pb_message" where
  "MATCH_GAME_RESPONSE__INIT =
    Message MatchGameResponse_T
     [protobuf_c_empty_string, Number 0, protobuf_c_empty_string, Number 0, protobuf_c_empty_string, Number 0, NULL, Number 0, Number 0]"

definition match_game_response__init :: "pb_message" where
  "match_game_response__init = MATCH_GAME_RESPONSE__INIT"

definition match_game_response__field_descriptors :: "field_descriptor list" where
  "match_game_response__field_descriptors =
    [Field ''game_id'' 1 PROTOBUF_C_LABEL_NONE PROTOBUF_C_TYPE_STRING
       None (MatchGameResponse_T, ''game_id'') None (Some protobuf_c_empty_string) [],
     Field ''success'' 2 PROTOBUF_C_LABEL_NONE PROTOBUF_C_TYPE_BOOL
       None (MatchGameResponse_T, ''success'') None None [],
     Field ''message'' 3 PROTOBUF_C_LABEL_NONE PROTOBUF_C_TYPE_STRING
       None (MatchGameResponse_T, ''message'') None (Some protobuf_c_empty_string) [],
     Field ''assigned_team'' 4 PROTOBUF_C_LABEL_NONE PROTOBUF_C_TYPE_ENUM
       None (MatchGameResponse_T, ''assigned_team'') (Some (ENUM_DESC Team_E)) None [],
     Field ''opponent_name'' 5 PROTOBUF_C_LABEL_NONE PROTOBUF_C_TYPE_STRING
       None (MatchGameResponse_T, ''opponent_name'') None (Some protobuf_c_empty_string) [],
     Field ''time_limit_per_player'' 6 PROTOBUF_C_LABEL_NONE PROTOBUF_C_TYPE_INT32
       None (MatchGameResponse_T, ''time_limit_per_player'') None None [],
     Field ''game_start_time'' 7 PROTOBUF_C_LABEL_NONE PROTOBUF_C_TYPE_MESSAGE
       None (MatchGameResponse_T, ''game_start_time'') (Some (MESSAGE_DESC Timestamp_T)) None [],
     Field ''white_time_remaining'' 8 PROTOBUF_C_LABEL_NONE PROTOBUF_C_TYPE_INT32
       None (MatchGameResponse_T, ''white_time_remaining'') None None [],
     Field ''black_time_remaining'' 9 PROTOBUF_C_LABEL_NONE PROTOBUF_C_TYPE_INT32
       None (MatchGameResponse_T, ''black_time_remaining'') None None []]"

definition match_game_response__field_indices_by_name :: "nat list" where
  "match_game_response__field_indices_by_name = [3, 8, 0, 6, 2, 4, 1, 5, 7]"

definition match_game_response__number_ranges :: "int_range list" where
  "match_game_response__number_ranges = [(1, 0), (0, 9)]"

definition match_game_response__descriptor :: "message_descriptor" where
  "match_game_response__descriptor =
    MessageDescriptor PROTOBUF_C__MESSAGE_DESCRIPTOR_MAGIC
     ''MatchGameResponse'' ''MatchGameResponse'' ''MatchGameResponse'' ''''
     (SIZEOF MatchGameResponse_T) 9 match_game_response__field_descriptors
     match_game_response__field_indices_by_name 1 match_game_response__number_ranges
     match_game_response__init"

definition match_game_response__api :: "pb_library \<Rightarrow> message_api" where
  "match_game_response__api lib =
    generated_api lib MatchGameResponse_T match_game_response__descriptor match_game_response__init"

section \<open>\<open>CancelMatchResponse\<close>\<close>

definition cancel_match_response__members :: "member list" where
  "cancel_match_response__members =
    [Member ''player_id'' CHAR_PTR,
     Member ''success'' BOOLEAN,
     Member ''message'' CHAR_PTR]"

definition CANCEL_MATCH_RESPONSE__INIT :: "pb_message" where
  "CANCEL_MATCH_RESPONSE__INIT =
    Message CancelMatchResponse_T
     [protobuf_c_empty_string, Number 0, protobuf_c_empty_string]"

definition cancel_match_response__init :: "pb_message" where
  "cancel_match_response__init = CANCEL_MATCH_RESPONSE__INIT"

definition cancel_match_response__field_descriptors :: "field_descriptor list" where
  "cancel_match_response__field_descriptors =
    [Field ''player_id'' 1 PROTOBUF_C_LABEL_NONE PROTOBUF_C_TYPE_STRING
       None (CancelMatchResponse_T, ''player_id'') None (Some protobuf_c_empty_string) [],
     Field ''success'' 2 PROTOBUF_C_LABEL_NONE PROTOBUF_C_TYPE_BOOL
       None (CancelMatchResponse_T, ''success'') None None [],
     Field ''message'' 3 PROTOBUF_C_LABEL_NONE PROTOBUF_C_TYPE_STRING
       None (CancelMatchResponse_T, ''message'') None (Some protobuf_c_empty_string) []]"

definition cancel_match_response__field_indices_by_name :: "nat list" where
  "cancel_match_response__field_indices_by_name = [2, 0, 1]"

definition cancel_match_response__number_ranges :: "int_range list" where
  "cancel_match_response__number_ranges = [(1, 0), (0, 3)]"

definition cancel_match_response__descriptor :: "message_descriptor" where
  "cancel_match_response__descriptor =
    MessageDescriptor PROTOBUF_C__MESSAGE_DESCRIPTOR_MAGIC
     ''CancelMatchResponse'' ''CancelMatchResponse'' ''CancelMatchResponse'' ''''
     (SIZEOF CancelMatchResponse_T) 3 cancel_match_response__field_descriptors
     cancel_match_response__field_indices_by_name 1 cancel_match_response__number_ranges
     cancel_match_response__init"

definition cancel_match_response__api :: "pb_library \<Rightarrow> message_api" where
  "cancel_match_response__api lib =
    generated_api lib CancelMatchResponse_T cancel_match_response__descriptor cancel_match_response__init"

section \<open>\<open>ResignResponse\<close>\<close>

definition resign_response__members :: "member list" where
  "resign_response__members =
    [Member ''game_id'' CHAR_PTR,
     Member ''player_id'' CHAR_PTR,
     Member ''success'' BOOLEAN,
     Member ''message'' CHAR_PTR,
     Member ''timestamp'' (MESSAGE_PTR Timestamp_T)]"

definition RESIGN_RESPONSE__INIT :: "pb_message" where
  "RESIGN_RESPONSE__INIT =
    Message ResignResponse_T
     [protobuf_c_empty_string, protobuf_c_empty_string, Number 0, protobuf_c_empty_string, NULL]"

definition resign_response__init :: "pb_message" where
  "resign_response__init = RESIGN_RESPONSE__INIT"

definition resign_response__field_descriptors :: "field_descriptor list" where
  "resign_response__field_descriptors =
    [Field ''game_id'' 1 PROTOBUF_C_LABEL_NONE PROTOBUF_C_TYPE_STRING
       None (ResignResponse_T, ''game_id'') None (Some protobuf_c_empty_string) [],
     Field ''player_id'' 2 PROTOBUF_C_LABEL_NONE PROTOBUF_C_TYPE_STRING
       None (ResignResponse_T, ''player_id'') None (Some protobuf_c_empty_string) [],
     Field ''success'' 3 PROTOBUF_C_LABEL_NONE PROTOBUF_C_TYPE_BOOL
       None (ResignResponse_T, ''success'') None None [],
     Field ''message'' 4 PROTOBUF_C_LABEL_NONE PROTOBUF_C_TYPE_STRING
       None (ResignResponse_T, ''message'') None (Some protobuf_c_empty_string) [],
     Field ''timestamp'' 5 PROTOBUF_C_LABEL_NONE PROTOBUF_C_TYPE_MESSAGE
       None (ResignResponse_T, ''timestamp'') (Some (MESSAGE_DESC Timestamp_T)) None []]"

definition resign_response__field_indices_by_name :: "nat list" where
  "resign_response__field_indices_by_name = [0, 3, 1, 2, 4]"

definition resign_response__number_ranges :: "int_range list" where
  "resign_response__number_ranges = [(1, 0), (0, 5)]"

definition resign_response__descriptor :: "message_descriptor" where
  "resign_response__descriptor =
    MessageDescriptor PROTOBUF_C__MESSAGE_DESCRIPTOR_MAGIC
     ''ResignResponse'' ''ResignResponse'' ''ResignResponse'' ''''
     (SIZEOF ResignResponse_T) 5 resign_response__field_descriptors
     resign_response__field_indices_by_name 1 resign_response__number_ranges
     resign_response__init"

definition resign_response__api :: "pb_library \<Rightarrow> message_api" where
  "resign_response__api lib =
    generated_api lib ResignResponse_T resign_response__descriptor resign_response__init"

section \<open>\<open>MoveResponse\<close>\<close>

definition move_response__members :: "member list" where
  "move_response__members =
    [Member ''game_id'' CHAR_PTR,
     Member ''player_id'' CHAR_PTR,
     Member ''success'' BOOLEAN,
     Member ''message'' CHAR_PTR,
     Member ''updated_fen'' CHAR_PTR,
     Member ''timestamp'' (MESSAGE_PTR Timestamp_T)]"

definition MOVE_RESPONSE__INIT :: "pb_message" where
  "MOVE_RESPONSE__INIT =
    Message MoveResponse_T
     [protobuf_c_empty_string, protobuf_c_empty_string, Number 0, protobuf_c_empty_string, protobuf_c_empty_string, NULL]"

definition move_response__init :: "pb_message" where
  "move_response__init = MOVE_RESPONSE__INIT"

definition move_response__field_descriptors :: "field_descriptor list" where
  "move_response__field_descriptors =
    [Field ''game_id'' 1 PROTOBUF_C_LABEL_NONE PROTOBUF_C_TYPE_STRING
       None (MoveResponse_T, ''game_id'') None (Some protobuf_c_empty_string) [],
     Field ''player_id'' 2 PROTOBUF_C_LABEL_NONE PROTOBUF_C_TYPE_STRING
       None (MoveResponse_T, ''player_id'') None (Some protobuf_c_empty_string) [],
     Field ''success'' 3 PROTOBUF_C_LABEL_NONE PROTOBUF_C_TYPE_BOOL
       None (MoveResponse_T, ''success'') None None [],
     Field ''message'' 4 PROTOBUF_C_LABEL_NONE PROTOBUF_C_TYPE_STRING
       None (MoveResponse_T, ''message'') None (Some protobuf_c_empty_string) [],
     Field ''updated_fen'' 5 PROTOBUF_C_LABEL_NONE PROTOBUF_C_TYPE_STRING
       None (MoveResponse_T, ''updated_fen'') None (Some protobuf_c_empty_string) [],
     Field ''timestamp'' 6 PROTOBUF_C_LABEL_NONE PROTOBUF_C_TYPE_MESSAGE
       None (MoveResponse_T, ''timestamp'') (Some (MESSAGE_DESC Timestamp_T)) None []]"

definition move_response__field_indices_by_name :: "nat list" where
  "move_response__field_indices_by_name = [0, 3, 1, 2, 5, 4]"

definition move_response__number_ranges :: "int_range list" where
  "move_response__number_ranges = [(1, 0), (0, 6)]"

definition move_response__descriptor :: "message_descriptor" where
  "move_response__descriptor =
    MessageDescriptor PROTOBUF_C__MESSAGE_DESCRIPTOR_MAGIC
     ''MoveResponse'' ''MoveResponse'' ''MoveResponse'' ''''
     (SIZEOF MoveResponse_T) 6 move_response__field_descriptors
     move_response__field_indices_by_name 1 move_response__number_ranges
     move_response__init"

definition move_response__api :: "pb_library \<Rightarrow> message_api" where
  "move_response__api lib =
    generated_api lib MoveResponse_T move_response__descriptor move_response__init"

section \<open>\<open>MoveBroadcast\<close>\<close>

definition move_broadcast__members :: "member list" where
  "move_broadcast__members =
    [Member ''game_id'' CHAR_PTR,
     Member ''player_id'' CHAR_PTR,
     Member ''from'' CHAR_PTR,
     Member ''to'' CHAR_PTR,
     Member ''promotion'' (ENUM_OF PieceType_E),
     Member ''timestamp'' (MESSAGE_PTR Timestamp_T),
     Member ''game_ends'' BOOLEAN,
     Member ''winner_team'' (ENUM_OF Team_E),
     Member ''end_type'' (ENUM_OF GameEndType_E),
     Member ''is_check'' BOOLEAN,
     Member ''checked_team'' (ENUM_OF Team_E),
     Member ''white_time_remaining'' INT32,
     Member ''black_time_remaining'' INT32,
     Member ''move_timestamp'' (MESSAGE_PTR Timestamp_T)]"

definition MOVE_BROADCAST__INIT :: "pb_message" where
  "MOVE_BROADCAST__INIT =
    Message MoveBroadcast_T
     [protobuf_c_empty_string, protobuf_c_empty_string, protobuf_c_empty_string, protobuf_c_empty_string, Number 0, NULL, Number 0, Number 0, Number 0, Number 0, Number 0, Number 0, Number 0, NULL]"

definition move_broadcast__init :: "pb_message" where
  "move_broadcast__init = MOVE_BROADCAST__INIT"

definition move_broadcast__field_descriptors :: "field_descriptor list" where
  "move_broadcast__field_descriptors =
    [Field ''game_id'' 1 PROTOBUF_C_LABEL_NONE PROTOBUF_C_TYPE_STRING
       None (MoveBroadcast_T, ''game_id'') None (Some protobuf_c_empty_string) [],
     Field ''player_id'' 2 PROTOBUF_C_LABEL_NONE PROTOBUF_C_TYPE_STRING
       None (MoveBroadcast_T, ''player_id'') None (Some protobuf_c_empty_string) [],
     Field ''from'' 3 PROTOBUF_C_LABEL_NONE PROTOBUF_C_TYPE_STRING
       None (MoveBroadcast_T, ''from'') None (Some protobuf_c_empty_string) [],
     Field ''to'' 4 PROTOBUF_C_LABEL_NONE PROTOBUF_C_TYPE_STRING
       None (MoveBroadcast_T, ''to'') None (Some protobuf_c_empty_string) [],
     Field ''promotion'' 5 PROTOBUF_C_LABEL_NONE PROTOBUF_C_TYPE_ENUM
       None (MoveBroadcast_T, ''promotion'') (Some (ENUM_DESC PieceType_E)) None [],
     Field ''timestamp'' 6 PROTOBUF_C_LABEL_NONE PROTOBUF_C_TYPE_MESSAGE
       None (MoveBroadcast_T, ''timestamp'') (Some (MESSAGE_DESC Timestamp_T)) None [],
     Field ''game_ends'' 7 PROTOBUF_C_LABEL_NONE PROTOBUF_C_TYPE_BOOL
       None (MoveBroadcast_T, ''game_ends'') None None [],
     Field ''winner_team'' 8 PROTOBUF_C_LABEL_NONE PROTOBUF_C_TYPE_ENUM
       None (MoveBroadcast_T, ''winner_team'') (Some (ENUM_DESC Team_E)) None [],
     Field ''end_type'' 9 PROTOBUF_C_LABEL_NONE PROTOBUF_C_TYPE_ENUM
       None (MoveBroadcast_T, ''end_type'') (Some (ENUM_DESC GameEndType_E)) None [],
     Field ''is_check'' 10 PROTOBUF_C_LABEL_NONE PROTOBUF_C_TYPE_BOOL
       None (MoveBroadcast_T, ''is_check'') None None [],
     Field ''checked_team'' 11 PROTOBUF_C_LABEL_NONE PROTOBUF_C_TYPE_ENUM
       None (MoveBroadcast_T, ''checked_team'') (Some (ENUM_DESC Team_E)) None [],
     Field ''white_time_remaining'' 12 PROTOBUF_C_LABEL_NONE PROTOBUF_C_TYPE_INT32
       None (MoveBroadcast_T, ''white_time_remaining'') None None [],
     Field ''black_time_remaining'' 13 PROTOBUF_C_LABEL_NONE PROTOBUF_C_TYPE_INT32
       None (MoveBroadcast_T, ''black_time_remaining'') None None [],
     Field ''move_timestamp'' 14 PROTOBUF_C_LABEL_NONE PROTOBUF_C_TYPE_MESSAGE
       None (MoveBroadcast_T, ''move_timestamp'') (Some (MESSAGE_DESC Timestamp_T)) None []]"

definition move_broadcast__field_indices_by_name :: "nat list" where
  "move_broadcast__field_indices_by_name =
    [12, 10, 8, 2, 6, 0, 9, 13, 1, 4, 5, 3, 11, 7]"

definition move_broadcast__number_ranges :: "int_range list" where
  "move_broadcast__number_ranges = [(1, 0), (0, 14)]"

definition move_broadcast__descriptor :: "message_descriptor" where
  "move_broadcast__descriptor =
    MessageDescriptor PROTOBUF_C__MESSAGE_DESCRIPTOR_MAGIC
     ''MoveBroadcast'' ''MoveBroadcast'' ''MoveBroadcast'' ''''
     (SIZEOF MoveBroadcast_T) 14 move_broadcast__field_descriptors
     move_broadcast__field_indices_by_name 1 move_broadcast__number_ranges
     move_broadcast__init"

definition move_broadcast__api :: "pb_library \<Rightarrow> message_api" where
  "move_broadcast__api lib =
    generated_api lib MoveBroadcast_T move_broadcast__descriptor move_broadcast__init"

section \<open>\<open>CheckBroadcast\<close>\<close>

definition check_broadcast__members :: "member list" where
  "check_broadcast__members =
    [Member ''game_id'' CHAR_PTR,
     Member ''player_id'' CHAR_PTR,
     Member ''by_team'' (ENUM_OF Team_E),
     Member ''timestamp'' (MESSAGE_PTR Timestamp_T)]"

definition CHECK_BROADCAST__INIT :: "pb_message" where
  "CHECK_BROADCAST__INIT =
    Message CheckBroadcast_T
     [protobuf_c_empty_string, protobuf_c_empty_string, Number 0, NULL]"

definition check_broadcast__init :: "pb_message" where
  "check_broadcast__init = CHECK_BROADCAST__INIT"

definition check_broadcast__field_descriptors :: "field_descriptor list" where
  "check_broadcast__field_descriptors =
    [Field ''game_id'' 1 PROTOBUF_C_LABEL_NONE PROTOBUF_C_TYPE_STRING
       None (CheckBroadcast_T, ''game_id'') None (Some protobuf_c_empty_string) [],
     Field ''player_id'' 2 PROTOBUF_C_LABEL_NONE PROTOBUF_C_TYPE_STRING
       None (CheckBroadcast_T, ''player_id'') None (Some protobuf_c_empty_string) [],
     Field ''by_team'' 3 PROTOBUF_C_LABEL_NONE PROTOBUF_C_TYPE_ENUM
       None (CheckBroadcast_T, ''by_team'') (Some (ENUM_DESC Team_E)) None [],
     Field ''timestamp'' 4 PROTOBUF_C_LABEL_NONE PROTOBUF_C_TYPE_MESSAGE
       None (CheckBroadcast_T, ''timestamp'') (Some (MESSAGE_DESC Timestamp_T)) None []]"

definition check_broadcast__field_indices_by_name :: "nat list" where
  "check_broadcast__field_indices_by_name = [2, 0, 1, 3]"

definition check_broadcast__number_ranges :: "int_range list" where
  "check_broadcast__number_ranges = [(1, 0), (0, 4)]"

definition check_broadcast__descriptor :: "message_descriptor" where
  "check_broadcast__descriptor =
    MessageDescriptor PROTOBUF_C__MESSAGE_DESCRIPTOR_MAGIC
     ''CheckBroadcast'' ''CheckBroadcast'' ''CheckBroadcast'' ''''
     (SIZEOF CheckBroadcast_T) 4 check_broadcast__field_descriptors
     check_broadcast__field_indices_by_name 1 check_broadcast__number_ranges
     check_broadcast__init"

definition check_broadcast__api :: "pb_library \<Rightarrow> message_api" where
  "check_broadcast__api lib =
    generated_api lib CheckBroadcast_T check_broadcast__descriptor check_broadcast__init"

section \<open>\<open>ResignBroadcast\<close>\<close>

definition resign_broadcast__members :: "member list" where
  "resign_broadcast__members =
    [Member ''game_id'' CHAR_PTR,
     Member ''player_id'' CHAR_PTR,
     Member ''winner_team'' (ENUM_OF Team_E),
     Member ''timestamp'' (MESSAGE_PTR Timestamp_T)]"

definition RESIGN_BROADCAST__INIT :: "pb_message" where
  "RESIGN_BROADCAST__INIT =
    Message ResignBroadcast_T
     [protobuf_c_empty_string, protobuf_c_empty_string, Number 0, NULL]"

definition resign_broadcast__init :: "pb_message" where
  "resign_broadcast__init = RESIGN_BROADCAST__INIT"

definition resign_broadcast__field_descriptors :: "field_descriptor list" where
  "resign_broadcast__field_descriptors =
    [Field ''game_id'' 1 PROTOBUF_C_LABEL_NONE PROTOBUF_C_TYPE_STRING
       None (ResignBroadcast_T, ''game_id'') None (Some protobuf_c_empty_string) [],
     Field ''player_id'' 2 PROTOBUF_C_LABEL_NONE PROTOBUF_C_TYPE_STRING
       None (ResignBroadcast_T, ''player_id'') None (Some protobuf_c_empty_string) [],
     Field ''winner_team'' 3 PROTOBUF_C_LABEL_NONE PROTOBUF_C_TYPE_ENUM
       None (ResignBroadcast_T, ''winner_team'') (Some (ENUM_DESC Team_E)) None [],
     Field ''timestamp'' 4 PROTOBUF_C_LABEL_NONE PROTOBUF_C_TYPE_MESSAGE
       None (ResignBroadcast_T, ''timestamp'') (Some (MESSAGE_DESC Timestamp_T)) None []]"

definition resign_broadcast__field_indices_by_name :: "nat list" where
  "resign_broadcast__field_indices_by_name = [0, 1, 3, 2]"

definition resign_broadcast__number_ranges :: "int_range list" where
  "resign_broadcast__number_ranges = [(1, 0), (0, 4)]"

definition resign_broadcast__descriptor :: "message_descriptor" where
  "resign_broadcast__descriptor =
    MessageDescriptor PROTOBUF_C__MESSAGE_DESCRIPTOR_MAGIC
     ''ResignBroadcast'' ''ResignBroadcast'' ''ResignBroadcast'' ''''
     (SIZEOF ResignBroadcast_T) 4 resign_broadcast__field_descriptors
     resign_broadcast__field_indices_by_name 1 resign_broadcast__number_ranges
     resign_broadcast__init"

definition resign_broadcast__api :: "pb_library \<Rightarrow> message_api" where
  "resign_broadcast__api lib =
    generated_api lib ResignBroadcast_T resign_broadcast__descriptor resign_broadcast__init"

section \<open>\<open>GameEndBroadcast\<close>\<close>

definition game_end_broadcast__members :: "member list" where
  "game_end_broadcast__members =
    [Member ''game_id'' CHAR_PTR,
     Member ''player_id'' CHAR_PTR,
     Member ''winner_team'' (ENUM_OF Team_E),
     Member ''end_type'' (ENUM_OF GameEndType_E),
     Member ''timestamp'' (MESSAGE_PTR Timestamp_T)]"

definition GAME_END_BROADCAST__INIT :: "pb_message" where
  "GAME_END_BROADCAST__INIT =
    Message GameEndBroadcast_T
     [protobuf_c_empty_string, protobuf_c_empty_string, Number 0, Number 0, NULL]"

definition game_end_broadcast__init :: "pb_message" where
  "game_end_broadcast__init = GAME_END_BROADCAST__INIT"

definition game_end_broadcast__field_descriptors :: "field_descriptor list" where
  "game_end_broadcast__field_descriptors =
    [Field ''game_id'' 1 PROTOBUF_C_LABEL_NONE PROTOBUF_C_TYPE_STRING
       None (GameEndBroadcast_T, ''game_id'') None (Some protobuf_c_empty_string) [],
     Field ''player_id'' 2 PROTOBUF_C_LABEL_NONE PROTOBUF_C_TYPE_STRING
       None (GameEndBroadcast_T, ''player_id'') None (Some protobuf_c_empty_string) [],
     Field ''winner_team'' 3 PROTOBUF_C_LABEL_NONE PROTOBUF_C_TYPE_ENUM
       None (GameEndBroadcast_T, ''winner_team'') (Some (ENUM_DESC Team_E)) None [],
     Field ''end_type'' 4 PROTOBUF_C_LABEL_NONE PROTOBUF_C_TYPE_ENUM
       None (GameEndBroadcast_T, ''end_type'') (Some (ENUM_DESC GameEndType_E)) None [],
     Field ''timestamp'' 5 PROTOBUF_C_LABEL_NONE PROTOBUF_C_TYPE_MESSAGE
       None (GameEndBroadcast_T, ''timestamp'') (Some (MESSAGE_DESC Timestamp_T)) None []]"

definition game_end_broadcast__field_indices_by_name :: "nat list" where
  "game_end_broadcast__field_indices_by_name = [3, 0, 1, 4, 2]"

definition game_end_broadcast__number_ranges :: "int_range list" where
  "game_end_broadcast__number_ranges = [(1, 0), (0, 5)]"

definition game_end_broadcast__descriptor :: "message_descriptor" where
  "game_end_broadcast__descriptor =
    MessageDescriptor PROTOBUF_C__MESSAGE_DESCRIPTOR_MAGIC
     ''GameEndBroadcast'' ''GameEndBroadcast'' ''GameEndBroadcast'' ''''
     (SIZEOF GameEndBroadcast_T) 5 game_end_broadcast__field_descriptors
     game_end_broadcast__field_indices_by_name 1 game_end_broadcast__number_ranges
     game_end_broadcast__init"

definition game_end_broadcast__api :: "pb_library \<Rightarrow> message_api" where
  "game_end_broadcast__api lib =
    generated_api lib GameEndBroadcast_T game_end_broadcast__descriptor game_end_broadcast__init"

section \<open>\<open>ChatBroadcast\<close>\<close>

definition chat_broadcast__members :: "member list" where
  "chat_broadcast__members =
    [Member ''player_id'' CHAR_PTR,
     Member ''message'' CHAR_PTR,
     Member ''timestamp'' (MESSAGE_PTR Timestamp_T)]"

definition CHAT_BROADCAST__INIT :: "pb_message" where
  "CHAT_BROADCAST__INIT =
    Message ChatBroadcast_T
     [protobuf_c_empty_string, protobuf_c_empty_string, NULL]"

definition chat_broadcast__init :: "pb_message" where
  "chat_broadcast__init = CHAT_BROADCAST__INIT"

definition chat_broadcast__field_descriptors :: "field_descriptor list" where
  "chat_broadcast__field_descriptors =
    [Field ''player_id'' 1 PROTOBUF_C_LABEL_NONE PROTOBUF_C_TYPE_STRING
       None (ChatBroadcast_T, ''player_id'') None (Some protobuf_c_empty_string) [],
     Field ''message'' 2 PROTOBUF_C_LABEL_NONE PROTOBUF_C_TYPE_STRING
       None (ChatBroadcast_T, ''message'') None (Some protobuf_c_empty_string) [],
     Field ''timestamp'' 3 PROTOBUF_C_LABEL_NONE PROTOBUF_C_TYPE_MESSAGE
       None (ChatBroadcast_T, ''timestamp'') (Some (MESSAGE_DESC Timestamp_T)) None []]"

definition chat_broadcast__field_indices_by_name :: "nat list" where
  "chat_broadcast__field_indices_by_name = [1, 0, 2]"

definition chat_broadcast__number_ranges :: "int_range list" where
  "chat_broadcast__number_ranges = [(1, 0), (0, 3)]"

definition chat_broadcast__descriptor :: "message_descriptor" where
  "chat_broadcast__descriptor =
    MessageDescriptor PROTOBUF_C__MESSAGE_DESCRIPTOR_MAGIC
     ''ChatBroadcast'' ''ChatBroadcast'' ''ChatBroadcast'' ''''
     (SIZEOF ChatBroadcast_T) 3 chat_broadcast__field_descriptors
     chat_broadcast__field_indices_by_name 1 chat_broadcast__number_ranges
     chat_broadcast__init"

definition chat_broadcast__api :: "pb_library \<Rightarrow> message_api" where
  "chat_broadcast__api lib =
    generated_api lib ChatBroadcast_T chat_broadcast__descriptor chat_broadcast__init"

section \<open>\<open>ErrorResponse\<close>\<close>

definition error_response__members :: "member list" where
  "error_response__members =
    [Member ''game_id'' CHAR_PTR,
     Member ''player_id'' CHAR_PTR,
     Member ''code'' INT32,
     Member ''message'' CHAR_PTR]"

definition ERROR_RESPONSE__INIT :: "pb_message" where
  "ERROR_RESPONSE__INIT =
    Message ErrorResponse_T
     [protobuf_c_empty_string, protobuf_c_empty_string, Number 0, protobuf_c_empty_string]"

definition error_response__init :: "pb_message" where
  "error_response__init = ERROR_RESPONSE__INIT"

definition error_response__field_descriptors :: "field_descriptor list" where
  "error_response__field_descriptors =
    [Field ''game_id'' 1 PROTOBUF_C_LABEL_NONE PROTOBUF_C_TYPE_STRING
       None (ErrorResponse_T, ''game_id'') None (Some protobuf_c_empty_string) [],
     Field ''player_id'' 2 PROTOBUF_C_LABEL_NONE PROTOBUF_C_TYPE_STRING
       None (ErrorResponse_T, ''player_id'') None (Some protobuf_c_empty_string) [],
     Field ''code'' 3 PROTOBUF_C_LABEL_NONE PROTOBUF_C_TYPE_INT32
       None (ErrorResponse_T, ''code'') None None [],
     Field ''message'' 4 PROTOBUF_C_LABEL_NONE PROTOBUF_C_TYPE_STRING
       None (ErrorResponse_T, ''message'') None (Some protobuf_c_empty_string) []]"

definition error_response__field_indices_by_name :: "nat list" where
  "error_response__field_indices_by_name = [2, 0, 3, 1]"

definition error_response__number_ranges :: "int_range list" where
  "error_response__number_ranges = [(1, 0), (0, 4)]"

definition error_response__descriptor :: "message_descriptor" where
  "error_response__descriptor =
    MessageDescriptor PROTOBUF_C__MESSAGE_DESCRIPTOR_MAGIC
     ''ErrorResponse'' ''ErrorResponse'' ''ErrorResponse'' ''''
     (SIZEOF ErrorResponse_T) 4 error_response__field_descriptors
     error_response__field_indices_by_name 1 error_response__number_ranges
     error_response__init"

definition error_response__api :: "pb_library \<Rightarrow> message_api" where
  "error_response__api lib =
    generated_api lib ErrorResponse_T error_response__descriptor error_response__init"

section \<open>All of them\<close>

text \<open>The descriptor, the structure and the functions behind an identity.\<close>

fun descriptor_of :: "msg_t \<Rightarrow> message_descriptor" where
  "descriptor_of Timestamp_T = google__protobuf__timestamp__descriptor"
| "descriptor_of ClientMessage_T = client_message__descriptor"
| "descriptor_of PingRequest_T = ping_request__descriptor"
| "descriptor_of EchoRequest_T = echo_request__descriptor"
| "descriptor_of MatchGameRequest_T = match_game_request__descriptor"
| "descriptor_of CancelMatchRequest_T = cancel_match_request__descriptor"
| "descriptor_of MoveRequest_T = move_request__descriptor"
| "descriptor_of ResignRequest_T = resign_request__descriptor"
| "descriptor_of ChatRequest_T = chat_request__descriptor"
| "descriptor_of ServerMessage_T = server_message__descriptor"
| "descriptor_of PingResponse_T = ping_response__descriptor"
| "descriptor_of EchoResponse_T = echo_response__descriptor"
| "descriptor_of MatchGameResponse_T = match_game_response__descriptor"
| "descriptor_of CancelMatchResponse_T = cancel_match_response__descriptor"
| "descriptor_of ResignResponse_T = resign_response__descriptor"
| "descriptor_of MoveResponse_T = move_response__descriptor"
| "descriptor_of MoveBroadcast_T = move_broadcast__descriptor"
| "descriptor_of CheckBroadcast_T = check_broadcast__descriptor"
| "descriptor_of ResignBroadcast_T = resign_broadcast__descriptor"
| "descriptor_of GameEndBroadcast_T = game_end_broadcast__descriptor"
| "descriptor_of ChatBroadcast_T = chat_broadcast__descriptor"
| "descriptor_of ErrorResponse_T = error_response__descriptor"

fun enum_descriptor_of :: "enum_t \<Rightarrow> enum_descriptor" where
  "enum_descriptor_of ProtocolVersion_E = protocol_version__descriptor"
| "enum_descriptor_of PieceType_E = piece_type__descriptor"
| "enum_descriptor_of Team_E = team__descriptor"
| "enum_descriptor_of GameEndType_E = game_end_type__descriptor"

fun members_of :: "msg_t \<Rightarrow> member list" where
  "members_of Timestamp_T = google__protobuf__timestamp__members"
| "members_of ClientMessage_T = client_message__members"
| "members_of PingRequest_T = ping_request__members"
| "members_of EchoRequest_T = echo_request__members"
| "members_of MatchGameRequest_T = match_game_request__members"
| "members_of CancelMatchRequest_T = cancel_match_request__members"
| "members_of MoveRequest_T = move_request__members"
| "members_of ResignRequest_T = resign_request__members"
| "members_of ChatRequest_T = chat_request__members"
| "members_of ServerMessage_T = server_message__members"
| "members_of PingResponse_T = ping_response__members"
| "members_of EchoResponse_T = echo_response__members"
| "members_of MatchGameResponse_T = match_game_response__members"
| "members_of CancelMatchResponse_T = cancel_match_response__members"
| "members_of ResignResponse_T = resign_response__members"
| "members_of MoveResponse_T = move_response__members"
| "members_of MoveBroadcast_T = move_broadcast__members"
| "members_of CheckBroadcast_T = check_broadcast__members"
| "members_of ResignBroadcast_T = resign_broadcast__members"
| "members_of GameEndBroadcast_T = game_end_broadcast__members"
| "members_of ChatBroadcast_T = chat_broadcast__members"
| "members_of ErrorResponse_T = error_response__members"

fun api_of :: "pb_library \<Rightarrow> msg_t \<Rightarrow> message_api" where
  "api_of lib Timestamp_T = google__protobuf__timestamp__api lib"
| "api_of lib ClientMessage_T = client_message__api lib"
| "api_of lib PingRequest_T = ping_request__api lib"
| "api_of lib EchoRequest_T = echo_request__api lib"
| "api_of lib MatchGameRequest_T = match_game_request__api lib"
| "api_of lib CancelMatchRequest_T = cancel_match_request__api lib"
| "api_of lib MoveRequest_T = move_request__api lib"
| "api_of lib ResignRequest_T = resign_request__api lib"
| "api_of lib ChatRequest_T = chat_request__api lib"
| "api_of lib ServerMessage_T = server_message__api lib"
| "api_of lib PingResponse_T = ping_response__api lib"
| "api_of lib EchoResponse_T = echo_response__api lib"
| "api_of lib MatchGameResponse_T = match_game_response__api lib"
| "api_of lib CancelMatchResponse_T = cancel_match_response__api lib"
| "api_of lib ResignResponse_T = resign_response__api lib"
| "api_of lib MoveResponse_T = move_response__api lib"
| "api_of lib MoveBroadcast_T = move_broadcast__api lib"
| "api_of lib CheckBroadcast_T = check_broadcast__api lib"
| "api_of lib ResignBroadcast_T = resign_broadcast__api lib"
| "api_of lib GameEndBroadcast_T = game_end_broadcast__api lib"
| "api_of lib ChatBroadcast_T = chat_broadcast__api lib"
| "api_of lib ErrorResponse_T = error_response__api lib"

lemmas descriptor_defs =
  google__protobuf__timestamp__descriptor_def client_message__descriptor_def
  ping_request__descriptor_def echo_request__descriptor_def match_game_request__descriptor_def
  cancel_match_request__descriptor_def move_request__descriptor_def resign_request__descriptor_def
  chat_request__descriptor_def server_message__descriptor_def ping_response__descriptor_def
  echo_response__descriptor_def match_game_response__descriptor_def
  cancel_match_response__descriptor_def resign_response__descriptor_def
  move_response__descriptor_def move_broadcast__descriptor_def check_broadcast__descriptor_def
  resign_broadcast__descriptor_def game_end_broadcast__descriptor_def
  chat_broadcast__descriptor_def error_response__descriptor_def

lemmas api_defs =
  google__protobuf__timestamp__api_def client_message__api_def ping_request__api_def
  echo_request__api_def match_game_request__api_def cancel_match_request__api_def
  move_request__api_def resign_request__api_def chat_request__api_def server_message__api_def
  ping_response__api_def echo_response__api_def match_game_response__api_def
  cancel_match_response__api_def resign_response__api_def move_response__api_def
  move_broadcast__api_def check_broadcast__api_def resign_broadcast__api_def
  game_end_broadcast__api_def chat_broadcast__api_def error_response__api_def

lemma api_of_generated: "api_of lib d = generated_api lib d (descriptor_of d) (md_message_init (descriptor_of d))"
  by (cases d) (simp_all add: api_defs descriptor_defs)

end
