(* ===== verification/Schema.thy ===== *)
theory Schema
  imports Server_Tables
begin

text \<open>
  What the generated tables promise: they are the schema \<open>common/proto/message.proto\<close>, compiled, and the
  tables by number and by name find exactly the entries that there are.
\<close>

section \<open>The schema\<close>

datatype schema_type =
  S_STRING | S_BOOL | S_INT32 | S_INT64 | S_ENUM enum_t | S_MESSAGE msg_t

datatype schema_item =
  SField string schema_type nat
| SOneof string "(string \<times> schema_type \<times> nat) list"

text \<open>
  The messages and enumerations of \<open>message.proto\<close>, in its order of items, and the timestamp of the
  library, 64-bit seconds and 32-bit nanoseconds.
\<close>

fun schema :: "msg_t \<Rightarrow> schema_item list" where
  "schema Timestamp_T =
    [SField ''seconds'' S_INT64 1,
     SField ''nanos'' S_INT32 2]"
| "schema ClientMessage_T =
    [SField ''version'' (S_ENUM ProtocolVersion_E) 1,
     SOneof ''msg''
      [(''ping'', S_MESSAGE PingRequest_T, 10),
       (''echo'', S_MESSAGE EchoRequest_T, 11),
       (''match_game'', S_MESSAGE MatchGameRequest_T, 20),
       (''cancel_match'', S_MESSAGE CancelMatchRequest_T, 21),
       (''move'', S_MESSAGE MoveRequest_T, 22),
       (''resign'', S_MESSAGE ResignRequest_T, 23),
       (''chat'', S_MESSAGE ChatRequest_T, 24)]]"
| "schema PingRequest_T =
    [SField ''message'' S_STRING 1]"
| "schema EchoRequest_T =
    [SField ''message'' S_STRING 1]"
| "schema MatchGameRequest_T =
    [SField ''player_id'' S_STRING 1,
     SField ''desired_game_id'' S_STRING 2]"
| "schema CancelMatchRequest_T =
    [SField ''player_id'' S_STRING 1]"
| "schema MoveRequest_T =
    [SField ''from'' S_STRING 1,
     SField ''to'' S_STRING 2,
     SField ''timestamp'' (S_MESSAGE Timestamp_T) 3]"
| "schema ResignRequest_T =
    [SField ''player_id'' S_STRING 1]"
| "schema ChatRequest_T =
    [SField ''message'' S_STRING 1,
     SField ''timestamp'' (S_MESSAGE Timestamp_T) 2]"
| "schema ServerMessage_T =
    [SField ''version'' (S_ENUM ProtocolVersion_E) 1,
     SOneof ''msg''
      [(''ping_res'', S_MESSAGE PingResponse_T, 10),
       (''echo_res'', S_MESSAGE EchoResponse_T, 11),
       (''match_game_res'', S_MESSAGE MatchGameResponse_T, 20),
       (''cancel_match_res'', S_MESSAGE CancelMatchResponse_T, 21),
       (''move_res'', S_MESSAGE MoveResponse_T, 22),
       (''move_broadcast'', S_MESSAGE MoveBroadcast_T, 23),
       (''check_broadcast'', S_MESSAGE CheckBroadcast_T, 24),
       (''game_end'', S_MESSAGE GameEndBroadcast_T, 25),
       (''chat_broadcast'', S_MESSAGE ChatBroadcast_T, 26),
       (''resign_res'', S_MESSAGE ResignResponse_T, 27),
       (''resign_broadcast'', S_MESSAGE ResignBroadcast_T, 28),
       (''error'', S_MESSAGE ErrorResponse_T, 99)]]"
| "schema PingResponse_T =
    [SField ''message'' S_STRING 1]"
| "schema EchoResponse_T =
    [SField ''message'' S_STRING 1]"
| "schema MatchGameResponse_T =
    [SField ''game_id'' S_STRING 1,
     SField ''success'' S_BOOL 2,
     SField ''message'' S_STRING 3,
     SField ''assigned_team'' (S_ENUM Team_E) 4,
     SField ''opponent_name'' S_STRING 5,
     SField ''time_limit_per_player'' S_INT32 6,
     SField ''game_start_time'' (S_MESSAGE Timestamp_T) 7,
     SField ''white_time_remaining'' S_INT32 8,
     SField ''black_time_remaining'' S_INT32 9]"
| "schema CancelMatchResponse_T =
    [SField ''player_id'' S_STRING 1,
     SField ''success'' S_BOOL 2,
     SField ''message'' S_STRING 3]"
| "schema ResignResponse_T =
    [SField ''game_id'' S_STRING 1,
     SField ''player_id'' S_STRING 2,
     SField ''success'' S_BOOL 3,
     SField ''message'' S_STRING 4,
     SField ''timestamp'' (S_MESSAGE Timestamp_T) 5]"
| "schema MoveResponse_T =
    [SField ''game_id'' S_STRING 1,
     SField ''player_id'' S_STRING 2,
     SField ''success'' S_BOOL 3,
     SField ''message'' S_STRING 4,
     SField ''updated_fen'' S_STRING 5,
     SField ''timestamp'' (S_MESSAGE Timestamp_T) 6]"
| "schema MoveBroadcast_T =
    [SField ''game_id'' S_STRING 1,
     SField ''player_id'' S_STRING 2,
     SField ''from'' S_STRING 3,
     SField ''to'' S_STRING 4,
     SField ''promotion'' (S_ENUM PieceType_E) 5,
     SField ''timestamp'' (S_MESSAGE Timestamp_T) 6,
     SField ''game_ends'' S_BOOL 7,
     SField ''winner_team'' (S_ENUM Team_E) 8,
     SField ''end_type'' (S_ENUM GameEndType_E) 9,
     SField ''is_check'' S_BOOL 10,
     SField ''checked_team'' (S_ENUM Team_E) 11,
     SField ''white_time_remaining'' S_INT32 12,
     SField ''black_time_remaining'' S_INT32 13,
     SField ''move_timestamp'' (S_MESSAGE Timestamp_T) 14]"
| "schema CheckBroadcast_T =
    [SField ''game_id'' S_STRING 1,
     SField ''player_id'' S_STRING 2,
     SField ''by_team'' (S_ENUM Team_E) 3,
     SField ''timestamp'' (S_MESSAGE Timestamp_T) 4]"
| "schema ResignBroadcast_T =
    [SField ''game_id'' S_STRING 1,
     SField ''player_id'' S_STRING 2,
     SField ''winner_team'' (S_ENUM Team_E) 3,
     SField ''timestamp'' (S_MESSAGE Timestamp_T) 4]"
| "schema GameEndBroadcast_T =
    [SField ''game_id'' S_STRING 1,
     SField ''player_id'' S_STRING 2,
     SField ''winner_team'' (S_ENUM Team_E) 3,
     SField ''end_type'' (S_ENUM GameEndType_E) 4,
     SField ''timestamp'' (S_MESSAGE Timestamp_T) 5]"
| "schema ChatBroadcast_T =
    [SField ''player_id'' S_STRING 1,
     SField ''message'' S_STRING 2,
     SField ''timestamp'' (S_MESSAGE Timestamp_T) 3]"
| "schema ErrorResponse_T =
    [SField ''game_id'' S_STRING 1,
     SField ''player_id'' S_STRING 2,
     SField ''code'' S_INT32 3,
     SField ''message'' S_STRING 4]"

fun schema_enum :: "enum_t \<Rightarrow> (string \<times> nat) list" where
  "schema_enum ProtocolVersion_E =
    [(''PV_UNKNOWN'', 0),
     (''PV_V1'', 1)]"
| "schema_enum PieceType_E =
    [(''PT_NONE'', 0),
     (''PT_PAWN'', 1),
     (''PT_KNIGHT'', 2),
     (''PT_BISHOP'', 3),
     (''PT_ROOK'', 4),
     (''PT_QUEEN'', 5),
     (''PT_KING'', 6)]"
| "schema_enum Team_E =
    [(''TEAM_UNSPECIFIED'', 0),
     (''TEAM_WHITE'', 1),
     (''TEAM_BLACK'', 2)]"
| "schema_enum GameEndType_E =
    [(''GAME_END_UNKNOWN'', 0),
     (''GAME_END_RESIGN'', 1),
     (''GAME_END_DISCONNECT'', 2),
     (''GAME_END_CHECKMATE'', 3),
     (''GAME_END_STALEMATE'', 4),
     (''GAME_END_DRAW'', 5),
     (''GAME_END_TIMEOUT'', 6)]"

fun message_name :: "msg_t \<Rightarrow> string" where
  "message_name Timestamp_T = ''Timestamp''"
| "message_name ClientMessage_T = ''ClientMessage''"
| "message_name PingRequest_T = ''PingRequest''"
| "message_name EchoRequest_T = ''EchoRequest''"
| "message_name MatchGameRequest_T = ''MatchGameRequest''"
| "message_name CancelMatchRequest_T = ''CancelMatchRequest''"
| "message_name MoveRequest_T = ''MoveRequest''"
| "message_name ResignRequest_T = ''ResignRequest''"
| "message_name ChatRequest_T = ''ChatRequest''"
| "message_name ServerMessage_T = ''ServerMessage''"
| "message_name PingResponse_T = ''PingResponse''"
| "message_name EchoResponse_T = ''EchoResponse''"
| "message_name MatchGameResponse_T = ''MatchGameResponse''"
| "message_name CancelMatchResponse_T = ''CancelMatchResponse''"
| "message_name ResignResponse_T = ''ResignResponse''"
| "message_name MoveResponse_T = ''MoveResponse''"
| "message_name MoveBroadcast_T = ''MoveBroadcast''"
| "message_name CheckBroadcast_T = ''CheckBroadcast''"
| "message_name ResignBroadcast_T = ''ResignBroadcast''"
| "message_name GameEndBroadcast_T = ''GameEndBroadcast''"
| "message_name ChatBroadcast_T = ''ChatBroadcast''"
| "message_name ErrorResponse_T = ''ErrorResponse''"

section \<open>What a schema is compiled to\<close>

fun field_type :: "schema_type \<Rightarrow> type_t" where
  "field_type S_STRING = PROTOBUF_C_TYPE_STRING"
| "field_type S_BOOL = PROTOBUF_C_TYPE_BOOL"
| "field_type S_INT32 = PROTOBUF_C_TYPE_INT32"
| "field_type S_INT64 = PROTOBUF_C_TYPE_INT64"
| "field_type (S_ENUM e) = PROTOBUF_C_TYPE_ENUM"
| "field_type (S_MESSAGE m) = PROTOBUF_C_TYPE_MESSAGE"

fun field_reference :: "schema_type \<Rightarrow> descriptor_ref option" where
  "field_reference (S_ENUM e) = Some (ENUM_DESC e)"
| "field_reference (S_MESSAGE m) = Some (MESSAGE_DESC m)"
| "field_reference _ = None"

definition field_default :: "schema_type \<Rightarrow> pb_value option" where
  "field_default t = (if t = S_STRING then Some protobuf_c_empty_string else None)"

fun compile_item :: "msg_t \<Rightarrow> schema_item \<Rightarrow> field_descriptor list" where
  "compile_item m (SField name t k) =
     [Field name k PROTOBUF_C_LABEL_NONE (field_type t) None (m, name) (field_reference t) (field_default t) []]"
| "compile_item m (SOneof one fs) =
     map (\<lambda>(name, t, k). Field name k PROTOBUF_C_LABEL_NONE (field_type t) (Some (m, one @ ''_case'')) (m, name)
            (field_reference t) (field_default t) [PROTOBUF_C_FIELD_FLAG_ONEOF]) fs"

definition compile_fields :: "msg_t \<Rightarrow> field_descriptor list" where
  "compile_fields m = concat (map (compile_item m) (schema m))"

fun member_type :: "schema_type \<Rightarrow> c_type" where
  "member_type S_STRING = CHAR_PTR"
| "member_type S_BOOL = BOOLEAN"
| "member_type S_INT32 = INT32"
| "member_type S_INT64 = INT64"
| "member_type (S_ENUM e) = ENUM_OF e"
| "member_type (S_MESSAGE m) = MESSAGE_PTR m"

fun compile_member :: "msg_t \<Rightarrow> schema_item \<Rightarrow> member list" where
  "compile_member m (SField name t k) = [Member name (member_type t)]"
| "compile_member m (SOneof one fs) =
     [Member (one @ ''_case'') (CASE_OF m), Union (map (\<lambda>(name, t, k). (name, member_type t)) fs)]"

definition compile_members :: "msg_t \<Rightarrow> member list" where
  "compile_members m = concat (map (compile_member m) (schema m))"

fun initial_value :: "schema_type \<Rightarrow> pb_value" where
  "initial_value S_STRING = protobuf_c_empty_string"
| "initial_value (S_MESSAGE m) = NULL"
| "initial_value _ = Number 0"

fun compile_initial :: "schema_item \<Rightarrow> pb_value list" where
  "compile_initial (SField name t k) = [initial_value t]"
| "compile_initial (SOneof one fs) = [Number 0, UNION_ZERO]"

definition compile_message :: "msg_t \<Rightarrow> pb_message" where
  "compile_message m = Message m (concat (map compile_initial (schema m)))"

definition oneof_numbers :: "msg_t \<Rightarrow> nat list" where
  "oneof_numbers m = map fd_id (filter (\<lambda>f. fd_flags f = [PROTOBUF_C_FIELD_FLAG_ONEOF]) (compile_fields m))"

section \<open>The tables\<close>

abbreviation fields_of :: "msg_t \<Rightarrow> field_descriptor list" where
  "fields_of m \<equiv> md_fields (descriptor_of m)"

abbreviation values_of :: "enum_t \<Rightarrow> enum_value list" where
  "values_of e \<equiv> ed_values (enum_descriptor_of e)"

interpretation field_numbers: number_table "map fd_id (fields_of m)" "md_field_ranges (descriptor_of m)" for m
  by unfold_locales (induction m; code_simp)+

interpretation value_numbers: number_table "map ev_value (values_of e)" "ed_value_ranges (enum_descriptor_of e)" for e
  by unfold_locales (induction e; code_simp)+

interpretation field_names: name_index "map fd_name (fields_of m)" "md_fields_sorted_by_name (descriptor_of m)" for m
  by unfold_locales (induction m; code_simp)+

interpretation value_names: name_index "map ev_name (values_of e)"
    "map snd (ed_values_by_name (enum_descriptor_of e))" for e
  by unfold_locales (induction e; code_simp)+

lemma fields_compiled: "fields_of m = compile_fields m"
  by (induction m; code_simp)

lemma members_compiled: "members_of m = compile_members m"
  by (induction m; code_simp)

lemma init_compiled: "md_message_init (descriptor_of m) = compile_message m"
  by (induction m; code_simp)

lemma values_compiled:
  "map (\<lambda>v. (ev_name v, ev_value v)) (values_of e) = schema_enum e"
  "map fst (ed_values_by_name (enum_descriptor_of e)) =
     map (\<lambda>p. ev_name (values_of e ! snd p)) (ed_values_by_name (enum_descriptor_of e))"
  by (induction e; code_simp)+

lemma names_compiled:
  "md_short_name (descriptor_of m) = message_name m"
  "md_sizeof_message (descriptor_of m) = SIZEOF m"
  "md_magic (descriptor_of m) = PROTOBUF_C__MESSAGE_DESCRIPTOR_MAGIC"
  by (induction m; code_simp)+

lemma cases_compiled:
  "map snd client_message__msg_cases = 0 # oneof_numbers ClientMessage_T"
  "map snd server_message__msg_cases = 0 # oneof_numbers ServerMessage_T"
  by code_simp+

lemma field_counts:
  "md_n_fields (descriptor_of m) = length (fields_of m)"
  "length (md_field_ranges (descriptor_of m)) = md_n_field_ranges (descriptor_of m) + 1"
  by (induction m; code_simp)+

lemma value_counts:
  "ed_n_values (enum_descriptor_of e) = length (values_of e)"
  "ed_n_value_names (enum_descriptor_of e) = length (ed_values_by_name (enum_descriptor_of e))"
  "length (ed_value_ranges (enum_descriptor_of e)) = ed_n_value_ranges (enum_descriptor_of e) + 1"
  by (induction e; code_simp)+

lemma field_order:
  "sorted_wrt strcmp_less (map (\<lambda>k. fd_name (fields_of m ! k)) (md_fields_sorted_by_name (descriptor_of m)))"
proof -
  have "map (\<lambda>k. map fd_name (fields_of m) ! k) (md_fields_sorted_by_name (descriptor_of m)) =
      map (\<lambda>k. fd_name (fields_of m ! k)) (md_fields_sorted_by_name (descriptor_of m))"
    using field_names.index_set [of m] by (intro map_cong refl) auto
  with field_names.by_name [of m] show ?thesis by simp
qed

lemma value_order: "sorted_wrt strcmp_less (map fst (ed_values_by_name (enum_descriptor_of e)))"
proof -
  let ?xs = "ed_values_by_name (enum_descriptor_of e)"
  have "snd p < length (values_of e)" if "p \<in> set ?xs" for p
    using value_names.index_set [of e] that by auto
  then have "map (\<lambda>k. map ev_name (values_of e) ! k) (map snd ?xs) = map (\<lambda>p. ev_name (values_of e ! snd p)) ?xs"
    unfolding map_map comp_def by (intro map_cong refl nth_map) simp
  with value_names.by_name [of e] show ?thesis by (simp only: values_compiled(2))
qed

section \<open>Assertions\<close>

text \<open>
  The library sets the descriptor of a message that it unpacks. Then no assertion of the generated
  functions fails on a message that was initialised or unpacked by the functions of its type, whatever
  values its members were given.
\<close>

lemma initial_descriptor: "base_descriptor (api_init (api_of lib d)) = d"
  by (simp add: api_of_generated generated_api_def init_compiled compile_message_def)

lemma no_assertion_fails:
  assumes "\<And>m. lib_unpack lib (descriptor_of d) data = Some m \<Longrightarrow> base_descriptor m = d"
  shows "api_pack (api_of lib d) (Message (base_descriptor (api_init (api_of lib d))) vs) \<noteq> Abort"
    "api_free_unpacked (api_of lib d) (api_unpack (api_of lib d) data) \<noteq> Abort"
  using assms by (auto simp: initial_descriptor)
    (auto simp: api_of_generated generated_api_def asserting_def split: option.splits)

lemma foreign_message_aborts:
  "d' \<noteq> d \<Longrightarrow> api_pack (api_of lib d) (Message (base_descriptor (api_init (api_of lib d'))) vs) = Abort"
  by (simp only: initial_descriptor) (simp add: api_of_generated generated_api_def asserting_def)

section \<open>Properties\<close>

text \<open>
  C35: the generated tables are the compiled schema. For every message of \<open>message.proto\<close>, the field
  descriptors have the names, numbers, types and references of its fields, the structure has their
  members in the same order, a new message has the default value in every member, and the enumerators
  that select the member of the union are the numbers of its fields; for every enumeration, the values
  are those of the schema.
\<close>

theorem tables_follow_schema:
  "md_fields (descriptor_of m) = compile_fields m
   \<and> md_n_fields (descriptor_of m) = length (compile_fields m)
   \<and> md_short_name (descriptor_of m) = message_name m \<and> md_sizeof_message (descriptor_of m) = SIZEOF m
   \<and> members_of m = compile_members m
   \<and> api_init (api_of lib m) = compile_message m
   \<and> map snd client_message__msg_cases = 0 # oneof_numbers ClientMessage_T
   \<and> map snd server_message__msg_cases = 0 # oneof_numbers ServerMessage_T
   \<and> map (\<lambda>v. (ev_name v, ev_value v)) (ed_values (enum_descriptor_of e)) = schema_enum e"
  by (simp add: fields_compiled field_counts names_compiled members_compiled cases_compiled values_compiled
      api_of_generated generated_api_def init_compiled)

text \<open>
  C36: the tables of the generated code that the library searches agree with the entries. The ranges of a message
  or an enumeration, runs of consecutive numbers with the index of the first, list number \<open>n\<close> with
  index \<open>i\<close> exactly when entry \<open>i\<close> has the number \<open>n\<close>; the index by name lists every entry once and in
  the strict order of \<open>strcmp\<close>. (The searches are the library's.)
\<close>

theorem index_tables_encode:
  "((\<exists>r < md_n_field_ranges (descriptor_of m).
        let rs = md_field_ranges (descriptor_of m); (s, k) = rs ! r; (s', k') = rs ! Suc r
        in s \<le> n \<and> n < s + (k' - k) \<and> i = k + (n - s)) \<longleftrightarrow>
      i < md_n_fields (descriptor_of m) \<and> fd_id (md_fields (descriptor_of m) ! i) = n)
   \<and> ((\<exists>r < ed_n_value_ranges (enum_descriptor_of e).
        let rs = ed_value_ranges (enum_descriptor_of e); (s, k) = rs ! r; (s', k') = rs ! Suc r
        in s \<le> n \<and> n < s + (k' - k) \<and> j = k + (n - s)) \<longleftrightarrow>
      j < ed_n_values (enum_descriptor_of e) \<and> ev_value (ed_values (enum_descriptor_of e) ! j) = n)
   \<and> set (md_fields_sorted_by_name (descriptor_of m)) = {..<md_n_fields (descriptor_of m)}
   \<and> length (md_fields_sorted_by_name (descriptor_of m)) = md_n_fields (descriptor_of m)
   \<and> sorted_wrt strcmp_less (map (\<lambda>k. fd_name (md_fields (descriptor_of m) ! k))
        (md_fields_sorted_by_name (descriptor_of m)))
   \<and> snd ` set (ed_values_by_name (enum_descriptor_of e)) = {..<ed_n_values (enum_descriptor_of e)}
   \<and> length (ed_values_by_name (enum_descriptor_of e)) = ed_n_values (enum_descriptor_of e)
   \<and> sorted_wrt strcmp_less (map fst (ed_values_by_name (enum_descriptor_of e)))"
proof -
  have runs: "(\<exists>r < c. let (s, k) = rs ! r; (s', k') = rs ! Suc r in s \<le> x \<and> x < s + (k' - k) \<and> y = k + (x - s)) \<longleftrightarrow>
      in_run rs x y" if "length rs = c + 1" for rs c x y
    using that by (auto simp: in_run_def Let_def case_prod_beta)
  have fields: "in_run (md_field_ranges (descriptor_of m)) n i \<longleftrightarrow>
      i < md_n_fields (descriptor_of m) \<and> fd_id (md_fields (descriptor_of m) ! i) = n"
    using field_numbers.in_run_iff [of m n i] by (simp only: field_counts length_map nth_map cong: conj_cong)
  have vals: "in_run (ed_value_ranges (enum_descriptor_of e)) n j \<longleftrightarrow>
      j < ed_n_values (enum_descriptor_of e) \<and> ev_value (ed_values (enum_descriptor_of e) ! j) = n"
    using value_numbers.in_run_iff [of e n j] by (simp only: value_counts length_map nth_map cong: conj_cong)
  show ?thesis
    unfolding Let_def [of "md_field_ranges _"] Let_def [of "ed_value_ranges _"]
      runs [OF field_counts(2)] runs [OF value_counts(3)] fields vals
    using field_names.index_set [of m] value_names.index_set [of e]
      field_names.index_length [of m] value_names.index_length [of e]
    by (intro conjI refl field_order value_order) (simp_all only: field_counts value_counts length_map set_map)
qed

end
