(* ===== verification/Colors.thy ===== *)
theory Colors
  imports Prelude
begin

text \<open>
  \<open>client/ui/colors.h\<close> and \<open>colors.c\<close>: the numbers of the colours and of the colour pairs, and the pairs
  that \<open>init_colors\<close> defines for a terminal with 256 colours and for one with fewer. A call of
  \<open>init_pair\<close> is a pair with its text and background colour; the library refuses a colour that the
  terminal does not have.
\<close>

datatype color_pair =
  COLOR_PAIR_BORDER | COLOR_PAIR_DIALOG_BORDER | COLOR_PAIR_SELECTED
| COLOR_PAIR_BOARD_WHITE | COLOR_PAIR_BOARD_BLACK
| COLOR_PAIR_SELECTED_SQUARE | COLOR_PAIR_CURSOR_SQUARE
| COLOR_PAIR_WHITE_PLAYER | COLOR_PAIR_BLACK_PLAYER | COLOR_PAIR_CURRENT_TURN
| COLOR_PAIR_POSSIBLE_MOVE | COLOR_PAIR_CAPTURE_MOVE
| COLOR_PAIR_MY_PIECE | COLOR_PAIR_OPPONENT_PIECE
| COLOR_PAIR_RED | COLOR_PAIR_CHECK_WHITE | COLOR_PAIR_CHECK_BLACK
| COLOR_PAIR_CHECK_PLAYER | COLOR_PAIR_CHECK_KING
| COLOR_PAIR_TIMER_WARNING | COLOR_PAIR_TIMER_CRITICAL
| COLOR_PAIR_TIMER_WARNING_WHITE | COLOR_PAIR_TIMER_CRITICAL_WHITE
| COLOR_PAIR_TIMER_WARNING_CHECK | COLOR_PAIR_TIMER_CRITICAL_CHECK

definition color_pairs :: "color_pair list" where
  "color_pairs =
    [COLOR_PAIR_BORDER, COLOR_PAIR_DIALOG_BORDER, COLOR_PAIR_SELECTED,
     COLOR_PAIR_BOARD_WHITE, COLOR_PAIR_BOARD_BLACK,
     COLOR_PAIR_SELECTED_SQUARE, COLOR_PAIR_CURSOR_SQUARE,
     COLOR_PAIR_WHITE_PLAYER, COLOR_PAIR_BLACK_PLAYER, COLOR_PAIR_CURRENT_TURN,
     COLOR_PAIR_POSSIBLE_MOVE, COLOR_PAIR_CAPTURE_MOVE,
     COLOR_PAIR_MY_PIECE, COLOR_PAIR_OPPONENT_PIECE,
     COLOR_PAIR_RED, COLOR_PAIR_CHECK_WHITE, COLOR_PAIR_CHECK_BLACK,
     COLOR_PAIR_CHECK_PLAYER, COLOR_PAIR_CHECK_KING,
     COLOR_PAIR_TIMER_WARNING, COLOR_PAIR_TIMER_CRITICAL,
     COLOR_PAIR_TIMER_WARNING_WHITE, COLOR_PAIR_TIMER_CRITICAL_WHITE,
     COLOR_PAIR_TIMER_WARNING_CHECK, COLOR_PAIR_TIMER_CRITICAL_CHECK]"

definition EXT_COLOR_BLACK :: int where "EXT_COLOR_BLACK = 0"
definition EXT_COLOR_WHITE :: int where "EXT_COLOR_WHITE = 7"
definition EXT_COLOR_BRIGHT_WHITE :: int where "EXT_COLOR_BRIGHT_WHITE = 15"

definition RGB_COLOR :: "int \<Rightarrow> int \<Rightarrow> int \<Rightarrow> int" where
  "RGB_COLOR r g b = 16 + 36 * r + 6 * g + b"

definition RGB_RED_COMPONENT :: "int \<Rightarrow> int" where "RGB_RED_COMPONENT c = c_div (c - 16) 36"
definition RGB_GREEN_COMPONENT :: "int \<Rightarrow> int" where "RGB_GREEN_COMPONENT c = c_div (c_mod (c - 16) 36) 6"
definition RGB_BLUE_COMPONENT :: "int \<Rightarrow> int" where "RGB_BLUE_COMPONENT c = c_mod (c - 16) 6"

definition IS_RGB_COLOR :: "int \<Rightarrow> bool" where "IS_RGB_COLOR c = (c \<ge> 16 \<and> c \<le> 231)"

definition GRAY_COLOR :: "int \<Rightarrow> int" where "GRAY_COLOR level = 232 + level"

definition GRAY_LEVEL :: "int \<Rightarrow> int" where "GRAY_LEVEL c = c - 232"

definition EXT_COLOR_GOLD :: int where "EXT_COLOR_GOLD = RGB_COLOR 5 5 0"
definition EXT_COLOR_GRAY_14 :: int where "EXT_COLOR_GRAY_14 = 246"
definition EXT_COLOR_GRAY_16 :: int where "EXT_COLOR_GRAY_16 = 248"
definition EXT_COLOR_GRAY_18 :: int where "EXT_COLOR_GRAY_18 = 250"
definition EXT_COLOR_GRAY_20 :: int where "EXT_COLOR_GRAY_20 = 252"
definition CHESS_LIGHT_SQUARE :: int where "CHESS_LIGHT_SQUARE = EXT_COLOR_WHITE"
definition CHESS_DARK_SQUARE :: int where "CHESS_DARK_SQUARE = EXT_COLOR_BLACK"
definition CHESS_SELECTED_SQUARE :: int where "CHESS_SELECTED_SQUARE = RGB_COLOR 5 3 0"
definition CHESS_POSSIBLE_MOVE :: int where "CHESS_POSSIBLE_MOVE = RGB_COLOR 0 5 0"
definition CHESS_CAPTURE_MOVE :: int where "CHESS_CAPTURE_MOVE = RGB_COLOR 3 0 0"
definition CHESS_BORDER :: int where "CHESS_BORDER = EXT_COLOR_GRAY_16"
definition CHESS_DIALOG_BORDER :: int where "CHESS_DIALOG_BORDER = EXT_COLOR_GRAY_20"
definition UI_WARNING :: int where "UI_WARNING = RGB_COLOR 5 3 0"
definition UI_ERROR :: int where "UI_ERROR = 88"

text \<open>The eight colours of every colour terminal.\<close>

definition COLOR_BLACK :: int where "COLOR_BLACK = 0"
definition COLOR_RED :: int where "COLOR_RED = 1"
definition COLOR_GREEN :: int where "COLOR_GREEN = 2"
definition COLOR_YELLOW :: int where "COLOR_YELLOW = 3"
definition COLOR_BLUE :: int where "COLOR_BLUE = 4"
definition COLOR_CYAN :: int where "COLOR_CYAN = 6"
definition COLOR_WHITE :: int where "COLOR_WHITE = 7"

lemmas color_defs = EXT_COLOR_BLACK_def EXT_COLOR_WHITE_def EXT_COLOR_BRIGHT_WHITE_def RGB_COLOR_def
  EXT_COLOR_GOLD_def EXT_COLOR_GRAY_14_def EXT_COLOR_GRAY_16_def EXT_COLOR_GRAY_18_def
  EXT_COLOR_GRAY_20_def CHESS_LIGHT_SQUARE_def CHESS_DARK_SQUARE_def CHESS_SELECTED_SQUARE_def
  CHESS_POSSIBLE_MOVE_def CHESS_CAPTURE_MOVE_def CHESS_BORDER_def CHESS_DIALOG_BORDER_def UI_WARNING_def
  UI_ERROR_def COLOR_BLACK_def COLOR_RED_def COLOR_GREEN_def COLOR_YELLOW_def COLOR_BLUE_def
  COLOR_CYAN_def COLOR_WHITE_def

definition init_colors :: "int \<Rightarrow> (color_pair \<times> int \<times> int) list" where
  "init_colors colors =
    [(COLOR_PAIR_BOARD_WHITE, CHESS_LIGHT_SQUARE, CHESS_DARK_SQUARE),
     (COLOR_PAIR_BOARD_BLACK, CHESS_DARK_SQUARE, CHESS_LIGHT_SQUARE)] @
    (if colors \<ge> 256 then
      [(COLOR_PAIR_BORDER, CHESS_BORDER, COLOR_BLACK),
       (COLOR_PAIR_DIALOG_BORDER, CHESS_DIALOG_BORDER, COLOR_BLACK),
       (COLOR_PAIR_SELECTED, EXT_COLOR_GOLD, COLOR_BLACK),
       (COLOR_PAIR_SELECTED_SQUARE, COLOR_BLACK, CHESS_SELECTED_SQUARE),
       (COLOR_PAIR_CURSOR_SQUARE, EXT_COLOR_GRAY_18, EXT_COLOR_GRAY_14),
       (COLOR_PAIR_WHITE_PLAYER, COLOR_BLACK, EXT_COLOR_BRIGHT_WHITE),
       (COLOR_PAIR_BLACK_PLAYER, EXT_COLOR_BRIGHT_WHITE, COLOR_BLACK),
       (COLOR_PAIR_CURRENT_TURN, EXT_COLOR_GOLD, COLOR_BLACK),
       (COLOR_PAIR_POSSIBLE_MOVE, COLOR_BLACK, CHESS_POSSIBLE_MOVE),
       (COLOR_PAIR_CAPTURE_MOVE, COLOR_BLACK, CHESS_CAPTURE_MOVE),
       (COLOR_PAIR_MY_PIECE, EXT_COLOR_BRIGHT_WHITE, COLOR_BLACK),
       (COLOR_PAIR_OPPONENT_PIECE, EXT_COLOR_GRAY_14, COLOR_BLACK),
       (COLOR_PAIR_RED, UI_ERROR, COLOR_BLACK),
       (COLOR_PAIR_CHECK_WHITE, UI_ERROR, EXT_COLOR_BRIGHT_WHITE),
       (COLOR_PAIR_CHECK_BLACK, UI_ERROR, COLOR_BLACK),
       (COLOR_PAIR_CHECK_PLAYER, EXT_COLOR_BRIGHT_WHITE, UI_ERROR),
       (COLOR_PAIR_CHECK_KING, EXT_COLOR_BRIGHT_WHITE, 88),
       (COLOR_PAIR_TIMER_WARNING, UI_WARNING, COLOR_BLACK),
       (COLOR_PAIR_TIMER_CRITICAL, COLOR_RED, COLOR_BLACK),
       (COLOR_PAIR_TIMER_WARNING_WHITE, UI_WARNING, EXT_COLOR_BRIGHT_WHITE),
       (COLOR_PAIR_TIMER_CRITICAL_WHITE, COLOR_RED, EXT_COLOR_BRIGHT_WHITE),
       (COLOR_PAIR_TIMER_WARNING_CHECK, UI_WARNING, COLOR_RED),
       (COLOR_PAIR_TIMER_CRITICAL_CHECK, COLOR_RED, COLOR_RED)]
    else
      [(COLOR_PAIR_BORDER, COLOR_CYAN, COLOR_BLACK),
       (COLOR_PAIR_DIALOG_BORDER, COLOR_CYAN, COLOR_BLACK),
       (COLOR_PAIR_SELECTED, COLOR_YELLOW, COLOR_BLACK),
       (COLOR_PAIR_SELECTED_SQUARE, COLOR_BLACK, COLOR_YELLOW),
       (COLOR_PAIR_CURSOR_SQUARE, COLOR_BLUE, COLOR_CYAN),
       (COLOR_PAIR_WHITE_PLAYER, COLOR_BLACK, COLOR_WHITE),
       (COLOR_PAIR_BLACK_PLAYER, COLOR_WHITE, COLOR_BLACK),
       (COLOR_PAIR_CURRENT_TURN, COLOR_YELLOW, COLOR_BLACK),
       (COLOR_PAIR_POSSIBLE_MOVE, COLOR_BLACK, COLOR_GREEN),
       (COLOR_PAIR_CAPTURE_MOVE, COLOR_BLACK, COLOR_RED),
       (COLOR_PAIR_MY_PIECE, COLOR_WHITE, COLOR_BLACK),
       (COLOR_PAIR_OPPONENT_PIECE, COLOR_BLACK, COLOR_BLACK),
       (COLOR_PAIR_RED, COLOR_RED, COLOR_BLACK),
       (COLOR_PAIR_CHECK_WHITE, COLOR_RED, COLOR_WHITE),
       (COLOR_PAIR_CHECK_BLACK, COLOR_RED, COLOR_BLACK),
       (COLOR_PAIR_CHECK_PLAYER, COLOR_WHITE, COLOR_RED),
       (COLOR_PAIR_CHECK_KING, COLOR_WHITE, 88),
       (COLOR_PAIR_TIMER_WARNING, COLOR_YELLOW, COLOR_BLACK),
       (COLOR_PAIR_TIMER_CRITICAL, COLOR_RED, COLOR_BLACK),
       (COLOR_PAIR_TIMER_WARNING_WHITE, COLOR_YELLOW, COLOR_WHITE),
       (COLOR_PAIR_TIMER_CRITICAL_WHITE, COLOR_RED, COLOR_WHITE),
       (COLOR_PAIR_TIMER_WARNING_CHECK, COLOR_YELLOW, COLOR_RED),
       (COLOR_PAIR_TIMER_CRITICAL_CHECK, COLOR_RED, COLOR_RED)])"

text \<open>The number of a pair, from 1.\<close>

definition pair_number :: "color_pair \<Rightarrow> nat" where
  "pair_number p = Suc (length (takeWhile (\<lambda>q. q \<noteq> p) color_pairs))"

section \<open>Every pair is defined once, and one of them hides its text\<close>

lemma color_pairs_all: "set color_pairs = UNIV" "distinct color_pairs"
proof -
  have "p \<in> set color_pairs" for p by (cases p) (simp_all add: color_pairs_def)
  then show "set color_pairs = UNIV" by auto
  show "distinct color_pairs" by (simp add: color_pairs_def)
qed

lemma rgb_components:
  assumes "0 \<le> r" "r < 6" "0 \<le> g" "g < 6" "0 \<le> b" "b < 6"
  shows "IS_RGB_COLOR (RGB_COLOR r g b)" "RGB_RED_COMPONENT (RGB_COLOR r g b) = r"
    "RGB_GREEN_COMPONENT (RGB_COLOR r g b) = g" "RGB_BLUE_COMPONENT (RGB_COLOR r g b) = b"
  using assms
  by (simp_all add: IS_RGB_COLOR_def RGB_COLOR_def RGB_RED_COMPONENT_def RGB_GREEN_COMPONENT_def
      RGB_BLUE_COMPONENT_def c_div_nonneg c_mod_nonneg) presburger+

lemma pairs_defined: "distinct (map fst (init_colors n))" "set (map fst (init_colors n)) = UNIV"
proof -
  show "distinct (map fst (init_colors n))" by (simp add: init_colors_def)
  have "p \<in> set (map fst (init_colors n))" for p by (cases p) (simp_all add: init_colors_def)
  then show "set (map fst (init_colors n)) = UNIV" by blast
qed

theorem hidden_pairs:
  "(p, f, b) \<in> set (init_colors n) \<Longrightarrow>
   f = b \<longleftrightarrow> p = COLOR_PAIR_TIMER_CRITICAL_CHECK \<or> n < 256 \<and> p = COLOR_PAIR_OPPONENT_PIECE"
  by (auto simp: init_colors_def color_defs split: if_splits)

theorem refused_pairs:
  "(p, f, b) \<in> set (init_colors n) \<Longrightarrow> 8 \<le> n \<Longrightarrow> n \<le> 88 \<or> 256 \<le> n \<Longrightarrow>
   (f < n \<and> b < n) = (p \<noteq> COLOR_PAIR_CHECK_KING \<or> 256 \<le> n)"
  by (auto simp: init_colors_def color_defs split: if_splits)

end
