(* ===== verification/Client_Screen.thy ===== *)
theory Client_Screen
  imports Client_Main Colors
begin

text \<open>
  What the drawing functions of \<open>client/ui\<close> and the replay put on the terminal, as the list of their
  calls of \<open>mvwprintw\<close>: the position in the window, the bytes, and the attributes switched on at the
  call. Borders, clearing and refreshing are not modelled. The sizes of the terminal are arguments.
\<close>

section \<open>Prints and windows\<close>

datatype attr = COLOR_PAIR color_pair | A_BOLD | A_ITALIC | A_DIM | A_BLINK | A_REVERSE

record print_t =
  pr_y :: int
  pr_x :: int
  pr_text :: string
  pr_attrs :: "attr list"

definition mvwprintw :: "attr list \<Rightarrow> int \<Rightarrow> int \<Rightarrow> string \<Rightarrow> print_t" where
  "mvwprintw attrs y x s = \<lparr>pr_y = y, pr_x = x, pr_text = s, pr_attrs = attrs\<rparr>"

text \<open>A window by its height, width and corner, as in \<open>newwin\<close>.\<close>

record window_t =
  wn_height :: int
  wn_width :: int
  wn_y :: int
  wn_x :: int

definition newwin :: "int \<Rightarrow> int \<Rightarrow> int \<Rightarrow> int \<Rightarrow> window_t" where
  "newwin h w y x = \<lparr>wn_height = h, wn_width = w, wn_y = y, wn_x = x\<rparr>"

text \<open>The conversions \<open>%ns\<close> and \<open>%-ns\<close>.\<close>

definition pad_left :: "nat \<Rightarrow> string \<Rightarrow> string" where
  "pad_left n s = replicate (n - length s) (CHR '' '') @ s"

definition pad_right :: "nat \<Rightarrow> string \<Rightarrow> string" where
  "pad_right n s = s @ replicate (n - length s) (CHR '' '')"

section \<open>The chess board\<close>

definition files_white :: string where
  "files_white = ''a      b      c      d      e      f      g      h''"

definition files_black :: string where
  "files_black = ''h      g      f      e      d      c      b      a''"

definition square_attrs :: "square_color \<Rightarrow> attr list" where
  "square_attrs col =
     (case col of
        SELECTED_SQUARE \<Rightarrow> [COLOR_PAIR COLOR_PAIR_SELECTED_SQUARE]
      | CHECKMATE_KING \<Rightarrow> [COLOR_PAIR COLOR_PAIR_CHECK_KING, A_BLINK]
      | CHECK_KING \<Rightarrow> [COLOR_PAIR COLOR_PAIR_CHECK_KING]
      | CURSOR_SQUARE \<Rightarrow> [COLOR_PAIR COLOR_PAIR_CURSOR_SQUARE]
      | CAPTURE_MOVE \<Rightarrow> [COLOR_PAIR COLOR_PAIR_CAPTURE_MOVE]
      | POSSIBLE_MOVE \<Rightarrow> [COLOR_PAIR COLOR_PAIR_POSSIBLE_MOVE]
      | BOARD_BLACK \<Rightarrow> [COLOR_PAIR COLOR_PAIR_BOARD_BLACK]
      | BOARD_WHITE \<Rightarrow> [COLOR_PAIR COLOR_PAIR_BOARD_WHITE])"

text \<open>The three lines of one square.\<close>

definition draw_square :: "client_t \<Rightarrow> int \<Rightarrow> int \<Rightarrow> print_t list" where
  "draw_square c row col =
     (let gs = cl_gs c;
          y = 2 + row * SQUARE_H; x = BOARD_LABEL_X + col * SQUARE_W;
          (actual_col, actual_row) = display_square (gs_local_team gs) row col;
          ps = board (gs_game gs) actual_row actual_col;
          attrs = square_attrs (square_colour c row col);
          weight = (if piece ps \<noteq> None \<and> \<not> is_dead ps
                    then [if team ps = gs_local_team gs then A_BOLD else A_DIM] else [])
      in [mvwprintw attrs y x ''       '',
          mvwprintw (attrs @ weight) (y + 1) x (square_text c row col),
          mvwprintw attrs (y + 2) x ''       ''])"

definition draw_row :: "client_t \<Rightarrow> int \<Rightarrow> print_t list" where
  "draw_row c row =
     (let rank = c_dec (display_rank (gs_local_team (cl_gs c)) row)
      in mvwprintw [] (2 + row * SQUARE_H + 1) 1 (rank @ '' '')
         # concat (map (draw_square c row) [0..BOARD_SIZE - 1])
         @ [mvwprintw [] (2 + row * SQUARE_H + 1) (BOARD_WIDTH - 2) rank])"

definition draw_chess_board :: "client_t \<Rightarrow> print_t list" where
  "draw_chess_board c =
     (let is_black_player = (gs_local_team (cl_gs c) = TEAM_BLACK);
          files = (if is_black_player then files_black else files_white)
      in mvwprintw [] 1 BOARD_LABEL_Y (''     '' @ files)
         # concat (map (draw_row c) [0..BOARD_SIZE - 1])
         @ [mvwprintw [] (BOARD_HEIGHT - 2) BOARD_LABEL_X (''   '' @ files)])"

section \<open>The chat area\<close>

text \<open>
  The lines of a message that does not fit in one: from the position \<open>pos\<close> and the row \<open>line\<close> on,
  while there are rows. The bytes of a line may be unwritten, see \<open>chat_line\<close>.
\<close>

function long_msg :: "int \<Rightarrow> int \<Rightarrow> chat_message_t \<Rightarrow> nat \<Rightarrow> int \<Rightarrow> (int \<times> char option list) list" where
  "long_msg max_line max_line_len m pos line =
     (let msg_len = length (full_msg m);
          copy_len = (if int (msg_len - pos) > max_line_len then nat max_line_len else msg_len - pos)
      in if pos < msg_len \<and> line < max_line
         then (line, chat_line max_line_len m pos)
                # long_msg max_line max_line_len m (pos + copy_len) (line + 1)
         else [])"
  by pat_completeness auto

termination by (relation "measure (\<lambda>(max_line, len, m, pos, line). nat (max_line - line))") auto

declare long_msg.simps [simp del]

definition draw_msg :: "int \<Rightarrow> int \<Rightarrow> chat_message_t \<Rightarrow> int \<Rightarrow> (int \<times> char option list) list" where
  "draw_msg max_line max_line_len m line =
     (if int (length (full_msg m)) \<le> max_line_len
      then (if line < max_line then [(line, map Some (full_msg m))] else [])
      else long_msg max_line max_line_len m 0 line)"

text \<open>The loop over the messages, with \<open>current_line\<close>.\<close>

fun draw_msgs :: "int \<Rightarrow> int \<Rightarrow> chat_message_t list \<Rightarrow> int \<Rightarrow> (int \<times> char option list) list" where
  "draw_msgs max_line max_line_len [] line = []"
| "draw_msgs max_line max_line_len (m # ms) line =
     (if line < max_line
      then (let out = draw_msg max_line max_line_len m line
            in out @ draw_msgs max_line max_line_len ms (line + int (length out)))
      else [])"

definition chat_rows :: "int \<Rightarrow> int \<Rightarrow> game_state_t \<Rightarrow> (int \<times> char option list) list" where
  "chat_rows win_height win_width gs =
     (let start = start_msg_index win_height win_width gs
      in draw_msgs (win_height - 2) (win_width - 4)
           (drop start (take (gs_chat_count gs) (gs_chat_messages gs))) 3)"

definition draw_chat_area :: "int \<Rightarrow> int \<Rightarrow> game_state_t \<Rightarrow> (int \<times> char option list) list" where
  "draw_chat_area win_height win_width gs = (1, map Some ''Chat'') # chat_rows win_height win_width gs"

section \<open>The chat line\<close>

definition INPUT_HEIGHT :: int where "INPUT_HEIGHT = 3"

definition draw_chat_input :: "int \<Rightarrow> client_t \<Rightarrow> print_t list" where
  "draw_chat_input win_width c =
     (if cl_chat_input_mode c then
        (let display_buffer = chat_input_display win_width c;
             cursor_x = 11 + int (length display_buffer)
         in [mvwprintw [] 1 2 (''Message: '' @ display_buffer)]
            @ (if cursor_x < win_width - 3 then [mvwprintw [] 1 cursor_x ''_''] else [])
            @ [mvwprintw [] 2 2 ''Enter: Send, ESC: Cancel, move:e2e4''])
      else [mvwprintw [] 1 2 ''Press Enter to chat''])"

section \<open>The players\<close>

definition arrow :: string where "arrow = [CHR 0xE2, CHR 0x96, CHR 0xBA]"

definition timer_attrs :: "color_pair \<Rightarrow> bool \<Rightarrow> int \<Rightarrow> attr list" where
  "timer_attrs color_pair chk time_remaining =
     (if chk then
        (if time_remaining \<le> 30 then [COLOR_PAIR COLOR_PAIR_TIMER_CRITICAL_CHECK, A_BOLD]
         else if time_remaining \<le> 60 then [COLOR_PAIR COLOR_PAIR_TIMER_WARNING_CHECK]
         else [COLOR_PAIR color_pair])
      else
        (let white = (color_pair = COLOR_PAIR_WHITE_PLAYER);
             timer_warning_pair = (if white then COLOR_PAIR_TIMER_WARNING_WHITE else COLOR_PAIR_TIMER_WARNING);
             timer_critical_pair = (if white then COLOR_PAIR_TIMER_CRITICAL_WHITE else COLOR_PAIR_TIMER_CRITICAL)
         in if time_remaining \<le> 30 then [COLOR_PAIR timer_critical_pair]
            else if time_remaining \<le> 60 then [COLOR_PAIR timer_warning_pair]
            else [COLOR_PAIR color_pair]))"

text \<open>
  \<open>check_x\<close> and \<open>timer_x\<close> are compared with a \<open>size_t\<close>: a negative one would count as large.
\<close>

definition size_gt :: "int \<Rightarrow> int \<Rightarrow> bool" where
  "size_gt a b = (a < 0 \<or> a > b)"

definition draw_player_info ::
  "int \<Rightarrow> int \<Rightarrow> string \<Rightarrow> bool \<Rightarrow> team_t \<Rightarrow> bool \<Rightarrow> int \<Rightarrow> bool \<Rightarrow> print_t list" where
  "draw_player_info height width player_name is_me t is_current_turn time_remaining chk =
     (let color_pair = (if chk then COLOR_PAIR_CHECK_PLAYER
                        else if is_current_turn then COLOR_PAIR_WHITE_PLAYER else COLOR_PAIR_BLACK_PLAYER);
          attrs = [COLOR_PAIR color_pair];
          name = display_name player_name is_me t; len = int (length name);
          timer = timer_str time_remaining; timer_x = width - int (length timer) - 1;
          check_x = timer_x - 5 - 1;
          timer_print = mvwprintw (timer_attrs color_pair chk time_remaining) 0 timer_x timer
      in map (\<lambda>i. mvwprintw attrs i 0 (pad_left (nat width) '' '')) [0..height - 1]
         @ [if is_current_turn then mvwprintw (attrs @ [A_BOLD]) 0 1 (arrow @ '' '' @ name)
            else mvwprintw attrs 0 1 (''  '' @ name)]
         @ (if chk
            then (if size_gt check_x (len + 4) then [mvwprintw (attrs @ [A_BOLD]) 0 check_x ''CHECK ''] else [])
                 @ [timer_print]
            else (if size_gt timer_x (len + 4) then [timer_print] else [])))"

section \<open>The game screen\<close>

text \<open>The size of the terminal that \<open>init_ncurses\<close> accepts; with any other one the program ends.\<close>

definition init_ncurses :: "int \<Rightarrow> int \<Rightarrow> bool" where
  "init_ncurses rows cols = (\<not> (rows < 30 \<or> cols < 100))"

text \<open>The windows of \<open>draw_game_screen\<close> on a terminal with the given number of columns.\<close>

definition player_info_height :: int where "player_info_height = 1"

definition opponent_info_win :: window_t where
  "opponent_info_win = newwin player_info_height BOARD_WIDTH 1 2"

definition board_win :: window_t where
  "board_win = newwin BOARD_HEIGHT BOARD_WIDTH (1 + player_info_height) 2"

definition my_info_win :: window_t where
  "my_info_win = newwin player_info_height BOARD_WIDTH ((1 + player_info_height) + BOARD_HEIGHT) 2"

definition chat_win :: "int \<Rightarrow> window_t" where
  "chat_win cols =
     newwin (player_info_height * 2 + BOARD_HEIGHT - 2) (fst (calculate_chat_dimensions cols)) 2
       (2 + BOARD_WIDTH + 1)"

definition input_win :: "int \<Rightarrow> window_t" where
  "input_win cols =
     newwin INPUT_HEIGHT (snd (calculate_chat_dimensions cols))
       (2 + (player_info_height * 2 + BOARD_HEIGHT - 2)) (2 + BOARD_WIDTH + 1)"

text \<open>The two players' lines, with the values of \<open>draw_game_screen\<close>.\<close>

definition opponent_info :: "client_t \<Rightarrow> print_t list" where
  "opponent_info c =
     (let gs = cl_gs c;
          opponent_team = (if gs_local_team gs = TEAM_WHITE then TEAM_BLACK else TEAM_WHITE);
          opponent_turn = (side_to_move (gs_game gs) = opponent_team);
          opponent_time = (if opponent_team = TEAM_WHITE then gs_white_time gs else gs_black_time gs);
          opponent_in_check = (if opponent_team = TEAM_WHITE then gs_white_in_check gs else gs_black_in_check gs)
      in draw_player_info player_info_height BOARD_WIDTH (get_opponent_name_client c) False opponent_team
           opponent_turn opponent_time opponent_in_check)"

definition my_info :: "client_t \<Rightarrow> print_t list" where
  "my_info c =
     (let gs = cl_gs c;
          my_turn = (side_to_move (gs_game gs) = gs_local_team gs);
          my_time = (if gs_local_team gs = TEAM_WHITE then gs_white_time gs else gs_black_time gs);
          my_in_check = (if gs_local_team gs = TEAM_WHITE then gs_white_in_check gs else gs_black_in_check gs)
      in draw_player_info player_info_height BOARD_WIDTH (cl_username c) True (gs_local_team gs)
           my_turn my_time my_in_check)"

text \<open>The status at the upper right corner of the terminal.\<close>

definition draw_connection_status :: "int \<Rightarrow> client_t \<Rightarrow> print_t" where
  "draw_connection_status cols c =
     (if cl_reconnecting c then mvwprintw [COLOR_PAIR COLOR_PAIR_BORDER] 0 (cols - 20) ''Reconnecting...     ''
      else if \<not> cl_connected c
      then mvwprintw [COLOR_PAIR COLOR_PAIR_BORDER] 0 (cols - 20) ''Disconnected        ''
      else mvwprintw [] 0 (cols - 20) ''                    '')"

text \<open>The line of help at the bottom of the game screen.\<close>

definition game_help :: "int \<Rightarrow> print_t" where
  "game_help rows =
     mvwprintw [] (rows - 2) 2
       ''Controls: Arrow keys + Space/Enter | 1: resign | ESC: cancel | Q: quit | Enter: chat | move:e2e4''"

text \<open>The game menu; no function of the program calls it.\<close>

definition draw_game_menu :: "client_t \<Rightarrow> print_t list" where
  "draw_game_menu c =
     (let turn_text = (if side_to_move (gs_game (cl_gs c)) = TEAM_WHITE then ''White'' else ''Black'')
      in [mvwprintw [] 1 2 ''Game Menu'', mvwprintw [] 3 2 ''1. Resign'', mvwprintw [] 4 2 ''2. Draw'',
          mvwprintw [] 5 2 ''3. Save'', mvwprintw [] 6 2 ''Q. Quit to Main'',
          mvwprintw [] 8 2 (''Turn: '' @ turn_text)])"

section \<open>Dialogs\<close>

text \<open>\<open>strtok\<close> with the line feed: the lines that are not empty.\<close>

fun strtok_lines :: "string \<Rightarrow> string \<Rightarrow> string list" where
  "strtok_lines word [] = (if word = [] then [] else [word])"
| "strtok_lines word (ch # s) =
     (if ch = CHR 0x0A then (if word = [] then strtok_lines [] s else word # strtok_lines [] s)
      else strtok_lines (word @ [ch]) s)"

definition dialog_width :: int where "dialog_width = 60"
definition dialog_height :: int where "dialog_height = 10"

definition dialog_line :: "string \<Rightarrow> string" where
  "dialog_line line =
     (if int (length line) > dialog_width - 4 then take (nat (dialog_width - 7)) line @ ''...'' else line)"

text \<open>The loop over the lines, from the row \<open>line_num\<close> on.\<close>

fun dialog_lines :: "int \<Rightarrow> string list \<Rightarrow> print_t list" where
  "dialog_lines line_num [] = []"
| "dialog_lines line_num (line # rest) =
     (if line_num < dialog_height - 2
      then mvwprintw [] line_num 2 (dialog_line line) # dialog_lines (line_num + 1) rest else [])"

definition draw_dialog :: "string \<Rightarrow> string \<Rightarrow> string option \<Rightarrow> print_t list" where
  "draw_dialog title message button_text =
     (let button_msg = c_trunc 64 (''Press Enter for ['' @ (case button_text of None \<Rightarrow> ''OK'' | Some b \<Rightarrow> b) @ '']'')
      in [mvwprintw [] 1 (c_div (dialog_width - int (length title)) 2) title,
          mvwprintw [] 2 2 ''========================================================'']
         @ dialog_lines 4 (strtok_lines [] message)
         @ [mvwprintw [] (dialog_height - 2) (c_div (dialog_width - int (length button_msg)) 2) button_msg])"

text \<open>What \<open>show_dialog\<close> prints; the code of \<open>draw_dialog\<close> is a copy of it.\<close>

definition show_dialog_prints :: "string \<Rightarrow> string \<Rightarrow> string option \<Rightarrow> print_t list" where
  "show_dialog_prints title message button_text =
     (let button_msg = c_trunc 64 (''Press Enter for ['' @ (case button_text of None \<Rightarrow> ''OK'' | Some b \<Rightarrow> b) @ '']'')
      in [mvwprintw [] 1 (c_div (dialog_width - int (length title)) 2) title,
          mvwprintw [] 2 2 ''========================================================'']
         @ dialog_lines 4 (strtok_lines [] message)
         @ [mvwprintw [] (dialog_height - 2) (c_div (dialog_width - int (length button_msg)) 2) button_msg])"

definition draw_resign_dialog :: "print_t list" where
  "draw_resign_dialog =
     [mvwprintw [] 1 (c_div (50 - 18) 2) ''Resign Confirmation'',
      mvwprintw [] 2 2 ''=============================================='',
      mvwprintw [] 3 (c_div (50 - 32) 2) ''Are you sure you want to resign?'',
      mvwprintw [] 5 (c_div (50 - 30) 2) ''Y - Yes, resign the game'',
      mvwprintw [] 6 (c_div (50 - 30) 2) ''N - No, continue playing'']"

section \<open>The matching screen\<close>

definition draw_matching_screen :: "int \<Rightarrow> int \<Rightarrow> client_t \<Rightarrow> print_t list" where
  "draw_matching_screen animation_frame now c =
     (let message = matching_message animation_frame
      in [mvwprintw [A_BOLD] 2 (c_div (50 - int (length message)) 2) message,
          mvwprintw [] 4 (c_div (50 - 16) 2) (''Wait time: '' @ wait_time now c),
          mvwprintw [] 7 (c_div (50 - 19) 2) ''Press ESC to cancel''])"

section \<open>The title screen\<close>

text \<open>The blocks and lines of the title, each by a letter: three bytes in the encoding of the terminal.\<close>

definition title_glyph :: "char \<Rightarrow> string" where
  "title_glyph c =
     (if c = CHR ''#'' then [CHR 0xE2, CHR 0x96, CHR 0x88]
      else if c = CHR ''='' then [CHR 0xE2, CHR 0x95, CHR 0x90]
      else if c = CHR ''|'' then [CHR 0xE2, CHR 0x95, CHR 0x91]
      else if c = CHR ''F'' then [CHR 0xE2, CHR 0x95, CHR 0x94]
      else if c = CHR ''7'' then [CHR 0xE2, CHR 0x95, CHR 0x97]
      else if c = CHR ''L'' then [CHR 0xE2, CHR 0x95, CHR 0x9A]
      else if c = CHR ''J'' then [CHR 0xE2, CHR 0x95, CHR 0x9D]
      else [c])"

definition title_art :: "string \<Rightarrow> string" where
  "title_art s = concat (map title_glyph s)"

definition main_height :: int where "main_height = 25"
definition main_width :: int where "main_width = 80"

definition main_win :: "int \<Rightarrow> int \<Rightarrow> window_t" where
  "main_win rows cols =
     newwin main_height main_width (c_div (rows - main_height) 2) (c_div (cols - main_width) 2)"

definition title_lines :: "string list" where
  "title_lines =
    ['' ######7##7  ##7#######7#######7#######7    ######7'',
     ''##F====J##|  ##|##F====J##F====J##F====J   ##F===J'',
     ''##|     #######|#####7  #######7#######7   ##|    '',
     ''##|     ##F==##|##F==J  L====##|L====##|   ##|    '',
     ''L######7##|  ##|#######7#######|#######|##7L######7'',
     '' L=====JL=J  L=JL======JL======JL======JL=J L=====J'']"

definition draw_main_screen :: "print_t list" where
  "draw_main_screen =
     map (\<lambda>i. mvwprintw [A_BOLD] (2 + i) (c_div (main_width - 51) 2) (title_art (title_lines ! nat i))) [0..5]
     @ [mvwprintw [A_ITALIC] 9 (c_div (main_width - 16) 2) ''MULTIPLAYER GAME'',
        mvwprintw [COLOR_PAIR COLOR_PAIR_BORDER] 11 (c_div (main_width - 60) 2)
          (title_art (replicate 59 (CHR ''=''))),
        mvwprintw [A_BOLD] 14 (c_div (main_width - 18) 2) ''1. Start New Game'',
        mvwprintw [A_BOLD] 16 (c_div (main_width - 18) 2) ''2. Replay        '',
        mvwprintw [A_BOLD] 18 (c_div (main_width - 18) 2) ''3. Exit          '',
        mvwprintw [COLOR_PAIR COLOR_PAIR_BORDER] 21 (c_div (main_width - 60) 2)
          (title_art (replicate 59 (CHR ''='')))]"

section \<open>The replay screen\<close>

text \<open>One line of the move list; \<open>i\<close> is the row in the list.\<close>

definition replay_line :: "replay_state_t \<Rightarrow> int \<Rightarrow> int \<Rightarrow> print_t" where
  "replay_line st start_idx i =
     (let move_idx = start_idx + i; move_num = c_div move_idx 2 + 1;
          is_white = (c_mod move_idx 2 = 0);
          attrs = (if move_idx = rp_current_move st then [A_REVERSE] else []);
          m = pad_right 8 (rp_moves st ! nat move_idx)
      in if is_white then mvwprintw attrs (i + 1) 2 (pad_left 3 (c_dec move_num) @ ''. '' @ m)
         else mvwprintw attrs (i + 1) 17 m)"

definition replay_start_idx :: "replay_state_t \<Rightarrow> int" where
  "replay_start_idx st =
     (let display_height = BOARD_HEIGHT - 2
      in if rp_current_move st \<ge> display_height then rp_current_move st - display_height + 1 else 0)"

text \<open>The loop ends at the first index that is not below \<open>move_count\<close>.\<close>

definition replay_list :: "replay_state_t \<Rightarrow> print_t list" where
  "replay_list st =
     (let start_idx = replay_start_idx st; display_height = BOARD_HEIGHT - 2
      in map (replay_line st start_idx)
           (takeWhile (\<lambda>i. start_idx + i < int (length (rp_moves st))) [0..display_height - 1]))"

definition up_arrow :: string where "up_arrow = [CHR 0xE2, CHR 0x86, CHR 0x91]"
definition down_arrow :: string where "down_arrow = [CHR 0xE2, CHR 0x86, CHR 0x93]"

definition replay_status :: "int \<Rightarrow> replay_state_t \<Rightarrow> print_t list" where
  "replay_status rows st =
     [mvwprintw [] (rows - 2) 2
        (''Controls: '' @ up_arrow @ '': prev | '' @ down_arrow @ ''/Enter: next | Space: auto-play | Q/ESC: quit''),
      mvwprintw [] (rows - 3) 2
        (''Move '' @ c_dec (rp_current_move st + 1) @ ''/'' @ c_dec (int (length (rp_moves st))) @ '' ''
         @ (if rp_auto_play st then ''[AUTO-PLAYING]'' else []))]"

text \<open>The board, the window of the moves, and the lines at the bottom of the terminal.\<close>

definition draw_replay_screen ::
  "int \<Rightarrow> client_t \<Rightarrow> replay_state_t \<Rightarrow> print_t list \<times> print_t list \<times> print_t list" where
  "draw_replay_screen rows c st =
     (draw_chess_board c, mvwprintw [] 0 2 '' Move List '' # replay_list st, replay_status rows st)"

end
