(* ===== verification/Terminal.thy ===== *)
theory Terminal
  imports Client_Screen
begin

text \<open>
  The terminal and the signals of the client: \<open>init_ncurses\<close>, \<open>cleanup_ncurses\<close> (\<open>ui/core.c\<close>), the handlers
  of SIGTSTP, SIGCONT and SIGWINCH and their registration (\<open>client/main.c\<close>). A signal is blocked while its
  own handler runs, so the stop that \<open>handle_sigtstp\<close> raises comes when it returns. \<open>signal\<close> registers with
  the flag SA_RESTART, as it is documented for the C library.
\<close>

section \<open>State\<close>

datatype disposition = SIG_DFL | HANDLER bool

text \<open>The argument of \<open>HANDLER\<close> is SA_RESTART. The end of the process is its exit code.\<close>

record terminal_t =
  tm_curses :: bool
  tm_sigtstp :: disposition
  tm_others :: bool
  tm_resized :: bool
  tm_stopped :: bool
  tm_exit :: "int option"

text \<open>
  \<open>sigaction\<close> for SIGINT, SIGTSTP, SIGCONT and SIGWINCH in this order, with the results of the four calls;
  \<open>tm_others\<close> is set when the handlers other than that of SIGTSTP are in place.
\<close>

fun setup_signal_handlers :: "bool \<times> bool \<times> bool \<times> bool \<Rightarrow> terminal_t \<Rightarrow> terminal_t" where
  "setup_signal_handlers (int_ok, tstp_ok, cont_ok, winch_ok) t =
     (if \<not> int_ok then t\<lparr>tm_exit := Some 1\<rparr>
      else if \<not> tstp_ok then t\<lparr>tm_exit := Some 1\<rparr>
      else
        (let t1 = t\<lparr>tm_sigtstp := HANDLER False\<rparr> in
         if \<not> cont_ok then t1\<lparr>tm_exit := Some 1\<rparr>
         else if \<not> winch_ok then t1\<lparr>tm_exit := Some 1\<rparr>
         else t1\<lparr>tm_others := True\<rparr>))"

text \<open>\<open>init_ncurses\<close> with the size of the terminal: a terminal that is too small ends the process.\<close>

definition enter_ncurses :: "int \<Rightarrow> int \<Rightarrow> terminal_t \<Rightarrow> terminal_t" where
  "enter_ncurses rows cols t =
     (if init_ncurses rows cols then t\<lparr>tm_curses := True\<rparr>
      else t\<lparr>tm_curses := False, tm_exit := Some 1\<rparr>)"

definition cleanup_ncurses :: "terminal_t \<Rightarrow> terminal_t" where
  "cleanup_ncurses t = (if tm_curses t then t\<lparr>tm_curses := False\<rparr> else t)"

section \<open>Handlers\<close>

text \<open>The handler and, when it returns, the stop by the default action.\<close>

definition handle_sigtstp :: "terminal_t \<Rightarrow> terminal_t" where
  "handle_sigtstp t = (cleanup_ncurses t)\<lparr>tm_sigtstp := SIG_DFL, tm_stopped := True\<rparr>"

text \<open>SIGCONT lets the process run before its handler does.\<close>

definition handle_sigcont :: "int \<Rightarrow> int \<Rightarrow> terminal_t \<Rightarrow> terminal_t" where
  "handle_sigcont rows cols t =
     (let t1 = enter_ncurses rows cols (t\<lparr>tm_stopped := False\<rparr>) in
      if tm_exit t1 \<noteq> None then t1 else t1\<lparr>tm_sigtstp := HANDLER True, tm_resized := True\<rparr>)"

definition handle_sigwinch :: "terminal_t \<Rightarrow> terminal_t" where
  "handle_sigwinch t = t\<lparr>tm_resized := True\<rparr>"

text \<open>The start of \<open>main\<close>, up to the loop.\<close>

definition terminal_start :: "bool \<times> bool \<times> bool \<times> bool \<Rightarrow> int \<Rightarrow> int \<Rightarrow> terminal_t" where
  "terminal_start oks rows cols =
     (let t = setup_signal_handlers oks \<lparr>tm_curses = False, tm_sigtstp = SIG_DFL, tm_others = False,
           tm_resized = False, tm_stopped = False, tm_exit = None\<rparr>
      in if tm_exit t \<noteq> None then t else enter_ncurses rows cols t)"

text \<open>
  What happens to the process: the signals, a second SIGTSTP while the default action is set, SIGCONT
  at any time, and a pass of the main loop, which takes the note of a change of size.
\<close>

inductive terminal_step :: "terminal_t \<Rightarrow> terminal_t \<Rightarrow> bool" where
  suspend: "tm_exit t = None \<Longrightarrow> \<not> tm_stopped t \<Longrightarrow> tm_sigtstp t \<noteq> SIG_DFL \<Longrightarrow> terminal_step t (handle_sigtstp t)"
| stop: "tm_exit t = None \<Longrightarrow> \<not> tm_stopped t \<Longrightarrow> tm_sigtstp t = SIG_DFL \<Longrightarrow> terminal_step t (t\<lparr>tm_stopped := True\<rparr>)"
| continue: "tm_exit t = None \<Longrightarrow> terminal_step t (handle_sigcont rows cols t)"
| resize: "tm_exit t = None \<Longrightarrow> \<not> tm_stopped t \<Longrightarrow> terminal_step t (handle_sigwinch t)"
| loop: "tm_exit t = None \<Longrightarrow> \<not> tm_stopped t \<Longrightarrow> terminal_step t (t\<lparr>tm_resized := False\<rparr>)"

definition terminal_ok :: "terminal_t \<Rightarrow> bool" where
  "terminal_ok t \<longleftrightarrow>
     (tm_exit t = None \<longrightarrow> tm_others t \<and> (tm_stopped t \<longleftrightarrow> tm_sigtstp t = SIG_DFL) \<and> (tm_curses t \<longleftrightarrow> \<not> tm_stopped t))
     \<and> (tm_exit t \<noteq> None \<longrightarrow> tm_exit t = Some 1 \<and> \<not> tm_curses t)"

lemmas terminal_defs = handle_sigtstp_def handle_sigcont_def handle_sigwinch_def cleanup_ncurses_def
  enter_ncurses_def init_ncurses_def Let_def

lemma terminal_start_ok: "terminal_ok (terminal_start oks rows cols)"
  by (cases oks) (simp add: terminal_start_def terminal_ok_def enter_ncurses_def Let_def)

lemma terminal_step_ok: "terminal_step t t' \<Longrightarrow> terminal_ok t \<Longrightarrow> terminal_ok t'"
  by (induction rule: terminal_step.induct) (auto simp: terminal_ok_def terminal_defs)

text \<open>
  Whenever the client runs, the screen is in its mode and the next SIGTSTP is handled; whenever it is
  stopped or has ended, the terminal is given back.
\<close>

theorem terminal_restored:
  "terminal_step\<^sup>*\<^sup>* (terminal_start oks rows cols) t \<Longrightarrow>
   (tm_curses t \<longleftrightarrow> tm_exit t = None \<and> \<not> tm_stopped t)
   \<and> (tm_exit t = None \<longrightarrow> (tm_stopped t \<longleftrightarrow> tm_sigtstp t = SIG_DFL))"
proof (induction rule: rtranclp_induct)
  case base
  show ?case using terminal_start_ok [of oks rows cols] by (auto simp: terminal_ok_def)
next
  case (step t t')
  have "terminal_ok t" using step(1)
    by (induction rule: rtranclp_induct) (auto intro: terminal_start_ok terminal_step_ok)
  with step(2) have "terminal_ok t'" by (rule terminal_step_ok)
  then show ?case by (auto simp: terminal_ok_def)
qed

text \<open>
  A suspension with its continuation gives back the same screen, to be drawn again, but the handler is
  registered with SA_RESTART from then on, against the set-up; and in a terminal that has become too
  small the continuation ends the client.
\<close>

theorem suspend_continue:
  "tm_exit t = None \<Longrightarrow> tm_curses t \<Longrightarrow> \<not> tm_stopped t \<Longrightarrow>
   handle_sigcont rows cols (handle_sigtstp t) =
     (if rows < 30 \<or> cols < 100 then t\<lparr>tm_curses := False, tm_sigtstp := SIG_DFL, tm_exit := Some 1\<rparr>
      else t\<lparr>tm_sigtstp := HANDLER True, tm_resized := True\<rparr>)"
  by (cases t) (simp add: terminal_defs)

end
