(* ===== verification/Timeouts.thy ===== *)
theory Timeouts
  imports Server_System
begin

text \<open>
  The clocks over many passes of the timer thread. A running game has a deadline: the time of its last
  check plus what the side to move has left. Passes that charge time do not move it.
\<close>

definition deadline :: "ActiveGame \<Rightarrow> int" where
  "deadline g = last_timer_check_ms g + mover_time g"

lemma mover_time_check [simp]: "mover_time (g\<lparr>last_timer_check_ms := now\<rparr>) = mover_time g"
  by (simp add: mover_time_def)

text \<open>One pass over a running game.\<close>

lemma ticked_running:
  assumes "game_ok g" "is_active g" "now < last_timer_check_ms g + 2147483648"
  shows "is_active (ticked now g) \<Longrightarrow> deadline (ticked now g) = deadline g \<and> game_ok (ticked now g)
      \<and> last_timer_check_ms g \<le> last_timer_check_ms (ticked now g)"
    and "now < deadline g \<Longrightarrow> is_active (ticked now g)"
    and "deadline g + 100 \<le> now \<Longrightarrow> \<not> is_active (ticked now g)"
proof -
  let ?e = "now - last_timer_check_ms g"
  have jump: "?e < 2147483648" using assms(3) by simp
  have out: "out_of_time now g \<longleftrightarrow> deadline g \<le> now" if "due now g"
    using charge_exact(1) [OF assms(1) _ jump] that by (auto simp: out_of_time_def due_def deadline_def)
  show "deadline (ticked now g) = deadline g \<and> game_ok (ticked now g)
      \<and> last_timer_check_ms g \<le> last_timer_check_ms (ticked now g)" if a: "is_active (ticked now g)"
  proof (cases "due now g")
    case True
    then have "\<not> out_of_time now g" using a by simp
    with True have t: "ticked now g = (charge_time ?e g)\<lparr>last_timer_check_ms := now\<rparr>"
      by (simp add: ticked_def Let_def)
    have "mover_time (charge_time ?e g) = mover_time g - ?e"
      using charge_exact(1) [OF assms(1) _ jump] True by (simp add: due_def)
    with t True ticked_ok [OF assms(1,2) jump a] show ?thesis by (simp add: deadline_def due_def)
  next
    case False
    with assms(1) show ?thesis by (simp add: ticked_def)
  qed
  show "is_active (ticked now g)" if "now < deadline g"
    using out that assms(2) by auto
  show "\<not> is_active (ticked now g)" if "deadline g + 100 \<le> now"
  proof -
    have "0 < mover_time g" using assms(1) by (simp add: game_ok_def mover_time_def)
    with that have "due now g" using assms(2) by (simp add: due_def deadline_def)
    with out that show ?thesis by simp
  qed
qed

lemma ticked_over: "\<not> is_active g \<Longrightarrow> \<not> is_active (fold ticked nows g)"
  by (induction nows arbitrary: g) simp_all

text \<open>Any number of passes.\<close>

lemma fold_ticked:
  assumes "game_ok g" "is_active g"
    and "\<forall>now \<in> set nows. now < last_timer_check_ms g + 2147483648"
  shows "\<forall>now \<in> set nows. now < deadline g \<Longrightarrow> is_active (fold ticked nows g)"
    and "\<exists>now \<in> set nows. deadline g + 100 \<le> now \<Longrightarrow> \<not> is_active (fold ticked nows g)"
proof -
  have "((\<forall>now \<in> set nows. now < deadline g) \<longrightarrow> is_active (fold ticked nows g))
      \<and> ((\<exists>now \<in> set nows. deadline g + 100 \<le> now) \<longrightarrow> \<not> is_active (fold ticked nows g))"
    using assms
  proof (induction nows arbitrary: g)
    case (Cons now nows)
    let ?g = "ticked now g"
    have j: "now < last_timer_check_ms g + 2147483648" using Cons.prems(3) by simp
    note run = ticked_running [OF Cons.prems(1,2) j]
    show ?case
    proof (cases "is_active ?g")
      case True
      note keep = run(1) [OF True]
      have "\<forall>n \<in> set nows. n < last_timer_check_ms ?g + 2147483648" using Cons.prems(3) keep by force
      with Cons.IH [of ?g] True keep run(3) show ?thesis by auto
    next
      case False
      with run(2) ticked_over [OF False, of nows] show ?thesis by auto
    qed
  qed simp
  then show "\<forall>now \<in> set nows. now < deadline g \<Longrightarrow> is_active (fold ticked nows g)"
    "\<exists>now \<in> set nows. deadline g + 100 \<le> now \<Longrightarrow> \<not> is_active (fold ticked nows g)" by blast+
qed

lemma timer_passes:
  "length (active_games (srv Y)) = 50 \<Longrightarrow> i < 50 \<Longrightarrow>
   active_games (srv (fold (timer_pass net) nows Y)) ! i = fold ticked nows (active_games (srv Y) ! i)"
  by (induction nows arbitrary: Y) (simp_all add: timer_pass_def check_game_timeouts_eq)

text \<open>
  C12: a game in which nobody moves is ended by the timer thread, whether or not its messages can be
  sent: every pass before the deadline of the side to move leaves the game running, and once a pass
  comes 100 ms or more after the deadline the game is over, however the passes are spaced.
\<close>

theorem idle_game_ends:
  assumes "reachable net Y" "i < 50" "g = active_games (srv Y) ! i" "is_active g"
    and "\<forall>now \<in> set nows. now < last_timer_check_ms g + 2147483648"
  shows "((\<forall>now \<in> set nows. now < deadline g) \<longrightarrow>
           is_active (active_games (srv (fold (timer_pass net) nows Y)) ! i))
       \<and> ((\<exists>now \<in> set nows. deadline g + 100 \<le> now) \<longrightarrow>
           \<not> is_active (active_games (srv (fold (timer_pass net) nows Y)) ! i))"
proof -
  note ok = reachable_ok [OF assms(1)]
  have "game_ok g" using server_ok_game [OF ok assms(2)] assms(3,4) by simp
  from fold_ticked [OF this assms(4,5)] timer_passes [OF server_okD(5) [OF ok] assms(2)] assms(3)
  show ?thesis by simp
qed

theorem idle_game_ends_witness:
  "\<exists>Y. reachable fine Y \<and> is_active (active_games (srv Y) ! 0)
     \<and> \<not> is_active (active_games (srv (fold (timer_pass fine)
           [last_timer_check_ms (active_games (srv Y) ! 0) + 600100] Y)) ! 0)"
proof -
  obtain Y where Y: "reachable fine Y" "is_active (active_games (srv Y) ! 0)" "length (active_games (srv Y)) = 50"
    by (rule two_players_meet)
  let ?g = "active_games (srv Y) ! 0"
  have "game_ok ?g" using server_ok_game [OF reachable_ok [OF Y(1)] _ Y(2)] by simp
  then have "deadline ?g + 100 \<le> last_timer_check_ms ?g + 600100"
    by (simp add: deadline_def mover_time_def game_ok_def)
  with idle_game_ends [OF Y(1) _ refl Y(2), of "[last_timer_check_ms ?g + 600100]"] Y(1,2)
  show ?thesis by auto
qed

end
