(* ===== verification/Move_Race.thy ===== *)
theory Move_Race
  imports Timeouts
begin

text \<open>
  The handler of a move and the timer thread. The handler finds the game under the mutex, but it checks
  and applies the move, answers and ends the game without it: passes of the timer may come in between.
  Here the handler of \<open>server/handlers/move.c\<close> is cut at the places where a pass can change what it reads:
  after the game is found, after the move is applied, before each of the two broadcasts, which read the
  clocks each for itself, and before a decided game is removed.
\<close>

section \<open>The parts of the handler\<close>

text \<open>
  The checks and the move: \<open>Inl\<close> is the identifier, the player and the text of a refusal, \<open>Inr\<close> the
  name of the player, the descriptor of the opponent and the state after the move.
\<close>

definition move_apply ::
  "move_clock \<Rightarrow> int \<Rightarrow> MoveRequest \<Rightarrow> nat \<Rightarrow> server_t \<Rightarrow> (string \<times> string \<times> string) + (string \<times> int \<times> server_t)" where
  "move_apply clk fd move_req i S =
     (let game = active_games S ! i in
      if white_player_fd game \<noteq> fd \<and> black_player_fd game \<noteq> fd
      then Inl (game_id game, [], ''Internal error: player not found in game'')
      else
        (let is_white = (white_player_fd game = fd);
             player_id = (if is_white then white_player_id game else black_player_id game);
             opponent_fd = (if is_white then black_player_fd game else white_player_fd game);
             player_team = (if is_white then TEAM_WHITE else TEAM_BLACK)
         in if side_to_move (game_state game) \<noteq> player_team
            then Inl (game_id game, player_id, ''It's not your turn'')
            else
              (case parse_chess_coordinate (mvq_from move_req) of
                 None \<Rightarrow> Inl (game_id game, player_id, ''Invalid source coordinate'')
               | Some (from_x, from_y) \<Rightarrow>
                   (case parse_chess_coordinate (mvq_to move_req) of
                      None \<Rightarrow> Inl (game_id game, player_id, ''Invalid destination coordinate'')
                    | Some (to_x, to_y) \<Rightarrow>
                        if \<not> is_move_legal (game_state game) from_x from_y to_x to_y
                        then Inl (game_id game, player_id, ''Illegal move'')
                        else Inr (player_id, opponent_fd,
                               game_set i (game\<lparr>game_state := apply_move (game_state game) from_x from_y to_x to_y,
                                                 last_move_time_ms := vc_now_ms clk\<rparr>) S)))))"

text \<open>The acknowledgement.\<close>

definition move_answer :: "net_t \<Rightarrow> int \<Rightarrow> string \<Rightarrow> nat \<Rightarrow> server_t \<Rightarrow> int \<times> server_t" where
  "move_answer net fd player_id i S =
     (let game = active_games S ! i
      in send_move_success net fd (game_id game) player_id (fen_placeholder (game_state game)) S)"

text \<open>What is found about the position: check and the side in check, the end of the game and its kind.\<close>

definition move_judged :: "game_t \<Rightarrow> bool \<times> Team \<times> bool \<times> Team \<times> GameEndType" where
  "move_judged G =
     (let current_side = side_to_move G;
          chk = is_in_check G current_side;
          checked_team = (if chk then (if current_side = TEAM_WHITE then TEAM__TEAM_WHITE
                                       else TEAM__TEAM_BLACK)
                          else TEAM__TEAM_UNSPECIFIED)
      in (chk, checked_team, end_of_game G))"

text \<open>One broadcast, with the clocks as they are when it is sent.\<close>

definition move_broadcast ::
  "net_t \<Rightarrow> int \<Rightarrow> int \<Rightarrow> string \<Rightarrow> MoveRequest \<Rightarrow> bool \<times> Team \<times> bool \<times> Team \<times> GameEndType \<Rightarrow> nat \<Rightarrow>
   server_t \<Rightarrow> server_t" where
  "move_broadcast net now to_fd player_id move_req judged i S =
     (let game = active_games S ! i;
          (chk, checked_team, game_ends, winner_team, end_type) = judged
      in snd (broadcast_move_with_state net now to_fd (game_id game) player_id (mvq_from move_req)
           (mvq_to move_req) game_ends winner_team end_type chk checked_team
           (c_div (white_time_remaining game) 1000) (c_div (black_time_remaining game) 1000) S))"

text \<open>The handler with the passes of the timer at the five places.\<close>

definition timer_passes_at :: "net_t \<Rightarrow> int list \<Rightarrow> server_t \<Rightarrow> server_t" where
  "timer_passes_at net nows S = fold (check_game_timeouts net) nows S"

definition handle_move_interleaved ::
  "net_t \<Rightarrow> move_clock \<Rightarrow> int \<Rightarrow> MoveRequest \<Rightarrow> int list \<Rightarrow> int list \<Rightarrow> int list \<Rightarrow> int list \<Rightarrow> int list \<Rightarrow>
   server_t \<Rightarrow> int \<times> server_t" where
  "handle_move_interleaved net clk fd move_req found applied acked half told S =
     (case find_game_by_player_fd fd S of
        None \<Rightarrow> send_move_error net fd [] [] ''You are not in an active game'' S
      | Some i \<Rightarrow>
          (let S1 = timer_passes_at net found S in
           case move_apply clk fd move_req i S1 of
             Inl (gid, player_id, msg) \<Rightarrow> send_move_error net fd gid player_id msg S1
           | Inr (player_id, opponent_fd, S2) \<Rightarrow>
               (let (r, S3) = move_answer net fd player_id i (timer_passes_at net applied S2)
                in if r < 0 then (- 1, S3)
                   else
                     (let S4 = timer_passes_at net acked S3;
                          judged = move_judged (game_state (active_games S4 ! i));
                          S5 = move_broadcast net (vc_opponent clk) opponent_fd player_id move_req judged i S4;
                          S6 = timer_passes_at net half S5;
                          S7 = move_broadcast net (vc_requester clk) fd player_id move_req judged i S6
                      in (0, if fst (snd (snd judged))
                             then snd (remove_game (game_id (active_games S7 ! i)) (timer_passes_at net told S7))
                             else S7)))))"

section \<open>Without passes\<close>

lemma finish_move_parts:
  "finish_move net clk fd pid ofd q i S =
    (let (r, S1) = move_answer net fd pid i S
     in if r < 0 then (- 1, S1)
        else (let judged = move_judged (game_state (active_games S1 ! i));
                  S2 = move_broadcast net (vc_opponent clk) ofd pid q judged i S1;
                  S3 = move_broadcast net (vc_requester clk) fd pid q judged i S2
              in (0, if fst (snd (snd judged)) then snd (remove_game (game_id (active_games S3 ! i)) S3) else S3)))"
  by (auto simp: finish_move_def move_answer_def move_judged_def move_broadcast_def send_move_success_def
      broadcast_move_with_state_def send_to_def Let_def split: prod.split)

text \<open>
  The cut handler is the handler: without a pass of the timer in between it answers every move
  request as \<open>handle_move_message\<close> does, with the same state and the same result.
\<close>

theorem interleaved_without_passes:
  "handle_move_message net clk fd (CM_MOVE (Some q)) S = Some (handle_move_interleaved net clk fd q [] [] [] [] [] S)"
  by (auto simp: handle_move_message_def handle_move_interleaved_def timer_passes_at_def move_apply_def
      finish_move_parts Let_def split: option.split prod.split)

section \<open>Passes of the timer\<close>

lemma passes_games:
  "length (active_games S) = 50 \<Longrightarrow>
   active_games (timer_passes_at net nows S) = map (fold ticked nows) (active_games S)"
  by (induction nows arbitrary: S) (simp_all add: timer_passes_at_def check_game_timeouts_eq)

lemma ticked_check: "last_timer_check_ms g \<le> last_timer_check_ms (ticked now g)"
  by (auto simp: ticked_def due_def Let_def)

lemma no_jump_pass:
  assumes "no_clock_jump t S" "length (active_games S) = 50"
  shows "no_clock_jump t (check_game_timeouts net now S)"
proof -
  have "t - last_timer_check_ms (ticked now g) < 2147483648" if "g \<in> set (active_games S)" "is_active g" for g
    using assms(1) that ticked_check [of g now] by (force simp: no_clock_jump_def list_all_iff)
  then show ?thesis by (simp add: no_clock_jump_def check_game_timeouts_eq [OF assms(2)] list_all_iff)
qed

lemma passes_ok:
  assumes "server_ok S" "\<forall>now \<in> set nows. no_clock_jump now S"
  shows "server_ok (timer_passes_at net nows S)"
    and "no_clock_jump t S \<Longrightarrow> no_clock_jump t (timer_passes_at net nows S)"
proof -
  have "server_ok (timer_passes_at net nows S) \<and> (no_clock_jump t S \<longrightarrow> no_clock_jump t (timer_passes_at net nows S))"
    using assms
  proof (induction nows arbitrary: S)
    case (Cons now nows)
    note len = server_okD(5) [OF Cons.prems(1)]
    have "server_ok (check_game_timeouts net now S)"
      using check_game_timeouts_ok Cons.prems by simp
    from Cons.IH [OF this] Cons.prems(2) no_jump_pass [OF _ len] show ?case
      by (auto simp: timer_passes_at_def)
  qed (simp add: timer_passes_at_def)
  then show "server_ok (timer_passes_at net nows S)"
    "no_clock_jump t S \<Longrightarrow> no_clock_jump t (timer_passes_at net nows S)" by blast+
qed

lemma passes_sent: "\<exists>ms. outbox (timer_passes_at net nows S) = outbox S @ ms"
proof (induction nows arbitrary: S)
  case (Cons now nows)
  have "\<exists>ms. outbox (foldl (check_slot net now) S xs) = outbox S @ ms" for xs
  proof (induction xs arbitrary: S)
    case (Cons i xs)
    have "\<exists>ms. outbox (check_slot net now S i) = outbox S @ ms"
      by (auto simp: check_slot_def Let_def send_timeout_game_end_broadcast_def send_to_def)
    with Cons.IH [of "check_slot net now S i"] show ?case by auto
  qed simp
  then obtain ms where "outbox (check_game_timeouts net now S) = outbox S @ ms"
    unfolding check_game_timeouts_def by blast
  with Cons.IH [of "check_game_timeouts net now S"] show ?case by (auto simp: timer_passes_at_def)
qed (simp add: timer_passes_at_def)

text \<open>A game that ended in the passes has been announced to both players.\<close>

lemma timeout_message_ticked: "timeout_message (ticked now g) = timeout_message g"
  by (simp add: timeout_message_def)

lemma passes_announce:
  assumes "length (active_games S) = 50" "i < 50" "is_active (active_games S ! i)"
    and "\<not> is_active (active_games (timer_passes_at net nows S) ! i)"
  shows "(white_player_fd (active_games S ! i), timeout_message (active_games S ! i))
      \<in> set (outbox (timer_passes_at net nows S))
    \<and> (black_player_fd (active_games S ! i), timeout_message (active_games S ! i))
      \<in> set (outbox (timer_passes_at net nows S))"
  using assms
proof (induction nows arbitrary: S)
  case (Cons now nows)
  let ?g = "active_games S ! i" and ?S = "check_game_timeouts net now S"
  have S: "length (active_games ?S) = 50" "active_games ?S ! i = ticked now ?g"
    "timer_passes_at net (now # nows) S = timer_passes_at net nows ?S"
    using Cons.prems(1,2) by (simp_all add: check_game_timeouts_eq timer_passes_at_def)
  show ?case
  proof (cases "is_active (ticked now ?g)")
    case True
    with Cons.IH [OF S(1) Cons.prems(2)] Cons.prems(4) show ?thesis by (simp add: S(2,3) timeout_message_ticked)
  next
    case False
    with Cons.prems(3) have "due now ?g \<and> out_of_time now ?g" by simp
    moreover have "?g \<in> set (active_games S)" using Cons.prems(1,2) by simp
    ultimately have "(white_player_fd ?g, timeout_message ?g) \<in> set (outbox ?S)"
      "(black_player_fd ?g, timeout_message ?g) \<in> set (outbox ?S)"
      by (auto simp: check_game_timeouts_eq [OF Cons.prems(1)] timeout_messages_def)
    then show ?thesis using passes_sent [of net nows ?S] by (auto simp: S(3))
  qed
qed (simp add: timer_passes_at_def)

section \<open>The move in a game that may be over\<close>

lemma server_ok_dead_set:
  assumes "server_ok S" "\<not> is_active (active_games S ! i)" "\<not> is_active g" "i < 50"
  shows "server_ok (game_set i g S)"
proof (rule server_okI)
  note ok = server_okD [OF assms(1)]
  show "slots_ok (game_set i g S)"
    using ok(1) ok(5) assms(2-4) length_filter_update [of i "active_games S" is_active g]
    by (simp add: slots_ok_def tally_def)
  have "distinct_ids ((active_games S)[i := g])"
    using ok(2) assms(3) by (intro distinct_ids_update) (simp_all add: ids_ok_def)
  then show "ids_ok (game_set i g S)"
    using ok(2) assms(3) by (auto simp: ids_ok_def dest!: in_update_cases)
  fix h assume "h \<in> set (active_games (game_set i g S))" "is_active h"
  then show "game_ok h" using ok(3) assms(3) by (auto dest!: in_update_cases)
qed

lemma move_apply_InrD:
  assumes "move_apply clk fd q i S = Inr (pid, ofd, S2)"
  obtains fx fy tx ty where "is_move_legal (game_state (active_games S ! i)) fx fy tx ty"
    "S2 = game_set i (moved_game clk (active_games S ! i) fx fy tx ty) S"
  using assms by (auto simp: move_apply_def moved_game_def Let_def split: if_splits option.splits)

lemma move_apply_ok:
  assumes "server_ok S" "i < 50" "move_apply clk fd q i S = Inr (pid, ofd, S2)"
  shows "server_ok S2" "no_clock_jump t S \<Longrightarrow> no_clock_jump t S2"
proof -
  let ?g = "active_games S ! i"
  from assms(3) obtain fx fy tx ty where legal: "is_move_legal (game_state ?g) fx fy tx ty"
    and S2: "S2 = game_set i (moved_game clk ?g fx fy tx ty) S" by (rule move_apply_InrD)
  show "server_ok S2"
  proof (cases "is_active ?g")
    case True
    with server_ok_game_set [OF assms(1,2) True] moved_game_ok [OF server_ok_game [OF assms(1,2) True] legal]
    show ?thesis by (simp add: S2)
  next
    case False
    with server_ok_dead_set [OF assms(1) False _ assms(2)] show ?thesis by (simp add: S2)
  qed
  have "?g \<in> set (active_games S)" using assms(2) server_okD(5) [OF assms(1)] by simp
  then show "no_clock_jump t S \<Longrightarrow> no_clock_jump t S2"
    by (auto simp: S2 no_clock_jump_def list_all_iff moved_game_def dest!: in_update_cases)
qed

lemma move_answer_eq:
  "move_answer net fd pid i S =
    (net fd (move_ack pid (active_games S ! i)) (outbox S),
     S\<lparr>outbox := outbox S @ [(fd, move_ack pid (active_games S ! i))]\<rparr>)"
  by (simp add: move_answer_def send_move_success_def send_to_def move_ack_def Let_def)

lemma move_broadcast_eq:
  assumes "G = game_state (active_games S ! i)"
  shows "move_broadcast net now to pid q (move_judged G) i S =
    S\<lparr>outbox := outbox S @ [(to, move_message now pid q (active_games S ! i))]\<rparr>"
proof -
  have team: "(if side_to_move H = TEAM_WHITE then TEAM__TEAM_WHITE else TEAM__TEAM_BLACK) =
      team_to_proto (side_to_move H)" for H
    by (cases "side_to_move H") simp_all
  show ?thesis
    by (simp add: move_broadcast_def move_judged_def broadcast_move_with_state_def send_to_def move_message_def
        Let_def team assms case_prod_beta)
qed

lemma move_broadcast_state:
  obtains m where "move_broadcast net now to pid q j i S = S\<lparr>outbox := outbox S @ [(to, m)]\<rparr>"
  by (cases j) (auto simp: move_broadcast_def broadcast_move_with_state_def send_to_def Let_def)

lemma sent_ok:
  "server_ok S \<Longrightarrow> server_ok (move_broadcast net now to pid q j i S)"
  "no_clock_jump t S \<Longrightarrow> no_clock_jump t (move_broadcast net now to pid q j i S)"
  by (rule move_broadcast_state [of net now to pid q j i S]; simp add: no_clock_jump_def)+

lemma answered_ok:
  "server_ok S \<Longrightarrow> server_ok (snd (move_answer net fd pid i S))"
  "no_clock_jump t S \<Longrightarrow> no_clock_jump t (snd (move_answer net fd pid i S))"
  by (simp_all add: move_answer_eq no_clock_jump_def)

text \<open>
  C22: whatever passes of the timer come between the parts of the handler of a move, even passes that
  end the game meanwhile, the invariant of the server holds afterwards: the counters agree with the
  tables and every running game has a sound position and running clocks.
\<close>

theorem race_keeps_invariant:
  assumes "server_ok S" "\<forall>now \<in> set (found @ applied @ acked @ half @ told). no_clock_jump now S"
    and "handle_move_interleaved net clk fd q found applied acked half told S = (r, S')"
  shows "server_ok S'"
proof (cases "find_game_by_player_fd fd S")
  case None
  with assms(1,3) show ?thesis by (auto simp: handle_move_interleaved_def send_move_error_def send_to_def)
next
  case (Some i)
  let ?S1 = "timer_passes_at net found S"
  note i = find_game_SomeD(1) [OF assms(1) Some]
  let ?safe = "\<lambda>nows T. \<forall>now \<in> set nows. no_clock_jump now T"
  have found: "?safe found S" and rest: "?safe (applied @ acked @ half @ told) S"
    using assms(2) by auto
  have S1: "server_ok ?S1" "?safe (applied @ acked @ half @ told) ?S1"
    using passes_ok [OF assms(1) found] rest by auto
  show ?thesis
  proof (cases "move_apply clk fd q i ?S1")
    case (Inl x)
    with Some assms(3) S1(1) show ?thesis
      by (cases x) (auto simp: handle_move_interleaved_def send_move_error_def send_to_def Let_def)
  next
    case (Inr y)
    then obtain pid ofd S2 where ap: "move_apply clk fd q i ?S1 = Inr (pid, ofd, S2)" by (cases y) auto
    let ?T = "timer_passes_at net applied S2"
    have S2: "server_ok S2" "?safe applied S2" "?safe (acked @ half @ told) S2"
      using move_apply_ok [OF S1(1) i ap] S1(2) by auto
    have T: "server_ok ?T" "?safe (acked @ half @ told) ?T"
      using passes_ok [OF S2(1,2)] S2(3) by auto
    define S3 where "S3 = snd (move_answer net fd pid i ?T)"
    define S4 where "S4 = timer_passes_at net acked S3"
    define j where "j = move_judged (game_state (active_games S4 ! i))"
    define S5 where "S5 = move_broadcast net (vc_opponent clk) ofd pid q j i S4"
    define S6 where "S6 = timer_passes_at net half S5"
    define S7 where "S7 = move_broadcast net (vc_requester clk) fd pid q j i S6"
    have S3: "server_ok S3" "?safe acked S3" "?safe (half @ told) S3"
      using answered_ok T by (auto simp: S3_def)
    have S4: "server_ok S4" "?safe (half @ told) S4"
      using passes_ok [OF S3(1,2)] S3(3) by (auto simp: S4_def)
    have S5: "server_ok S5" "?safe half S5" "?safe told S5" using sent_ok S4 by (auto simp: S5_def)
    have S6: "server_ok S6" "?safe told S6" using passes_ok [OF S5(1,2)] S5(3) by (auto simp: S6_def)
    have S7: "server_ok S7" "?safe told S7" using sent_ok S6 by (auto simp: S7_def)
    have "handle_move_interleaved net clk fd q found applied acked half told S =
        (if fst (move_answer net fd pid i ?T) < 0 then (- 1, S3)
         else (0, if fst (snd (snd j)) then snd (remove_game (game_id (active_games S7 ! i)) (timer_passes_at net told S7))
                  else S7))"
      using Some ap
      by (simp add: handle_move_interleaved_def Let_def S3_def S4_def S5_def S6_def S7_def j_def case_prod_beta)
    with assms(3) S3(1) S7 remove_game_ok passes_ok(1) [OF S7] show ?thesis by (auto split: if_splits)
  qed
qed

abbreviation e4_request :: MoveRequest where
  "e4_request \<equiv> \<lparr>mvq_from = ''e2'', mvq_to = ''e4''\<rparr>"

abbreviation e4_clock :: move_clock where
  "e4_clock \<equiv> \<lparr>vc_now_ms = 5, vc_opponent = 6, vc_requester = 7\<rparr>"

lemma demo_no_jump: "now < 2147483648 \<Longrightarrow> no_clock_jump now demo_server"
  by (auto simp: no_clock_jump_def list_all_iff demo_server_def game_slots.table_put boot_fields
      zero_active_game_def dest!: in_update_cases)

theorem race_keeps_invariant_witness:
  "server_ok (snd (handle_move_interleaved fine e4_clock 7 e4_request [200] [400, 500] [] [600] [700000] demo_server))"
proof -
  obtain r S' where h: "handle_move_interleaved fine e4_clock 7 e4_request [200] [400, 500] [] [600] [700000] demo_server = (r, S')"
    by fastforce
  have "\<forall>now \<in> set ([200] @ [400, 500] @ [] @ [600] @ [700000]). no_clock_jump now demo_server"
    by (simp add: demo_no_jump)
  from race_keeps_invariant [OF demo_server_ok this h] show ?thesis by (simp add: h)
qed

section \<open>A move that comes too late\<close>

lemma remove_other:
  assumes "\<not> is_active (active_games S ! i)"
  shows "active_games (snd (remove_game gid S)) ! i = active_games S ! i" "outbox (snd (remove_game gid S)) = outbox S"
  using assms by (auto simp: remove_game_def game_drop_def nth_list_update dest: find_index_SomeD split: option.split)

text \<open>
  C24: a move that the timer overtakes. If the game of a legal move ends on time after the handler has
  found it, then both players have been told that the game is over, and still the move is made in the
  slot that is no longer active, acknowledged, and broadcast to both of them as if the game went on.
\<close>

theorem overtaken_move:
  assumes "server_ok S" "playable S fd q i fx fy tx ty" "g = active_games S ! i"
    and "\<not> is_active (active_games (timer_passes_at net found S) ! i)"
    and "\<And>h m ms. 0 \<le> net h m ms"
    and "handle_move_interleaved net clk fd q found [] [] [] [] S = (r, S')"
  shows "r = 0 \<and> \<not> is_active (active_games S' ! i)
    \<and> game_state (active_games S' ! i) = apply_move (game_state g) fx fy tx ty
    \<and> (\<exists>told ack news news'. outbox S' = told @ [(fd, ack),
          (if white_player_fd g = fd then black_player_fd g else white_player_fd g, SM_MOVE_BROADCAST news),
          (fd, SM_MOVE_BROADCAST news')]
        \<and> (white_player_fd g, timeout_message g) \<in> set told \<and> (black_player_fd g, timeout_message g) \<in> set told
        \<and> mvb_from news = mvq_from q \<and> mvb_to news = mvq_to q)"
proof -
  have find: "find_game_by_player_fd fd S = Some i" using assms(2) by (simp add: playable_def)
  note slot = find_game_SomeD [OF assms(1) find] and len = server_okD(5) [OF assms(1)]
  let ?S1 = "timer_passes_at net found S"
  define g1 where "g1 = active_games ?S1 ! i"
  have fold_same: "game_state (fold ticked found h) = game_state h \<and> white_player_fd (fold ticked found h) = white_player_fd h
      \<and> black_player_fd (fold ticked found h) = black_player_fd h \<and> white_player_id (fold ticked found h) = white_player_id h
      \<and> black_player_id (fold ticked found h) = black_player_id h" for h
    by (induction found arbitrary: h) simp_all
  have len1: "length (active_games ?S1) = 50" using len by (simp add: passes_games)
  have g1: "game_state g1 = game_state g" "white_player_fd g1 = white_player_fd g"
    "black_player_fd g1 = black_player_fd g" "\<not> is_active g1"
    using slot(1) len fold_same assms(3,4) by (simp_all add: g1_def passes_games)
  define h where "h = moved_game clk g1 fx fy tx ty"
  define pid where "pid = (if white_player_fd g1 = fd then white_player_id g1 else black_player_id g1)"
  define ofd where "ofd = (if white_player_fd g1 = fd then black_player_fd g1 else white_player_fd g1)"
  have ap: "move_apply clk fd q i ?S1 = Inr (pid, ofd, game_set i h ?S1)"
    using assms(2,3) slot(3) g1
    by (auto simp: move_apply_def playable_def moved_game_def h_def pid_def ofd_def g1_def [symmetric] Let_def)
  let ?q = "outbox ?S1 @ [(fd, move_ack pid h), (ofd, move_message (vc_opponent clk) pid q h),
    (fd, move_message (vc_requester clk) pid q h)]"
  let ?S3 = "(game_set i h ?S1)\<lparr>outbox := ?q\<rparr>"
  have h: "active_games ?S3 ! i = h" "\<not> is_active h" "game_state h = apply_move (game_state g) fx fy tx ty"
    using slot(1) len1 g1 by (simp_all add: h_def)
  have "r = 0 \<and> (S' = ?S3 \<or> S' = snd (remove_game (game_id h) ?S3))"
    using assms(5,6) slot(1) len1 ap find
    by (auto simp: handle_move_interleaved_def move_answer_eq move_broadcast_eq timer_passes_at_def [of net "[]"] Let_def
        simp flip: not_less split: if_splits)
  then have "r = 0 \<and> active_games S' ! i = h \<and> outbox S' = ?q"
    using remove_other [of ?S3 i "game_id h"] h(1,2) by auto
  moreover have "(white_player_fd g, timeout_message g) \<in> set (outbox ?S1) \<and> (black_player_fd g, timeout_message g) \<in> set (outbox ?S1)"
    using passes_announce [OF len slot(1,2) assms(4)] by (simp add: assms(3))
  ultimately show ?thesis
    using h g1(2,3) by (auto simp: ofd_def move_message_def)
qed

theorem overtaken_move_witness:
  "\<exists>S'. handle_move_interleaved fine e4_clock 7 e4_request [600000] [] [] [] [] demo_server = (0, S')
     \<and> \<not> is_active (active_games S' ! 0)
     \<and> game_state (active_games S' ! 0) = apply_move (game_state demo_game) 4 1 4 3"
proof -
  obtain r S' where h: "handle_move_interleaved fine e4_clock 7 e4_request [600000] [] [] [] [] demo_server = (r, S')"
    by fastforce
  have "charge_time 600000 demo_game = demo_game\<lparr>white_time_remaining := 0\<rparr>"
    by (simp add: charge_time_def demo_game_def to_int32_id)
  then have "out_of_time 600000 demo_game" by (simp add: out_of_time_def mover_time_def)
  then have "\<not> is_active (active_games (timer_passes_at fine [600000] demo_server) ! 0)"
    using server_okD(5) [OF demo_server_ok] by (simp add: passes_games due_def)
  from overtaken_move [OF demo_server_ok demo_playable refl this _ h] h show ?thesis
    by (auto simp: fine_def)
qed

end
