(* ===== verification/Screen_Thms.thy ===== *)
theory Screen_Thms
  imports Client_Screen Client_Thms
begin

text \<open>
  The properties of the screens: the layout of the windows, the cells of the board and the clicks on
  them, the list of the replay, the lines of the players, and the chat area.
\<close>

section \<open>The layout of the game screen\<close>

definition inside :: "int \<Rightarrow> int \<Rightarrow> window_t \<Rightarrow> bool" where
  "inside rows cols w \<longleftrightarrow>
     0 \<le> wn_y w \<and> wn_y w + wn_height w \<le> rows \<and> 0 \<le> wn_x w \<and> wn_x w + wn_width w \<le> cols"

definition apart :: "window_t \<Rightarrow> window_t \<Rightarrow> bool" where
  "apart v w \<longleftrightarrow>
     wn_y v + wn_height v \<le> wn_y w \<or> wn_y w + wn_height w \<le> wn_y v
     \<or> wn_x v + wn_width v \<le> wn_x w \<or> wn_x w + wn_width w \<le> wn_x v"

definition game_windows :: "int \<Rightarrow> window_t list" where
  "game_windows cols = [opponent_info_win, board_win, my_info_win, chat_win cols, input_win cols]"

lemmas window_defs = opponent_info_win_def board_win_def my_info_win_def chat_win_def input_win_def
  newwin_def player_info_height_def INPUT_HEIGHT_def calculate_chat_dimensions_def screen_consts Let_def

text \<open>
  C33: the windows of the game screen never overlap, and all of them are on the terminal exactly when
  it has at least 33 rows and 102 columns. The tests for the size of the terminal, at the start and
  after a change of the size, ask for 30 rows and 100 columns only: on such a terminal the player's
  own line, with the clock, and the line for the chat lie below the screen.
\<close>

theorem game_layout:
  "sorted_wrt apart (game_windows cols)
   \<and> (list_all (inside rows cols) (game_windows cols) \<longleftrightarrow> 33 \<le> rows \<and> 102 \<le> cols)
   \<and> init_ncurses 30 100 \<and> handle_terminal_resize 30 100 c = draw_current_screen c
   \<and> \<not> inside 30 100 my_info_win \<and> \<not> inside 30 100 (input_win 100) \<and> \<not> inside 30 100 (chat_win 100)"
proof -
  have "sorted_wrt apart (game_windows cols)"
    by (auto simp: game_windows_def apart_def window_defs)
  moreover have "list_all (inside rows cols) (game_windows cols) \<longleftrightarrow> 33 \<le> rows \<and> 102 \<le> cols"
    by (auto simp: game_windows_def inside_def window_defs)
  ultimately show ?thesis by (simp add: inside_def window_defs handle_terminal_resize_def
        init_ncurses_def)
qed

section \<open>The board\<close>

lemma square_text_length: "length (square_text c row col) = 7"
  by (auto simp: square_text_def get_piece_unicode_def Let_def split: prod.split option.split piece_type_t.split)

lemma draw_square_cell:
  assumes "p \<in> set (draw_square c row col)"
  shows "length (pr_text p) = 7"
    "\<exists>dy. 0 \<le> dy \<and> dy < SQUARE_H \<and> wn_y board_win + pr_y p = snd (display_corner row col) + dy"
    "wn_x board_win + pr_x p = fst (display_corner row col)"
  using assms
  by (auto simp: draw_square_def Let_def mvwprintw_def square_text_length display_corner_def
      board_win_def newwin_def player_info_height_def screen_consts split: prod.splits)

lemma display_onto:
  assumes "in_board x y"
  shows "\<exists>!rc. in_board (snd rc) (fst rc) \<and> display_square t (fst rc) (snd rc) = (x, y)"
proof (cases t)
  case TEAM_WHITE
  then show ?thesis using assms
    by (intro ex1I [of _ "(7 - y, x)"]) (auto simp: display_square_def in_board_def Let_def)
next
  case TEAM_BLACK
  then show ?thesis using assms
    by (intro ex1I [of _ "(y, 7 - x)"]) (auto simp: display_square_def in_board_def Let_def)
qed

text \<open>
  C18: what a player sees is what a click hits: every square of the board is drawn in exactly one cell,
  a click on any character drawn for a cell gives the square whose piece the cell shows, and a cell
  with a living piece shows its name.
\<close>

theorem drawn_cells_are_squares:
  "(in_board x y \<longrightarrow>
     (\<exists>!rc. in_board (snd rc) (fst rc) \<and> display_square (gs_local_team (cl_gs c)) (fst rc) (snd rc) = (x, y)))
   \<and> (\<forall>p k. in_board col row \<longrightarrow> p \<in> set (draw_square c row col) \<longrightarrow> k < length (pr_text p) \<longrightarrow>
        coord_to_board_pos (gs_local_team (cl_gs c)) (wn_x board_win + pr_x p + int k) (wn_y board_win + pr_y p)
          = Some (display_square (gs_local_team (cl_gs c)) row col))
   \<and> (case display_square (gs_local_team (cl_gs c)) row col of (a, b) \<Rightarrow>
        \<forall>q. piece (board (gs_game (cl_gs c)) b a) = Some q \<longrightarrow> \<not> is_dead (board (gs_game (cl_gs c)) b a) \<longrightarrow>
          pr_text (draw_square c row col ! 1) =
            '' '' @ get_piece_unicode (Some q) (team (board (gs_game (cl_gs c)) b a)) @ '' '')"
proof (intro conjI impI allI)
  fix p k
  assume a: "in_board col row" "p \<in> set (draw_square c row col)" "k < length (pr_text p)"
  note cell = draw_square_cell [OF a(2)]
  from cell(2) obtain dy where dy: "0 \<le> dy" "dy < SQUARE_H"
    "wn_y board_win + pr_y p = snd (display_corner row col) + dy" by blast
  have "0 \<le> int k" "int k < SQUARE_W" using a(3) cell(1) by (simp_all add: SQUARE_W_def)
  from cell_click [OF a(1) this dy(1,2)] show "coord_to_board_pos (gs_local_team (cl_gs c))
      (wn_x board_win + pr_x p + int k) (wn_y board_win + pr_y p) = Some (display_square (gs_local_team (cl_gs c)) row col)"
    by (simp add: cell(3) dy(3))
next
  assume "in_board x y"
  then show "\<exists>!rc. in_board (snd rc) (fst rc) \<and> display_square (gs_local_team (cl_gs c)) (fst rc) (snd rc) = (x, y)"
    by (rule display_onto)
qed (auto simp: draw_square_def square_text_def mvwprintw_def Let_def split: prod.split)

theorem drawn_cells_are_squares_witness:
  "coord_to_board_pos TEAM_WHITE (wn_x board_win + 38) (wn_y board_win + 25) = Some (4, 0)"
proof -
  have p: "mvwprintw (square_attrs (square_colour demo_player 7 4)) 25 32 ''       '' \<in> set (draw_square demo_player 7 4)"
    by (simp add: draw_square_def Let_def screen_consts display_square_def)
  have t: "gs_local_team (cl_gs demo_player) = TEAM_WHITE" by (rule demo_player_fields)
  have "in_board 4 7" by (simp add: in_board_def)
  then show ?thesis
    using drawn_cells_are_squares [of 0 0 demo_player 4 7, THEN conjunct2, THEN conjunct1, rule_format,
        OF _ p, of 6] t
    by (simp add: mvwprintw_def display_square_def add.commute)
qed

section \<open>The replay\<close>

lemma takeWhile_upto:
  "takeWhile (\<lambda>i. s + i < n) [0..k] = [0..min k (n - s - 1)]" for n s k :: int
proof -
  consider "k < 0 \<or> n - s \<le> 0" | "0 \<le> k" "k < n - s" | "0 < n - s" "n - s \<le> k" by linarith
  then show ?thesis
  proof cases
    case 1
    then show ?thesis by (cases "0 \<le> k") (auto simp: upto_rec1 min_def)
  next
    case 2
    then have "takeWhile (\<lambda>i. s + i < n) [0..k] = [0..k]" by (auto simp: takeWhile_eq_all_conv)
    with 2 show ?thesis by (simp add: min_def)
  next
    case 3
    then have "[0..k] = [0..n - s - 1] @ (n - s) # [n - s + 1..k]"
      using upto_split3 [of 0 "n - s" k] by simp
    then have "takeWhile (\<lambda>i. s + i < n) [0..k] = [0..n - s - 1]"
      by (simp add: takeWhile_append)
    with 3 show ?thesis by (simp add: min_def)
  qed
qed

lemma filter_one: "filter (\<lambda>i. i = k) [0..m] = (if 0 \<le> k \<and> k \<le> m then [k] else [])" for k m :: int
proof (cases "0 \<le> k \<and> k \<le> m")
  case True
  then have "[0..m] = [0..k - 1] @ k # [k + 1..m]" using upto_split3 [of 0 k m] by simp
  with True show ?thesis by (simp add: filter_empty_conv)
qed (auto simp: filter_empty_conv)

text \<open>
  C32: the list of the replay always shows the current move: exactly one line is highlighted when a
  move has been played, it lies inside the window, and it shows that move; before the first move no
  line is highlighted.
\<close>

theorem replay_shows_current:
  assumes "- 1 \<le> rp_current_move st" "rp_current_move st < int (length (rp_moves st))"
  shows "filter (\<lambda>p. A_REVERSE \<in> set (pr_attrs p)) (replay_list st) =
      (if rp_current_move st < 0 then []
       else [replay_line st (replay_start_idx st) (rp_current_move st - replay_start_idx st)])
    \<and> (\<forall>p \<in> set (replay_list st). 1 \<le> pr_y p \<and> pr_y p \<le> BOARD_HEIGHT - 2)"
proof -
  let ?c = "rp_current_move st" and ?s = "replay_start_idx st"
  define m where "m = min 25 (int (length (rp_moves st)) - ?s - 1)"
  have list: "replay_list st = map (replay_line st ?s) [0..m]"
    by (simp add: replay_list_def Let_def takeWhile_upto m_def screen_consts)
  have lit: "A_REVERSE \<in> set (pr_attrs (replay_line st ?s i)) \<longleftrightarrow> i = ?c - ?s" for i
    by (auto simp: replay_line_def mvwprintw_def Let_def)
  have row: "pr_y (replay_line st ?s i) = i + 1" for i
    by (simp add: replay_line_def mvwprintw_def Let_def)
  have "?s = (if 26 \<le> ?c then ?c - 25 else 0)"
    by (simp add: replay_start_idx_def Let_def screen_consts)
  then have "0 \<le> ?c - ?s \<and> ?c - ?s \<le> m \<longleftrightarrow> 0 \<le> ?c"
    using assms by (auto simp: m_def)
  then show ?thesis
    by (auto simp: list filter_map o_def lit filter_one row m_def screen_consts)
qed

definition demo_replay :: replay_state_t where
  "demo_replay = \<lparr>rp_moves = [''e2e4'', ''e7e5''], rp_current_move = 1, rp_auto_play = False,
     rp_last_auto_play_time = \<lparr>tv_sec = 0, tv_usec = 0\<rparr>\<rparr>"

theorem replay_shows_current_witness:
  "filter (\<lambda>p. A_REVERSE \<in> set (pr_attrs p)) (replay_list demo_replay) =
     [\<lparr>pr_y = 2, pr_x = 17, pr_text = ''e7e5    '', pr_attrs = [A_REVERSE]\<rparr>]"
proof -
  have "replay_line demo_replay 0 1 = \<lparr>pr_y = 2, pr_x = 17, pr_text = ''e7e5    '', pr_attrs = [A_REVERSE]\<rparr>"
    by code_simp
  moreover have "replay_start_idx demo_replay = 0" by code_simp
  ultimately show ?thesis
    using replay_shows_current [of demo_replay] by (simp add: demo_replay_def)
qed

section \<open>The players\<close>

text \<open>
  In the line of a player nothing is written over anything else: for a name that fits its array
  and a clock within 99 minutes the name ends before the warning, the warning before the clock, and
  the clock ends inside the window.
\<close>

theorem player_info_fits:
  assumes "length player_name < MAX_PLAYER_NAME_LENGTH" "0 \<le> t" "t < 6000"
  shows "\<exists>fill name. draw_player_info player_info_height BOARD_WIDTH player_name is_me tm turn t chk =
      [fill, name] @ (if chk then [mvwprintw [COLOR_PAIR COLOR_PAIR_CHECK_PLAYER, A_BOLD] 0 52 ''CHECK ''] else [])
        @ [mvwprintw (timer_attrs (if chk then COLOR_PAIR_CHECK_PLAYER else if turn then COLOR_PAIR_WHITE_PLAYER
             else COLOR_PAIR_BLACK_PLAYER) chk t) 0 58 (timer_str t)]
    \<and> pr_x name + int (length (pr_text name)) < 52 \<and> length (timer_str t) = 5"
proof -
  have "length (two_digits n) = 2" if "0 \<le> n" "n < 100" for n
    using that by (auto simp: two_digits_def c_dec_def dec_digits.simps [of "nat n"]
        dec_digits.simps [of "nat n div 10"])
  moreover have "0 \<le> c_div t 60" "c_div t 60 < 100" "0 \<le> c_mod t 60" "c_mod t 60 < 100"
    using assms(2,3) pos_mod_bound [of 60 t] by (simp_all add: c_div_nonneg c_mod_nonneg)
  ultimately have timer: "length (timer_str t) = 5" by (simp add: timer_str_def c_trunc_def)
  have name: "length (display_name player_name is_me tm) \<le> 44"
    using assms(1) by (auto simp: display_name_def Let_def c_trunc_def MAX_PLAYER_NAME_LENGTH_def)
  have eq: "draw_player_info player_info_height BOARD_WIDTH player_name is_me tm turn t chk =
      [mvwprintw attrs 0 0 (pad_left 64 '' ''), nm]
        @ (if chk then [mvwprintw [COLOR_PAIR COLOR_PAIR_CHECK_PLAYER, A_BOLD] 0 52 ''CHECK ''] else [])
        @ [mvwprintw (timer_attrs (if chk then COLOR_PAIR_CHECK_PLAYER else if turn then COLOR_PAIR_WHITE_PLAYER
             else COLOR_PAIR_BLACK_PLAYER) chk t) 0 58 (timer_str t)]"
    if "attrs = [COLOR_PAIR (if chk then COLOR_PAIR_CHECK_PLAYER else if turn then COLOR_PAIR_WHITE_PLAYER
          else COLOR_PAIR_BLACK_PLAYER)]"
      "nm = mvwprintw (attrs @ (if turn then [A_BOLD] else [])) 0 1
         ((if turn then arrow @ '' '' else ''  '') @ display_name player_name is_me tm)" for attrs nm
    using timer name by (simp add: that draw_player_info_def Let_def size_gt_def screen_consts player_info_height_def)
  have "1 + length ((if turn then arrow @ '' '' else ''  '') @ display_name player_name is_me tm) < 52"
    using name by (simp add: arrow_def)
  then show ?thesis using eq [OF refl refl] timer by (intro exI conjI) (assumption, simp add: mvwprintw_def)
qed

theorem player_info_fits_witness:
  "length (timer_str 75) = 5"
  using player_info_fits [of "''ann''" 75 True TEAM_WHITE True False] by (auto simp: MAX_PLAYER_NAME_LENGTH_def)

text \<open>
  C23: In the last thirty seconds of a player in check the clock cannot be read: it is drawn with a
  pair of colours whose text has the colour of its background, with either palette of \<open>init_colors\<close>.
  Every other pair that the screens use shows its text on a terminal of 256 colours.
\<close>

theorem critical_clock_hidden:
  assumes "length player_name < MAX_PLAYER_NAME_LENGTH" "0 \<le> t" "t \<le> 30"
  shows "last (draw_player_info player_info_height BOARD_WIDTH player_name is_me tm turn t True) =
      mvwprintw [COLOR_PAIR COLOR_PAIR_TIMER_CRITICAL_CHECK, A_BOLD] 0 58 (timer_str t)
    \<and> (COLOR_PAIR_TIMER_CRITICAL_CHECK, COLOR_RED, COLOR_RED) \<in> set (init_colors n)
    \<and> (\<forall>(p, f, b) \<in> set (init_colors 256). f = b \<longrightarrow> p = COLOR_PAIR_TIMER_CRITICAL_CHECK)"
proof -
  from player_info_fits [OF assms(1,2), of is_me tm turn True] assms(3) obtain fill name
    where "draw_player_info player_info_height BOARD_WIDTH player_name is_me tm turn t True =
      [fill, name] @ [mvwprintw [COLOR_PAIR COLOR_PAIR_CHECK_PLAYER, A_BOLD] 0 52 ''CHECK ''] @
      [mvwprintw (timer_attrs COLOR_PAIR_CHECK_PLAYER True t) 0 58 (timer_str t)]" by auto
  moreover have "timer_attrs COLOR_PAIR_CHECK_PLAYER True t = [COLOR_PAIR COLOR_PAIR_TIMER_CRITICAL_CHECK, A_BOLD]"
    using assms(3) by (simp add: timer_attrs_def)
  moreover have "(COLOR_PAIR_TIMER_CRITICAL_CHECK, COLOR_RED, COLOR_RED) \<in> set (init_colors n)"
    by (simp add: init_colors_def)
  ultimately show ?thesis using hidden_pairs [of _ _ _ 256] by auto
qed

theorem critical_clock_hidden_witness:
  "last (draw_player_info player_info_height BOARD_WIDTH ''ann'' True TEAM_WHITE True 12 True) =
    mvwprintw [COLOR_PAIR COLOR_PAIR_TIMER_CRITICAL_CHECK, A_BOLD] 0 58 (timer_str 12)"
  using critical_clock_hidden [of "''ann''" 12 True TEAM_WHITE True]
  by (simp add: MAX_PLAYER_NAME_LENGTH_def)

text \<open>The title screen fits its window, and the window the smallest terminal that is accepted.\<close>

lemma title_screen_fits:
  "\<forall>p \<in> set draw_main_screen. 0 \<le> pr_y p \<and> pr_y p < main_height \<and> 0 \<le> pr_x p"
  "\<forall>l \<in> set title_lines. c_div (main_width - 51) 2 + int (length l) < main_width"
  "init_ncurses rows cols \<Longrightarrow> 0 \<le> wn_y (main_win rows cols) \<and> 0 \<le> wn_x (main_win rows cols)
    \<and> wn_y (main_win rows cols) + main_height \<le> rows \<and> wn_x (main_win rows cols) + main_width \<le> cols"
  by (auto simp: draw_main_screen_def title_lines_def mvwprintw_def main_height_def main_width_def c_div_def
      init_ncurses_def main_win_def newwin_def upto.simps)

section \<open>The chat area\<close>

text \<open>Rounding up to longer lines gives no more of them.\<close>

lemma ceil_div_mono:
  fixes x s l :: int
  assumes "0 < s" "s \<le> l" "0 \<le> x"
  shows "(x + l - 1) div l \<le> (x + s - 1) div s"
proof -
  let ?c = "(x + s - 1) div s"
  have "x \<le> ?c * s"
    using assms(1) pos_mod_bound [of s "x + s - 1"] div_mult_mod_eq [of "x + s - 1" s] by linarith
  moreover have "0 \<le> ?c" using assms by (simp add: pos_imp_zdiv_nonneg_iff)
  ultimately have "x \<le> ?c * l" using assms(2) mult_left_mono by fastforce
  then have "x + l - 1 < (?c + 1) * l" by (simp add: algebra_simps)
  moreover have "(x + l - 1) div l * l \<le> x + l - 1"
    using assms(1,2) pos_mod_sign [of l "x + l - 1"] div_mult_mod_eq [of "x + l - 1" l] by linarith
  ultimately have "(x + l - 1) div l * l < (?c + 1) * l" by linarith
  then have "(x + l - 1) div l < ?c + 1" using assms(1,2) mult_less_cancel_right_pos [of l] by simp
  then show ?thesis by simp
qed

lemma long_msg_rows:
  "0 < l \<Longrightarrow> int (length (long_msg max_line l m pos line)) \<le> (int (length (full_msg m) - pos) + l - 1) div l"
proof (induction max_line l m pos line rule: long_msg.induct)
  case (1 max_line l m pos line)
  let ?len = "length (full_msg m)"
  let ?copy = "if int (?len - pos) > l then nat l else ?len - pos"
  show ?case
  proof (cases "pos < ?len \<and> line < max_line")
    case True
    have "int (length (long_msg max_line l m (pos + ?copy) (line + 1))) \<le>
        (int (?len - (pos + ?copy)) + l - 1) div l"
      using "1.IH" [OF refl refl True "1.prems"] .
    moreover have "(int (?len - (pos + ?copy)) + l - 1) div l + 1 \<le> (int (?len - pos) + l - 1) div l"
    proof (cases "int (?len - pos) > l")
      case True
      then have "int (?len - (pos + ?copy)) = int (?len - pos) - l" using "1.prems" by auto
      moreover have "(int (?len - pos) - l + l - 1) div l + 1 = (int (?len - pos) + l - 1) div l"
        using "1.prems" div_add_self2 [of l "int (?len - pos) - 1"] by (simp add: algebra_simps)
      ultimately show ?thesis by simp
    next
      case False
      then have "?len - (pos + ?copy) = 0" by simp
      moreover have "1 \<le> (int (?len - pos) + l - 1) div l"
        using \<open>pos < ?len \<and> line < max_line\<close> "1.prems" by (simp add: zdiv_mono1 pos_imp_zdiv_pos_iff int_one_le_iff_zero_less)
      ultimately show ?thesis using "1.prems" by (simp add: zdiv_eq_0_iff)
    qed
    ultimately show ?thesis using True by (subst long_msg.simps) (simp add: Let_def)
  next
    case False
    then show ?thesis using "1.prems" by (subst long_msg.simps) (auto simp: Let_def pos_imp_zdiv_nonneg_iff)
  qed
qed

lemma lines_for_msg_pos: "14 \<le> w \<Longrightarrow> 1 \<le> lines_for_msg w m"
  by (auto simp: lines_for_msg_def Let_def c_div_nonneg pos_imp_zdiv_nonneg_iff)

text \<open>A message never takes more rows than were counted for it.\<close>

lemma draw_msg_rows:
  assumes "14 \<le> w"
  shows "int (length (draw_msg max_line (w - 4) m line)) \<le> lines_for_msg w m"
proof (cases "int (length (full_msg m)) \<le> w - 4")
  case True
  then show ?thesis by (simp add: draw_msg_def lines_for_msg_def)
next
  case False
  let ?l = "w - 4" and ?len = "int (length (full_msg m))"
  define s where "s = (if ?l - chat_indent ?l m < 10 then 10 else ?l - chat_indent ?l m)"
  have s: "0 < s" "s \<le> ?l" using assms by (auto simp: s_def chat_indent_def Let_def)
  have "lines_for_msg w m = 1 + (?len - ?l + s - 1) div s"
    using False s unfolding lines_for_msg_def Let_def s_def [symmetric] by (simp add: c_div_nonneg)
  moreover have "(?len + ?l - 1) div ?l = 1 + (?len - ?l + ?l - 1) div ?l"
    using s div_add_self2 [of ?l "?len - 1"] by (simp add: algebra_simps)
  moreover have "(?len - ?l + ?l - 1) div ?l \<le> (?len - ?l + s - 1) div s"
    using ceil_div_mono [OF s, of "?len - ?l"] False by simp
  moreover have "int (length (draw_msg max_line ?l m line)) \<le> (?len + ?l - 1) div ?l"
    using False long_msg_rows [of ?l max_line m 0 line] s by (simp add: draw_msg_def)
  ultimately show ?thesis by linarith
qed

definition counted_lines :: "int \<Rightarrow> chat_message_t list \<Rightarrow> int" where
  "counted_lines w ms = sum_list (map (lines_for_msg w) ms)"

lemma start_loop:
  assumes "counted \<le> M" "i \<le> length msgs" "i = 0 \<longrightarrow> start = 0"
  shows "start_msg_loop w M msgs i counted start \<le> i
    \<and> counted + counted_lines w (drop (start_msg_loop w M msgs i counted start) (take i msgs)) \<le> M
    \<and> (0 < i \<longrightarrow> (start_msg_loop w M msgs i counted start < i \<longleftrightarrow> counted + lines_for_msg w (msgs ! (i - 1)) \<le> M))"
  using assms
proof (induction w M msgs i counted start rule: start_msg_loop.induct)
  case (2 w M msgs i counted start)
  let ?n = "lines_for_msg w (msgs ! i)"
  show ?case
  proof (cases "counted + ?n > M")
    case True
    with "2.prems" show ?thesis by (simp add: counted_lines_def)
  next
    case False
    let ?s = "start_msg_loop w M msgs i (counted + ?n) i"
    have IH: "?s \<le> i" "counted + ?n + counted_lines w (drop ?s (take i msgs)) \<le> M"
      using "2.IH" [OF refl] False "2.prems" by simp_all
    have "drop ?s (take (Suc i) msgs) = drop ?s (take i msgs) @ [msgs ! i]"
      using "2.prems"(2) IH(1) by (simp add: take_Suc_conv_app_nth)
    with IH False show ?thesis by (simp add: counted_lines_def)
  qed
qed (simp add: counted_lines_def)

lemma draw_msgs_last:
  assumes "14 \<le> w" "ms \<noteq> []" "counted_lines w ms \<le> max_line - line"
  shows "\<exists>out line'. draw_msgs max_line (w - 4) ms line = out @ draw_msg max_line (w - 4) (last ms) line'
    \<and> line \<le> line' \<and> line' + lines_for_msg w (last ms) \<le> max_line"
  using assms(2,3)
proof (induction ms arbitrary: line)
  case (Cons m ms)
  let ?out = "draw_msg max_line (w - 4) m line"
  have nonneg: "0 \<le> counted_lines w ms"
    using lines_for_msg_pos [OF assms(1)] unfolding counted_lines_def
    by (intro sum_list_nonneg) (force intro: order_trans [of 0 1])
  have c: "counted_lines w (m # ms) = lines_for_msg w m + counted_lines w ms" by (simp add: counted_lines_def)
  with Cons.prems nonneg lines_for_msg_pos [OF assms(1), of m] have lt: "line < max_line" by linarith
  show ?case
  proof (cases "ms = []")
    case True
    with Cons.prems lt c show ?thesis
      by (intro exI [of _ "[]"] exI [of _ line]) (simp add: counted_lines_def Let_def)
  next
    case False
    let ?line = "line + int (length ?out)"
    have "counted_lines w ms \<le> max_line - ?line"
      using Cons.prems(2) c draw_msg_rows [OF assms(1), of max_line m line] by linarith
    from Cons.IH [OF False this] obtain out line' where
      "draw_msgs max_line (w - 4) ms ?line = out @ draw_msg max_line (w - 4) (last ms) line'"
      "?line \<le> line'" "line' + lines_for_msg w (last ms) \<le> max_line" by blast
    with lt False show ?thesis
      by (intro exI [of _ "?out @ out"] exI [of _ line']) (simp add: Let_def)
  qed
qed simp

text \<open>
  C31: the chat area ends with the newest message, and there is room for all of its lines, exactly when
  the number of lines counted for it fits. The count assumes lines that are shorter by the
  indentation, while the lines drawn are not: a long message from a player with a long name may be
  counted with more lines than the area has, although it would fit, and then no message at all is shown.
\<close>

theorem chat_area_shows_newest:
  assumes "14 \<le> w" "6 \<le> h" "0 < gs_chat_count gs" "gs_chat_count gs \<le> length (gs_chat_messages gs)"
    and "latest = gs_chat_messages gs ! (gs_chat_count gs - 1)"
  shows "if lines_for_msg w latest \<le> h - 5
    then \<exists>out line. draw_chat_area h w gs = (1, map Some ''Chat'') # out @ draw_msg (h - 2) (w - 4) latest line
           \<and> 3 \<le> line \<and> line + int (length (draw_msg (h - 2) (w - 4) latest line)) \<le> h - 2
    else draw_chat_area h w gs = [(1, map Some ''Chat'')]"
proof -
  let ?n = "gs_chat_count gs" and ?ms = "gs_chat_messages gs"
  define s where "s = start_msg_index h w gs"
  have "s = start_msg_loop w (h - 5) ?ms ?n 0 0" using assms(2) by (simp add: s_def start_msg_index_def)
  then have s: "s \<le> ?n" "counted_lines w (drop s (take ?n ?ms)) \<le> h - 5"
    "s < ?n \<longleftrightarrow> lines_for_msg w latest \<le> h - 5"
    using start_loop [of 0 "h - 5" ?n ?ms 0 w] assms(2-5) by auto
  have area: "chat_rows h w gs = draw_msgs (h - 2) (w - 4) (drop s (take ?n ?ms)) 3"
    by (simp add: chat_rows_def s_def)
  show ?thesis
  proof (cases "s < ?n")
    case True
    have ne: "drop s (take ?n ?ms) \<noteq> []" and last: "last (drop s (take ?n ?ms)) = latest"
      using True assms(3-5) by (auto simp: last_conv_nth)
    obtain out line where "chat_rows h w gs = out @ draw_msg (h - 2) (w - 4) latest line" "3 \<le> line"
      "line + lines_for_msg w latest \<le> h - 2"
      using draw_msgs_last [OF assms(1) ne, of "h - 2" 3] s(2) unfolding last area by auto
    with draw_msg_rows [OF assms(1), of "h - 2" latest line] True s(3) show ?thesis
      by (auto simp: draw_chat_area_def intro!: exI [of _ out] exI [of _ line])
  next
    case False
    with s have "drop s (take ?n ?ms) = []" by simp
    with False s(3) area show ?thesis by (simp add: draw_chat_area_def)
  qed
qed

definition long_talk :: chat_message_t where
  "long_talk = \<lparr>cm_sender = replicate 19 (CHR ''a''), cm_message = replicate 255 (CHR ''b''), cm_timestamp = 0\<rparr>"

theorem chat_area_shows_newest_witness:
  "draw_chat_area 28 35 ((init_game_state (cl_gs static_client))\<lparr>gs_chat_messages := [long_talk], gs_chat_count := 1\<rparr>)
     = [(1, map Some ''Chat'')]"
proof -
  have "length (full_msg long_talk) = 276" by (simp add: full_msg_def long_talk_def c_trunc_def)
  then have "lines_for_msg 35 long_talk = 26"
    by (simp add: lines_for_msg_def chat_indent_def long_talk_def Let_def c_div_nonneg)
  then show ?thesis
    using chat_area_shows_newest [of 35 28 "(init_game_state (cl_gs static_client))\<lparr>gs_chat_messages := [long_talk],
        gs_chat_count := 1\<rparr>" long_talk] by simp
qed

end
