(* ===== verification/Server_Messages.thy ===== *)
theory Server_Messages
  imports Server_System Session
begin

text \<open>The messages of the server are well formed: what a client may rely on when it reads them.\<close>

section \<open>Well-formed messages\<close>

definition team_known :: "Team \<Rightarrow> bool" where
  "team_known t \<longleftrightarrow> t \<noteq> TEAM__TEAM_UNSPECIFIED"

definition seconds_ok :: "int \<Rightarrow> bool" where
  "seconds_ok s \<longleftrightarrow> 0 \<le> s \<and> s \<le> 600"

definition broadcast_ok :: "MoveBroadcast \<Rightarrow> bool" where
  "broadcast_ok b \<longleftrightarrow>
     parse_chess_coordinate (mvb_from b) \<noteq> None \<and> parse_chess_coordinate (mvb_to b) \<noteq> None
     \<and> length (mvb_player_id b) < 64
     \<and> seconds_ok (mvb_white_time_remaining b) \<and> seconds_ok (mvb_black_time_remaining b)
     \<and> mvb_game_ends b = (mvb_end_type b \<noteq> GAME_END_UNKNOWN)
     \<and> team_known (mvb_winner_team b) = (mvb_end_type b = GAME_END_CHECKMATE)
     \<and> team_known (mvb_checked_team b) = mvb_is_check b"

definition message_ok :: "ServerMessage \<Rightarrow> bool" where
  "message_ok msg =
     (case msg of
        SM_MOVE_BROADCAST b \<Rightarrow> broadcast_ok b
      | SM_MATCH_GAME_RES r \<Rightarrow>
          mgr_success r \<and> length (mgr_opponent_name r) < 64
          \<and> seconds_ok (mgr_white_time_remaining r) \<and> seconds_ok (mgr_black_time_remaining r)
          \<and> team_known (mgr_assigned_team r) = (mgr_time_limit_per_player r = 600)
      | SM_GAME_END b \<Rightarrow>
          team_known (geb_winner_team b) \<and> geb_end_type b \<in> {GAME_END_DISCONNECT, GAME_END_TIMEOUT}
          \<and> length (geb_player_id b) < 64
      | SM_RESIGN_BROADCAST b \<Rightarrow> team_known (rsb_winner_team b)
      | SM_CHAT_BROADCAST b \<Rightarrow> length (chb_player_id b) < 64
      | SM_CHECK_BROADCAST b \<Rightarrow> False
      | SM_NOT_SET \<Rightarrow> False
      | _ \<Rightarrow> True)"

text \<open>A step adds only well-formed messages to the log.\<close>

definition sends_ok :: "server_t \<Rightarrow> server_t \<Rightarrow> bool" where
  "sends_ok S S' \<longleftrightarrow> (\<exists>ms. outbox S' = outbox S @ ms \<and> list_all (\<lambda>p. message_ok (snd p)) ms)"

named_theorems sending "steps that send only well-formed messages"

lemma sends_ok_same [sending]: "outbox S' = outbox S \<Longrightarrow> sends_ok S S'"
  by (simp add: sends_ok_def)

lemma sends_ok_append: "outbox S' = outbox S @ ms \<Longrightarrow> list_all (\<lambda>p. message_ok (snd p)) ms \<Longrightarrow> sends_ok S S'"
  by (auto simp: sends_ok_def)

lemma sends_ok_trans: "sends_ok S S1 \<Longrightarrow> sends_ok S1 S2 \<Longrightarrow> sends_ok S S2"
  unfolding sends_ok_def by force

lemma sends_ok_error [sending]: "sends_ok S (snd (send_error_response net f c m S))"
  by (simp add: sends_ok_def send_error_response_def message_ok_def)

lemma seconds_of_game:
  "game_ok g \<Longrightarrow> seconds_ok (c_div (white_time_remaining g) 1000) \<and> seconds_ok (c_div (black_time_remaining g) 1000)"
  by (simp add: game_ok_def seconds_ok_def c_div_nonneg pos_imp_zdiv_nonneg_iff) linarith

section \<open>The handlers\<close>

lemma ping_echo_sends:
  "handle_ping_message net f req S = Some (r, S') \<Longrightarrow> sends_ok S S'"
  "handle_echo_message net f req S = Some (r, S') \<Longrightarrow> sends_ok S S'"
  by (auto simp: handle_ping_message_def handle_echo_message_def send_out message_ok_def
      sends_ok_def split: ClientMessage.splits)

lemma cancel_sends: "handle_cancel_match_message net f req S = Some (r, S') \<Longrightarrow> sends_ok S S'"
  by (auto simp: handle_cancel_match_message_def remove_player_from_matching_def send_out
      send_error_response_def Let_def message_ok_def sends_ok_def
      split: ClientMessage.splits option.splits if_splits)

lemma chat_sends:
  assumes "server_ok S" "handle_chat_message net f req S = Some (r, S')"
  shows "sends_ok S S'"
proof -
  have names: "length (white_player_id (active_games S ! i)) < 64 \<and> length (black_player_id (active_games S ! i)) < 64"
    if "find_game_by_player_fd f S = Some i" for i
    using find_game_SomeD(4) [OF assms(1) that] by (simp add: game_ok_def)
  show ?thesis
    using assms(2) names
    by (auto simp: handle_chat_message_def send_out Let_def message_ok_def
        sends_ok_def split: ClientMessage.splits option.splits if_splits)
qed

lemma resign_sends: "handle_resign_message net f req S = Some (r, S') \<Longrightarrow> sends_ok S S'"
  by (auto simp: handle_resign_message_def send_out send_error_response_def Let_def message_ok_def
      team_known_def game_drop_def sends_ok_def split: ClientMessage.splits option.splits if_splits)

lemma unknown_sends: "handle_unknown_message net f S = Some (r, S') \<Longrightarrow> sends_ok S S'"
  by (auto simp: handle_unknown_message_def send_error_response_def send_out message_ok_def
      sends_ok_def)

lemma end_of_game_kinds:
  "fst (end_of_game G) = (snd (snd (end_of_game G)) \<noteq> GAME_END_UNKNOWN)"
  "team_known (fst (snd (end_of_game G))) = (snd (snd (end_of_game G)) = GAME_END_CHECKMATE)"
  by (auto simp: end_of_game_def team_known_def)

lemma team_known_proto [simp]: "team_known (team_to_proto t)"
  by (cases t) (simp_all add: team_known_def)

lemma move_message_ok:
  assumes "game_ok g" "length pid < 64" "parse_chess_coordinate (mvq_from q) \<noteq> None"
    "parse_chess_coordinate (mvq_to q) \<noteq> None"
  shows "message_ok (move_message now pid q g)"
  using assms seconds_of_game [OF assms(1)]
  by (simp add: message_ok_def move_message_def broadcast_ok_def end_of_game_kinds) (simp add: team_known_def)

lemma move_sends:
  assumes "server_ok S" "handle_move_message net clk f req S = Some (r, S')"
  shows "sends_ok S S'"
proof (cases "\<exists>q i fx fy tx ty. req = CM_MOVE (Some q) \<and> playable S f q i fx fy tx ty")
  case True
  then obtain q i fx fy tx ty where req: "req = CM_MOVE (Some q)" and p: "playable S f q i fx fy tx ty" by blast
  let ?g = "active_games S ! i"
  define h where "h = moved_game clk ?g fx fy tx ty"
  let ?S = "game_set i h S"
  note ok = playable_set_ok(1) [OF assms(1) p, where clk = clk, folded h_def] playable_set_ok(2,3) [OF assms(1) p]
  have len: "length (active_games S) = 50" using server_okD(5) [OF assms(1)] .
  have h: "is_active h" using ok(3) by (simp add: h_def)
  have act: "is_active (active_games ?S ! i)" using ok(2) len h by simp
  have game: "game_ok h" using server_ok_game [OF ok(1,2) act] ok(2) len by simp
  define pid where "pid = (if white_player_fd ?g = f then white_player_id ?g else black_player_id ?g)"
  define ofd where "ofd = (if white_player_fd ?g = f then black_player_fd ?g else white_player_fd ?g)"
  have eq: "(r, S') = finish_move net clk f pid ofd q i ?S"
    using handle_move_playable [OF assms(1) p, of net clk] assms(2) by (simp add: req Let_def pid_def ofd_def h_def)
  have "length pid < 64"
    using server_ok_game [OF assms(1) ok(2,3)] by (simp add: pid_def game_ok_def)
  then have news: "message_ok (move_message now pid q h)" for now
    using move_message_ok [OF game] p by (simp add: playable_def)
  have ack: "message_ok (move_ack pid h)" by (simp add: message_ok_def move_ack_def)
  show ?thesis
    using eq news ack ok(2) len
    by (auto simp: finish_move_eq [OF ok(1,2) act] Let_def game_drop_def sends_ok_def split: if_splits)
next
  case False
  show ?thesis
  proof (cases "\<exists>q. req = CM_MOVE (Some q)")
    case True
    then obtain q where q: "req = CM_MOVE (Some q)" by blast
    with handle_move_refused [of S f q net clk] False assms(2) obtain gid pid msg where
      "(r, S') = send_move_error net f gid pid msg S" by (metis option.inject)
    then show ?thesis
      by (auto simp: send_move_error_def send_out message_ok_def sends_ok_def)
  next
    case False
    with assms(2) have "S' = S"
      by (auto simp: handle_move_message_def split: ClientMessage.splits option.splits)
    then show ?thesis by (simp add: sending)
  qed
qed

lemma matching_sends:
  assumes "server_ok S" "add_player_to_matching clk f pid S = Some (res, S1)"
  shows "outbox S1 = outbox S"
    "mr_status res = MATCH_STATUS_GAME_STARTED \<Longrightarrow> team_known (mr_assigned_team res)"
    "mr_status res = MATCH_STATUS_GAME_STARTED \<Longrightarrow> length (or_else (mr_opponent_name res) []) < 64"
proof -
  have all: "outbox S1 = outbox S \<and> (mr_status res = MATCH_STATUS_GAME_STARTED \<longrightarrow>
      team_known (mr_assigned_team res) \<and> length (or_else (mr_opponent_name res) []) < 64)"
  proof (cases "find_index wp_is_active (waiting_players S)")
    case None
    with assms(2) show ?thesis
      by (auto simp: add_player_to_matching_def error_result_def split: option.splits)
  next
    case (Some i)
    have name: "length (wp_player_id (waiting_players S ! i)) < 64"
      using find_index_SomeD [OF Some] server_okD(1) [OF assms(1)] by (simp add: slots_ok_def)
    show ?thesis
    proof (cases "find_index (\<lambda>g. \<not> is_active g) (active_games S)")
      case None
      with Some assms(2) show ?thesis by (auto simp: add_player_to_matching_def error_result_def)
    next
      case free: (Some j)
      from Some free assms(2) have st: "start_game clk f pid i j S = Some (res, S1)"
        by (simp add: add_player_to_matching_def)
      from start_game_eq [OF assms(1) Some start_game_room [OF assms(1) st], of clk f j] st name show ?thesis
        by (auto simp: Let_def or_else_def team_known_def)
    qed
  qed
  then show "outbox S1 = outbox S"
    "mr_status res = MATCH_STATUS_GAME_STARTED \<Longrightarrow> team_known (mr_assigned_team res)"
    "mr_status res = MATCH_STATUS_GAME_STARTED \<Longrightarrow> length (or_else (mr_opponent_name res) []) < 64"
    by auto
qed

lemma match_sends:
  assumes "server_ok S" "handle_match_game_message net clk f req S = Some (r, S')"
  shows "sends_ok S S'"
proof (cases "\<exists>q. req = CM_MATCH_GAME (Some q) \<and> mgq_player_id q \<noteq> []")
  case False
  then have "S' = snd (send_error_response net f 1 ''Invalid match request data'' S)
      \<or> S' = snd (send_error_response net f 2 ''Player ID is required'' S)"
    using assms(2) by (auto simp: handle_match_game_message_def
        split: ClientMessage.splits option.splits if_splits dest!: sym [of "send_error_response _ _ _ _ _"])
  then show ?thesis using sends_ok_error by blast
next
  case True
  then obtain q where q: "req = CM_MATCH_GAME (Some q)" "mgq_player_id q \<noteq> []" by blast
  obtain res S1 where res: "add_player_to_matching clk f (mgq_player_id q) S = Some (res, S1)"
    using assms(2) q by (auto simp: handle_match_game_message_def split: option.splits)
  note added = matching_sends [OF assms(1) res]
  have ok1: "server_ok S1" using add_player_ok [OF assms(1) res] .
  show ?thesis
  proof (cases "mr_status res")
    case MATCH_STATUS_WAITING
    then show ?thesis
      using assms(2) q res added(1)
      by (auto simp: handle_match_game_message_def send_out match_waiting_def message_ok_def seconds_ok_def
          team_known_def sends_ok_def)
  next
    case MATCH_STATUS_ERROR
    then show ?thesis
      using assms(2) q res added(1)
      by (auto simp: handle_match_game_message_def send_error_response_def send_out message_ok_def
          sends_ok_def)
  next
    case MATCH_STATUS_GAME_STARTED
    have game: "game_ok (active_games S1 ! i)" if "find_game_by_player_fd f S1 = Some i" for i
      using find_game_SomeD(4) [OF ok1 that] .
    have news: "message_ok (match_started gid t name (active_games S1 ! i))"
      if "find_game_by_player_fd f S1 = Some i" "team_known t" "length name < 64" for i gid t name
      using that seconds_of_game [OF game [OF that(1)]] game [OF that(1)]
      by (simp add: message_ok_def match_started_def game_ok_def c_div_nonneg)
    have names: "length (white_player_id (active_games S1 ! i)) < 64" "length (black_player_id (active_games S1 ! i)) < 64"
      if "find_game_by_player_fd f S1 = Some i" for i
      using game [OF that] by (simp_all add: game_ok_def)
    have teams: "team_known (mr_assigned_team res)" "length (or_else (mr_opponent_name res) []) < 64"
      using added(2,3) MATCH_STATUS_GAME_STARTED by simp_all
    have other: "team_known TEAM__TEAM_WHITE" "team_known TEAM__TEAM_BLACK"
      by (simp_all add: team_known_def)
    show ?thesis
      using assms(2) q res MATCH_STATUS_GAME_STARTED added(1) news names teams other
      by (auto simp: handle_match_game_message_def send_out Let_def sends_ok_def
          split: option.splits if_splits)
  qed
qed

lemma disconnect_sends:
  assumes "server_ok S"
  shows "sends_ok S (snd (handle_player_disconnect net f S))"
proof -
  have "length (white_player_id (active_games S ! i)) < 64 \<and> length (black_player_id (active_games S ! i)) < 64"
    if "find_index (plays f) (active_games S) = Some i" for i
    using find_game_SomeD(4) [OF assms, of f i] that by (simp add: game_ok_def find_game_by_player_fd_def)
  then show ?thesis
    by (auto simp: handle_player_disconnect_def send_to_def Let_def message_ok_def team_known_def game_drop_def
        wait_drop_def sends_ok_def split: option.splits)
qed

lemma timer_sends:
  assumes "server_ok S"
  shows "sends_ok S (check_game_timeouts net now S)"
proof (rule sends_ok_append)
  show "outbox (check_game_timeouts net now S) = outbox S @ concat (map (timeout_messages now) (active_games S))"
    by (simp add: check_game_timeouts_eq [OF server_okD(5) [OF assms]])
  have "list_all (\<lambda>p. message_ok (snd p)) (timeout_messages now g)" if "g \<in> set (active_games S)" for g
    using server_okD(3) [OF assms that]
    by (auto simp: timeout_messages_def timeout_message_def message_ok_def game_ok_def due_def)
  then show "list_all (\<lambda>p. message_ok (snd p)) (concat (map (timeout_messages now) (active_games S)))"
    by (auto simp: list_all_iff)
qed

lemma dispatch_sends:
  assumes "server_ok S" "dispatch_client_message net mclk vclk f msg S = Some (r, S')"
  shows "sends_ok S S'"
  using assms(2)
  by (cases msg) (auto simp: dispatch_client_message_def
      dest: ping_echo_sends cancel_sends chat_sends [OF assms(1)] resign_sends unknown_sends
        move_sends [OF assms(1)] match_sends [OF assms(1)])

lemma handle_client_sends:
  assumes "server_ok S" "handle_client_message net mclk vclk f received S = Some (closed, S')"
  shows "sends_ok S S'"
proof (cases received)
  case None
  with assms disconnect_sends show ?thesis by (auto simp: handle_client_message_def)
next
  case (Some msg)
  then obtain r S1 where d: "dispatch_client_message net mclk vclk f msg S = Some (r, S1)"
    using assms(2) by (auto simp: handle_client_message_def split: option.splits)
  note s1 = dispatch_sends [OF assms(1) d]
  have "S' = (if r < 0 then snd (send_error_response net f (- r)
      ''An error occurred while processing the request'' S1) else S1)"
    using assms(2) Some d by (auto simp: handle_client_message_def split: if_splits)
  then show ?thesis using s1 sends_ok_trans [OF s1 sends_ok_error] by (cases "r < 0") simp_all
qed

lemma step_sends: "server_step net Y Y' \<Longrightarrow> server_ok (srv Y) \<Longrightarrow> sends_ok (srv Y) (srv Y')"
  by (induction rule: server_step.induct)
    (auto simp: process_event_def timer_pass_def intro: timer_sends sending
      dest: handle_client_sends split: ready.splits option.splits if_splits)

text \<open>
  C17: every message the server ever sends is well formed: a move names two squares of the board, the
  clocks are between 0 and 600 seconds, a winner is named exactly for a mate (and always for a lost
  connection, a timeout or a resignation), a side is named as checked exactly when there is check,
  and the names fit the arrays they came from. The announcement of check alone is never sent.
\<close>

theorem server_messages_wf:
  assumes "reachable net Y" "(f, msg) \<in> set (outbox (srv Y))"
  shows "message_ok msg"
proof -
  have "list_all (\<lambda>p. message_ok (snd p)) (outbox (srv Y))"
    using assms(1)
  proof (induction rule: reachable.induct)
    case start
    show ?case by (simp add: boot_system_def boot_fields)
  next
    case (step Y Y')
    from step_sends [OF step.hyps(2) reachable_ok [OF step.hyps(1)]] step.IH show ?case
      by (auto simp: sends_ok_def)
  qed
  with assms(2) show ?thesis by (auto simp: list_all_iff)
qed

theorem server_messages_wf_witness:
  "\<exists>Y m. reachable fine Y \<and> (7, SM_MATCH_GAME_RES m) \<in> set (outbox (srv Y)) \<and> message_ok (SM_MATCH_GAME_RES m)"
proof -
  obtain Y m where "reachable fine Y" "(7, SM_MATCH_GAME_RES m) \<in> set (outbox (srv Y))"
    using two_players_meet by metis
  with server_messages_wf show ?thesis by blast
qed

end
