(* ===== verification/Locks.thy ===== *)
theory Locks
  imports Simulation
begin

text \<open>
  Threads that share mutexes. A function of the program is represented by what it does to mutexes:
  which it locks and unlocks, in which order, on which branches, in which loops, with its calls, its
  early returns and the calls of \<open>exit\<close>. Conditions are left open, so a program here has every run
  the function has. The mutexes are those of \<open>PTHREAD_MUTEX_INITIALIZER\<close>: not recursive, so that a
  thread that locks one it holds waits for ever.

  A discipline that rules out deadlock is checked on the programs: a mutex is locked only while the
  mutexes held rank below it, unlocked only by its holder, every branch and every turn of a loop leave
  the same mutexes held, and a thread is joined while nothing is held. The locale \<open>ranked_threads\<close> is
  the interface: threads that pass the check never deadlock and never share a mutex.
\<close>

datatype 'l code =
    Skip
  | Lock 'l
  | Unlock 'l
  | TryLock 'l "'l code" "'l code"
  | Seq "'l code" "'l code"
  | Either "'l code" "'l code"
  | Loop "'l code"
  | Call "'l code"
  | Return
  | Exit "'l code"
  | Cancel nat
  | Join nat

text \<open>
  \<open>TryLock l p q\<close> runs \<open>p\<close> if it got the mutex and \<open>q\<close> if it did not. \<open>Loop p\<close> runs \<open>p\<close> any number of
  times; a body that breaks or continues is a \<open>Call\<close> that returns. \<open>Exit p\<close> runs \<open>p\<close> and does not come
  back. \<open>Cancel j\<close> stops thread \<open>j\<close> where it is (asynchronous cancellation), \<open>Join j\<close> waits for its end.
\<close>

definition block :: "'l code list \<Rightarrow> 'l code" where
  "block ps = foldr Seq ps Skip"

definition optional :: "'l code \<Rightarrow> 'l code" where
  "optional p = Either p Skip"

fun one_of :: "'l code list \<Rightarrow> 'l code" where
  "one_of [] = Skip"
| "one_of [p] = p"
| "one_of (p # ps) = Either p (one_of ps)"

text \<open>A thread is a stack of frames, each what is left of a function, and the mutexes it holds.\<close>

record 'l thread =
  frames :: "'l code list list"
  held :: "'l list"

record 'l threads =
  ths :: "'l thread list"
  cancelled :: bool

definition new_thread :: "'l code \<Rightarrow> 'l thread" where
  "new_thread p = \<lparr>frames = [[p]], held = []\<rparr>"

definition start_threads :: "'l code list \<Rightarrow> 'l threads" where
  "start_threads ps = \<lparr>ths = map new_thread ps, cancelled = False\<rparr>"

definition ended :: "'l thread \<Rightarrow> bool" where
  "ended t = (frames t = [])"

definition unlocked :: "'l thread list \<Rightarrow> 'l \<Rightarrow> bool" where
  "unlocked ts l = (\<forall>t\<in>set ts. l \<notin> set (held t))"

definition joinable :: "'l thread list \<Rightarrow> nat \<Rightarrow> bool" where
  "joinable ts j = (j < length ts \<longrightarrow> ended (ts ! j))"

fun moves :: "'l thread list \<Rightarrow> 'l code list list \<Rightarrow> 'l list \<Rightarrow> 'l thread list" where
  "moves ts [] h = []"
| "moves ts ([] # fs) h = [\<lparr>frames = fs, held = h\<rparr>]"
| "moves ts ((Skip # cs) # fs) h = [\<lparr>frames = cs # fs, held = h\<rparr>]"
| "moves ts ((Lock l # cs) # fs) h =
    (if unlocked ts l then [\<lparr>frames = cs # fs, held = l # h\<rparr>] else [])"
| "moves ts ((Unlock l # cs) # fs) h = [\<lparr>frames = cs # fs, held = remove1 l h\<rparr>]"
| "moves ts ((TryLock l p q # cs) # fs) h =
    (if unlocked ts l then [\<lparr>frames = (p # cs) # fs, held = l # h\<rparr>] else [\<lparr>frames = (q # cs) # fs, held = h\<rparr>])"
| "moves ts ((Seq p q # cs) # fs) h = [\<lparr>frames = (p # q # cs) # fs, held = h\<rparr>]"
| "moves ts ((Either p q # cs) # fs) h =
    [\<lparr>frames = (p # cs) # fs, held = h\<rparr>, \<lparr>frames = (q # cs) # fs, held = h\<rparr>]"
| "moves ts ((Loop p # cs) # fs) h =
    [\<lparr>frames = cs # fs, held = h\<rparr>, \<lparr>frames = (p # Loop p # cs) # fs, held = h\<rparr>]"
| "moves ts ((Call p # cs) # fs) h = [\<lparr>frames = [p] # cs # fs, held = h\<rparr>]"
| "moves ts ((Return # cs) # fs) h = [\<lparr>frames = fs, held = h\<rparr>]"
| "moves ts ((Exit p # cs) # fs) h = [\<lparr>frames = [[p]], held = h\<rparr>]"
| "moves ts ((Cancel j # cs) # fs) h = [\<lparr>frames = cs # fs, held = h\<rparr>]"
| "moves ts ((Join j # cs) # fs) h = (if joinable ts j then [\<lparr>frames = cs # fs, held = h\<rparr>] else [])"

fun cancels :: "'l code list list \<Rightarrow> nat option" where
  "cancels ((Cancel j # cs) # fs) = Some j"
| "cancels fs = None"

definition after_move :: "nat \<Rightarrow> 'l threads \<Rightarrow> 'l thread \<Rightarrow> 'l threads" where
  "after_move i s t = (case cancels (frames (ths s ! i)) of
      None \<Rightarrow> s\<lparr>ths := (ths s)[i := t]\<rparr>
    | Some j \<Rightarrow> s\<lparr>ths := ((ths s)[i := t])[j := ((ths s)[i := t] ! j)\<lparr>frames := []\<rparr>], cancelled := True\<rparr>)"

definition next_of :: "'l threads \<Rightarrow> nat \<Rightarrow> 'l threads list" where
  "next_of s i = (if i < length (ths s)
    then List.map (after_move i s) (moves (ths s) (frames (ths s ! i)) (held (ths s ! i))) else [])"

inductive thread_step :: "'l threads \<Rightarrow> 'l threads \<Rightarrow> bool" where
  "s' \<in> set (next_of s i) \<Longrightarrow> thread_step s s'"

inductive run_of :: "'l code list \<Rightarrow> 'l threads \<Rightarrow> bool" for ps where
  run_start: "run_of ps (start_threads ps)"
| run_step: "run_of ps s \<Longrightarrow> thread_step s s' \<Longrightarrow> run_of ps s'"

text \<open>A signal handler runs on top of what the thread was doing.\<close>

definition interrupt :: "nat \<Rightarrow> 'l code \<Rightarrow> 'l threads \<Rightarrow> 'l threads" where
  "interrupt i p s = s\<lparr>ths := (ths s)[i := (ths s ! i)\<lparr>frames := [p] # frames (ths s ! i)\<rparr>]\<rparr>"

definition deadlocked :: "'l threads \<Rightarrow> bool" where
  "deadlocked s = ((\<exists>t\<in>set (ths s). \<not> ended t) \<and> (\<forall>i<length (ths s). next_of s i = []))"

section \<open>The discipline\<close>

text \<open>
  The check follows the code with the mutexes held. Its result has the mutexes held where the code ends
  and where it returns; None where it does neither.
\<close>

type_synonym 'l outcome = "'l list option \<times> 'l list option"

fun agree :: "'l list option \<Rightarrow> 'l list option \<Rightarrow> 'l list option option" where
  "agree None x = Some x"
| "agree x None = Some x"
| "agree (Some a) (Some b) = (if a = b then Some (Some a) else None)"

definition both :: "'l outcome \<Rightarrow> 'l outcome \<Rightarrow> 'l outcome option" where
  "both x y = (case (agree (fst x) (fst y), agree (snd x) (snd y)) of
      (Some a, Some b) \<Rightarrow> Some (a, b) | _ \<Rightarrow> None)"

primrec follow :: "('l \<Rightarrow> nat) \<Rightarrow> nat \<Rightarrow> 'l code \<Rightarrow> 'l list \<Rightarrow> 'l outcome option" where
  "follow r me Skip h = Some (Some h, None)"
| "follow r me (Lock l) h = (if \<forall>x\<in>set h. r x < r l then Some (Some (l # h), None) else None)"
| "follow r me (Unlock l) h = (if l \<in> set h then Some (Some (remove1 l h), None) else None)"
| "follow r me (TryLock l p q) h = (case (follow r me p (l # h), follow r me q h) of
      (Some x, Some y) \<Rightarrow> both x y | _ \<Rightarrow> None)"
| "follow r me (Seq p q) h = (case follow r me p h of
      None \<Rightarrow> None
    | Some (None, b) \<Rightarrow> Some (None, b)
    | Some (Some a, b) \<Rightarrow> (case follow r me q a of None \<Rightarrow> None | Some y \<Rightarrow> both (None, b) y))"
| "follow r me (Either p q) h = (case (follow r me p h, follow r me q h) of
      (Some x, Some y) \<Rightarrow> both x y | _ \<Rightarrow> None)"
| "follow r me (Loop p) h = (case follow r me p h of
      None \<Rightarrow> None | Some (a, b) \<Rightarrow> if a = None \<or> a = Some h then Some (Some h, b) else None)"
| "follow r me (Call p) h = (case follow r me p h of
      None \<Rightarrow> None | Some (a, b) \<Rightarrow> (case agree a b of None \<Rightarrow> None | Some c \<Rightarrow> Some (c, None)))"
| "follow r me Return h = Some (None, Some h)"
| "follow r me (Exit p) h = (case follow r me p h of
      None \<Rightarrow> None | Some (a, b) \<Rightarrow>
        if (a = None \<or> a = Some []) \<and> (b = None \<or> b = Some []) then Some (None, None) else None)"
| "follow r me (Cancel j) h = Some (None, None)"
| "follow r me (Join j) h = (if h = [] \<and> me < j then Some (Some h, None) else None)"

definition disciplined :: "('l \<Rightarrow> nat) \<Rightarrow> nat \<Rightarrow> 'l code \<Rightarrow> bool" where
  "disciplined r i p = (case follow r i (Call p) [] of
      None \<Rightarrow> False | Some (a, b) \<Rightarrow> a = None \<or> a = Some [])"

text \<open>
  The same discipline as a condition on what follows: \<open>safe r i p K R h\<close> holds if code \<open>p\<close> of thread \<open>i\<close>,
  started with the mutexes \<open>h\<close>, keeps the discipline and reaches its end under \<open>K\<close> and a return under \<open>R\<close>.
\<close>

primrec safe :: "('l \<Rightarrow> nat) \<Rightarrow> nat \<Rightarrow> 'l code \<Rightarrow> ('l list \<Rightarrow> bool) \<Rightarrow> ('l list \<Rightarrow> bool) \<Rightarrow> 'l list \<Rightarrow> bool" where
  "safe r i Skip K R h = K h"
| "safe r i (Lock l) K R h = ((\<forall>x\<in>set h. r x < r l) \<and> K (l # h))"
| "safe r i (Unlock l) K R h = (l \<in> set h \<and> K (remove1 l h))"
| "safe r i (TryLock l p q) K R h = (safe r i p K R (l # h) \<and> safe r i q K R h)"
| "safe r i (Seq p q) K R h = safe r i p (safe r i q K R) R h"
| "safe r i (Either p q) K R h = (safe r i p K R h \<and> safe r i q K R h)"
| "safe r i (Loop p) K R h = (K h \<and> safe r i p (\<lambda>h'. h' = h) R h)"
| "safe r i (Call p) K R h = safe r i p K K h"
| "safe r i Return K R h = R h"
| "safe r i (Exit p) K R h = safe r i p (\<lambda>h'. h' = []) (\<lambda>h'. h' = []) h"
| "safe r i (Cancel j) K R h = True"
| "safe r i (Join j) K R h = (h = [] \<and> i < j \<and> K h)"

lemma safe_mono:
  "safe r i p K R h \<Longrightarrow> (\<And>h. K h \<Longrightarrow> K' h) \<Longrightarrow> (\<And>h. R h \<Longrightarrow> R' h) \<Longrightarrow> safe r i p K' R' h"
proof (induction p arbitrary: K R K' R' h)
  case (Seq p q)
  have "safe r i p (safe r i q K R) R h" using Seq.prems(1) by simp
  then have "safe r i p (safe r i q K' R') R' h"
    by (rule Seq.IH(1)) (blast intro: Seq.IH(2) Seq.prems(2,3))+
  then show ?case by simp
next
  case (TryLock l p q)
  then show ?case by (auto intro: TryLock.IH)
next
  case (Either p q)
  then show ?case by (auto intro: Either.IH)
next
  case (Loop p)
  then show ?case by (auto intro: Loop.IH)
next
  case (Call p)
  then show ?case by (auto intro: Call.IH)
qed auto

lemma agree_some: "agree x y = Some z \<Longrightarrow> (x = None \<or> x = z) \<and> (y = None \<or> y = z)"
  by (cases "(x, y)" rule: agree.cases) (auto split: if_splits)

lemma both_some:
  assumes "both (a, b) (c, d) = Some (x, y)"
  shows "(a = None \<or> a = x) \<and> (b = None \<or> b = y) \<and> (c = None \<or> c = x) \<and> (d = None \<or> d = y)"
  using assms by (auto simp: both_def split: option.splits dest!: agree_some)

definition meets :: "'l list option \<Rightarrow> ('l list \<Rightarrow> bool) \<Rightarrow> bool" where
  "meets a K = (\<forall>h. a = Some h \<longrightarrow> K h)"

lemma meets_simps [simp]: "meets None K" "meets (Some h) K = K h"
  by (auto simp: meets_def)

lemma meets_both:
  "both (a, b) (c, d) = Some (x, y) \<Longrightarrow> meets x K \<Longrightarrow> meets y R \<Longrightarrow>
   meets a K \<and> meets b R \<and> meets c K \<and> meets d R"
  using both_some by (fastforce simp: meets_def)

lemma follow_safe:
  "follow r i p h = Some (a, b) \<Longrightarrow> meets a K \<Longrightarrow> meets b R \<Longrightarrow> safe r i p K R h"
proof (induction p arbitrary: h a b K R)
  case (TryLock l p q)
  then obtain x y u v where pq: "follow r i p (l # h) = Some (x, y)" "follow r i q h = Some (u, v)"
    and b: "both (x, y) (u, v) = Some (a, b)" by (auto split: option.splits)
  with meets_both [OF b TryLock.prems(2,3)] TryLock.IH show ?case by simp
next
  case (Either p q)
  then obtain x y u v where pq: "follow r i p h = Some (x, y)" "follow r i q h = Some (u, v)"
    and b: "both (x, y) (u, v) = Some (a, b)" by (auto split: option.splits)
  with meets_both [OF b Either.prems(2,3)] Either.IH show ?case by simp
next
  case (Seq p q)
  then consider y where "follow r i p h = Some (None, y)" "a = None" "b = y"
    | x y u v where "follow r i p h = Some (Some x, y)" "follow r i q x = Some (u, v)"
        "both (None, y) (u, v) = Some (a, b)"
    by (auto split: option.splits prod.splits)
  then show ?case
  proof cases
    case 1
    with Seq.prems show ?thesis by (auto intro: Seq.IH(1))
  next
    case 2
    with meets_both [OF 2(3) Seq.prems(2,3)] have "safe r i q K R x" by (auto intro: Seq.IH(2))
    with 2 meets_both [OF 2(3) Seq.prems(2,3)] show ?thesis by (auto intro: Seq.IH(1))
  qed
next
  case (Loop p)
  then show ?case by (auto split: option.splits prod.splits if_splits intro!: Loop.IH)
next
  case (Call p)
  then obtain x y where xy: "follow r i p h = Some (x, y)" "agree x y = Some a"
    by (auto split: option.splits prod.splits)
  from agree_some [OF this(2)] Call.prems(2) have "meets x K" "meets y K" by auto
  with xy Call.IH show ?case by simp
next
  case (Exit p)
  then obtain x y where "follow r i p h = Some (x, y)" "x = None \<or> x = Some []" "y = None \<or> y = Some []"
    by (auto split: option.splits prod.splits if_splits)
  with Exit.IH show ?case by auto
qed (auto split: if_splits)

lemma disciplined_safe: "disciplined r i p \<Longrightarrow> safe r i p (\<lambda>h. h = []) (\<lambda>h. h = []) []"
  unfolding disciplined_def
  using follow_safe [of r i "Call p" "[]" _ _ "\<lambda>h. h = []"] follow.simps(8) [of r i p "[]"]
  by (auto split: option.splits prod.splits simp del: follow.simps)

section \<open>Threads that keep the discipline\<close>

primrec safe_list :: "('l \<Rightarrow> nat) \<Rightarrow> nat \<Rightarrow> 'l code list \<Rightarrow> ('l list \<Rightarrow> bool) \<Rightarrow> ('l list \<Rightarrow> bool) \<Rightarrow> 'l list \<Rightarrow> bool" where
  "safe_list r i [] K R = K"
| "safe_list r i (c # cs) K R = safe r i c (safe_list r i cs K R) R"

primrec safe_frames :: "('l \<Rightarrow> nat) \<Rightarrow> nat \<Rightarrow> 'l code list list \<Rightarrow> 'l list \<Rightarrow> bool" where
  "safe_frames r i [] = (\<lambda>h. h = [])"
| "safe_frames r i (cs # fs) = safe_list r i cs (safe_frames r i fs) (safe_frames r i fs)"

lemma safe_loop:
  assumes "K h" "safe r i p (\<lambda>h'. h' = h) R h"
  shows "safe r i p (safe r i (Loop p) K R) R h"
  by (rule safe_mono [OF assms(2)]) (use assms in auto)

lemma moves_safe:
  "safe_frames r i fs h \<Longrightarrow> t \<in> set (moves ts fs h) \<Longrightarrow> cancels fs = None \<Longrightarrow>
   safe_frames r i (frames t) (held t)"
  by (cases "(ts, fs, h)" rule: moves.cases)
    (auto split: if_splits intro: safe_loop)

lemma moves_blocked:
  "moves ts fs h = [] \<Longrightarrow> fs \<noteq> [] \<Longrightarrow>
   (\<exists>l cs gs. fs = (Lock l # cs) # gs \<and> \<not> unlocked ts l) \<or>
   (\<exists>j cs gs. fs = (Join j # cs) # gs \<and> \<not> joinable ts j)"
  by (cases "(ts, fs, h)" rule: moves.cases) (auto split: if_splits)

lemma moves_held:
  "t \<in> set (moves ts fs h) \<Longrightarrow>
   set (held t) \<subseteq> set h \<and> (distinct h \<longrightarrow> distinct (held t)) \<or>
   (\<exists>l. held t = l # h \<and> unlocked ts l)"
  by (cases "(ts, fs, h)" rule: moves.cases) (auto split: if_splits dest: set_remove1_subset [THEN subsetD])

definition exclusive :: "'l thread list \<Rightarrow> bool" where
  "exclusive ts = (\<forall>i<length ts. distinct (held (ts ! i)) \<and>
     (\<forall>j<length ts. i \<noteq> j \<longrightarrow> set (held (ts ! i)) \<inter> set (held (ts ! j)) = {}))"

lemma exclusive_update:
  assumes "exclusive ts" "i < length ts"
    and "set (held t) \<subseteq> set (held (ts ! i)) \<and> distinct (held t) \<or> (\<exists>l. held t = l # held (ts ! i) \<and> unlocked ts l)"
  shows "exclusive (ts[i := t])"
  using assms unfolding exclusive_def unlocked_def
  by (auto simp: nth_list_update all_set_conv_all_nth) blast+

lemma exclusive_frames: "exclusive (ts[j := (ts ! j)\<lparr>frames := fs\<rparr>]) = exclusive ts"
proof (cases "j < length ts")
  case True
  then have "held (ts[j := (ts ! j)\<lparr>frames := fs\<rparr>] ! i) = held (ts ! i)" for i
    by (cases "i = j") auto
  then show ?thesis by (simp add: exclusive_def)
qed (simp add: list_update_beyond)

lemma exclusive_step:
  assumes "thread_step s s'" "exclusive (ths s)" shows "exclusive (ths s')"
proof -
  from assms(1) obtain i t where i: "i < length (ths s)"
    and t: "t \<in> set (moves (ths s) (frames (ths s ! i)) (held (ths s ! i)))" and s': "s' = after_move i s t"
    by (auto simp: next_of_def elim!: thread_step.cases split: if_splits)
  have e: "exclusive ((ths s)[i := t])"
    using assms(2) i moves_held [OF t] by (intro exclusive_update) (auto simp: exclusive_def)
  show ?thesis
  proof (cases "cancels (frames (ths s ! i))")
    case None
    with e s' show ?thesis by (simp add: after_move_def)
  next
    case (Some j)
    with e s' show ?thesis by (simp add: after_move_def exclusive_frames)
  qed
qed

locale ranked_threads =
  fixes rank :: "'l \<Rightarrow> nat" and progs :: "'l code list"
  assumes checked: "i < length progs \<Longrightarrow> disciplined rank i (progs ! i)"
begin

definition kept :: "'l threads \<Rightarrow> bool" where
  "kept s = (length (ths s) = length progs \<and>
     (\<not> cancelled s \<longrightarrow> (\<forall>i<length progs. safe_frames rank i (frames (ths s ! i)) (held (ths s ! i)))))"

lemma start_kept: "kept (start_threads progs)"
  by (auto simp: kept_def start_threads_def new_thread_def intro: disciplined_safe checked)

lemma step_kept:
  assumes "thread_step s s'" "kept s" shows "kept s'"
proof -
  from assms(1) obtain i t where i: "i < length (ths s)"
    and t: "t \<in> set (moves (ths s) (frames (ths s ! i)) (held (ths s ! i)))" and s': "s' = after_move i s t"
    by (auto simp: next_of_def elim!: thread_step.cases split: if_splits)
  show ?thesis
  proof (cases "cancels (frames (ths s ! i))")
    case None
    with moves_safe [OF _ t] assms(2) i s' show ?thesis
      by (auto simp: kept_def after_move_def nth_list_update)
  next
    case (Some j)
    with assms(2) s' show ?thesis by (simp add: kept_def after_move_def)
  qed
qed

lemma run_kept: "run_of progs s \<Longrightarrow> kept s"
  by (induction rule: run_of.induct) (auto intro: start_kept step_kept)

lemma run_exclusive: "run_of progs s \<Longrightarrow> exclusive (ths s)"
proof (induction rule: run_of.induct)
  case run_start
  then show ?case by (simp add: start_threads_def new_thread_def exclusive_def)
next
  case (run_step s s')
  then show ?case by (blast intro: exclusive_step)
qed

text \<open>The holder of a mutex of the highest rank held is not waiting for a mutex, nor for a thread.\<close>

lemma top_holder_moves:
  assumes "kept s" "\<not> cancelled s" and i: "i < length (ths s)" and l: "l \<in> set (held (ths s ! i))"
    and top: "\<And>j m. j < length (ths s) \<Longrightarrow> m \<in> set (held (ths s ! j)) \<Longrightarrow> rank m \<le> rank l"
  shows "next_of s i \<noteq> []"
proof
  assume "next_of s i = []"
  with i have m: "moves (ths s) (frames (ths s ! i)) (held (ths s ! i)) = []" by (simp add: next_of_def)
  have safe: "safe_frames rank i (frames (ths s ! i)) (held (ths s ! i))"
    using assms(1,2) i by (simp add: kept_def)
  with l have "frames (ths s ! i) \<noteq> []" by auto
  from moves_blocked [OF m this] show False
  proof (elim disjE exE conjE)
    fix k cs gs assume "frames (ths s ! i) = (Lock k # cs) # gs" "\<not> unlocked (ths s) k"
    with safe l have "rank l < rank k" by auto
    moreover from \<open>\<not> unlocked (ths s) k\<close> obtain j where "j < length (ths s)" "k \<in> set (held (ths s ! j))"
      unfolding unlocked_def by (metis in_set_conv_nth)
    ultimately show False using top by fastforce
  next
    fix j cs gs assume "frames (ths s ! i) = (Join j # cs) # gs"
    with safe l show False by auto
  qed
qed

text \<open>If nothing is held, the last thread that has not ended waits for none.\<close>

lemma last_thread_moves:
  assumes "kept s" "\<not> cancelled s" and i: "i < length (ths s)" "\<not> ended (ths s ! i)"
    and last: "\<And>j. i < j \<Longrightarrow> j < length (ths s) \<Longrightarrow> ended (ths s ! j)"
    and free: "\<And>l. unlocked (ths s) l"
  shows "next_of s i \<noteq> []"
proof
  assume "next_of s i = []"
  with i have m: "moves (ths s) (frames (ths s ! i)) (held (ths s ! i)) = []" by (simp add: next_of_def)
  have safe: "safe_frames rank i (frames (ths s ! i)) (held (ths s ! i))"
    using assms(1,2) i by (simp add: kept_def)
  from i(2) have "frames (ths s ! i) \<noteq> []" by (simp add: ended_def)
  from moves_blocked [OF m this] free obtain j cs gs
    where "frames (ths s ! i) = (Join j # cs) # gs" "\<not> joinable (ths s) j" by blast
  with safe last show False by (auto simp: joinable_def)
qed

theorem no_deadlock:
  assumes "run_of progs s" "\<not> cancelled s" shows "\<not> deadlocked s"
proof
  assume d: "deadlocked s"
  then have stuck: "next_of s i = []" if "i < length (ths s)" for i using that by (simp add: deadlocked_def)
  from assms(1) have k: "kept s" by (rule run_kept)
  let ?H = "\<Union>t\<in>set (ths s). set (held t)"
  show False
  proof (cases "?H = {}")
    case True
    from d obtain i where i: "i < length (ths s)" "\<not> ended (ths s ! i)"
      by (auto simp: deadlocked_def in_set_conv_nth)
    let ?U = "{i. i < length (ths s) \<and> \<not> ended (ths s ! i)}"
    have "Max ?U \<in> ?U" using i by (intro Max_in) auto
    moreover have "ended (ths s ! j)" if "Max ?U < j" "j < length (ths s)" for j
    proof (rule ccontr)
      assume "\<not> ended (ths s ! j)"
      with that have "j \<le> Max ?U" by (intro Max_ge) auto
      with that show False by simp
    qed
    moreover have "unlocked (ths s) l" for l using True by (auto simp: unlocked_def)
    ultimately have "next_of s (Max ?U) \<noteq> []" using last_thread_moves [OF k assms(2)] by blast
    with stuck \<open>Max ?U \<in> ?U\<close> show False by blast
  next
    case False
    have fin: "finite ?H" by auto
    then have "Max (rank ` ?H) \<in> rank ` ?H" using False by (intro Max_in) auto
    then obtain i l where il: "i < length (ths s)" "l \<in> set (held (ths s ! i))" "rank l = Max (rank ` ?H)"
      by (fastforce simp: in_set_conv_nth)
    have "rank m \<le> rank l" if "j < length (ths s)" "m \<in> set (held (ths s ! j))" for j m
    proof -
      from that have "m \<in> ?H" using nth_mem by blast
      with fin il(3) show ?thesis by (simp add: Max_ge)
    qed
    with top_holder_moves [OF k assms(2) il(1,2)] stuck il(1) show False by blast
  qed
qed

end

section \<open>The mutexes of the program, and the logger\<close>

text \<open>
  The client has \<open>screen_mutex\<close> and \<open>network_mutex\<close>, the server the mutex of the match manager, and both
  the mutex of the logger, which is locked last: it is taken for each line of the log. Where a function
  does nothing with mutexes but write lines of the log, or call functions that do nothing else, it is
  \<open>logs\<close>, any number of them.
\<close>

datatype mutex = screen_mutex | network_mutex | manager_mutex | log_mutex

definition log_message_locks :: "mutex code" where
  "log_message_locks = Call (block [Lock log_mutex, Unlock log_mutex])"

definition logs :: "mutex code" where
  "logs = Loop log_message_locks"

definition logger_init_locks :: "mutex code" where
  "logger_init_locks = Call (block [Lock log_mutex,
     Either
       (block [optional (block [Unlock log_mutex, Return]), Unlock log_mutex, log_message_locks])
       (block [Unlock log_mutex, log_message_locks])])"

definition logger_cleanup_locks :: "mutex code" where
  "logger_cleanup_locks = Call (block [Lock log_mutex, Unlock log_mutex])"

primrec mutex_rank :: "mutex \<Rightarrow> nat" where
  "mutex_rank screen_mutex = 0"
| "mutex_rank network_mutex = 1"
| "mutex_rank manager_mutex = 2"
| "mutex_rank log_mutex = 3"

section \<open>Runs by a schedule\<close>

text \<open>A schedule names at each step the thread that moves and which of its moves it takes.\<close>

fun drive :: "'l threads \<Rightarrow> (nat \<times> nat) list \<Rightarrow> 'l threads option" where
  "drive s [] = Some s"
| "drive s ((i, k) # sch) = (case drop k (next_of s i) of [] \<Rightarrow> None | s' # _ \<Rightarrow> drive s' sch)"

lemma drive_steps: "drive s sch = Some s' \<Longrightarrow> thread_step\<^sup>*\<^sup>* s s'"
proof (induction s sch rule: drive.induct)
  case (2 s i k sch)
  then obtain t r where t: "drop k (next_of s i) = t # r" "drive t sch = Some s'"
    by (auto split: list.splits)
  then have "t \<in> set (drop k (next_of s i))" by simp
  then have "thread_step s t" by (blast intro: thread_step.intros dest: in_set_dropD)
  with 2 t show ?case by (meson converse_rtranclp_into_rtranclp)
qed simp

lemma run_of_steps: "thread_step\<^sup>*\<^sup>* s s' \<Longrightarrow> run_of ps s \<Longrightarrow> run_of ps s'"
  by (induction rule: rtranclp_induct) (auto intro: run_step)

lemma drive_run: "run_of ps s \<Longrightarrow> drive s sch = Some s' \<Longrightarrow> run_of ps s'"
  by (blast intro: run_of_steps drive_steps)

definition leads_to :: "'l threads \<Rightarrow> (nat \<times> nat) list \<Rightarrow> ('l threads \<Rightarrow> bool) \<Rightarrow> bool" where
  "leads_to s sch P = (case drive s sch of None \<Rightarrow> False | Some s' \<Rightarrow> P s')"

lemma leads_to_steps: "leads_to s sch P \<Longrightarrow> \<exists>s'. thread_step\<^sup>*\<^sup>* s s' \<and> P s'"
  by (auto simp: leads_to_def split: option.splits dest: drive_steps)

lemma leads_to_run: "leads_to (start_threads ps) sch P \<Longrightarrow> \<exists>s. run_of ps s \<and> P s"
  using leads_to_steps [of "start_threads ps" sch P] run_of_steps [OF _ run_start] by blast

text \<open>
  Runs of two threads are evaluated by rewriting, one move at a time; a function is unfolded when its
  turn comes (\<open>calls\<close>).
\<close>

named_theorems drive_simps

lemma drive_first [drive_simps]:
  "drive \<lparr>ths = [a, b], cancelled = c\<rparr> ((0, k) # sch) = (case drop k (moves [a, b] (frames a) (held a)) of
     [] \<Rightarrow> None
   | t # _ \<Rightarrow> drive (case cancels (frames a) of None \<Rightarrow> \<lparr>ths = [t, b], cancelled = c\<rparr>
       | Some j \<Rightarrow> after_move 0 \<lparr>ths = [a, b], cancelled = c\<rparr> t) sch)"
  by (auto simp: next_of_def drop_map after_move_def split: list.splits option.splits)

lemma drive_second [drive_simps]:
  "drive \<lparr>ths = [a, b], cancelled = c\<rparr> ((Suc 0, k) # sch) = (case drop k (moves [a, b] (frames b) (held b)) of
     [] \<Rightarrow> None
   | t # _ \<Rightarrow> drive (case cancels (frames b) of None \<Rightarrow> \<lparr>ths = [a, t], cancelled = c\<rparr>
       | Some j \<Rightarrow> after_move 1 \<lparr>ths = [a, b], cancelled = c\<rparr> t) sch)"
  by (auto simp: next_of_def drop_map after_move_def split: list.splits option.splits)

lemma deadlocked_two [drive_simps]:
  "deadlocked \<lparr>ths = [a, b], cancelled = c\<rparr> = ((frames a \<noteq> [] \<or> frames b \<noteq> []) \<and>
     moves [a, b] (frames a) (held a) = [] \<and> moves [a, b] (frames b) (held b) = [])"
  by (auto simp: deadlocked_def ended_def next_of_def less_Suc_eq numeral_eq_Suc)

lemma block_simps [drive_simps]: "block [] = Skip" "block (p # ps) = Seq p (block ps)"
  by (simp_all add: block_def)

lemma calls:
  "c = d \<Longrightarrow> moves ts ((c # cs) # fs) h = moves ts ((d # cs) # fs) h \<and>
   cancels ((c # cs) # fs) = cancels ((d # cs) # fs)"
  by simp

lemmas [drive_simps] = leads_to_def start_threads_def new_thread_def interrupt_def after_move_def
  unlocked_def joinable_def ended_def numeral_eq_Suc calls [OF optional_def] calls [OF log_message_locks_def]
  calls [OF logger_cleanup_locks_def]

end
