(* ===== verification/Client_Locks.thy ===== *)
theory Client_Locks
  imports Locks
begin

text \<open>
  What the functions of the client do to \<open>screen_mutex\<close>, \<open>network_mutex\<close> and the mutex of the logger. Only
  what locks, or calls something that locks, is kept of a function. Each branch, early return and loop
  of a function that matters to the mutexes is there, with its condition open.
\<close>

section \<open>State and requests\<close>

definition add_chat_message_safe_locks :: "mutex code" where
  "add_chat_message_safe_locks = Call (block [Lock screen_mutex, Unlock screen_mutex])"

definition send_chat_message_locks :: "mutex code" where
  "send_chat_message_locks = Call (block [log_message_locks,
     optional (block [log_message_locks, add_chat_message_safe_locks, Return]),
     optional (block [log_message_locks, Return]),
     logs, log_message_locks])"

definition send_move_request_locks :: "mutex code" where
  "send_move_request_locks = Call (block [log_message_locks,
     optional (block [log_message_locks, add_chat_message_safe_locks, Return]),
     optional (block [log_message_locks, Return]),
     optional (block [log_message_locks, add_chat_message_safe_locks, Return]),
     optional (block [log_message_locks, add_chat_message_safe_locks, Return]),
     logs,
     optional (block [log_message_locks, add_chat_message_safe_locks, Return]),
     log_message_locks])"

definition send_resign_request_locks :: "mutex code" where
  "send_resign_request_locks = Call (block [
     optional (block [log_message_locks, Return]),
     log_message_locks, logs,
     optional (block [log_message_locks, add_chat_message_safe_locks, Return]),
     log_message_locks])"

section \<open>Screens, called with \<open>screen_mutex\<close> held\<close>

definition draw_connection_status_locks :: "mutex code" where
  "draw_connection_status_locks = Call (block [Lock network_mutex, Unlock network_mutex])"

definition draw_matching_screen_locks :: "mutex code" where
  "draw_matching_screen_locks =
     Call (block [Lock network_mutex, Unlock network_mutex, draw_connection_status_locks])"

definition draw_main_screen_locks :: "mutex code" where
  "draw_main_screen_locks = Call draw_connection_status_locks"

definition draw_game_screen_locks :: "mutex code" where
  "draw_game_screen_locks = Call (block [logs, draw_connection_status_locks])"

definition draw_current_screen_locks :: "mutex code" where
  "draw_current_screen_locks = Call (block [optional log_message_locks,
     one_of [draw_main_screen_locks, draw_matching_screen_locks, draw_game_screen_locks,
             draw_main_screen_locks]])"

definition locked_draw :: "mutex code" where
  "locked_draw = block [Lock screen_mutex, draw_current_screen_locks, Unlock screen_mutex]"

definition show_dialog_locks :: "mutex code" where
  "show_dialog_locks = Call (block [Lock screen_mutex, Unlock screen_mutex, locked_draw])"

definition handle_terminal_resize_locks :: "mutex code" where
  "handle_terminal_resize_locks =
     Call (block [optional (block [show_dialog_locks, Return]), locked_draw])"

definition show_resign_dialog_locks :: "mutex code" where
  "show_resign_dialog_locks = Call (block [Lock screen_mutex, Unlock screen_mutex, log_message_locks])"

section \<open>Input\<close>

definition handle_board_click_locks :: "mutex code" where
  "handle_board_click_locks = Call (block [
     optional (block [log_message_locks, Return]),
     Lock screen_mutex,
     Either
       (optional (block [
          optional (block [Unlock screen_mutex, add_chat_message_safe_locks, Return]),
          optional (block [Unlock screen_mutex, add_chat_message_safe_locks, Return]),
          Unlock screen_mutex, add_chat_message_safe_locks, Return]))
       (Either
          (block [Unlock screen_mutex, add_chat_message_safe_locks, Return])
          (block [
             optional (block [log_message_locks, Unlock screen_mutex, add_chat_message_safe_locks, Return]),
             Unlock screen_mutex,
             send_move_request_locks,
             Either (block [Lock screen_mutex, Unlock screen_mutex]) add_chat_message_safe_locks,
             Return])),
     Unlock screen_mutex])"

definition handle_mouse_input_locks :: "mutex code" where
  "handle_mouse_input_locks = Call (block [optional (block [logs, Return]), logs,
     optional handle_board_click_locks])"

definition handle_keyboard_board_input_locks :: "mutex code" where
  "handle_keyboard_board_input_locks = Call (block [optional (block [log_message_locks, Return]),
     optional (block [handle_board_click_locks, Return])])"

definition handle_chess_notation_locks :: "mutex code" where
  "handle_chess_notation_locks = Call (block [
     optional (block [log_message_locks, Return]),
     optional Return,
     Either
       (block [
          optional (block [add_chat_message_safe_locks, Return]),
          optional (block [add_chat_message_safe_locks, Return]),
          optional (block [add_chat_message_safe_locks, Return]),
          send_move_request_locks,
          Either Return add_chat_message_safe_locks])
       add_chat_message_safe_locks])"

definition handle_chat_input_locks :: "mutex code" where
  "handle_chat_input_locks = Call (block [
     optional Return,
     one_of [
       block [
         optional (block [
           Either (block [handle_chess_notation_locks, log_message_locks])
                  (block [log_message_locks, send_chat_message_locks]),
           locked_draw]),
         log_message_locks],
       block [log_message_locks, log_message_locks],
       Skip]])"

definition handle_resign_dialog_input_locks :: "mutex code" where
  "handle_resign_dialog_input_locks = Call (one_of [
     block [log_message_locks, Lock screen_mutex, Unlock screen_mutex,
       send_resign_request_locks, add_chat_message_safe_locks],
     block [log_message_locks, Lock screen_mutex, Unlock screen_mutex],
     Skip])"

section \<open>Handlers of messages\<close>

definition handle_ping_response_locks :: "mutex code" where
  "handle_ping_response_locks = Call (block [optional (block [log_message_locks, Return]), log_message_locks])"

definition handle_echo_response_locks :: "mutex code" where
  "handle_echo_response_locks = Call (block [optional Return, optional add_chat_message_safe_locks])"

definition handle_chat_broadcast_locks :: "mutex code" where
  "handle_chat_broadcast_locks = Call (block [optional Return,
     optional (block [add_chat_message_safe_locks, Lock screen_mutex, Unlock screen_mutex])])"

definition handle_error_response_locks :: "mutex code" where
  "handle_error_response_locks = Call (block [optional Return,
     Either (block [log_message_locks, add_chat_message_safe_locks, show_dialog_locks]) log_message_locks])"

definition handle_cancel_match_response_locks :: "mutex code" where
  "handle_cancel_match_response_locks = Call (block [optional (block [log_message_locks, Return]),
     one_of [
       block [log_message_locks, add_chat_message_safe_locks],
       block [log_message_locks, add_chat_message_safe_locks],
       block [log_message_locks, add_chat_message_safe_locks]]])"

definition handle_check_broadcast_locks :: "mutex code" where
  "handle_check_broadcast_locks = Call (block [
     optional (block [log_message_locks, Return]), optional (block [log_message_locks, Return]),
     log_message_locks, Lock screen_mutex, Unlock screen_mutex,
     add_chat_message_safe_locks, log_message_locks])"

definition handle_game_end_broadcast_locks :: "mutex code" where
  "handle_game_end_broadcast_locks = Call (block [optional (block [log_message_locks, Return]),
     log_message_locks, Lock screen_mutex, Unlock screen_mutex, log_message_locks, log_message_locks])"

definition handle_resign_response_locks :: "mutex code" where
  "handle_resign_response_locks = Call (block [optional (block [log_message_locks, Return]),
     log_message_locks,
     Either (block [add_chat_message_safe_locks, log_message_locks])
            (block [add_chat_message_safe_locks, log_message_locks])])"

definition handle_resign_broadcast_locks :: "mutex code" where
  "handle_resign_broadcast_locks = Call (block [optional (block [log_message_locks, Return]),
     log_message_locks,
     Either add_chat_message_safe_locks add_chat_message_safe_locks,
     Lock screen_mutex, logs, Unlock screen_mutex, log_message_locks, log_message_locks])"

definition handle_match_game_response_locks :: "mutex code" where
  "handle_match_game_response_locks = Call (block [optional (block [log_message_locks, Return]),
     one_of [
       log_message_locks,
       block [log_message_locks, log_message_locks, add_chat_message_safe_locks,
         Lock screen_mutex, optional log_message_locks, log_message_locks, Unlock screen_mutex,
         log_message_locks],
       block [log_message_locks, add_chat_message_safe_locks],
       block [log_message_locks, add_chat_message_safe_locks]]])"

definition handle_move_response_locks :: "mutex code" where
  "handle_move_response_locks = Call (block [
     optional (block [log_message_locks, Return]), optional (block [log_message_locks, Return]),
     log_message_locks,
     Either (block [Lock screen_mutex, Unlock screen_mutex])
            (block [add_chat_message_safe_locks, log_message_locks])])"

definition handle_move_broadcast_locks :: "mutex code" where
  "handle_move_broadcast_locks = Call (block [
     optional (block [log_message_locks, Return]), optional (block [log_message_locks, Return]),
     log_message_locks, add_chat_message_safe_locks,
     Either
       (block [log_message_locks, logs,
          Either (block [log_message_locks, optional log_message_locks, Lock screen_mutex, logs,
                    Unlock screen_mutex])
                 (block [log_message_locks, add_chat_message_safe_locks])])
       (block [log_message_locks, add_chat_message_safe_locks]),
     optional log_message_locks,
     optional (block [log_message_locks, add_chat_message_safe_locks, log_message_locks, logs,
       Lock screen_mutex, Unlock screen_mutex])])"

definition dispatch_server_message_locks :: "mutex code" where
  "dispatch_server_message_locks = Call (block [optional (block [log_message_locks, Return]),
     log_message_locks,
     one_of [handle_ping_response_locks, handle_echo_response_locks, handle_match_game_response_locks,
       handle_cancel_match_response_locks, handle_chat_broadcast_locks, handle_game_end_broadcast_locks,
       handle_error_response_locks, handle_move_response_locks, handle_move_broadcast_locks,
       handle_check_broadcast_locks, handle_resign_response_locks, handle_resign_broadcast_locks,
       block [log_message_locks, add_chat_message_safe_locks]]])"

section \<open>The network thread\<close>

definition start_reconnect_locks :: "mutex code" where
  "start_reconnect_locks = Call (block [log_message_locks,
     Lock network_mutex, Unlock network_mutex,
     optional log_message_locks, logs,
     optional (block [log_message_locks, Lock network_mutex, Unlock network_mutex,
       optional log_message_locks, Return]),
     Lock network_mutex, Unlock network_mutex,
     log_message_locks, log_message_locks, logs,
     optional (block [log_message_locks, Lock network_mutex, Unlock network_mutex])])"

definition network_turn_locks :: "mutex code" where
  "network_turn_locks = Call (block [
     optional (Either start_reconnect_locks Return),
     optional Return,
     logs,
     Either
       (block [log_message_locks, Lock network_mutex, Unlock network_mutex,
          Either (block [log_message_locks, Return]) (block [log_message_locks, Return])])
       (block [log_message_locks, dispatch_server_message_locks])])"

definition network_thread_locks :: "mutex code" where
  "network_thread_locks = Call (block [log_message_locks, log_message_locks,
     Loop network_turn_locks,
     log_message_locks, Lock network_mutex, Unlock network_mutex, log_message_locks])"

section \<open>The main thread\<close>

text \<open>Thread 0 is the main thread from the creation of the network thread on, thread 1 the network thread.\<close>

definition cleanup_network_locks :: "mutex code" where
  "cleanup_network_locks = Call (block [log_message_locks, optional log_message_locks,
     Lock network_mutex, Unlock network_mutex,
     optional (block [log_message_locks, log_message_locks, Cancel 1, Join 1, log_message_locks]),
     log_message_locks])"

definition cleanup_and_exit_locks :: "mutex code" where
  "cleanup_and_exit_locks =
     Exit (block [log_message_locks, cleanup_network_locks, logger_cleanup_locks, log_message_locks])"

definition main_key_locks :: "mutex code" where
  "main_key_locks = one_of [
     block [log_message_locks, logs],
     block [log_message_locks, logs],
     block [log_message_locks, cleanup_and_exit_locks],
     Skip]"

definition matching_key_locks :: "mutex code" where
  "matching_key_locks = optional (block [log_message_locks, logs])"

definition game_key_locks :: "mutex code" where
  "game_key_locks = Either handle_resign_dialog_input_locks
     (Either handle_keyboard_board_input_locks
       (block [optional handle_keyboard_board_input_locks,
          one_of [
            optional (block [log_message_locks, show_resign_dialog_locks]),
            block [log_message_locks, add_chat_message_safe_locks],
            block [log_message_locks, logs],
            log_message_locks,
            optional log_message_locks,
            one_of [handle_chat_input_locks, Skip, block [log_message_locks, log_message_locks]],
            optional handle_chat_input_locks]]))"

definition key_input_locks :: "mutex code" where
  "key_input_locks = one_of [
     optional (block [log_message_locks, handle_mouse_input_locks]),
     main_key_locks, matching_key_locks, game_key_locks]"

definition dialog_key_locks :: "mutex code" where
  "dialog_key_locks = optional (block [log_message_locks, Lock screen_mutex, log_message_locks,
     draw_current_screen_locks, Unlock screen_mutex])"

definition dialogs_locks :: "mutex code" where
  "dialogs_locks = block [Lock screen_mutex,
     one_of [
       block [log_message_locks, Unlock screen_mutex, Return],
       block [log_message_locks, Unlock screen_mutex, Return],
       block [log_message_locks, Unlock screen_mutex, Return],
       block [log_message_locks, draw_current_screen_locks, Unlock screen_mutex, Return],
       Unlock screen_mutex]]"

definition main_turn_locks :: "mutex code" where
  "main_turn_locks = Call (block [
     optional (block [log_message_locks, cleanup_and_exit_locks]),
     optional (block [log_message_locks, handle_terminal_resize_locks]),
     Lock screen_mutex, optional log_message_locks, Unlock screen_mutex,
     optional (block [log_message_locks,
       optional (block [log_message_locks, Lock screen_mutex, optional draw_current_screen_locks,
         Unlock screen_mutex])]),
     optional log_message_locks,
     optional (block [log_message_locks, cleanup_and_exit_locks]),
     optional (block [log_message_locks, cleanup_and_exit_locks]),
     Lock screen_mutex, Unlock screen_mutex,
     one_of [dialog_key_locks, key_input_locks, Skip],
     dialogs_locks,
     optional (block [Lock screen_mutex, optional log_message_locks, Unlock screen_mutex]),
     optional (block [Lock screen_mutex, optional draw_current_screen_locks, Unlock screen_mutex]),
     optional (block [Lock screen_mutex,
       Either (block [log_message_locks,
                 Either (block [draw_current_screen_locks, Unlock screen_mutex]) (Unlock screen_mutex)])
              (Unlock screen_mutex)])])"

definition main_thread_locks :: "mutex code" where
  "main_thread_locks = Call (block [log_message_locks, draw_main_screen_locks, locked_draw,
     log_message_locks, Loop main_turn_locks])"

definition handle_sigint_locks :: "mutex code" where
  "handle_sigint_locks = block [log_message_locks,
     TryLock screen_mutex (Unlock screen_mutex) (block [log_message_locks, Exit Skip])]"

definition client_threads :: "mutex code list" where
  "client_threads = [main_thread_locks, network_thread_locks]"

section \<open>The client keeps the discipline\<close>

lemma client_disciplined: "\<forall>i<length client_threads. disciplined mutex_rank i (client_threads ! i)"
  by code_simp

interpretation client: ranked_threads mutex_rank client_threads
  using client_disciplined by unfold_locales blast

text \<open>
  C25: As long as the network thread is not cancelled and no signal is handled, the threads of the
  client never deadlock, and no mutex is held by two threads or twice by one. The conditions of the
  branches are open, so this holds whatever they are; the handlers of signals are not in these runs.
\<close>

theorem client_never_deadlocks:
  assumes "run_of client_threads s" "\<not> cancelled s"
  shows "\<not> deadlocked s \<and> exclusive (ths s)"
  using client.no_deadlock [OF assms] client.run_exclusive [OF assms(1)] by blast

theorem client_never_deadlocks_witness:
  "\<exists>s. drive (start_threads client_threads) [(0, 0), (1, 0), (1, 0), (0, 0), (1, 0), (1, 0), (1, 0)] = Some s \<and>
     held (ths s ! 1) = [log_mutex] \<and> \<not> deadlocked s \<and> exclusive (ths s)"
proof -
  have "leads_to (start_threads client_threads) [(0, 0), (1, 0), (1, 0), (0, 0), (1, 0), (1, 0), (1, 0)]
      (\<lambda>s. \<not> cancelled s \<and> held (ths s ! 1) = [log_mutex])"
    by (simp add: drive_simps client_threads_def calls [OF main_thread_locks_def]
        calls [OF network_thread_locks_def] del: drive.simps(2))
  then obtain s where s: "drive (start_threads client_threads)
      [(0, 0), (1, 0), (1, 0), (0, 0), (1, 0), (1, 0), (1, 0)] = Some s" "\<not> cancelled s"
      "held (ths s ! 1) = [log_mutex]"
    by (auto simp: leads_to_def split: option.splits)
  from drive_run [OF run_start s(1)] client_never_deadlocks [OF _ s(2)] s show ?thesis by blast
qed

section \<open>Where the client hangs\<close>

lemmas client_calls =
  calls [OF main_thread_locks_def] calls [OF draw_main_screen_locks_def]
  calls [OF draw_connection_status_locks_def] calls [OF locked_draw_def]
  calls [OF draw_current_screen_locks_def] calls [OF main_turn_locks_def]
  calls [OF cleanup_and_exit_locks_def] calls [OF cleanup_network_locks_def]
  calls [OF network_thread_locks_def] calls [OF handle_sigint_locks_def]

lemma exit_hangs: "leads_to (start_threads client_threads)
   (replicate 25 (0, 0) @ [(0, 1)] @ replicate 26 (0, 0) @ [(0, 1)] @ replicate 32 (0, 0) @ [(0, 1)] @
    replicate 24 (0, 0) @ replicate 5 (1, 0) @ replicate 6 (0, 0))
   (\<lambda>s. cancelled s \<and> deadlocked s)"
  by (simp add: drive_simps client_threads_def client_calls del: drive.simps(2))

lemma sigint_hangs: "leads_to (start_threads client_threads) (replicate 5 (0, 0)) (\<lambda>s. \<not> cancelled s \<and>
   leads_to (interrupt 0 handle_sigint_locks s) (replicate 3 (0, 0) @ replicate 4 (1, 0)) deadlocked)"
  by (simp add: drive_simps client_threads_def client_calls del: drive.simps(2))

text \<open>
  Where the client may hang when it ends: schedules of the lock programs, whose conditions are open, so
  that they show a place to look at and not by themselves a run of the client. Its exit cancels the network thread where it is: if that is
  while it writes a line of the log, the mutex of the logger stays locked and the main thread waits for
  ever with its next line. And the handler of SIGINT writes to the log: if the signal comes while the
  main thread writes a line, it waits for itself.
\<close>

theorem client_exit_hangs:
  "(\<exists>s. run_of client_threads s \<and> cancelled s \<and> deadlocked s) \<and>
   (\<exists>s s'. run_of client_threads s \<and> \<not> cancelled s \<and>
     thread_step\<^sup>*\<^sup>* (interrupt 0 handle_sigint_locks s) s' \<and> deadlocked s')"
  using leads_to_run [OF exit_hangs] leads_to_run [OF sigint_hangs] leads_to_steps by blast

end
