(* ===== verification/Server_Locks.thy ===== *)
theory Server_Locks
  imports Locks
begin

text \<open>
  What the functions of the server do to the mutex of the match manager and to the mutex of the
  logger, as in \<open>Client_Locks\<close>. Thread 0 is the main thread from the creation of the timer thread on,
  thread 1 the timer thread.
\<close>

section \<open>Match manager\<close>

definition check_game_timeouts_locks :: "mutex code" where
  "check_game_timeouts_locks = Call (block [Lock manager_mutex,
     Loop (Call (block [optional Return, optional Return,
       Either (optional log_message_locks) (optional log_message_locks),
       optional (block [log_message_locks, logs, log_message_locks])])),
     Unlock manager_mutex])"

definition timer_check_thread_locks :: "mutex code" where
  "timer_check_thread_locks =
     Call (block [log_message_locks, Loop check_game_timeouts_locks, log_message_locks])"

definition stop_timer_thread_locks :: "mutex code" where
  "stop_timer_thread_locks = Call (optional (optional (block [Join 1, log_message_locks])))"

definition cleanup_match_manager_locks :: "mutex code" where
  "cleanup_match_manager_locks = Call (block [stop_timer_thread_locks,
     Lock manager_mutex, Unlock manager_mutex, log_message_locks])"

definition add_player_to_matching_locks :: "mutex code" where
  "add_player_to_matching_locks = Call (block [
     optional (block [log_message_locks, Return]),
     Lock manager_mutex,
     Loop (optional (block [log_message_locks,
       Loop (optional (block [log_message_locks, log_message_locks, Unlock manager_mutex, Return])),
       log_message_locks, Unlock manager_mutex, Return])),
     Loop (optional (block [log_message_locks, Unlock manager_mutex, Return])),
     log_message_locks, Unlock manager_mutex])"

definition remove_player_from_matching_locks :: "mutex code" where
  "remove_player_from_matching_locks = Call (block [Lock manager_mutex,
     Loop (optional (block [log_message_locks, Unlock manager_mutex, Return])),
     log_message_locks, Unlock manager_mutex])"

definition find_game_by_player_fd_locks :: "mutex code" where
  "find_game_by_player_fd_locks = Call (block [Lock manager_mutex,
     Loop (optional (block [Unlock manager_mutex, Return])),
     Unlock manager_mutex])"

definition remove_game_locks :: "mutex code" where
  "remove_game_locks = Call (block [optional Return, Lock manager_mutex,
     Loop (optional (block [log_message_locks, Unlock manager_mutex, Return])),
     log_message_locks, Unlock manager_mutex])"

definition handle_player_disconnect_locks :: "mutex code" where
  "handle_player_disconnect_locks = Call (block [Lock manager_mutex,
     Loop (optional (block [log_message_locks, Unlock manager_mutex, Return])),
     Loop (optional (block [log_message_locks, logs, Either log_message_locks log_message_locks,
       log_message_locks, Unlock manager_mutex, Return])),
     log_message_locks, Unlock manager_mutex])"

section \<open>Handlers\<close>

text \<open>The messages are sent with log lines (\<open>network.c\<close>), the errors too.\<close>

definition handle_ping_message_locks :: "mutex code" where
  "handle_ping_message_locks = Call (block [optional (block [log_message_locks, Return]),
     log_message_locks, logs, optional (block [log_message_locks, Return]), log_message_locks])"

definition handle_echo_message_locks :: "mutex code" where
  "handle_echo_message_locks = Call (block [optional (block [log_message_locks, Return]),
     log_message_locks, logs, optional (block [log_message_locks, Return]), log_message_locks])"

definition handle_chat_message_locks :: "mutex code" where
  "handle_chat_message_locks = Call (block [optional (block [log_message_locks, Return]),
     log_message_locks, find_game_by_player_fd_locks,
     optional (block [log_message_locks, Return]),
     logs, optional (block [log_message_locks, Return]),
     logs, optional (block [log_message_locks, Return]),
     log_message_locks])"

definition handle_match_game_message_locks :: "mutex code" where
  "handle_match_game_message_locks = Call (block [
     optional (block [log_message_locks, logs, Return]),
     log_message_locks,
     optional (block [log_message_locks, logs, Return]),
     add_player_to_matching_locks,
     one_of [
       block [log_message_locks, logs],
       block [log_message_locks, find_game_by_player_fd_locks,
         optional (block [log_message_locks, Return]), logs, optional (block [log_message_locks, logs])],
       block [log_message_locks, logs]]])"

definition handle_cancel_match_message_locks :: "mutex code" where
  "handle_cancel_match_message_locks = Call (block [
     optional (block [log_message_locks, logs, Return]),
     log_message_locks,
     optional (block [log_message_locks, logs, Return]),
     remove_player_from_matching_locks,
     Either (block [log_message_locks, logs]) (block [log_message_locks, logs])])"

definition handle_move_message_locks :: "mutex code" where
  "handle_move_message_locks = Call (block [
     optional (block [log_message_locks, Return]), optional (block [log_message_locks, Return]),
     log_message_locks, find_game_by_player_fd_locks,
     optional (block [log_message_locks, logs, Return]),
     optional (block [log_message_locks, logs, Return]),
     optional (block [log_message_locks, logs, Return]),
     optional (block [log_message_locks, logs, Return]),
     optional (block [log_message_locks, logs, Return]),
     optional (block [log_message_locks, logs, Return]),
     log_message_locks,
     Lock manager_mutex, Unlock manager_mutex,
     log_message_locks,
     logs, optional (block [log_message_locks, Return]),
     optional log_message_locks,
     optional log_message_locks,
     logs, optional log_message_locks,
     logs, optional log_message_locks,
     optional remove_game_locks])"

definition handle_resign_message_locks :: "mutex code" where
  "handle_resign_message_locks = Call (block [
     optional (block [log_message_locks, logs, Return]),
     log_message_locks,
     Lock manager_mutex,
     optional (block [Unlock manager_mutex, log_message_locks, logs, Return]),
     logs, optional log_message_locks,
     logs, optional log_message_locks,
     optional (block [logs, optional log_message_locks]),
     Unlock manager_mutex,
     log_message_locks])"

definition handle_unknown_message_locks :: "mutex code" where
  "handle_unknown_message_locks = Call (block [log_message_locks, logs,
     Either log_message_locks log_message_locks])"

definition dispatch_client_message_locks :: "mutex code" where
  "dispatch_client_message_locks = Call (block [optional (block [log_message_locks, Return]),
     log_message_locks,
     one_of (List.map (\<lambda>p. block [log_message_locks, p])
       [handle_ping_message_locks, handle_echo_message_locks, handle_match_game_message_locks,
        handle_cancel_match_message_locks, handle_chat_message_locks, handle_move_message_locks,
        handle_resign_message_locks, handle_unknown_message_locks])])"

section \<open>Event loop and main\<close>

definition handle_client_message_locks :: "mutex code" where
  "handle_client_message_locks = Call (block [logs,
     optional (block [log_message_locks, handle_player_disconnect_locks, Return]),
     dispatch_client_message_locks,
     optional (block [log_message_locks, logs])])"

definition handle_new_connection_locks :: "mutex code" where
  "handle_new_connection_locks = Call (block [
     Loop (Call (block [optional (block [optional log_message_locks, Return]),
       Either log_message_locks log_message_locks])),
     optional log_message_locks])"

definition event_loop_turn_locks :: "mutex code" where
  "event_loop_turn_locks = Call (block [
     optional (block [optional log_message_locks, Return]),
     log_message_locks,
     Loop (one_of [
       block [log_message_locks, handle_new_connection_locks],
       block [log_message_locks, handle_client_message_locks],
       Skip])])"

definition event_loop_locks :: "mutex code" where
  "event_loop_locks = Call (block [log_message_locks, Loop event_loop_turn_locks, log_message_locks])"

definition cleanup_locks :: "mutex code" where
  "cleanup_locks = Call (block [log_message_locks, log_message_locks])"

definition parse_port_from_args_locks :: "mutex code" where
  "parse_port_from_args_locks =
     Call (block [Loop (optional (block [log_message_locks, Exit Skip])), log_message_locks])"

definition create_and_bind_listener_locks :: "mutex code" where
  "create_and_bind_listener_locks = Call (block [
     optional (block [log_message_locks, Exit Skip]), log_message_locks, log_message_locks,
     optional (block [log_message_locks, Exit Skip]), log_message_locks,
     optional (block [log_message_locks, Exit Skip]), log_message_locks, log_message_locks])"

definition setup_epoll_locks :: "mutex code" where
  "setup_epoll_locks = Call (block [optional (block [log_message_locks, Exit Skip]), log_message_locks,
     optional (block [log_message_locks, Exit Skip]), log_message_locks])"

definition server_main_locks :: "mutex code" where
  "server_main_locks = Call (block [log_message_locks, log_message_locks,
     parse_port_from_args_locks, log_message_locks,
     create_and_bind_listener_locks, log_message_locks,
     setup_epoll_locks, log_message_locks, log_message_locks, log_message_locks,
     event_loop_locks,
     cleanup_match_manager_locks, cleanup_locks, logger_cleanup_locks])"

definition cleanup_signal_handler_locks :: "mutex code" where
  "cleanup_signal_handler_locks =
     Call (block [cleanup_match_manager_locks, logger_cleanup_locks, Exit Skip])"

definition server_threads :: "mutex code list" where
  "server_threads = [server_main_locks, timer_check_thread_locks]"

section \<open>The server keeps the discipline\<close>

lemma server_disciplined: "\<forall>i<length server_threads. disciplined mutex_rank i (server_threads ! i)"
  by code_simp

interpretation server_locks: ranked_threads mutex_rank server_threads
  using server_disciplined by unfold_locales blast

text \<open>
  C26: As long as no signal is handled, the event loop and the timer thread never deadlock, and no mutex
  is held by both or twice by one. The conditions of the branches are open; the handlers of signals are
  not in these runs.
\<close>

theorem server_never_deadlocks:
  assumes "run_of server_threads s" "\<not> cancelled s"
  shows "\<not> deadlocked s \<and> exclusive (ths s)"
  using server_locks.no_deadlock [OF assms] server_locks.run_exclusive [OF assms(1)] by blast

lemmas server_calls =
  calls [OF server_main_locks_def] calls [OF parse_port_from_args_locks_def]
  calls [OF create_and_bind_listener_locks_def] calls [OF setup_epoll_locks_def]
  calls [OF event_loop_locks_def] calls [OF event_loop_turn_locks_def]
  calls [OF handle_client_message_locks_def] calls [OF handle_new_connection_locks_def] calls [OF logs_def]
  calls [OF handle_player_disconnect_locks_def] calls [OF timer_check_thread_locks_def]
  calls [OF check_game_timeouts_locks_def] calls [OF cleanup_signal_handler_locks_def]
  calls [OF cleanup_match_manager_locks_def] calls [OF stop_timer_thread_locks_def]

definition to_disconnect :: "(nat \<times> nat) list" where
  "to_disconnect =
     replicate 42 (0, 0) @ [(0, 1)] @ replicate 18 (0, 0) @ [(0, 1)] @ replicate 10 (0, 0) @ [(0, 1)] @
     replicate 30 (0, 0) @ [(0, 1)] @ replicate 10 (0, 0) @ [(0, 1)] @ replicate 46 (0, 0) @ [(0, 1)] @
     replicate 2 (0, 0) @ [(0, 1)] @ replicate 10 (0, 0) @ [(0, 1)] @ replicate 25 (0, 0) @
     replicate 2 (0, 1) @ replicate 28 (0, 0)"

lemma disconnect_runs:
  "leads_to (start_threads server_threads) (to_disconnect @ replicate 10 (1, 0) @ [(1, 1)] @ replicate 2 (1, 0))
     (\<lambda>s. \<not> cancelled s \<and> held (ths s ! 0) = [manager_mutex] \<and> next_of s 1 = [])"
  by (simp add: drive_simps to_disconnect_def next_of_def server_threads_def server_calls del: drive.simps(2))

theorem server_never_deadlocks_witness:
  "\<exists>s. run_of server_threads s \<and> held (ths s ! 0) = [manager_mutex] \<and> next_of s 1 = [] \<and>
     \<not> deadlocked s \<and> exclusive (ths s)"
  using leads_to_run [OF disconnect_runs] server_never_deadlocks by blast

section \<open>Where the server hangs\<close>

lemma signal_hangs:
  "leads_to (start_threads server_threads) to_disconnect (\<lambda>s. \<not> cancelled s \<and>
     leads_to (interrupt 0 cleanup_signal_handler_locks s)
       (replicate 8 (0, 0) @ replicate 10 (1, 0) @ [(1, 1)] @ replicate 2 (1, 0)) deadlocked)"
  by (simp add: drive_simps to_disconnect_def server_threads_def server_calls del: drive.simps(2))

text \<open>
  Where the server may hang when it is told to stop, as a schedule of the lock programs with their open
  conditions: the signal handler joins the timer thread, which
  waits for the mutex that the interrupted handler of a message still holds.
\<close>

theorem server_stop_hangs:
  "\<exists>s s'. run_of server_threads s \<and> \<not> cancelled s \<and>
     thread_step\<^sup>*\<^sup>* (interrupt 0 cleanup_signal_handler_locks s) s' \<and> deadlocked s'"
  using leads_to_run [OF signal_hangs] leads_to_steps by blast

end
