(* ===== verification/Logger.thy ===== *)
theory Logger
  imports Prelude
begin

text \<open>
  \<open>common/logger.h\<close> and \<open>logger.c\<close>: where a line of the log goes and what it says. The state has the two
  static variables and the lines written so far, each with the file or the console; the time, the
  process number and the outcome of \<open>fopen\<close> are arguments, and the message is the result of its format.
\<close>

datatype log_level_t = LOG_DEBUG | LOG_INFO | LOG_WARN | LOG_ERROR | LOG_FATAL
datatype log_output_type_t = LOG_OUTPUT_FILE | LOG_OUTPUT_CONSOLE
datatype log_sink = LOG_TO_FILE string | LOG_TO_CONSOLE

record logger_t =
  log_file :: "string option"
  output_type :: log_output_type_t
  log_lines :: "(log_sink \<times> string) list"

fun log_level_string :: "log_level_t \<Rightarrow> string" where
  "log_level_string LOG_DEBUG = ''DEBUG''"
| "log_level_string LOG_INFO = ''INFO''"
| "log_level_string LOG_WARN = ''WARN''"
| "log_level_string LOG_ERROR = ''ERROR''"
| "log_level_string LOG_FATAL = ''FATAL''"

definition esc :: "string \<Rightarrow> string" where "esc s = CHR 0x1B # s"

definition log_RESET :: string where "log_RESET = esc ''[0m''"
definition log_CYAN :: string where "log_CYAN = esc ''[96m''"
definition log_PURPLE :: string where "log_PURPLE = esc ''[95m''"
definition log_RED :: string where "log_RED = esc ''[91m''"
definition log_YELLOW :: string where "log_YELLOW = esc ''[93m''"
definition log_GREEN :: string where "log_GREEN = esc ''[92m''"
definition log_BLUE :: string where "log_BLUE = esc ''[94m''"
definition log_GRAY :: string where "log_GRAY = esc ''[90m''"

fun level_color :: "log_level_t \<Rightarrow> string" where
  "level_color LOG_DEBUG = log_BLUE"
| "level_color LOG_INFO = log_GREEN"
| "level_color LOG_WARN = log_YELLOW"
| "level_color LOG_ERROR = log_RED"
| "level_color LOG_FATAL = log_RED"

text \<open>The part of the path after its last slash, the whole path if it has none.\<close>

definition log_filename :: "string \<Rightarrow> string" where
  "log_filename file = rev (takeWhile (\<lambda>c. c \<noteq> CHR ''/'') (rev file))"

definition print_colored_console_log ::
  "log_level_t \<Rightarrow> string \<Rightarrow> string \<Rightarrow> int \<Rightarrow> string \<Rightarrow> string \<Rightarrow> string" where
  "print_colored_console_log level timestamp filename line func message =
     log_CYAN @ ''['' @ timestamp @ '']'' @ log_RESET @ '' '' @
     level_color level @ ''['' @ log_level_string level @ '']'' @ log_RESET @ '' '' @
     log_PURPLE @ filename @ '':'' @ c_dec line @ log_RESET @ '' '' @
     log_GRAY @ func @ ''()'' @ log_RESET @ '' - '' @ message @ [CHR 0x0A]"

definition file_log_line ::
  "log_level_t \<Rightarrow> string \<Rightarrow> string \<Rightarrow> int \<Rightarrow> string \<Rightarrow> string \<Rightarrow> string" where
  "file_log_line level timestamp filename line func message =
     ''['' @ timestamp @ ''] ['' @ log_level_string level @ ''] '' @ filename @ '':'' @ c_dec line @
     '' '' @ func @ ''() - '' @ message @ [CHR 0x0A]"

definition log_write :: "log_sink \<Rightarrow> string \<Rightarrow> logger_t \<Rightarrow> logger_t" where
  "log_write sink s L = L\<lparr>log_lines := log_lines L @ [(sink, s)]\<rparr>"

definition log_message ::
  "string \<Rightarrow> log_level_t \<Rightarrow> string \<Rightarrow> int \<Rightarrow> string \<Rightarrow> string \<Rightarrow> logger_t \<Rightarrow> logger_t" where
  "log_message timestamp level file line func text L =
     (let filename = log_filename file; message = c_trunc 1024 text
      in case (output_type L, log_file L) of
           (LOG_OUTPUT_FILE, Some f) \<Rightarrow>
             log_write (LOG_TO_FILE f) (file_log_line level timestamp filename line func message) L
         | (LOG_OUTPUT_FILE, None) \<Rightarrow> L
         | (LOG_OUTPUT_CONSOLE, _) \<Rightarrow>
             log_write LOG_TO_CONSOLE (print_colored_console_log level timestamp filename line func message) L)"

definition log_file_name :: "string option \<Rightarrow> int \<Rightarrow> string" where
  "log_file_name file_path_or_prefix pid =
     c_trunc 256 (''logs/'' @ (case file_path_or_prefix of Some p \<Rightarrow> p | None \<Rightarrow> ''app'') @ ''_'' @
       c_dec pid @ ''.log'')"

definition logger_init ::
  "string \<Rightarrow> int \<Rightarrow> bool \<Rightarrow> log_output_type_t \<Rightarrow> string option \<Rightarrow> logger_t \<Rightarrow> int \<times> logger_t" where
  "logger_init timestamp pid fopen_ok type file_path_or_prefix L0 =
     (let L = L0\<lparr>output_type := type\<rparr>
      in case type of
           LOG_OUTPUT_FILE \<Rightarrow>
             (let log_filename = log_file_name file_path_or_prefix pid
              in if \<not> fopen_ok then (- 1, L\<lparr>log_file := None\<rparr>)
                 else (0, log_message timestamp LOG_INFO ''logger.c'' 56 ''logger_init''
                        (''=== Client Logger initialized (file: '' @ log_filename @ '') ==='')
                        (L\<lparr>log_file := Some log_filename\<rparr>)))
         | LOG_OUTPUT_CONSOLE \<Rightarrow>
             (0, log_message timestamp LOG_INFO ''logger.c'' 61 ''logger_init''
                   ''=== Server Logger initialized (console output) ===''
                   (L\<lparr>log_file := None\<rparr>)))"

definition logger_cleanup :: "logger_t \<Rightarrow> logger_t" where
  "logger_cleanup L =
     (case (output_type L, log_file L) of
        (LOG_OUTPUT_FILE, Some f) \<Rightarrow>
          (log_write (LOG_TO_FILE f)
            (''[cleanup] [INFO] logger.c:76 logger_cleanup() - === Logger cleanup ==='' @ [CHR 0x0A]) L)
          \<lparr>log_file := None\<rparr>
      | (LOG_OUTPUT_FILE, None) \<Rightarrow> L
      | (LOG_OUTPUT_CONSOLE, _) \<Rightarrow> log_write LOG_TO_CONSOLE (''=== Server Logger cleanup ==='' @ [CHR 0x0A]) L)"

section \<open>What the log holds\<close>

lemma log_filename_path: "CHR ''/'' \<notin> set name \<Longrightarrow> log_filename (dir @ CHR ''/'' # name) = name"
  by (simp add: log_filename_def takeWhile_append)

lemma log_filename_plain:
  assumes "CHR ''/'' \<notin> set name" shows "log_filename name = name"
proof -
  have "\<forall>c\<in>set (rev name). c \<noteq> CHR ''/''" using assms by auto
  then have "takeWhile (\<lambda>c. c \<noteq> CHR ''/'') (rev name) = rev name" by (simp only: takeWhile_eq_all_conv)
  then show ?thesis unfolding log_filename_def by (simp only: rev_rev_ident)
qed

text \<open>A line is written at most once, after the lines before it, and its message is cut at 1023 bytes.\<close>

lemma log_message_lines:
  "\<exists>ls. log_lines (log_message ts level file line func text L) = log_lines L @ ls \<and> length ls \<le> 1"
  by (cases "output_type L"; cases "log_file L") (simp_all add: log_message_def log_write_def Let_def)

text \<open>After \<open>logger_cleanup\<close> the client writes no more lines: those of \<open>cleanup_and_exit\<close> are lost.\<close>

theorem no_log_after_cleanup:
  "output_type L = LOG_OUTPUT_FILE \<Longrightarrow>
   log_message ts level file line func text (logger_cleanup L) = logger_cleanup L"
  by (cases "log_file L") (simp_all add: logger_cleanup_def log_message_def log_write_def)

end
