(* ===== verification/Spec2Isabelle.thy ===== *)
theory Spec2Isabelle
  imports Rule_Thms Rule_Tests Wire Test_Client Schema Terminal Move_Race Screen_Thms Server_Messages Client_Locks Server_Locks Logger
begin

text \<open>
  \<^bold>\<open>Multiplayer chess over the network: the model and what is proved of it.\<close>

  \<^bold>\<open>The program.\<close> A server (\<open>src/server\<close>) pairs players, keeps their games, checks and applies their
  moves, runs their clocks and tells both players what happened. A client (\<open>src/client\<close>) shows a board
  on a terminal, sends requests and follows the messages of the server. Both use the rules of chess,
  the FEN parser and the framing of messages over sockets in \<open>src/common\<close>. The server has an event loop
  and a timer thread, the client a main loop and a network thread.

  \<^bold>\<open>The theories, and the code they model.\<close> A definition has the name of the C function, and a record or
  datatype that of the C type; a stage of a long function has a name of its own.

  \<^item> \<open>Prelude\<close>: division, string copies and conversions of C, the collections of simplification rules
    (\<open>rule_defs\<close>, \<open>board_simps\<close>, \<open>frame_simps\<close>, \<open>slot_simps\<close>), lists and searches in tables.
  \<^item> \<open>Piece\<close>: \<open>common/types.h\<close>, \<open>piece.h\<close>, \<open>piece.c\<close>. The offset tables are lists.
  \<^item> \<open>Rule\<close>: \<open>common/rule.c\<close>. A board is a function of rank and file, as \<open>board[y][x]\<close>; \<open>apply_move\<close> is the
    composition of its stages in the order of the code. \<open>Rule_Spec\<close> states the movement of the pieces
    by geometry and proves the loops equal to it, \<open>Rule_Inv\<close> has the closed form of a move and the
    invariant of positions (\<open>play_ok\<close>), \<open>Rule_Thms\<close> the properties.
  \<^item> \<open>Fen\<close>: \<open>common/utils.c\<close>, with the tokenizer of \<open>strtok\<close>. An outcome without a value is a write
    outside the board.
  \<^item> \<open>Protocol\<close>: the messages of \<open>message.pb-c.h\<close> as datatypes, \<open>protocol_utils.c\<close>, and the three parsers of
    square names (\<open>server/handlers/move.c\<close>, \<open>client/handlers/move.c\<close>, \<open>client_network.c\<close>).
  \<^item> \<open>Network\<close>: \<open>common/network.c\<close>. The calls of the system take their outcomes from a schedule.
  \<^item> \<open>Descriptor\<close>, \<open>Client_Tables\<close>, \<open>Server_Tables\<close>: the generated code of the messages
    (\<open>generated/message.pb-c.h\<close> and \<open>.c\<close>, \<open>timestamp.pb-c.h\<close> and \<open>.c\<close>), each table as it is written and the
    six functions of each type over a library that is a parameter. \<open>Schema\<close>: \<open>common/proto/message.proto\<close>, what
    it is compiled to, and that the tables are that.
  \<^item> \<open>Match_Manager\<close>: \<open>server/match_manager.c\<close>. The state \<open>server_t\<close> is \<open>g_match_manager\<close> with the static
    counter of identifiers and the log of sent messages. \<open>Match_Inv\<close> has its invariant \<open>server_ok\<close>,
    \<open>Match_Props\<close> the outcome of every operation, \<open>Timeouts\<close> the clocks over many passes of the timer,
    \<open>Move_Race\<close> passes that come between the parts of the handler of a move.
  \<^item> \<open>Server_Handlers\<close>: \<open>server/handlers/*.c\<close> and the handling of a message in \<open>server_network.c\<close>;
    \<open>Server_Props\<close> and \<open>Server_Thms\<close> what they do on every branch.
  \<^item> \<open>Server_System\<close>: the command line, the event loop, the timer thread and \<open>main\<close> of the server, as a
    step relation with the reachable states; \<open>Server_Messages\<close> the type of the messages it sends.
  \<^item> \<open>Client_State\<close>: \<open>client_state.c\<close> and \<open>game_state.c\<close>; the record \<open>client_t\<close> is the global state of the
    client, with the static variables of the screens. \<open>Client_Marks\<close>: the marked squares. \<open>Client_Save\<close>:
    \<open>pgn_save.c\<close>, \<open>game_save.c\<close>, \<open>replay.c\<close>. \<open>Client_Handlers\<close>: \<open>client/handlers/*.c\<close>. \<open>Client_Net\<close>:
    \<open>client_network.c\<close>. \<open>Client_UI\<close>: \<open>ui/input.c\<close>, \<open>ui/chat.c\<close> and what the screens compute. \<open>Client_Main\<close>:
    \<open>client/main.c\<close> and \<open>ui/replay_menu.c\<close>. \<open>Client_Screen\<close>: what every screen, the dialogs and
    the replay print, where and how. \<open>Colors\<close>: the colour pairs of \<open>ui/colors.c\<close>.
  \<^item> \<open>Logger\<close>: \<open>common/logger.c\<close>, where a line goes and what it says. \<open>Terminal\<close>: the mode of the terminal and
    the signals of suspension and resizing (\<open>client/main.c\<close>, \<open>ui/core.c\<close>).
  \<^item> \<open>Locks\<close>: programs of lock operations, the steps of threads that run them, and a discipline of ranked
    mutexes. \<open>Client_Locks\<close> and \<open>Server_Locks\<close>: what every function of the two threads of the client and of
    the server does to the mutexes, with cancellation, joins, exits and the handlers of signals.
  \<^item> \<open>Client_Inv\<close> has the invariant \<open>client_ok\<close>, \<open>Client_Replay\<close> the facts on replays and files, \<open>Client_Game\<close>
    which steps change the position of a client, \<open>Client_Thms\<close> and \<open>Screen_Thms\<close> the properties.
  \<^item> \<open>Lobby\<close>: what the server promises, without tables, descriptors and messages; \<open>Lobby_Refine\<close> the abstraction
    of the tables and the refinement of every handler.
  \<^item> \<open>Same_Position\<close>, \<open>Session\<close>, \<open>Joint\<close>, \<open>Joint_Thms\<close>: the server and its clients as one system of steps,
    with a queue of messages for each connection, and the simulation between the two. \<open>Lobby_Thms\<close>: the
    properties of the server as a lobby. \<open>Wire\<close>: the same system on the bytes of its connections, where sends
    may fail and a client may write any bytes. A history variable (\<open>jn_astray\<close>, \<open>wr_astray\<close>) says which clients
    have gone astray: those for which the program itself gives up the agreement with the server.
  \<^item> \<open>Rule_Tests\<close>: \<open>server/rule_test.c\<close>, whose assertions are proved for the model. \<open>Test_Client\<close>:
    \<open>client/test-client.c\<close>, and that a session of plain lines is echoed.

  \<^bold>\<open>The interfaces.\<close> \<open>coord_parser\<close> and \<open>coord_codec\<close> (\<open>Protocol\<close>): what a parser and a printer of square
  names promise, interpreted on the three parsers of the code. \<open>slot_table\<close> (\<open>Match_Inv\<close>): an array of slots
  with a count of the live ones, interpreted on the queue and on the games. \<open>bounded_log\<close> (\<open>Client_Inv\<close>):
  a log that keeps the newest entries, interpreted on the chat array. \<open>transition_system\<close> and \<open>simulation\<close>
  (\<open>Simulation\<close>): reachable states and what an abstraction carries over, interpreted on the lobby, on the
  server with the lobby as its abstraction, on the joint system with the server as its abstraction, and
  on the system of bytes with the joint system as its abstraction. \<open>ranked_threads\<close> (\<open>Locks\<close>): threads that
  take mutexes in the order of their ranks, interpreted on the threads of the client and of the server.
  \<open>number_table\<close> and \<open>name_index\<close> (\<open>Descriptor\<close>): tables that list the number or the name of every entry,
  interpreted on all tables of the generated code.

  \<^bold>\<open>What is proved.\<close> Legal moves, castling apart, attacks, mate and stalemate agree with their geometric
  definitions, and a game is ended by a move exactly as these and the fifty-move rule say; every
  position that play can reach is sound, and so is every game of a reachable server. The server refines
  the lobby, so that every running game is a line of legal moves from the start. The tables of the
  server agree with their counters, identifiers are distinct, the messages are well formed, each handler
  is described on every branch, and a game that nobody plays ends at its deadline. The state of the
  client keeps its bounds; the chat array refines the list of all messages; a saved game is read back
  as recorded, and its replay shows the position that was held. The position of each client that is not
  astray, once it has read the bytes of its connection, is the position on the server, whatever bytes
  the clients write, and the squares it marks are those the server accepts. A click hits the square that
  is drawn under it. The threads of the client and those of the server never deadlock as long as no
  signal is handled and no thread cancelled. The generated tables are the schema, compiled. Where the
  code falls short of what its documentation or its user expects, the theorem states what it does:
  castling that is never legal, a replay that overwrites the game going on, a lost acknowledgement, the
  name that is too long, the placement of a FEN string that runs past the board, the chat area that
  stays empty, a terminal that is too small, the clock that is drawn in the colour of its background.
  \<open>client_exit_hangs\<close> and \<open>server_stop_hangs\<close> are schedules of the lock programs only, whose conditions are open:
  they show where an exit or the handler of a signal may wait for ever, not that the program reaches it.

  \<^bold>\<open>Bounds and fuel.\<close> The walk of an attack has fuel 8 (\<open>ray_fuel\<close>), which decides it on a board of eight
  squares (\<open>attack_walk_ends\<close>). The loops of the program that may go on forever (event loop, main loop, replay, menu)
  are functions of a finite list of what they read, and give the state after it. The lines of a long
  chat message end by a measure on the rows that are left. Integers are \<open>int\<close>, with the conversion to 32
  bits (\<open>to_int32\<close>) written where the code converts the elapsed time; \<open>no_clock_jump\<close> asks that two passes
  of the timer are less than \<open>2^31\<close> ms apart. Bytes on the wire are words of 8 bits.

  \<^bold>\<open>Assumptions.\<close> A call of the manager, of a handler or of a half of the client's loop is one step. The
  code holds a mutex for each of them, except in the handlers for moves and chat; for moves \<open>Move_Race\<close> shows
  that the invariant of the server does not depend on it, and what happens otherwise. In particular a
  turn of the main loop is one step with the menu or replay it opens. Allocations succeed,
  except where the framing takes their result as an argument. The clock, the sockets and the keyboard
  are arguments. The joint system and the system of bytes have no condition on what the clients ask,
  and start with an arbitrary state of the clients; a step of the server is one in which its sends have
  returned. A client goes astray when it asks for a match while it waits or plays, when it opens a replay
  during its game (on bytes: also while it waits or has written bytes that were not read), when a send to it
  fails, when any send fails in the answer to a request of it or of somebody who shares a game with it,
  and on bytes also when it is sent a message that the library does not carry (\<open>carried\<close>: the
  library unpacks what it packed, and the message is not empty and not over the limit of the receiver) or when
  its own receiver fails. It is astray no longer when its descriptor is connected again, unless the server
  still has a game for that descriptor. A client that reconnects is one at another descriptor.
  The programs of locks take a test of the code on data as an arbitrary choice.

  \<^bold>\<open>Not modelled.\<close> Borders, clearing and refreshing of windows and the set-up of the terminal: calls of
  ncurses without a state of the program. The freeing of memory. The start of threads, except what they
  do to mutexes. The library of protobuf behind the generated code. Declarations without a body, and
  the macros of headers that no code uses.

  \<^bold>\<open>Next.\<close> The handlers of signals among the runs of the threads, with the conditions that let them in; the
  packing of a message from the descriptors, once the format of the wire is stated.
\<close>

end
